(* ===== verification/Audit_Prelude.thy ===== *)
theory Audit_Prelude
  imports Complex_Main "HOL-Library.AList" "HOL-Library.Char_ord" "HOL-Library.List_Lexorder"
    "HOL-Library.Multiset" "HOL-Library.Product_Lexorder"
begin

text \<open>
  Shared vocabulary of the development: the result type of fallible Python code, the
  dictionary operations of Python on association lists (insertion order is kept, as in a
  Python \<open>dict\<close>), character classes of the restricted identifier patterns, and the generic
  lemmas and fact collections the component theories use.
\<close>

named_theorems result_simps \<open>rewrite rules for the result monad and its guards\<close>
named_theorems dict_simps \<open>rewrite rules for Python dictionaries as association lists\<close>

section \<open>Results: a value or a raised exception\<close>

text \<open>\<open>Inl\<close> carries the raised exception, \<open>Inr\<close> the returned value.\<close>

type_synonym ('e, 'a) result = "'e + 'a"

definition rbind :: "('e, 'a) result \<Rightarrow> ('a \<Rightarrow> ('e, 'b) result) \<Rightarrow> ('e, 'b) result" where
  "rbind m k = (case m of Inl e \<Rightarrow> Inl e | Inr a \<Rightarrow> k a)"

definition require :: "bool \<Rightarrow> 'e \<Rightarrow> ('e, unit) result" where
  "require c e = (if c then Inr () else Inl e)"

fun traverse :: "('a \<Rightarrow> ('e, 'b) result) \<Rightarrow> 'a list \<Rightarrow> ('e, 'b list) result" where
  "traverse f [] = Inr []"
| "traverse f (x # xs) = rbind (f x) (\<lambda>y. rbind (traverse f xs) (\<lambda>ys. Inr (y # ys)))"

definition catch_as :: "('e \<Rightarrow> 'f) \<Rightarrow> ('e, 'a) result \<Rightarrow> ('f, 'a) result" where
  "catch_as h m = (case m of Inl e \<Rightarrow> Inl (h e) | Inr a \<Rightarrow> Inr a)"

lemma rbind_Inl [simp]: "rbind (Inl e) k = Inl e"
  by (simp add: rbind_def)

lemma rbind_Inr [simp]: "rbind (Inr a) k = k a"
  by (simp add: rbind_def)

lemma rbind_eq_Inr_iff [result_simps]:
  "rbind m k = Inr b \<longleftrightarrow> (\<exists>a. m = Inr a \<and> k a = Inr b)"
  by (cases m) simp_all

lemma require_eq_Inr_iff [simp]: "require c e = Inr u \<longleftrightarrow> c"
  by (simp add: require_def)

lemma require_True [simp]: "require True e = Inr ()"
  and require_False [simp]: "require False e = Inl e"
  by (simp_all add: require_def)

lemma catch_as_eq_Inr_iff [simp]: "catch_as h m = Inr a \<longleftrightarrow> m = Inr a"
  by (cases m) (simp_all add: catch_as_def)

lemma traverse_all_Inr:
  "(\<And>x. x \<in> set xs \<Longrightarrow> f x = Inr (g x)) \<Longrightarrow> traverse f xs = Inr (map g xs)"
  by (induction xs) simp_all

lemma traverse_eq_Inr_length: "traverse f xs = Inr ys \<Longrightarrow> length ys = length xs"
  by (induction xs arbitrary: ys) (auto simp: result_simps)

section \<open>Python dictionaries\<close>

text \<open>
  A Python \<open>dict\<close> iterates in insertion order and an assignment to a present key keeps
  its position: \<open>AList.update\<close> behaves the same way.
\<close>

type_synonym ('k, 'v) dict = "('k \<times> 'v) list"

abbreviation dict_get :: "('k, 'v) dict \<Rightarrow> 'k \<Rightarrow> 'v option" where
  "dict_get \<equiv> map_of"

abbreviation dict_keys :: "('k, 'v) dict \<Rightarrow> 'k list" where
  "dict_keys d \<equiv> map fst d"

abbreviation dict_values :: "('k, 'v) dict \<Rightarrow> 'v list" where
  "dict_values d \<equiv> map snd d"

abbreviation dict_has :: "('k, 'v) dict \<Rightarrow> 'k \<Rightarrow> bool" where
  "dict_has d k \<equiv> k \<in> set (dict_keys d)"

definition dict_get_default :: "('k, 'v) dict \<Rightarrow> 'k \<Rightarrow> 'v \<Rightarrow> 'v" where
  "dict_get_default d k v = (case map_of d k of None \<Rightarrow> v | Some w \<Rightarrow> w)"

lemma dict_get_None_iff [dict_simps]: "dict_get d k = None \<longleftrightarrow> \<not> dict_has d k"
  by (induction d) auto

lemma dict_has_iff: "dict_has d k \<longleftrightarrow> (\<exists>v. dict_get d k = Some v)"
  by (metis dict_get_None_iff not_None_eq)

lemma dict_get_update [dict_simps]:
  "dict_get (AList.update k v d) k' = (if k' = k then Some v else dict_get d k')"
  by (simp add: update_conv')

lemma dict_get_delete [dict_simps]:
  "dict_get (AList.delete k d) k' = (if k' = k then None else dict_get d k')"
  by (simp add: delete_conv')

lemma set_keys_update [dict_simps]:
  "set (dict_keys (AList.update k v d)) = insert k (set (dict_keys d))"
  using dom_update [of k v d] by (simp add: dom_map_of_conv_image_fst)

lemma dict_distinct_update [intro, simp]:
  "distinct (dict_keys d) \<Longrightarrow> distinct (dict_keys (AList.update k v d))"
  by (rule AList.distinct_update)

lemma dict_distinct_delete [intro, simp]:
  "distinct (dict_keys d) \<Longrightarrow> distinct (dict_keys (AList.delete k d))"
  by (rule AList.distinct_delete)

text \<open>
  Sums over the values of a dictionary. Updating one key exchanges one summand, which is
  the arithmetic of every accounting proof below.
\<close>

definition dict_sum :: "('v \<Rightarrow> 'n) \<Rightarrow> ('k, 'v) dict \<Rightarrow> 'n::comm_monoid_add" where
  "dict_sum f d = sum_list (map (f \<circ> snd) d)"

lemma dict_sum_Nil [simp]: "dict_sum f [] = 0"
  and dict_sum_Cons [simp]: "dict_sum f ((k, v) # d) = f v + dict_sum f d"
  by (simp_all add: dict_sum_def)

lemma dict_sum_update_new:
  "\<not> dict_has d k \<Longrightarrow> dict_sum f (AList.update k v d) = dict_sum f d + f v"
  by (induction d) (auto simp: ac_simps)

lemma dict_sum_update_old:
  fixes f :: "'v \<Rightarrow> 'n::ab_group_add"
  shows "distinct (dict_keys d) \<Longrightarrow> dict_get d k = Some w \<Longrightarrow>
    dict_sum f (AList.update k v d) = dict_sum f d - f w + f v"
proof (induction d)
  case (Cons p d)
  obtain k' v' where p: "p = (k', v')" by (cases p)
  show ?case
  proof (cases "k' = k")
    case True
    with Cons.prems p show ?thesis by (simp add: algebra_simps)
  next
    case False
    with Cons p have "dict_sum f (AList.update k v d) = dict_sum f d - f w + f v" by simp
    with False p show ?thesis by (simp add: algebra_simps)
  qed
qed simp

lemma dict_delete_absent: "\<not> dict_has d k \<Longrightarrow> AList.delete k d = d"
  by (induction d) (auto simp: AList.delete_simps)

lemma dict_sum_delete:
  fixes f :: "'v \<Rightarrow> 'n::ab_group_add"
  shows "distinct (dict_keys d) \<Longrightarrow> dict_get d k = Some w \<Longrightarrow>
    dict_sum f (AList.delete k d) = dict_sum f d - f w"
proof (induction d)
  case (Cons p d)
  obtain k' v' where p: "p = (k', v')" by (cases p)
  show ?case
  proof (cases "k' = k")
    case True
    with Cons.prems p show ?thesis by (auto simp: dict_delete_absent AList.delete_simps)
  next
    case False
    with Cons p show ?thesis by (simp add: AList.delete_simps)
  qed
qed simp

lemma dict_sum_nonneg:
  fixes f :: "'v \<Rightarrow> 'n::ordered_comm_monoid_add"
  shows "(\<And>v. v \<in> set (dict_values d) \<Longrightarrow> 0 \<le> f v) \<Longrightarrow> 0 \<le> dict_sum f d"
  by (induction d) (auto intro: add_nonneg_nonneg)

lemma dict_sum_member_le:
  fixes f :: "'v \<Rightarrow> 'n::ordered_ab_group_add"
  assumes "\<And>v. v \<in> set (dict_values d) \<Longrightarrow> 0 \<le> f v" and "v \<in> set (dict_values d)"
  shows "f v \<le> dict_sum f d"
  using assms
proof (induction d)
  case (Cons p d)
  obtain k' v' where p: "p = (k', v')" by (cases p)
  have nn: "0 \<le> dict_sum f d" using Cons.prems(1) by (intro dict_sum_nonneg) simp
  show ?case
  proof (cases "v = v'")
    case True
    with nn p show ?thesis by simp
  next
    case False
    with Cons p have "f v \<le> dict_sum f d" by simp
    moreover have "0 \<le> f v'" using Cons.prems(1) p by simp
    ultimately show ?thesis using p by (simp add: add_increasing)
  qed
qed simp

lemma dict_values_update_subset:
  "set (dict_values (AList.update k v d)) \<subseteq> insert v (set (dict_values d))"
  by (induction d) auto

lemma dict_values_delete_subset:
  "set (dict_values (AList.delete k d)) \<subseteq> set (dict_values d)"
  by (induction d) (auto simp: AList.delete_simps)

lemma dict_get_value: "dict_get d k = Some v \<Longrightarrow> v \<in> set (dict_values d)"
  by (auto dest: map_of_SomeD intro: rev_image_eqI)

lemma distinct_keys_sort [simp]:
  "distinct (dict_keys (sort_key f d)) \<longleftrightarrow> distinct (dict_keys d)"
  by (metis mset_eq_imp_distinct_iff mset_map mset_sort)

lemma dict_get_sort: "distinct (dict_keys d) \<Longrightarrow> dict_get (sort_key f d) = dict_get d"
  using map_of_inject_set [of "sort_key f d" d] by simp

lemma dict_sum_sort: "dict_sum g (sort_key f d) = dict_sum g d"
  unfolding dict_sum_def by (metis mset_map mset_sort sum_mset_sum_list)

section \<open>Character classes and restricted identifiers\<close>

definition code :: "char \<Rightarrow> nat" where
  "code c = of_char c"

definition is_digit :: "char \<Rightarrow> bool" where
  "is_digit c \<longleftrightarrow> 48 \<le> code c \<and> code c \<le> 57"

definition is_lower :: "char \<Rightarrow> bool" where
  "is_lower c \<longleftrightarrow> 97 \<le> code c \<and> code c \<le> 122"

definition is_upper :: "char \<Rightarrow> bool" where
  "is_upper c \<longleftrightarrow> 65 \<le> code c \<and> code c \<le> 90"

definition is_alnum :: "char \<Rightarrow> bool" where
  "is_alnum c \<longleftrightarrow> is_digit c \<or> is_lower c \<or> is_upper c"

definition is_hex :: "char \<Rightarrow> bool" where
  "is_hex c \<longleftrightarrow> is_digit c \<or> (97 \<le> code c \<and> code c \<le> 102)"

text \<open>Python's \<open>str.isspace\<close> on the code points below 256.\<close>

definition is_space :: "char \<Rightarrow> bool" where
  "is_space c \<longleftrightarrow> (9 \<le> code c \<and> code c \<le> 13) \<or> (28 \<le> code c \<and> code c \<le> 32)
     \<or> code c = 133 \<or> code c = 160"

text \<open>
  A full match of \<open>[A-Za-z0-9][<class>]{0,n}\<close>: one alphanumeric character and at most
  \<open>n\<close> characters of the class.
\<close>

definition matches_ident :: "(char \<Rightarrow> bool) \<Rightarrow> nat \<Rightarrow> string \<Rightarrow> bool" where
  "matches_ident cls n s \<longleftrightarrow>
     (case s of [] \<Rightarrow> False | c # cs \<Rightarrow> is_alnum c \<and> length cs \<le> n \<and> list_all cls cs)"

definition ident_char :: "char \<Rightarrow> bool" where
  "ident_char c \<longleftrightarrow> is_alnum c \<or> c \<in> set ''._:-''"

definition is_sha256_hex :: "string \<Rightarrow> bool" where
  "is_sha256_hex s \<longleftrightarrow> length s = 64 \<and> list_all is_hex s"

lemma matches_ident_length: "matches_ident cls n s \<Longrightarrow> 0 < length s \<and> length s \<le> Suc n"
  by (auto simp: matches_ident_def split: list.splits)

text \<open>The length in bytes of the UTF-8 encoding of a text.\<close>

definition utf8_length :: "string \<Rightarrow> nat" where
  "utf8_length s = sum_list (map (\<lambda>c. if code c < 128 then 1 else 2) s)"

end
