(* ===== verification/Py_Decimal.thy ===== *)
theory Py_Decimal
  imports Audit_Prelude
begin

text \<open>
  The part of Python's \<open>decimal\<close> module the program uses. A finite \<open>Decimal\<close> is an integer
  coefficient and a power of ten, as \<open>as_tuple()\<close> shows it; two values with different
  exponents can be numerically equal, so Python's comparisons are \<open>deq\<close>, \<open>dle\<close> and \<open>dlt\<close>
  below and never the equality of the representation. Every arithmetic result is rounded to
  the precision of the active context (28 digits by default, 64 or 96 inside the
  \<open>localcontext\<close> blocks of the program), half to even. \<open>val\<close> gives the number a decimal
  denotes; the lemmas say when rounding leaves it unchanged. The sign of a zero is not kept
  and exponents are unbounded (the default context allows a million).
\<close>

section \<open>Representation and comparison\<close>

datatype decimal = Dec (mant: int) (dexp: int)

text \<open>What \<open>Decimal(text)\<close> can give: a finite number, an infinity or a NaN.\<close>

datatype pydec = DFin decimal | DInf bool | DNaN

definition val :: "decimal \<Rightarrow> rat" where
  "val d = of_int (mant d) * 10 powi dexp d"

definition dscale :: "decimal \<Rightarrow> int \<Rightarrow> int" where
  "dscale d e = mant d * 10 ^ nat (dexp d - e)"

definition common_exp :: "decimal \<Rightarrow> decimal \<Rightarrow> int" where
  "common_exp a b = min (dexp a) (dexp b)"

definition deq :: "decimal \<Rightarrow> decimal \<Rightarrow> bool" where
  "deq a b \<longleftrightarrow> dscale a (common_exp a b) = dscale b (common_exp a b)"

definition dle :: "decimal \<Rightarrow> decimal \<Rightarrow> bool" where
  "dle a b \<longleftrightarrow> dscale a (common_exp a b) \<le> dscale b (common_exp a b)"

definition dlt :: "decimal \<Rightarrow> decimal \<Rightarrow> bool" where
  "dlt a b \<longleftrightarrow> dscale a (common_exp a b) < dscale b (common_exp a b)"

definition dzero :: decimal where
  "dzero = Dec 0 0"

definition dec_of_int :: "int \<Rightarrow> decimal" where
  "dec_of_int n = Dec n 0"

definition dmax :: "decimal \<Rightarrow> decimal \<Rightarrow> decimal" where
  "dmax a b = (if dlt a b then b else a)"

fun ndigits :: "nat \<Rightarrow> nat" where
  "ndigits n = (if n < 10 then 1 else Suc (ndigits (n div 10)))"

declare ndigits.simps [simp del]

section \<open>Rounding to a context precision\<close>

definition div_half_even :: "nat \<Rightarrow> nat \<Rightarrow> nat" where
  "div_half_even n d =
     (let q = n div d; r = n mod d
      in if 2 * r < d \<or> (2 * r = d \<and> even q) then q else Suc q)"

definition dround :: "nat \<Rightarrow> decimal \<Rightarrow> decimal" where
  "dround p d =
     (let n = nat \<bar>mant d\<bar>; k = ndigits n - p
      in if ndigits n \<le> p then d
         else let q = div_half_even n (10 ^ k)
              in if q = 10 ^ p then Dec (sgn (mant d) * 10 ^ (p - 1)) (dexp d + int k + 1)
                 else Dec (sgn (mant d) * int q) (dexp d + int k))"

definition dadd :: "nat \<Rightarrow> decimal \<Rightarrow> decimal \<Rightarrow> decimal" where
  "dadd p a b =
     (let e = common_exp a b in dround p (Dec (dscale a e + dscale b e) e))"

definition dsub :: "nat \<Rightarrow> decimal \<Rightarrow> decimal \<Rightarrow> decimal" where
  "dsub p a b =
     (let e = common_exp a b in dround p (Dec (dscale a e - dscale b e) e))"

definition dmul :: "nat \<Rightarrow> decimal \<Rightarrow> decimal \<Rightarrow> decimal" where
  "dmul p a b = dround p (Dec (mant a * mant b) (dexp a + dexp b))"

text \<open>\<open>sum(values, start=Decimal(0))\<close>: a left fold that rounds at every step.\<close>

definition dsum :: "nat \<Rightarrow> decimal list \<Rightarrow> decimal" where
  "dsum p ds = foldl (dadd p) dzero ds"

datatype rounding = Ceiling | Floor | HalfEven

fun round_div :: "rounding \<Rightarrow> int \<Rightarrow> nat \<Rightarrow> int" where
  "round_div Ceiling m d = - ((- m) div int d)"
| "round_div Floor m d = m div int d"
| "round_div HalfEven m d = sgn m * int (div_half_even (nat \<bar>m\<bar>) d)"

text \<open>
  \<open>Decimal.quantize\<close> to the exponent \<open>e0\<close>: \<open>None\<close> is the \<open>InvalidOperation\<close> raised when the
  result has more digits than the context precision.
\<close>

definition dquantize :: "nat \<Rightarrow> rounding \<Rightarrow> int \<Rightarrow> decimal \<Rightarrow> decimal option" where
  "dquantize p mode e0 d =
     (let m = (if e0 \<le> dexp d then dscale d e0
               else round_div mode (mant d) (10 ^ nat (e0 - dexp d)))
      in if ndigits (nat \<bar>m\<bar>) \<le> p then Some (Dec m e0) else None)"

function dstrip :: "int \<Rightarrow> int \<Rightarrow> decimal" where
  "dstrip m e =
     (if m = 0 then Dec 0 0
      else if m mod 10 = 0 then dstrip (m div 10) (e + 1) else Dec m e)"
  by pat_completeness auto
termination
proof (relation "measure (\<lambda>(m, e). nat \<bar>m\<bar>)")
  fix m e :: int
  assume "m \<noteq> 0" "m mod 10 = 0"
  then obtain q where "m = 10 * q" "q \<noteq> 0" by (auto elim: dvdE simp flip: dvd_eq_mod_eq_0)
  then have "\<bar>m div 10\<bar> < \<bar>m\<bar>" by simp
  then show "((m div 10, e + 1), m, e) \<in> measure (\<lambda>(m, e). nat \<bar>m\<bar>)" by simp
qed simp

declare dstrip.simps [simp del]

text \<open>\<open>Decimal.normalize\<close>: round to the context, then remove trailing zeros.\<close>

definition dnormalize :: "nat \<Rightarrow> decimal \<Rightarrow> decimal" where
  "dnormalize p d = (let r = dround p d in dstrip (mant r) (dexp r))"

section \<open>Text\<close>

function digit_string :: "nat \<Rightarrow> string" where
  "digit_string n =
     (if n < 10 then [char_of (48 + n)] else digit_string (n div 10) @ [char_of (48 + n mod 10)])"
  by pat_completeness auto
termination
  by (relation "measure id") auto

declare digit_string.simps [simp del]

definition int_string :: "int \<Rightarrow> string" where
  "int_string i = (if i < 0 then CHR ''-'' # digit_string (nat (- i)) else digit_string (nat i))"

text \<open>\<open>format(value, "f")\<close>: positional notation with the digits of the representation.\<close>

definition format_f :: "decimal \<Rightarrow> string" where
  "format_f d =
     (let sign = (if mant d < 0 then ''-'' else []); n = nat \<bar>mant d\<bar>
      in if 0 \<le> dexp d then sign @ digit_string (n * 10 ^ nat (dexp d))
         else let k = nat (- dexp d)
              in sign @ digit_string (n div 10 ^ k) @ ''.''
                 @ (let frac = digit_string (n mod 10 ^ k)
                    in replicate (k - length frac) (CHR ''0'') @ frac))"

fun digits_value :: "nat \<Rightarrow> string \<Rightarrow> nat" where
  "digits_value acc [] = acc"
| "digits_value acc (c # cs) = digits_value (10 * acc + (code c - 48)) cs"

definition strip_spaces :: "string \<Rightarrow> string" where
  "strip_spaces s = rev (dropWhile is_space (rev (dropWhile is_space s)))"

definition to_lower :: "char \<Rightarrow> char" where
  "to_lower c = (if is_upper c then char_of (code c + 32) else c)"

text \<open>The optional exponent part of a decimal literal: \<open>None\<close> is a syntax error.\<close>

definition parse_exponent :: "string \<Rightarrow> int option" where
  "parse_exponent s =
     (case s of
        [] \<Rightarrow> Some 0
      | e # rest \<Rightarrow>
          if to_lower e \<noteq> CHR ''e'' then None
          else let neg = (case rest of c # _ \<Rightarrow> c = CHR ''-'' | [] \<Rightarrow> False);
                   body = (case rest of c # cs \<Rightarrow> if c \<in> set ''+-'' then cs else rest | [] \<Rightarrow> [])
               in if body = [] \<or> \<not> list_all is_digit body then None
                  else Some ((if neg then -1 else 1) * int (digits_value 0 body)))"

definition parse_number :: "bool \<Rightarrow> string \<Rightarrow> decimal option" where
  "parse_number neg s =
     (let whole = takeWhile is_digit s; rest = dropWhile is_digit s;
          dotted = (case rest of c # _ \<Rightarrow> c = CHR ''.'' | [] \<Rightarrow> False);
          frac = (if dotted then takeWhile is_digit (tl rest) else []);
          tail = (if dotted then dropWhile is_digit (tl rest) else rest)
      in if whole = [] \<and> frac = [] then None
         else map_option
                (\<lambda>e. Dec ((if neg then -1 else 1) * int (digits_value 0 (whole @ frac)))
                        (e - int (length frac)))
                (parse_exponent tail))"

text \<open>\<open>Decimal(text)\<close> on ASCII text; \<open>None\<close> is the \<open>InvalidOperation\<close> of a malformed literal.\<close>

definition decimal_of_string :: "string \<Rightarrow> pydec option" where
  "decimal_of_string raw =
     (let s = filter (\<lambda>c. c \<noteq> CHR ''_'') (strip_spaces raw);
          neg = (case s of c # _ \<Rightarrow> c = CHR ''-'' | [] \<Rightarrow> False);
          body = (case s of c # cs \<Rightarrow> if c \<in> set ''+-'' then cs else s | [] \<Rightarrow> []);
          low = map to_lower body;
          payload = (if take 4 low = ''snan'' then drop 4 low else drop 3 low)
      in if low = ''inf'' \<or> low = ''infinity'' then Some (DInf neg)
         else if (take 3 low = ''nan'' \<or> take 4 low = ''snan'') \<and> list_all is_digit payload
         then Some DNaN
         else map_option DFin (parse_number neg body))"

section \<open>The number a decimal denotes\<close>

lemma val_Dec [simp]: "val (Dec m e) = of_int m * 10 powi e"
  by (simp add: val_def)

lemma val_dzero [simp]: "val dzero = 0"
  by (simp add: dzero_def)

lemma val_dec_of_int [simp]: "val (dec_of_int n) = of_int n"
  by (simp add: dec_of_int_def)

lemma ten_powi_pos [simp]: "(0::rat) < 10 powi e"
  by (simp add: zero_less_power_int)

lemma ten_powi_split: "(10::rat) ^ a * 10 ^ b * 10 powi e = 10 powi (int a + int b + e)"
  by (simp add: power_int_add)

lemma val_dscale: "e \<le> dexp d \<Longrightarrow> val d = of_int (dscale d e) * 10 powi e"
proof -
  assume "e \<le> dexp d"
  then have "(10::rat) powi dexp d = 10 powi (dexp d - e) * 10 powi e"
    by (simp flip: power_int_add)
  also have "(10::rat) powi (dexp d - e) = 10 ^ nat (dexp d - e)"
    using \<open>e \<le> dexp d\<close> by (simp add: power_int_def)
  finally show ?thesis by (simp add: val_def dscale_def)
qed

lemma common_exp_le [simp]: "common_exp a b \<le> dexp a" "common_exp a b \<le> dexp b"
  by (simp_all add: common_exp_def)

lemma dle_iff: "dle a b \<longleftrightarrow> val a \<le> val b"
  by (simp add: dle_def val_dscale [of "common_exp a b"])

lemma dlt_iff: "dlt a b \<longleftrightarrow> val a < val b"
  by (simp add: dlt_def val_dscale [of "common_exp a b"])

lemma deq_iff: "deq a b \<longleftrightarrow> val a = val b"
  by (simp add: deq_def val_dscale [of "common_exp a b"])

lemmas dcmp_iff = dle_iff dlt_iff deq_iff

lemma val_dmax [simp]: "val (dmax a b) = max (val a) (val b)"
  by (auto simp: dmax_def dlt_iff)

section \<open>Digits\<close>

lemma ndigits_pos [simp]: "0 < ndigits n"
  by (subst ndigits.simps) simp

lemma less_ten_pow_ndigits: "n < 10 ^ ndigits n"
proof (induction n rule: ndigits.induct)
  case (1 n)
  show ?case
  proof (cases "n < 10")
    case True
    then show ?thesis by (simp add: ndigits.simps)
  next
    case False
    with 1 have "n div 10 < 10 ^ ndigits (n div 10)" by simp
    then have "n < 10 * 10 ^ ndigits (n div 10)" by linarith
    with False show ?thesis by (simp add: ndigits.simps [of n])
  qed
qed

lemma ndigits_le_iff: "0 < k \<Longrightarrow> ndigits n \<le> k \<longleftrightarrow> n < 10 ^ k"
proof (induction n arbitrary: k rule: ndigits.induct)
  case (1 n)
  show ?case
  proof (cases "n < 10")
    case True
    with 1(2) have "n < 10 ^ k" using power_increasing [of 1 k "10::nat"] by simp
    with True 1(2) show ?thesis by (simp add: ndigits.simps [of n])
  next
    case False
    show ?thesis
    proof (cases k)
      case (Suc j)
      show ?thesis
      proof (cases "j = 0")
        case True
        with Suc False show ?thesis by (simp add: ndigits.simps [of n])
      next
        case j: False
        with 1(1) False have "ndigits (n div 10) \<le> j \<longleftrightarrow> n div 10 < 10 ^ j" by simp
        moreover have "n div 10 < 10 ^ j \<longleftrightarrow> n < 10 ^ Suc j"
          by (simp add: less_mult_imp_div_less div_less_iff_less_mult mult.commute)
        ultimately show ?thesis using Suc False by (simp add: ndigits.simps [of n])
      qed
    qed (use 1 in simp)
  qed
qed

section \<open>When rounding is exact\<close>

text \<open>\<open>on_grid k d\<close>: the number has at most \<open>k\<close> decimal places.\<close>

definition on_grid :: "nat \<Rightarrow> decimal \<Rightarrow> bool" where
  "on_grid k d \<longleftrightarrow> (\<exists>z::int. val d * 10 ^ k = of_int z)"

lemma dround_small [simp]: "ndigits (nat \<bar>mant d\<bar>) \<le> p \<Longrightarrow> dround p d = d"
  by (simp add: dround_def)

lemma dround_big:
  assumes "n = nat \<bar>m\<bar>" "k = ndigits n - p" "p < ndigits n" "q = div_half_even n (10 ^ k)"
  shows "dround p (Dec m e) = (if q = 10 ^ p then Dec (sgn m * 10 ^ (p - 1)) (e + int k + 1)
    else Dec (sgn m * int q) (e + int k))"
  using assms(3) by (simp add: dround_def Let_def flip: assms(1,2,4))

lemma div_half_even_exact: "d dvd n \<Longrightarrow> 0 < d \<Longrightarrow> div_half_even n d = n div d"
  by (simp add: div_half_even_def)

lemma on_gridI: "dexp d \<ge> - int k \<Longrightarrow> on_grid k d"
proof -
  assume "dexp d \<ge> - int k"
  then have "val d = of_int (dscale d (- int k)) * 10 powi (- int k)"
    by (intro val_dscale) simp
  then have "val d * 10 ^ k = of_int (dscale d (- int k))"
    by (simp add: power_int_minus)
  then show ?thesis unfolding on_grid_def by blast
qed

lemma grid_unit:
  "dexp d \<le> - int k \<Longrightarrow> (10::rat) ^ k * 10 ^ nat (- int k - dexp d) * 10 powi dexp d = 1"
  by (subst ten_powi_split) simp

lemma val_below_grid:
  "dexp d \<le> - int k \<Longrightarrow> val d = of_int (mant d) / 10 ^ nat (- int k - dexp d) / 10 ^ k"
  using grid_unit [of d k] by (simp add: val_def divide_simps mult_ac)

lemma on_grid_dvd_mant:
  assumes "on_grid k d" and "dexp d \<le> - int k"
  shows "10 ^ nat (- int k - dexp d) dvd mant d"
proof -
  let ?j = "nat (- int k - dexp d)"
  obtain z :: int where z: "val d * 10 ^ k = of_int z" using assms(1) by (auto simp: on_grid_def)
  from grid_unit [OF assms(2)] have "of_int (mant d) = (val d * 10 ^ k) * (10::rat) ^ ?j"
    by (simp add: val_def mult_ac)
  also have "\<dots> = of_int (z * 10 ^ ?j)" by (simp add: z)
  finally have "mant d = z * 10 ^ ?j" by (simp only: of_int_eq_iff)
  then show ?thesis by simp
qed

text \<open>
  Rounding to \<open>p\<close> digits is exact for a number with at most \<open>k\<close> decimal places below
  \<open>10 ^ (p - k)\<close>: the digits that are dropped are zeros.
\<close>

lemma dropped_digits:
  assumes bnd: "\<bar>val d\<bar> < 10 ^ (p - k)" and "k \<le> p" and "0 < p" and big: "p < ndigits (nat \<bar>mant d\<bar>)"
  shows "int (ndigits (nat \<bar>mant d\<bar>) - p) \<le> - int k - dexp d"
proof (rule ccontr)
  let ?n = "ndigits (nat \<bar>mant d\<bar>)"
  assume "\<not> ?thesis"
  with big have gt: "int (p - k) < dexp d + int ?n" using \<open>k \<le> p\<close> by simp
  have ge: "10 ^ (?n - 1) \<le> nat \<bar>mant d\<bar>"
  proof (rule ccontr)
    assume "\<not> ?thesis"
    then have lt: "nat \<bar>mant d\<bar> < 10 ^ (?n - 1)" by simp
    show False
    proof (cases "?n - 1 = 0")
      case True
      with big \<open>0 < p\<close> show ?thesis by simp
    next
      case False
      then have "?n \<le> ?n - 1"
        using lt ndigits_le_iff [of "?n - 1" "nat \<bar>mant d\<bar>"] by blast
      with False show ?thesis by simp
    qed
  qed
  have "(10::rat) ^ (p - k) \<le> 10 powi (int (?n - 1) + dexp d)"
    using gt by (simp flip: power_int_of_nat) (rule power_int_increasing; simp)
  also have "\<dots> = 10 ^ (?n - 1) * 10 powi dexp d" by (simp add: power_int_add)
  also have "\<dots> \<le> of_int \<bar>mant d\<bar> * 10 powi dexp d"
  proof (rule mult_right_mono)
    have "int (10 ^ (?n - 1)) \<le> \<bar>mant d\<bar>" using ge by linarith
    then have "of_int (int (10 ^ (?n - 1))) \<le> (of_int \<bar>mant d\<bar> :: rat)" by (simp only: of_int_le_iff)
    then show "(10::rat) ^ (?n - 1) \<le> of_int \<bar>mant d\<bar>" by simp
  qed (simp add: less_imp_le)
  also have "\<dots> = \<bar>val d\<bar>" by (simp add: val_def abs_mult)
  finally show False using bnd by simp
qed

lemma dround_exact:
  assumes grid: "on_grid k d" and bnd: "\<bar>val d\<bar> < 10 ^ (p - k)" and "k \<le> p" and "0 < p"
  shows "val (dround p d) = val d"
proof (cases "ndigits (nat \<bar>mant d\<bar>) \<le> p")
  case False
  let ?n = "nat \<bar>mant d\<bar>"
  let ?j = "ndigits ?n - p"
  from False have big: "p < ndigits ?n" by simp
  from dropped_digits [OF bnd \<open>k \<le> p\<close> \<open>0 < p\<close> big] have j: "int ?j \<le> - int k - dexp d" .
  then have "dexp d \<le> - int k" by linarith
  from on_grid_dvd_mant [OF grid this] have "10 ^ nat (- int k - dexp d) dvd mant d" .
  moreover have "(10::int) ^ ?j dvd 10 ^ nat (- int k - dexp d)"
    using j by (intro le_imp_power_dvd) linarith
  ultimately have dvd: "10 ^ ?j dvd mant d" by (rule dvd_trans [rotated])
  then have dvdn: "10 ^ ?j dvd ?n" by (simp flip: int_dvd_int_iff)
  then have q: "div_half_even ?n (10 ^ ?j) = ?n div 10 ^ ?j" by (simp add: div_half_even_exact)
  obtain c where c: "?n = 10 ^ ?j * c" using dvdn by (rule dvdE)
  have m: "mant d = sgn (mant d) * (10 ^ ?j * int c)"
  proof -
    have "mant d = sgn (mant d) * \<bar>mant d\<bar>" by (simp add: mult_sgn_abs)
    also have "\<bar>mant d\<bar> = int ?n" by simp
    also have "int ?n = 10 ^ ?j * int c" by (subst c) simp
    finally show ?thesis .
  qed
  have shift: "(10::rat) powi (dexp d + int ?j) = 10 powi dexp d * 10 ^ ?j"
    by (simp add: power_int_add)
  have qc: "?n div 10 ^ ?j = c" by (subst c) simp
  have "c < 10 ^ p"
  proof -
    have "10 ^ ?j * c < 10 ^ (?j + p)"
      using less_ten_pow_ndigits [of ?n] big c by simp
    then show ?thesis by (simp add: power_add)
  qed
  then have "dround p d = Dec (sgn (mant d) * int c) (dexp d + int ?j)"
    using False q qc by (simp add: dround_def Let_def)
  then have "val (dround p d) = of_int (sgn (mant d) * (10 ^ ?j * int c)) * 10 powi dexp d"
    by (simp add: shift mult_ac)
  with m show ?thesis by (simp add: val_def)
qed simp

section \<open>Sums, differences and products\<close>

definition dadd_raw :: "decimal \<Rightarrow> decimal \<Rightarrow> decimal" where
  "dadd_raw a b = Dec (dscale a (common_exp a b) + dscale b (common_exp a b)) (common_exp a b)"

lemma val_dadd_raw: "val (dadd_raw a b) = val a + val b"
  by (simp add: dadd_raw_def val_dscale [of "common_exp a b"] algebra_simps)

lemma val_dsub_raw:
  "val (Dec (dscale a (common_exp a b) - dscale b (common_exp a b)) (common_exp a b))
     = val a - val b"
  by (simp add: val_dscale [of "common_exp a b"] algebra_simps)

lemma val_dmul_raw: "val (Dec (mant a * mant b) (dexp a + dexp b)) = val a * val b"
  by (simp add: val_def power_int_add)

lemma on_grid_cong: "val a = val b \<Longrightarrow> on_grid k a \<longleftrightarrow> on_grid k b"
  by (simp add: on_grid_def)

lemma on_grid_sum: "on_grid k a \<Longrightarrow> on_grid k b \<Longrightarrow> val c = val a + val b \<Longrightarrow> on_grid k c"
  unfolding on_grid_def
  by (metis distrib_right of_int_add)

lemma on_grid_diff: "on_grid k a \<Longrightarrow> on_grid k b \<Longrightarrow> val c = val a - val b \<Longrightarrow> on_grid k c"
  unfolding on_grid_def
  by (metis left_diff_distrib of_int_diff)

lemma on_grid_zero [simp]: "on_grid k dzero"
  by (auto simp: on_grid_def intro: exI [of _ 0])

lemma on_grid_mono: "on_grid k d \<Longrightarrow> k \<le> l \<Longrightarrow> on_grid l d"
proof -
  assume "on_grid k d" "k \<le> l"
  then obtain z :: int where z: "val d * 10 ^ k = of_int z" by (auto simp: on_grid_def)
  have "val d * 10 ^ l = (val d * 10 ^ k) * 10 ^ (l - k)"
    using \<open>k \<le> l\<close> by (simp flip: power_add)
  also have "\<dots> = of_int (z * 10 ^ (l - k))" by (simp add: z)
  finally show ?thesis unfolding on_grid_def by blast
qed

lemma val_dadd:
  assumes "on_grid k a" "on_grid k b" "\<bar>val a + val b\<bar> < 10 ^ (p - k)" "k \<le> p" "0 < p"
  shows "val (dadd p a b) = val a + val b"
proof -
  have "on_grid k (dadd_raw a b)" using assms(1,2) val_dadd_raw by (rule on_grid_sum)
  moreover have "\<bar>val (dadd_raw a b)\<bar> < 10 ^ (p - k)" using assms(3) by (simp add: val_dadd_raw)
  ultimately have "val (dround p (dadd_raw a b)) = val (dadd_raw a b)"
    using assms(4,5) by (rule dround_exact)
  then show ?thesis by (simp add: dadd_def Let_def val_dadd_raw flip: dadd_raw_def)
qed

lemma val_dsub:
  assumes "on_grid k a" "on_grid k b" "\<bar>val a - val b\<bar> < 10 ^ (p - k)" "k \<le> p" "0 < p"
  shows "val (dsub p a b) = val a - val b"
proof -
  let ?d = "Dec (dscale a (common_exp a b) - dscale b (common_exp a b)) (common_exp a b)"
  have "on_grid k ?d" using assms(1,2) val_dsub_raw by (rule on_grid_diff)
  moreover have "\<bar>val ?d\<bar> < 10 ^ (p - k)" using assms(3) by (simp only: val_dsub_raw)
  ultimately have "val (dround p ?d) = val ?d" using assms(4,5) by (rule dround_exact)
  then show ?thesis by (simp only: dsub_def Let_def val_dsub_raw)
qed

lemma on_grid_dadd:
  assumes "on_grid k a" "on_grid k b" "\<bar>val a + val b\<bar> < 10 ^ (p - k)" "k \<le> p" "0 < p"
  shows "on_grid k (dadd p a b)"
  using assms(1,2) val_dadd [OF assms] by (rule on_grid_sum)

lemma on_grid_dsub:
  assumes "on_grid k a" "on_grid k b" "\<bar>val a - val b\<bar> < 10 ^ (p - k)" "k \<le> p" "0 < p"
  shows "on_grid k (dsub p a b)"
  using assms(1,2) val_dsub [OF assms] by (rule on_grid_diff)

text \<open>
  A left-to-right sum of non-negative amounts on the grid is exact when the total stays
  below the context bound: no partial sum exceeds the total.
\<close>

lemma foldl_dadd_exact:
  assumes "on_grid k a" "0 \<le> val a"
    and "\<And>d. d \<in> set ds \<Longrightarrow> on_grid k d \<and> 0 \<le> val d"
    and "val a + sum_list (map val ds) < 10 ^ (p - k)" and "k \<le> p" "0 < p"
  shows "val (foldl (dadd p) a ds) = val a + sum_list (map val ds)
    \<and> on_grid k (foldl (dadd p) a ds)"
  using assms
proof (induction ds arbitrary: a)
  case (Cons d ds)
  have nn: "0 \<le> sum_list (map val ds)"
    using Cons.prems(3) by (intro sum_list_nonneg) auto
  have d: "on_grid k d" "0 \<le> val d" using Cons.prems(3) by auto
  have bnd: "\<bar>val a + val d\<bar> < 10 ^ (p - k)" using Cons.prems(2,4) d nn by simp
  note add = val_dadd [OF Cons.prems(1) d(1) bnd Cons.prems(5,6)]
  have "val (foldl (dadd p) (dadd p a d) ds) = val (dadd p a d) + sum_list (map val ds)
    \<and> on_grid k (foldl (dadd p) (dadd p a d) ds)"
  proof (rule Cons.IH)
    show "on_grid k (dadd p a d)"
      using Cons.prems(1) d(1) bnd Cons.prems(5,6) by (rule on_grid_dadd)
    show "0 \<le> val (dadd p a d)" using Cons.prems(2) d add by simp
    show "val (dadd p a d) + sum_list (map val ds) < 10 ^ (p - k)"
      using Cons.prems(4) add by (simp add: add.assoc)
  qed (use Cons.prems in auto)
  then show ?case by (simp add: add add.assoc)
qed simp

lemma val_dsum:
  assumes "\<And>d. d \<in> set ds \<Longrightarrow> on_grid k d \<and> 0 \<le> val d"
    and "sum_list (map val ds) < 10 ^ (p - k)" and "k \<le> p" "0 < p"
  shows "val (dsum p ds) = sum_list (map val ds)"
  using foldl_dadd_exact [of k dzero ds p] assms by (simp add: dsum_def)

lemma on_grid_dsum:
  assumes "\<And>d. d \<in> set ds \<Longrightarrow> on_grid k d \<and> 0 \<le> val d"
    and "sum_list (map val ds) < 10 ^ (p - k)" and "k \<le> p" "0 < p"
  shows "on_grid k (dsum p ds)"
  using foldl_dadd_exact [of k dzero ds p] assms by (simp add: dsum_def)

section \<open>Quantizing and normalizing\<close>

lemma dquantize_grid: "dquantize p mode (- int k) d = Some q \<Longrightarrow> on_grid k q"
  by (auto simp: dquantize_def Let_def split: if_splits intro: on_gridI)

lemma dquantize_on_grid:
  assumes "dquantize p mode (- int k) d = Some q" and "- int k \<le> dexp d"
  shows "val q = val d"
  using assms val_dscale [of "- int k" d] by (auto simp: dquantize_def Let_def split: if_splits)

text \<open>\<open>ROUND_CEILING\<close> never rounds down and adds less than one unit of the last place.\<close>

lemma dquantize_ceiling:
  assumes "dquantize p Ceiling (- int k) d = Some q"
  shows "val d \<le> val q" and "val q < val d + 1 / 10 ^ k"
proof -
  have "val d \<le> val q \<and> val q < val d + 1 / 10 ^ k"
  proof (cases "- int k \<le> dexp d")
    case True
    with dquantize_on_grid [OF assms] show ?thesis by simp
  next
    case False
    let ?j = "nat (- int k - dexp d)"
    let ?c = "- ((- mant d) div 10 ^ ?j)"
    from assms False have q: "q = Dec ?c (- int k)"
      by (auto simp: dquantize_def Let_def split: if_splits)
    have vd: "val d = of_int (mant d) / 10 ^ ?j / 10 ^ k"
      using False by (intro val_below_grid) simp
    have vq: "val q = of_int ?c / 10 ^ k" by (simp add: q power_int_minus divide_simps)
    have "?c = \<lceil>(of_int (mant d) :: rat) / 10 ^ ?j\<rceil>"
      using ceiling_divide_eq_div [where 'a = rat, of "mant d" "10 ^ ?j"] by simp
    then have "(of_int (mant d) :: rat) / 10 ^ ?j \<le> of_int ?c"
      and "of_int ?c < (of_int (mant d) :: rat) / 10 ^ ?j + 1"
      using ceiling_correct [of "(of_int (mant d) :: rat) / 10 ^ ?j"] by linarith+
    then show ?thesis unfolding vd vq by (simp add: divide_right_mono field_simps)
  qed
  then show "val d \<le> val q" and "val q < val d + 1 / 10 ^ k" by simp_all
qed

lemma val_dstrip: "val (dstrip m e) = of_int m * 10 powi e"
proof (induction m e rule: dstrip.induct)
  case (1 m e)
  show ?case
  proof (cases "m \<noteq> 0 \<and> m mod 10 = 0")
    case True
    then have "val (dstrip m e) = of_int (m div 10) * 10 powi (e + 1)"
      using 1 by (subst dstrip.simps) simp
    also have "\<dots> = of_int (m div 10 * 10) * 10 powi e" by (simp add: power_int_add)
    also have "m div 10 * 10 = m" using True div_mult_mod_eq [of m 10] by simp
    finally show ?thesis .
  next
    case False
    then show ?thesis by (subst dstrip.simps) auto
  qed
qed

lemma val_dnormalize: "val (dnormalize p d) = val (dround p d)"
  by (simp add: dnormalize_def Let_def val_dstrip) (simp add: val_def)

section \<open>Rounding depends on the number only\<close>

text \<open>\<open>adjusted d\<close>: the number of digits left of the decimal point, negative for small numbers.\<close>

definition adjusted :: "decimal \<Rightarrow> int" where
  "adjusted d = int (ndigits (nat \<bar>mant d\<bar>)) + dexp d"

lemma val_less_adjusted: "\<bar>val d\<bar> < 10 powi adjusted d"
proof -
  let ?n = "nat \<bar>mant d\<bar>"
  have "int ?n < int (10 ^ ndigits ?n)" using less_ten_pow_ndigits [of ?n] by (simp only: of_nat_less_iff)
  then have "\<bar>mant d\<bar> < 10 ^ ndigits ?n" by simp
  then have "(of_int \<bar>mant d\<bar> :: rat) < of_int (10 ^ ndigits ?n)" by (simp only: of_int_less_iff)
  then have "of_int \<bar>mant d\<bar> * 10 powi dexp d < (10::rat) ^ ndigits ?n * 10 powi dexp d"
    by (intro mult_strict_right_mono) simp_all
  then show ?thesis by (simp add: val_def abs_mult adjusted_def power_int_add)
qed

lemma ndigits_ten_times: "0 < n \<Longrightarrow> ndigits (n * 10) = Suc (ndigits n)"
  by (subst ndigits.simps) simp

lemma ndigits_shift: "0 < n \<Longrightarrow> ndigits (n * 10 ^ k) = ndigits n + k"
proof (induction k)
  case (Suc k)
  have "ndigits (n * 10 ^ Suc k) = ndigits (n * 10 ^ k * 10)" by (simp add: mult_ac)
  with Suc show ?case by (simp add: ndigits_ten_times)
qed simp

lemma ten_pow_le_ndigits: "0 < n \<Longrightarrow> 10 ^ (ndigits n - 1) \<le> n"
proof (rule ccontr)
  assume n: "0 < n" "\<not> 10 ^ (ndigits n - 1) \<le> n"
  show False
  proof (cases "ndigits n - 1 = 0")
    case False
    then have "ndigits n \<le> ndigits n - 1" using n ndigits_le_iff [of "ndigits n - 1" n] by simp
    with False show ?thesis by simp
  qed (use n in simp)
qed

lemma adjusted_dstrip: "m \<noteq> 0 \<Longrightarrow> adjusted (dstrip m e) = adjusted (Dec m e)"
proof (induction m e rule: dstrip.induct)
  case (1 m e)
  show ?case
  proof (cases "m mod 10 = 0")
    case True
    then obtain q where q: "m = q * 10" "q \<noteq> 0" using 1(2) by (auto elim: dvdE simp flip: dvd_eq_mod_eq_0)
    have "adjusted (dstrip m e) = adjusted (Dec q (e + 1))"
      using 1 True q by (subst dstrip.simps) simp
    also have "\<dots> = adjusted (Dec m e)"
      using ndigits_ten_times [of "nat \<bar>q\<bar>"] q by (simp add: adjusted_def abs_mult nat_mult_distrib)
    finally show ?thesis .
  next
    case False
    then show ?thesis using 1(2) by (subst dstrip.simps) simp
  qed
qed

lemma adjusted_dround:
  assumes "0 < p"
  shows "adjusted d \<le> adjusted (dround p d)"
proof (cases "ndigits (nat \<bar>mant d\<bar>) \<le> p")
  case False
  let ?n = "nat \<bar>mant d\<bar>"
  let ?j = "ndigits ?n - p"
  have npos: "0 < ?n" using False assms by (cases "?n = 0") (auto simp: ndigits.simps)
  let ?q = "div_half_even ?n (10 ^ ?j)"
  have "10 ^ (p - 1) * 10 ^ ?j \<le> ?n"
    using ten_pow_le_ndigits [OF npos] False assms by (simp flip: power_add)
  then have "10 ^ (p - 1) \<le> ?n div 10 ^ ?j" by (simp add: less_eq_div_iff_mult_less_eq)
  also have "\<dots> \<le> ?q" by (simp add: div_half_even_def Let_def)
  finally have q: "10 ^ (p - 1) \<le> ?q" .
  have pq: "p \<le> ndigits ?q"
  proof (rule ccontr)
    assume "\<not> ?thesis"
    then have "ndigits ?q \<le> p - 1" by linarith
    moreover have "0 < p - 1" using calculation ndigits_pos [of ?q] by linarith
    ultimately have "?q < 10 ^ (p - 1)" by (simp add: ndigits_le_iff)
    with q show False by simp
  qed
  show ?thesis
  proof (cases "?q = 10 ^ p")
    case True
    then have "dround p d = Dec (sgn (mant d) * 10 ^ (p - 1)) (dexp d + int ?j + 1)"
      using False by (simp add: dround_def Let_def)
    moreover have "nat \<bar>sgn (mant d) * 10 ^ (p - 1)\<bar> = 1 * 10 ^ (p - 1)"
      using npos by (simp add: abs_mult nat_power_eq)
    moreover have "ndigits (1 * 10 ^ (p - 1)) = 1 + (p - 1)"
      by (subst ndigits_shift) (simp_all add: ndigits.simps)
    ultimately show ?thesis using False assms by (simp add: adjusted_def nat_power_eq)
  next
    case nq: False
    then have "dround p d = Dec (sgn (mant d) * int ?q) (dexp d + int ?j)"
      using False by (simp add: dround_def Let_def)
    moreover have "nat \<bar>sgn (mant d) * int x\<bar> = x" for x using npos by (simp add: abs_mult)
    ultimately have "adjusted (dround p d) = int (ndigits ?q) + (dexp d + int ?j)"
      by (simp only: adjusted_def decimal.sel)
    moreover have "int N + dexp d \<le> int Q + (dexp d + int (N - p))" if "\<not> N \<le> p" "p \<le> Q" for N Q
      using that by simp
    ultimately show ?thesis using False pq by (simp only: adjusted_def)
  qed
qed simp

lemma dround_zero: "0 < p \<Longrightarrow> mant d = 0 \<Longrightarrow> dround p d = d"
  by (rule dround_small) (simp add: ndigits.simps)

lemma div_half_even_mult: "0 < c \<Longrightarrow> div_half_even (n * c) (d * c) = div_half_even n d"
proof -
  assume c: "0 < c"
  have "n * c div (d * c) = n div d" using c by simp
  moreover have "n * c mod (d * c) = n mod d * c" by (simp add: mult_mod_left)
  ultimately show ?thesis
    using c by (auto simp: div_half_even_def Let_def mult.assoc [symmetric])
qed

lemma val_dround_shift:
  assumes "0 < p"
  shows "val (dround p (Dec (m * 10 ^ k) (e - int k))) = val (dround p (Dec m e))"
proof (cases "m = 0")
  case True
  with assms show ?thesis by (simp add: dround_zero)
next
  case False
  let ?a = "Dec (m * 10 ^ k) (e - int k)" and ?b = "Dec m e"
  let ?n = "nat \<bar>m\<bar>"
  have nk: "nat \<bar>m * 10 ^ k\<bar> = ?n * 10 ^ k" by (simp add: abs_mult nat_mult_distrib nat_power_eq)
  have dig: "ndigits (?n * 10 ^ k) = ndigits ?n + k" using False by (simp add: ndigits_shift)
  have same: "val ?a = val ?b" by (simp add: power_int_diff)
  show ?thesis
  proof (cases "ndigits ?n \<le> p")
    case True
    define j where "j = nat (int p - (int (ndigits ?n) + e))"
    have "val (dround p ?a) = val ?a"
    proof (cases "ndigits (?n * 10 ^ k) \<le> p")
      case True
      then show ?thesis by (simp add: nk)
    next
      case big: False
      let ?j = "ndigits ?n + k - p"
      have jk: "?j \<le> k" using True by simp
      have dvd: "10 ^ ?j dvd ?n * 10 ^ k" using jk by (simp add: le_imp_power_dvd)
      have split: "?n * 10 ^ k = ?n * 10 ^ (k - ?j) * 10 ^ ?j" using jk by (simp flip: power_add add: mult.assoc)
      have q: "div_half_even (?n * 10 ^ k) (10 ^ ?j) = ?n * 10 ^ (k - ?j)"
        using dvd by (simp add: div_half_even_exact) (subst split, simp)
      have "?n * 10 ^ (k - ?j) < 10 ^ ndigits ?n * 10 ^ (k - ?j)"
        using less_ten_pow_ndigits [of ?n] by simp
      also have "\<dots> = 10 ^ p" using big dig True by (simp flip: power_add)
      finally have "dround p ?a = Dec (sgn m * int (?n * 10 ^ (k - ?j))) (e - int k + int ?j)"
        using big q dig by (simp add: dround_def Let_def nk sgn_mult)
      moreover have "sgn m * int (?n * 10 ^ (k - ?j)) = m * 10 ^ (k - ?j)"
        by (simp add: mult_sgn_abs flip: mult.assoc)
      ultimately have "dround p ?a = Dec (m * 10 ^ (k - ?j)) (e - int k + int ?j)" by (simp only:)
      then have "val (dround p ?a) = of_int m * (10 powi int (k - ?j) * 10 powi (e - int k + int ?j))"
        by (simp add: mult_ac)
      also have "\<dots> = val ?b" using jk by (simp flip: power_int_add)
      finally show ?thesis by (simp only: same)
    qed
    with True same show ?thesis by simp
  next
    case big: False
    let ?j = "ndigits ?n - p"
    have e2: "ndigits (?n * 10 ^ k) - p = ?j + k" using big dig by simp
    have big2: "p < ndigits (?n * 10 ^ k)" using big dig by linarith
    define q where "q = div_half_even ?n (10 ^ ?j)"
    have q: "q = div_half_even (?n * 10 ^ k) (10 ^ (?j + k))"
      unfolding q_def power_add by (rule div_half_even_mult [symmetric]) simp
    have "dround p ?a = (if q = 10 ^ p then Dec (sgn m * 10 ^ (p - 1)) (e - int k + int (?j + k) + 1)
      else Dec (sgn m * int q) (e - int k + int (?j + k)))"
      using dround_big [OF nk [symmetric] e2 [symmetric] big2 q] by (simp add: sgn_mult)
    also have "e - int k + int (?j + k) = e + int ?j" by simp
    finally show ?thesis
      using dround_big [OF refl refl _ q_def, of e] big by simp
  qed
qed

lemma val_eq_shift:
  assumes "val x = val y" "dexp y \<le> dexp x"
  obtains k where "mant y = mant x * 10 ^ k" "dexp y = dexp x - int k"
proof
  from assms have "of_int (mant y) * (10::rat) powi dexp y
      = of_int (dscale x (dexp y)) * 10 powi dexp y"
    using val_dscale [of "dexp y" x] by (simp add: val_def)
  then have "of_int (mant y) = (of_int (mant x * 10 ^ nat (dexp x - dexp y)) :: rat)"
    by (simp add: dscale_def)
  then show "mant y = mant x * 10 ^ nat (dexp x - dexp y)" by (simp only: of_int_eq_iff)
qed (use assms in simp)

lemma val_dround_cong:
  assumes "0 < p" "val a = val b"
  shows "val (dround p a) = val (dround p b)"
proof -
  have *: "val (dround p x) = val (dround p y)" if "val x = val y" "dexp y \<le> dexp x" for x y
    using val_eq_shift [OF that] val_dround_shift [OF assms(1)] by (metis decimal.collapse)
  show ?thesis using assms(2) * [of a b] * [of b a] by (cases "dexp b \<le> dexp a") auto
qed

lemma dstrip_shift: "dstrip (m * 10 ^ k) (e - int k) = dstrip m e"
proof (induction k)
  case (Suc k)
  have "dstrip (m * 10 ^ Suc k) (e - int (Suc k)) = dstrip (m * 10 ^ k) (e - int k)"
  proof (cases "m = 0")
    case True
    then show ?thesis by (simp add: dstrip.simps)
  next
    case False
    have "m * 10 ^ Suc k = m * 10 ^ k * 10" by simp
    with False show ?thesis by (subst dstrip.simps) (simp add: algebra_simps)
  qed
  with Suc show ?case by simp
qed simp

lemma dstrip_cong:
  assumes "val a = val b"
  shows "dstrip (mant a) (dexp a) = dstrip (mant b) (dexp b)"
proof -
  have *: "dstrip (mant x) (dexp x) = dstrip (mant y) (dexp y)"
    if "val x = val y" "dexp y \<le> dexp x" for x y
    using val_eq_shift [OF that] by (metis dstrip_shift)
  show ?thesis using assms * [of a b] * [of b a] by (cases "dexp b \<le> dexp a") auto
qed

lemma dnormalize_cong: "0 < p \<Longrightarrow> val a = val b \<Longrightarrow> dnormalize p a = dnormalize p b"
  unfolding dnormalize_def Let_def by (intro dstrip_cong val_dround_cong)

lemma adjusted_dnormalize:
  assumes "0 < p" "mant d \<noteq> 0"
  shows "adjusted d \<le> adjusted (dnormalize p d)"
proof -
  have "mant (dround p d) \<noteq> 0"
  proof
    assume "mant (dround p d) = 0"
    show False
    proof (cases "ndigits (nat \<bar>mant d\<bar>) \<le> p")
      case True
      with assms(2) \<open>mant (dround p d) = 0\<close> show ?thesis by simp
    next
      case False
      let ?n = "nat \<bar>mant d\<bar>"
      have "(10::nat) ^ (ndigits ?n - p) \<le> 10 ^ (ndigits ?n - 1)"
        using assms(1) by (intro power_increasing) auto
      also have "\<dots> \<le> ?n" using assms(2) by (intro ten_pow_le_ndigits) simp
      finally have "0 < ?n div 10 ^ (ndigits ?n - p)" by (simp add: div_greater_zero_iff)
      then have q: "0 < div_half_even ?n (10 ^ (ndigits ?n - p))"
        by (simp add: div_half_even_def Let_def)
      have s: "sgn (mant d) \<noteq> 0" using assms(2) by (simp add: sgn_0_0)
      have "p < ndigits ?n" using False by (rule not_le_imp_less)
      define Q where "Q = div_half_even ?n (10 ^ (ndigits ?n - p))"
      have Q: "0 < Q" using q by (simp only: Q_def)
      have "mant (dround p d) = (if Q = 10 ^ p then sgn (mant d) * 10 ^ (p - 1) else sgn (mant d) * int Q)"
        using dround_big [OF refl refl \<open>p < ndigits ?n\<close> Q_def, of "dexp d"]
        by (simp only: decimal.collapse if_distrib [of mant] decimal.sel)
      with Q s \<open>mant (dround p d) = 0\<close> show ?thesis by (cases "Q = 10 ^ p") simp_all
    qed
  qed
  then have "adjusted (dnormalize p d) = adjusted (dround p d)"
    by (simp add: dnormalize_def Let_def adjusted_dstrip)
  with adjusted_dround [OF assms(1), of d] show ?thesis by simp
qed

section \<open>Printing and reading back\<close>

lemma code_char_of [simp]: "n < 256 \<Longrightarrow> code (char_of n) = n"
  by (simp add: code_def of_char_of)

lemma is_digit_char_of [simp]: "n < 10 \<Longrightarrow> is_digit (char_of (48 + n :: nat))"
  by (simp add: is_digit_def)

lemma digit_string_digits [simp]: "list_all is_digit (digit_string n)"
proof (induction n rule: digit_string.induct)
  case (1 n)
  then show ?case by (subst digit_string.simps) simp
qed

lemma digit_string_nonempty [simp]: "digit_string n \<noteq> []"
  by (subst digit_string.simps) simp

lemma digits_value_append: "digits_value acc (xs @ ys) = digits_value (digits_value acc xs) ys"
  by (induction xs arbitrary: acc) simp_all

lemma digits_value_acc: "digits_value acc xs = acc * 10 ^ length xs + digits_value 0 xs"
proof (induction xs arbitrary: acc)
  case (Cons c xs)
  show ?case
    using Cons [of "10 * acc + (code c - 48)"] Cons [of "code c - 48"]
    by (simp add: algebra_simps)
qed simp

lemma digits_value_zeros [simp]:
  "digits_value acc (replicate n (CHR ''0'')) = acc * 10 ^ n"
  by (induction n arbitrary: acc) (simp_all add: code_def)

lemma digits_value_digit_string [simp]: "digits_value 0 (digit_string n) = n"
proof (induction n rule: digit_string.induct)
  case (1 n)
  then show ?case
    by (subst digit_string.simps) (simp add: digits_value_append)
qed

text \<open>\<open>plain W F\<close>: the digits \<open>W\<close>, and the fraction \<open>F\<close> after a point unless it is empty.\<close>

definition plain :: "string \<Rightarrow> string \<Rightarrow> string" where
  "plain W F = W @ (if F = [] then [] else CHR ''.'' # F)"

lemma is_digit_not [simp]:
  "is_digit c \<Longrightarrow> \<not> is_space c" "is_digit c \<Longrightarrow> c \<noteq> CHR ''_''" "is_digit c \<Longrightarrow> c \<noteq> CHR ''-''"
  "is_digit c \<Longrightarrow> c \<noteq> CHR ''+''" "is_digit c \<Longrightarrow> c \<noteq> CHR ''.''" "is_digit c \<Longrightarrow> \<not> is_upper c"
  "is_digit c \<Longrightarrow> c \<noteq> CHR ''i''" "is_digit c \<Longrightarrow> c \<noteq> CHR ''n''" "is_digit c \<Longrightarrow> c \<noteq> CHR ''s''"
  by (auto simp: is_digit_def is_space_def is_upper_def code_def)

lemma to_lower_digit [simp]: "is_digit c \<Longrightarrow> to_lower c = c"
  by (simp add: to_lower_def)

lemma point_class [simp]: "\<not> is_digit (CHR ''_'')"
  "\<not> is_digit (CHR ''.'')" "\<not> is_space (CHR ''.'')" "to_lower (CHR ''.'') = CHR ''.''"
  by (simp_all add: is_digit_def is_space_def code_def to_lower_def is_upper_def)

lemma strip_spaces_id:
  assumes "s \<noteq> []" "\<not> is_space (hd s)" "\<not> is_space (last s)"
  shows "strip_spaces s = s"
proof -
  have "dropWhile is_space s = s" using assms(1,2) by (cases s) auto
  moreover have "dropWhile is_space (rev s) = rev s"
    using assms(1,3) by (cases s rule: rev_cases) auto
  ultimately show ?thesis by (simp add: strip_spaces_def)
qed

lemma plain_strip:
  assumes "W \<noteq> []" "list_all is_digit W" "list_all is_digit F"
  shows "strip_spaces (plain W F) = plain W F"
proof (rule strip_spaces_id)
  show "plain W F \<noteq> []" using assms(1) by (simp add: plain_def)
  show "\<not> is_space (hd (plain W F))" using assms(1,2) by (cases W) (auto simp: plain_def)
  have "last (plain W F) \<in> set W \<union> set F" using assms(1) by (auto simp: plain_def)
  then show "\<not> is_space (last (plain W F))" using assms(2,3) by (auto simp: list_all_iff)
qed

lemma plain_filter:
  "list_all is_digit W \<Longrightarrow> list_all is_digit F \<Longrightarrow>
     filter (\<lambda>c. c \<noteq> CHR ''_'') (plain W F) = plain W F"
  by (rule filter_True) (auto simp: plain_def list_all_iff)

lemma takeWhile_digits_plain:
  "list_all is_digit W \<Longrightarrow> takeWhile is_digit (plain W F) = W"
  "list_all is_digit W \<Longrightarrow> dropWhile is_digit (plain W F) = (if F = [] then [] else CHR ''.'' # F)"
  by (auto simp: plain_def list_all_iff takeWhile_eq_all_conv dropWhile_eq_Nil_conv
      takeWhile_append2 dropWhile_append2)

lemma parse_number_plain:
  assumes "W \<noteq> []" "list_all is_digit W" "list_all is_digit F"
  shows "parse_number False (plain W F)
    = Some (Dec (int (digits_value 0 (W @ F))) (- int (length F)))"
proof -
  have F: "takeWhile is_digit F = F" "dropWhile is_digit F = []"
    using assms(3) by (auto simp: list_all_iff takeWhile_eq_all_conv)
  show ?thesis
    using assms(1,2)
    by (simp add: parse_number_def Let_def takeWhile_digits_plain parse_exponent_def F)
qed

lemma decimal_of_plain:
  assumes "W \<noteq> []" "list_all is_digit W" "list_all is_digit F"
  shows "decimal_of_string (plain W F)
    = Some (DFin (Dec (int (digits_value 0 (W @ F))) (- int (length F))))"
proof -
  obtain c cs where W: "W = c # cs" and c: "is_digit c" using assms(1,2) by (cases W) auto
  then have hd: "plain W F = c # (plain cs F)" by (simp add: plain_def)
  have low: "map to_lower (plain W F) = c # map to_lower (plain cs F)"
    using c by (simp add: hd to_lower_def)
  show ?thesis
    using c by (simp add: decimal_of_string_def Let_def plain_strip [OF assms]
        plain_filter [OF assms(2,3)] low parse_number_plain [OF assms])
      (simp add: hd parse_number_plain [OF assms, unfolded hd])
qed

end
