(* ===== verification/Py_Float.thy ===== *)
theory Py_Float
  imports Py_Decimal
begin

text \<open>
  Python floats: a finite IEEE binary64 number is the rational it denotes, and every
  operation rounds the exact result to the nearest representable number, half to even
  (\<open>fl\<close>). Overflow to infinity is outside the model: the program's floats are prices,
  scores and confidences, far below \<open>2 ^ 1024\<close>. \<open>float_decimal\<close> is the number
  \<open>Decimal(str(x))\<close> reads from the shortest text that rounds back to \<open>x\<close>.
\<close>

type_synonym pyfloat = rat

fun nbits :: "nat \<Rightarrow> nat" where
  "nbits n = (if n = 0 then 0 else Suc (nbits (n div 2)))"

declare nbits.simps [simp del]

text \<open>The binary and decimal exponents of a positive number.\<close>

definition floor_log2 :: "rat \<Rightarrow> int" where
  "floor_log2 x = (if 1 \<le> x then int (nbits (nat \<lfloor>x\<rfloor>)) - 1
                   else - int (nbits (nat (\<lceil>1 / x\<rceil> - 1))))"

definition floor_log10 :: "rat \<Rightarrow> int" where
  "floor_log10 x = (if 1 \<le> x then int (ndigits (nat \<lfloor>x\<rfloor>)) - 1
                    else - int (ndigits (nat (\<lceil>1 / x\<rceil> - 1))))"

definition round_even :: "rat \<Rightarrow> int" where
  "round_even x =
     (let f = \<lfloor>x\<rfloor>; r = x - of_int f
      in if r < 1 / 2 \<or> (r = 1 / 2 \<and> even f) then f else f + 1)"

definition fl :: "rat \<Rightarrow> pyfloat" where
  "fl x =
     (if x = 0 then 0
      else let s = min 1074 (52 - floor_log2 \<bar>x\<bar>)
           in of_int (round_even (x * 2 powi s)) * 2 powi (- s))"

definition fadd :: "pyfloat \<Rightarrow> pyfloat \<Rightarrow> pyfloat" where
  "fadd a b = fl (a + b)"

definition fsub :: "pyfloat \<Rightarrow> pyfloat \<Rightarrow> pyfloat" where
  "fsub a b = fl (a - b)"

definition fmul :: "pyfloat \<Rightarrow> pyfloat \<Rightarrow> pyfloat" where
  "fmul a b = fl (a * b)"

definition fdiv :: "pyfloat \<Rightarrow> pyfloat \<Rightarrow> pyfloat" where
  "fdiv a b = fl (a / b)"

definition float_of_decimal :: "decimal \<Rightarrow> pyfloat" where
  "float_of_decimal d = fl (val d)"

text \<open>
  One digit count of the shortest-text search: the nearer of the two neighbouring
  \<open>n\<close>-digit decimals if it rounds back, else the other one.
\<close>

definition shortest_at :: "pyfloat \<Rightarrow> nat \<Rightarrow> decimal option" where
  "shortest_at x n =
     (let e = floor_log10 x - int n + 1; y = x / 10 powi e;
          near = round_even y; other = (if near = \<lfloor>y\<rfloor> then near + 1 else near - 1)
      in if fl (of_int near * 10 powi e) = x then Some (Dec near e)
         else if fl (of_int other * 10 powi e) = x then Some (Dec other e)
         else None)"

fun first_some :: "('a \<Rightarrow> 'b option) \<Rightarrow> 'a list \<Rightarrow> 'b option" where
  "first_some f [] = None"
| "first_some f (x # xs) = (case f x of Some y \<Rightarrow> Some y | None \<Rightarrow> first_some f xs)"

definition float_decimal :: "pyfloat \<Rightarrow> decimal" where
  "float_decimal x =
     (if x = 0 then dzero
      else case first_some (shortest_at \<bar>x\<bar>) [1..<18] of
             Some d \<Rightarrow> Dec (sgn \<lfloor>sgn x\<rfloor> * mant d) (dexp d)
           | None \<Rightarrow> dzero)"

text \<open>
  \<open>repr(x)\<close>: the shortest digits, positional when the decimal point falls within
  \<open>-3 .. 16\<close> digits and in exponent notation otherwise.
\<close>

definition float_repr :: "pyfloat \<Rightarrow> string" where
  "float_repr x =
     (let d = float_decimal x; c = dstrip \<bar>mant d\<bar> (dexp d); ds = digit_string (nat (mant c));
          n = int (length ds); pt = n + dexp c; sign = (if x < 0 then ''-'' else []);
          ex = digit_string (nat \<bar>pt - 1\<bar>)
      in sign @
        (if -4 < pt \<and> pt \<le> 16 then
           (if pt \<le> 0 then ''0.'' @ replicate (nat (- pt)) (CHR ''0'') @ ds
            else if n \<le> pt then ds @ replicate (nat (pt - n)) (CHR ''0'') @ ''.0''
            else take (nat pt) ds @ ''.'' @ drop (nat pt) ds)
         else take 1 ds @ (if n = 1 then [] else ''.'' @ drop 1 ds) @ ''e''
              @ (if pt < 1 then ''-'' else ''+'') @ replicate (2 - length ex) (CHR ''0'') @ ex))"

section \<open>Rounding error\<close>

lemma nbits_bounds: "0 < n \<Longrightarrow> 2 ^ (nbits n - 1) \<le> n \<and> n < 2 ^ nbits n"
proof (induction n rule: nbits.induct)
  case (1 n)
  show ?case
  proof (cases "n div 2 = 0")
    case True
    with 1(2) have "n = 1" by linarith
    then show ?thesis by (simp add: nbits.simps)
  next
    case False
    with 1 have IH: "2 ^ (nbits (n div 2) - 1) \<le> n div 2 \<and> n div 2 < 2 ^ nbits (n div 2)"
      by simp
    have pos: "0 < nbits (n div 2)" using False by (subst nbits.simps) simp
    then obtain j where j: "nbits (n div 2) = Suc j" by (cases "nbits (n div 2)") auto
    have "nbits n = Suc (nbits (n div 2))" using 1(2) by (subst nbits.simps) simp
    with IH j show ?thesis by simp linarith
  qed
qed

lemma floor_log2_upper:
  assumes "0 < x"
  shows "x < 2 powi (floor_log2 x + 1)"
proof (cases "1 \<le> x")
  case True
  then have pos: "0 < nat \<lfloor>x\<rfloor>" by simp
  have "nat \<lfloor>x\<rfloor> < 2 ^ nbits (nat \<lfloor>x\<rfloor>)" using nbits_bounds [OF pos] by simp
  then have "int (nat \<lfloor>x\<rfloor>) < int (2 ^ nbits (nat \<lfloor>x\<rfloor>))" by (simp only: of_nat_less_iff)
  then have "\<lfloor>x\<rfloor> < 2 ^ nbits (nat \<lfloor>x\<rfloor>)" using pos by simp
  then have "x < of_int (2 ^ nbits (nat \<lfloor>x\<rfloor>))" by (simp only: floor_less_iff)
  with True show ?thesis by (simp add: floor_log2_def)
next
  case False
  define m where "m = \<lceil>1 / x\<rceil> - 1"
  define j where "j = nbits (nat m) - 1"
  have "1 < 1 / x" using assms False by simp
  then have "1 < \<lceil>1 / x\<rceil>" by (simp add: less_ceiling_iff)
  then have m1: "1 \<le> m" by (simp add: m_def)
  then have pos: "0 < nat m" by simp
  have "0 < nbits (nat m)" using pos by (subst nbits.simps) simp
  then have nb: "nbits (nat m) = Suc j" by (simp add: j_def)
  have "2 ^ j \<le> nat m" using nbits_bounds [OF pos] by (simp add: j_def)
  then have "int (2 ^ j) \<le> int (nat m)" by (simp only: of_nat_le_iff)
  then have "2 ^ j \<le> m" using m1 by simp
  then have "2 ^ j < \<lceil>1 / x\<rceil>" by (simp add: m_def)
  then have "of_int (2 ^ j) < 1 / x" by (simp only: less_ceiling_iff)
  then have "x < 1 / 2 ^ j" using assms by (simp add: field_simps)
  also have "1 / 2 ^ j = (2::rat) powi (floor_log2 x + 1)"
    using False nb by (simp add: floor_log2_def flip: m_def) (simp add: power_int_minus inverse_eq_divide)
  finally show ?thesis .
qed

lemma round_even_error: "\<bar>of_int (round_even x) - x\<bar> \<le> 1 / 2"
proof -
  have "of_int \<lfloor>x\<rfloor> \<le> x" "x < of_int \<lfloor>x\<rfloor> + 1" by linarith+
  then show ?thesis by (auto simp: round_even_def Let_def abs_le_iff)
qed

lemma round_even_of_int [simp]: "round_even (of_int z) = z"
  by (simp add: round_even_def Let_def)

text \<open>A number in the normal range moves by at most half a unit in the last place.\<close>

lemma fl_error:
  assumes "x \<noteq> 0" and "-1022 \<le> floor_log2 \<bar>x\<bar>"
  shows "\<bar>fl x - x\<bar> \<le> 2 powi (floor_log2 \<bar>x\<bar> - 53)"
proof -
  define s where "s = 52 - floor_log2 \<bar>x\<bar>"
  have s: "min 1074 (52 - floor_log2 \<bar>x\<bar>) = s" using assms(2) by (simp add: s_def)
  have one: "(2::rat) powi s * 2 powi (- s) = 1" by (simp flip: power_int_add)
  let ?r = "of_int (round_even (x * 2 powi s)) :: rat"
  have "fl x = ?r * 2 powi (- s)" using assms(1) s by (simp add: fl_def Let_def)
  moreover have "x = (x * 2 powi s) * 2 powi (- s)" using one by (simp add: mult.assoc)
  ultimately have "fl x - x = (?r - x * 2 powi s) * 2 powi (- s)"
    by (metis left_diff_distrib)
  then have "\<bar>fl x - x\<bar> = \<bar>?r - x * 2 powi s\<bar> * 2 powi (- s)"
    by (simp add: abs_mult power_int_abs)
  also have "\<dots> \<le> 1 / 2 * 2 powi (- s)"
    by (rule mult_right_mono [OF round_even_error]) simp
  also have "\<dots> = 2 powi (floor_log2 \<bar>x\<bar> - 53)"
  proof -
    have "floor_log2 \<bar>x\<bar> - 53 = - s - 1" by (simp add: s_def)
    moreover have "(2::rat) powi (- s - 1) = 2 powi (- s) / 2" by (subst power_int_diff) simp_all
    moreover have "1 / 2 * (2::rat) powi (- s) = 2 powi (- s) / 2" by simp
    ultimately show ?thesis by (simp only:)
  qed
  finally show ?thesis .
qed

end
