(* ===== verification/Py_Json.thy ===== *)
theory Py_Json
  imports Py_Float
begin

text \<open>
  JSON values as Python's \<open>json\<close> module reads them, and the canonical text
  \<open>json.dumps(v, sort_keys=True, separators=(",", ":"), ensure_ascii=True)\<close> that every
  self-hash of the program is computed from. Strings are over the code points below 256.
\<close>

datatype json =
    JNull
  | JBool bool
  | JInt int
  | JFloat pyfloat
  | JStr string
  | JArr "json list"
  | JObj "(string \<times> json) list"

fun sort_keys :: "json \<Rightarrow> json" where
  "sort_keys (JArr vs) = JArr (map sort_keys vs)"
| "sort_keys (JObj kvs) = JObj (sort_key fst (map (\<lambda>(k, v). (k, sort_keys v)) kvs))"
| "sort_keys v = v"

definition hex_digit :: "nat \<Rightarrow> char" where
  "hex_digit n = (if n < 10 then char_of (48 + n) else char_of (87 + n))"

text \<open>One character inside a JSON string with \<open>ensure_ascii\<close>.\<close>

definition escape_char :: "char \<Rightarrow> string" where
  "escape_char c =
     (let n = code c
      in if n = 34 \<or> n = 92 then [CHR 0x5C, c]
         else if n = 10 then [CHR 0x5C, CHR ''n'']
         else if n = 13 then [CHR 0x5C, CHR ''r'']
         else if n = 9 then [CHR 0x5C, CHR ''t'']
         else if n = 8 then [CHR 0x5C, CHR ''b'']
         else if n = 12 then [CHR 0x5C, CHR ''f'']
         else if n < 32 \<or> 126 < n
         then [CHR 0x5C, CHR ''u'', CHR ''0'', CHR ''0'', hex_digit (n div 16), hex_digit (n mod 16)]
         else [c])"

definition quote :: "string \<Rightarrow> string" where
  "quote s = [CHR 0x22] @ concat (map escape_char s) @ [CHR 0x22]"

fun join :: "string \<Rightarrow> string list \<Rightarrow> string" where
  "join sep [] = []"
| "join sep [x] = x"
| "join sep (x # y # ys) = x @ sep @ join sep (y # ys)"

fun print_json :: "json \<Rightarrow> string" where
  "print_json JNull = ''null''"
| "print_json (JBool b) = (if b then ''true'' else ''false'')"
| "print_json (JInt i) = int_string i"
| "print_json (JFloat x) = float_repr x"
| "print_json (JStr s) = quote s"
| "print_json (JArr vs) = ''['' @ join '','' (map print_json vs) @ '']''"
| "print_json (JObj kvs) =
     CHR 0x7B # join '','' (map (\<lambda>(k, v). quote k @ '':'' @ print_json v) kvs) @ [CHR 0x7D]"

definition dumps :: "json \<Rightarrow> string" where
  "dumps v = print_json (sort_keys v)"

text \<open>Reading fields the way the validators do.\<close>

fun json_fields :: "json \<Rightarrow> (string \<times> json) list" where
  "json_fields (JObj kvs) = kvs"
| "json_fields _ = []"

fun is_object :: "json \<Rightarrow> bool" where
  "is_object (JObj _) = True"
| "is_object _ = False"

text \<open>Python's \<open>value == 1\<close>: true of the integer, of \<open>True\<close> and of \<open>1.0\<close>.\<close>

fun json_eq_int :: "json \<Rightarrow> int \<Rightarrow> bool" where
  "json_eq_int (JInt i) n = (i = n)"
| "json_eq_int (JBool b) n = ((if b then 1 else 0) = n)"
| "json_eq_int (JFloat x) n = (x = of_int n)"
| "json_eq_int _ n = False"

definition opt_json :: "('a \<Rightarrow> json) \<Rightarrow> 'a option \<Rightarrow> json" where
  "opt_json f x = (case x of None \<Rightarrow> JNull | Some a \<Rightarrow> f a)"

lemma sort_keys_fields:
  "distinct (map fst kvs) \<Longrightarrow>
     map_of (json_fields (sort_keys (JObj kvs))) k = map_option sort_keys (map_of kvs k)"
proof -
  assume d: "distinct (map fst kvs)"
  let ?m = "map (\<lambda>(k, v). (k, sort_keys v)) kvs"
  have keys: "map fst ?m = map fst kvs" by (induction kvs) auto
  then have "distinct (map fst ?m)" using d by (simp only:)
  then have "map_of (sort_key fst ?m) k = map_of ?m k" by (simp only: dict_get_sort)
  also have "map_of ?m k = map_option sort_keys (map_of kvs k)"
    by (induction kvs) auto
  finally show ?thesis by simp
qed

end
