(* ===== verification/Cost_Ledger.thy ===== *)
theory Cost_Ledger
  imports Py_Json
begin

text \<open>
  The durable cost ledger (\<open>orchestration/cost_ledger.py\<close>): exact USD reservations for paid
  model requests under one cap. The persisted file is the JSON value the last write left
  (\<open>al_disk\<close>, \<open>None\<close> when the file is missing); every operation reads and validates it again,
  as the code does under its lock, and either writes the new state or leaves it. The clock,
  the fresh reservation identifier and the ISO-8601 text of a timestamp are arguments. The
  file system checks around the lock and the file are not modelled.
\<close>

section \<open>Data\<close>

datatype cost_error =
    CostBudgetExceededError string
  | CostLedgerConfigurationError string
  | CostLedgerCorruptError string
  | CostReservationStateError string
  | CostReservationOverrunError string

datatype cost_entry_status =
    RESERVED | RECONCILED | RELEASED | UNCERTAIN_ACCOUNTED | RESERVATION_OVERRUN

fun status_value :: "cost_entry_status \<Rightarrow> string" where
  "status_value RESERVED = ''reserved''"
| "status_value RECONCILED = ''reconciled''"
| "status_value RELEASED = ''released''"
| "status_value UNCERTAIN_ACCOUNTED = ''uncertain_accounted''"
| "status_value RESERVATION_OVERRUN = ''reservation_overrun''"

definition status_of_value :: "string \<Rightarrow> cost_entry_status option" where
  "status_of_value s =
     find (\<lambda>st. status_value st = s)
       [RESERVED, RECONCILED, RELEASED, UNCERTAIN_ACCOUNTED, RESERVATION_OVERRUN]"

datatype release_reason = CANCELLED_BEFORE_SEND | FAILED_BEFORE_SEND

fun reason_value :: "release_reason \<Rightarrow> string" where
  "reason_value CANCELLED_BEFORE_SEND = ''cancelled_before_send''"
| "reason_value FAILED_BEFORE_SEND = ''failed_before_send''"

definition reason_of_value :: "string \<Rightarrow> release_reason option" where
  "reason_of_value s =
     find (\<lambda>r. reason_value r = s) [CANCELLED_BEFORE_SEND, FAILED_BEFORE_SEND]"

record cost_reservation =
  cr_request_id :: string
  cr_reservation_id :: string
  cr_reserved_usd :: decimal

record cost_entry =
  ce_request_id :: string
  ce_reservation_id :: string
  ce_status :: cost_entry_status
  ce_reserved_usd :: decimal
  ce_actual_cost_usd :: "decimal option"
  ce_accounted_cost_usd :: decimal
  ce_release_reason :: "release_reason option"
  ce_created_at :: int
  ce_updated_at :: int

type_synonym cost_entries = "(string, cost_entry) dict"

record cost_snapshot =
  cs_cap_usd :: decimal
  cs_spent_usd :: decimal
  cs_active_reserved_usd :: decimal
  cs_remaining_usd :: decimal
  cs_over_cap :: bool
  cs_has_reservation_overrun :: bool
  cs_entries :: "cost_entry list"

text \<open>
  A UTC timestamp is its number of microseconds; \<open>isoformat\<close> and \<open>fromisoformat\<close> are the
  \<open>datetime\<close> methods, the latter giving the instant and the UTC offset (\<open>None\<close> for a naive
  value).
\<close>

record iso_codec =
  isoformat :: "int \<Rightarrow> string"
  fromisoformat :: "string \<Rightarrow> (int \<times> int option) option"

record atomic_cost_ledger =
  al_cap_usd :: decimal
  al_lock :: bool
  al_disk :: "json option"

definition max_state_bytes :: nat where
  "max_state_bytes = 16 * 1024 * 1024"

definition default_prec :: nat where
  "default_prec = 28"

definition snapshot_prec :: nat where
  "snapshot_prec = 64"

section \<open>Money and identifiers\<close>

definition validate_request_id :: "string \<Rightarrow> (cost_error, unit) result" where
  "validate_request_id s =
     require (matches_ident ident_char 127 s)
       (CostLedgerConfigurationError
          ''request ID must be 1-128 restricted non-secret identifier characters'')"

definition validate_money :: "pydec \<Rightarrow> string \<Rightarrow> bool \<Rightarrow> (cost_error, decimal) result" where
  "validate_money value field positive =
     (let sign_error = CostLedgerConfigurationError
            (field @ '' must be a finite '' @ (if positive then ''positive'' else ''non-negative'')
             @ '' Decimal'')
      in case value of
           DFin d \<Rightarrow>
             if (if positive then dle d dzero else dlt d dzero) then Inl sign_error
             else let d = (if deq d dzero then dzero else d);
                      n = dnormalize default_prec d;
                      decimal_places = max 0 (- dexp n);
                      integer_digits = max 1 (int (ndigits (nat \<bar>mant n\<bar>)) + dexp n)
                  in if 18 < decimal_places \<or> 12 < integer_digits
                     then Inl (CostLedgerConfigurationError
                                 (field @ '' exceeds supported exact decimal bounds''))
                     else Inr d
         | _ \<Rightarrow> Inl sign_error)"

definition rstrip_char :: "char \<Rightarrow> string \<Rightarrow> string" where
  "rstrip_char c s = rev (dropWhile (\<lambda>x. x = c) (rev s))"

definition money_text :: "decimal \<Rightarrow> string" where
  "money_text d =
     (let material = format_f d;
          material = (if CHR ''.'' \<in> set material
                      then rstrip_char (CHR ''.'') (rstrip_char (CHR ''0'') material)
                      else material)
      in if material = [] then ''0'' else material)"

definition opt_deq :: "decimal option \<Rightarrow> decimal option \<Rightarrow> bool" where
  "opt_deq a b =
     (case (a, b) of (None, None) \<Rightarrow> True | (Some x, Some y) \<Rightarrow> deq x y | _ \<Rightarrow> False)"

section \<open>Persisted state\<close>

definition new_state :: "decimal \<Rightarrow> json" where
  "new_state cap =
     JObj [(''schema_version'', JInt 1), (''cap_usd'', JStr (money_text cap)), (''entries'', JObj [])]"

definition serialize_entry :: "iso_codec \<Rightarrow> cost_entry \<Rightarrow> json" where
  "serialize_entry tc e =
     JObj [(''request_id'', JStr (ce_request_id e)),
           (''reservation_id'', JStr (ce_reservation_id e)),
           (''status'', JStr (status_value (ce_status e))),
           (''reserved_usd'', JStr (money_text (ce_reserved_usd e))),
           (''actual_cost_usd'', opt_json (JStr \<circ> money_text) (ce_actual_cost_usd e)),
           (''accounted_cost_usd'', JStr (money_text (ce_accounted_cost_usd e))),
           (''release_reason'', opt_json (JStr \<circ> reason_value) (ce_release_reason e)),
           (''created_at'', JStr (isoformat tc (ce_created_at e))),
           (''updated_at'', JStr (isoformat tc (ce_updated_at e)))]"

definition serialize_state :: "iso_codec \<Rightarrow> decimal \<Rightarrow> cost_entries \<Rightarrow> json" where
  "serialize_state tc cap entries =
     JObj [(''schema_version'', JInt 1),
           (''cap_usd'', JStr (money_text cap)),
           (''entries'', JObj (map (\<lambda>(k, e). (k, serialize_entry tc e)) (sort_key fst entries)))]"

definition cost_entry_sha256 :: "(string \<Rightarrow> string) \<Rightarrow> iso_codec \<Rightarrow> cost_entry \<Rightarrow> string" where
  "cost_entry_sha256 sha256 tc e = sha256 (dumps (serialize_entry tc e))"

definition cost_ledger_snapshot_sha256 ::
    "(string \<Rightarrow> string) \<Rightarrow> iso_codec \<Rightarrow> cost_snapshot \<Rightarrow> string" where
  "cost_ledger_snapshot_sha256 sha256 tc s =
     sha256 (dumps (JObj
       [(''cap_usd'', JStr (money_text (cs_cap_usd s))),
        (''spent_usd'', JStr (money_text (cs_spent_usd s))),
        (''active_reserved_usd'', JStr (money_text (cs_active_reserved_usd s))),
        (''entries'', JArr (map (serialize_entry tc) (sort_key ce_request_id (cs_entries s))))]))"

fun string_value :: "json option \<Rightarrow> (cost_error, string) result" where
  "string_value (Some (JStr s)) = Inr s"
| "string_value _ = Inl (CostLedgerCorruptError ''cost ledger string field is invalid'')"

definition required_string :: "(string \<times> json) list \<Rightarrow> string \<Rightarrow> (cost_error, string) result" where
  "required_string value field = string_value (dict_get value field)"

definition entry_keys :: "string set" where
  "entry_keys = set [''request_id'', ''reservation_id'', ''status'', ''reserved_usd'',
     ''actual_cost_usd'', ''accounted_cost_usd'', ''release_reason'', ''created_at'', ''updated_at'']"

definition invalid_entry_value :: cost_error where
  "invalid_entry_value = CostLedgerCorruptError ''cost ledger entry value is invalid''"

text \<open>
  Inside the \<open>try\<close> block of \<open>_parse_entry\<close> a malformed decimal, enum or timestamp and a
  refused amount become one corruption error; a field that is no string keeps its own.
\<close>

fun wrap_entry_error :: "cost_error \<Rightarrow> cost_error" where
  "wrap_entry_error (CostLedgerConfigurationError m) = invalid_entry_value"
| "wrap_entry_error e = e"

definition parse_money_field :: "string \<Rightarrow> string \<Rightarrow> bool \<Rightarrow> (cost_error, decimal) result" where
  "parse_money_field text field positive =
     (case decimal_of_string text of
        None \<Rightarrow> Inl invalid_entry_value
      | Some v \<Rightarrow> catch_as wrap_entry_error (validate_money v field positive))"

definition parse_timestamp :: "iso_codec \<Rightarrow> string \<Rightarrow> (cost_error, int) result" where
  "parse_timestamp tc text =
     (case fromisoformat tc text of
        None \<Rightarrow> Inl invalid_entry_value
      | Some (t, offset) \<Rightarrow>
          if offset = Some 0 then Inr t
          else Inl (CostLedgerCorruptError ''cost ledger timestamps must use UTC''))"

definition enum_value :: "'a option \<Rightarrow> (cost_error, 'a) result" where
  "enum_value x = (case x of None \<Rightarrow> Inl invalid_entry_value | Some a \<Rightarrow> Inr a)"

definition optional_field ::
    "(string \<Rightarrow> (cost_error, 'a) result) \<Rightarrow> json option \<Rightarrow> (cost_error, 'a option) result" where
  "optional_field f v =
     (case v of None \<Rightarrow> Inr None | Some JNull \<Rightarrow> Inr None
      | Some w \<Rightarrow> rbind (string_value (Some w)) (\<lambda>s. rbind (f s) (\<lambda>a. Inr (Some a))))"

definition parse_entry :: "iso_codec \<Rightarrow> (string \<times> json) list \<Rightarrow> (cost_error, cost_entry) result" where
  "parse_entry tc value =
     rbind (require (set (dict_keys value) = entry_keys)
       (CostLedgerCorruptError ''cost ledger entry contains unexpected or missing fields'')) (\<lambda>_.
     rbind (required_string value ''request_id'') (\<lambda>request_id.
     rbind (catch_as (\<lambda>_. CostLedgerCorruptError ''cost ledger request ID is invalid'')
       (validate_request_id request_id)) (\<lambda>_.
     rbind (required_string value ''reservation_id'') (\<lambda>reservation_id.
     rbind (require (length reservation_id = 32 \<and> list_all is_hex reservation_id)
       (CostLedgerCorruptError ''cost ledger reservation ID is invalid'')) (\<lambda>_.
     rbind (required_string value ''status'') (\<lambda>s. rbind (enum_value (status_of_value s)) (\<lambda>status.
     rbind (required_string value ''reserved_usd'') (\<lambda>s.
     rbind (parse_money_field s ''reserved_usd'' True) (\<lambda>reserved.
     rbind (required_string value ''accounted_cost_usd'') (\<lambda>s.
     rbind (parse_money_field s ''accounted_cost_usd'' False) (\<lambda>accounted.
     rbind (optional_field (\<lambda>s. parse_money_field s ''actual_cost_usd'' False)
       (dict_get value ''actual_cost_usd'')) (\<lambda>actual.
     rbind (optional_field (\<lambda>s. enum_value (reason_of_value s))
       (dict_get value ''release_reason'')) (\<lambda>release_reason.
     rbind (required_string value ''created_at'') (\<lambda>s. rbind (parse_timestamp tc s) (\<lambda>created_at.
     rbind (required_string value ''updated_at'') (\<lambda>s. rbind (parse_timestamp tc s) (\<lambda>updated_at.
     rbind (require (created_at \<le> updated_at)
       (CostLedgerCorruptError ''cost ledger entry timestamp order is invalid'')) (\<lambda>_.
     Inr \<lparr>ce_request_id = request_id, ce_reservation_id = reservation_id, ce_status = status,
          ce_reserved_usd = reserved, ce_actual_cost_usd = actual,
          ce_accounted_cost_usd = accounted, ce_release_reason = release_reason,
          ce_created_at = created_at, ce_updated_at = updated_at\<rparr>))))))))))))))))))"

definition lifecycle_valid :: "cost_entry \<Rightarrow> bool" where
  "lifecycle_valid e =
     (case ce_status e of
        RESERVED \<Rightarrow> ce_actual_cost_usd e = None \<and> deq (ce_accounted_cost_usd e) dzero
          \<and> ce_release_reason e = None
      | RELEASED \<Rightarrow> ce_actual_cost_usd e = None \<and> deq (ce_accounted_cost_usd e) dzero
          \<and> ce_release_reason e \<noteq> None
      | UNCERTAIN_ACCOUNTED \<Rightarrow> ce_actual_cost_usd e = None
          \<and> deq (ce_accounted_cost_usd e) (ce_reserved_usd e) \<and> ce_release_reason e = None
      | RECONCILED \<Rightarrow>
          (case ce_actual_cost_usd e of None \<Rightarrow> False
           | Some a \<Rightarrow> dle a (ce_reserved_usd e) \<and> deq (ce_accounted_cost_usd e) a
               \<and> ce_release_reason e = None)
      | RESERVATION_OVERRUN \<Rightarrow>
          (case ce_actual_cost_usd e of None \<Rightarrow> False
           | Some a \<Rightarrow> dlt (ce_reserved_usd e) a \<and> deq (ce_accounted_cost_usd e) a
               \<and> ce_release_reason e = None))"

fun validate_lifecycle :: "cost_entries \<Rightarrow> (cost_error, unit) result" where
  "validate_lifecycle [] = Inr ()"
| "validate_lifecycle ((k, e) # rest) =
     (if lifecycle_valid e then validate_lifecycle rest
      else Inl (CostLedgerCorruptError
             (''cost ledger lifecycle state is inconsistent for '' @ ce_request_id e)))"

fun parse_entries ::
    "iso_codec \<Rightarrow> cost_entries \<Rightarrow> (string \<times> json) list \<Rightarrow> (cost_error, cost_entries) result" where
  "parse_entries tc entries [] = Inr entries"
| "parse_entries tc entries ((key, raw) # rest) =
     (if \<not> is_object raw then Inl (CostLedgerCorruptError ''cost ledger entry is invalid'')
      else rbind (parse_entry tc (json_fields raw)) (\<lambda>entry.
        if key \<noteq> ce_request_id entry \<or> dict_has entries key
        then Inl (CostLedgerCorruptError ''cost ledger entry key does not match its request ID'')
        else parse_entries tc (AList.update key entry entries) rest))"

definition validate_state :: "iso_codec \<Rightarrow> json \<Rightarrow> (cost_error, decimal \<times> cost_entries) result" where
  "validate_state tc v =
     (let value = json_fields v
      in if set (dict_keys value) \<noteq> {''schema_version'', ''cap_usd'', ''entries''}
         then Inl (CostLedgerCorruptError ''cost ledger contains unexpected or missing fields'')
         else if \<not> (case dict_get value ''schema_version'' of None \<Rightarrow> False | Some s \<Rightarrow> json_eq_int s 1)
         then Inl (CostLedgerCorruptError ''unsupported cost ledger schema version'')
         else rbind (required_string value ''cap_usd'') (\<lambda>text.
           rbind (catch_as (\<lambda>_. CostLedgerCorruptError ''cost ledger cap is invalid'')
                    (case decimal_of_string text of
                       None \<Rightarrow> Inl (CostLedgerCorruptError ''cost ledger cap is invalid'')
                     | Some c \<Rightarrow> validate_money c ''cap_usd'' True)) (\<lambda>cap.
           case dict_get value ''entries'' of
             Some (JObj raw_entries) \<Rightarrow>
               rbind (parse_entries tc [] raw_entries) (\<lambda>entries.
               rbind (validate_lifecycle entries) (\<lambda>_. Inr (cap, entries)))
           | _ \<Rightarrow> Inl (CostLedgerCorruptError ''cost ledger entries must be an object''))))"

fun unique_object ::
    "(string, json) dict \<Rightarrow> (string \<times> json) list \<Rightarrow> (cost_error, (string, json) dict) result" where
  "unique_object result [] = Inr result"
| "unique_object result ((key, value) # pairs) =
     (if dict_has result key
      then Inl (CostLedgerCorruptError ''cost ledger contains a duplicate JSON field'')
      else unique_object (AList.update key value result) pairs)"

definition snapshot_of :: "decimal \<Rightarrow> cost_entries \<Rightarrow> cost_snapshot" where
  "snapshot_of cap entries =
     (let spent = dsum snapshot_prec (map ce_accounted_cost_usd (dict_values entries));
          reserved = dsum snapshot_prec
            (map ce_reserved_usd (filter (\<lambda>e. ce_status e = RESERVED) (dict_values entries)));
          available = dsub snapshot_prec (dsub snapshot_prec cap spent) reserved
      in \<lparr>cs_cap_usd = cap, cs_spent_usd = spent, cs_active_reserved_usd = reserved,
          cs_remaining_usd = dmax dzero available, cs_over_cap = dlt available dzero,
          cs_has_reservation_overrun =
            list_ex (\<lambda>e. ce_status e = RESERVATION_OVERRUN) (dict_values entries),
          cs_entries = dict_values (sort_key fst entries)\<rparr>)"

definition matching_entry :: "cost_entries \<Rightarrow> cost_reservation \<Rightarrow> (cost_error, cost_entry) result" where
  "matching_entry entries reservation =
     rbind (validate_request_id (cr_request_id reservation)) (\<lambda>_.
     rbind (validate_money (DFin (cr_reserved_usd reservation)) ''reserved_usd'' True) (\<lambda>expected_cost.
     case dict_get entries (cr_request_id reservation) of
       None \<Rightarrow> Inl (CostReservationStateError (''unknown request ID: '' @ cr_request_id reservation))
     | Some current \<Rightarrow>
         if ce_reservation_id current \<noteq> cr_reservation_id reservation
            \<or> \<not> deq (ce_reserved_usd current) expected_cost
         then Inl (CostReservationStateError
                (''reservation handle does not match request '' @ cr_request_id reservation))
         else Inr current))"

definition as_reservation :: "cost_entry \<Rightarrow> (cost_error, cost_reservation) result" where
  "as_reservation e =
     (if ce_status e \<noteq> RESERVED
      then Inl (CostReservationStateError
             (''request '' @ ce_request_id e @ '' does not have an active reservation''))
      else Inr \<lparr>cr_request_id = ce_request_id e, cr_reservation_id = ce_reservation_id e,
                cr_reserved_usd = ce_reserved_usd e\<rparr>)"

section \<open>Operations\<close>

definition read_state :: "atomic_cost_ledger \<Rightarrow> (cost_error, json option) result" where
  "read_state led =
     (case al_disk led of
        None \<Rightarrow> Inr None
      | Some v \<Rightarrow>
          if max_state_bytes < length (dumps v) + 1
          then Inl (CostLedgerCorruptError ''cost ledger exceeds the bounded state size'')
          else if \<not> is_object v
          then Inl (CostLedgerCorruptError ''cost ledger root must be an object'')
          else Inr (Some v))"

definition write_state :: "atomic_cost_ledger \<Rightarrow> json \<Rightarrow> atomic_cost_ledger" where
  "write_state led v = led\<lparr>al_disk := Some (sort_keys v)\<rparr>"

definition required_state :: "iso_codec \<Rightarrow> atomic_cost_ledger \<Rightarrow> (cost_error, json) result" where
  "required_state tc led =
     rbind (read_state led) (\<lambda>state.
     case state of
       None \<Rightarrow> Inl (CostLedgerCorruptError ''cost ledger disappeared after initialization'')
     | Some v \<Rightarrow>
         rbind (validate_state tc v) (\<lambda>(persisted_cap, _).
         if \<not> deq persisted_cap (al_cap_usd led)
         then Inl (CostLedgerConfigurationError
                ''configured cost cap does not match the existing ledger'')
         else Inr v))"

text \<open>The validated entries every locked operation starts from.\<close>

definition load_entries :: "iso_codec \<Rightarrow> atomic_cost_ledger \<Rightarrow> (cost_error, cost_entries) result" where
  "load_entries tc led =
     rbind (required_state tc led) (\<lambda>v. rbind (validate_state tc v) (\<lambda>(_, entries). Inr entries))"

definition store_entries :: "iso_codec \<Rightarrow> atomic_cost_ledger \<Rightarrow> cost_entries \<Rightarrow> atomic_cost_ledger" where
  "store_entries tc led entries = write_state led (serialize_state tc (al_cap_usd led) entries)"

datatype open_mode = INITIALIZE | OPEN_EXISTING

text \<open>
  Opening the ledger: \<open>lock\<close> and \<open>disk\<close> are what exists on the file system. Without
  \<open>INITIALIZE\<close> a missing lock or ledger file is refused, never recreated.
\<close>

definition open_ledger ::
    "iso_codec \<Rightarrow> open_mode \<Rightarrow> bool \<Rightarrow> json option \<Rightarrow> pydec \<Rightarrow> (cost_error, atomic_cost_ledger) result"
where
  "open_ledger tc mode lock disk cap_usd =
     rbind (validate_money cap_usd ''cap_usd'' True) (\<lambda>cap.
     let led = \<lparr>al_cap_usd = cap, al_lock = True, al_disk = disk\<rparr>
     in if mode = INITIALIZE \<and> (disk \<noteq> None \<or> lock)
        then Inl (CostLedgerConfigurationError
               ''cost ledger or lock already exists; initialization is one-time'')
        else if mode = OPEN_EXISTING \<and> \<not> lock
        then Inl (CostLedgerConfigurationError
               ''existing cost ledger lock file is missing or unavailable'')
        else rbind (read_state led) (\<lambda>state.
          if mode = INITIALIZE then
            (if state \<noteq> None
             then Inl (CostLedgerConfigurationError ''cost ledger appeared during initialization'')
             else Inr (write_state led (new_state cap)))
          else case state of
            None \<Rightarrow> Inl (CostLedgerConfigurationError
                ''existing cost ledger is missing; explicit initialization is required'')
          | Some v \<Rightarrow>
              rbind (validate_state tc v) (\<lambda>(persisted_cap, _).
              if \<not> deq persisted_cap cap
              then Inl (CostLedgerConfigurationError
                     ''configured cost cap does not match the existing ledger'')
              else Inr led)))"

type_synonym 'a ledger_op = "atomic_cost_ledger \<Rightarrow> (cost_error, 'a) result \<times> atomic_cost_ledger"

definition reserved_entry :: "string \<Rightarrow> string \<Rightarrow> decimal \<Rightarrow> int \<Rightarrow> cost_entry" where
  "reserved_entry request_id reservation_id requested now =
     \<lparr>ce_request_id = request_id, ce_reservation_id = reservation_id, ce_status = RESERVED,
      ce_reserved_usd = requested, ce_actual_cost_usd = None, ce_accounted_cost_usd = dzero,
      ce_release_reason = None, ce_created_at = now, ce_updated_at = now\<rparr>"

text \<open>The checks of \<open>reserve\<close>: the validated amount and the entries it may be added to.\<close>

definition reserve_checks ::
    "iso_codec \<Rightarrow> string \<Rightarrow> pydec \<Rightarrow> atomic_cost_ledger \<Rightarrow> (cost_error, decimal \<times> cost_entries) result"
where
  "reserve_checks tc request_id maximum_cost_usd led =
     rbind (validate_request_id request_id) (\<lambda>_.
     rbind (validate_money maximum_cost_usd ''maximum_cost_usd'' True) (\<lambda>requested.
     rbind (load_entries tc led) (\<lambda>entries.
     if dict_has entries request_id
     then Inl (CostReservationStateError (''request ID already recorded: '' @ request_id))
     else let snapshot = snapshot_of (al_cap_usd led) entries
     in if cs_has_reservation_overrun snapshot
        then Inl (CostBudgetExceededError
               ''a prior provider cost exceeded its reservation; further calls are blocked'')
        else if dlt (cs_remaining_usd snapshot) requested
        then Inl (CostBudgetExceededError
               (''request '' @ request_id @ '' exceeds the remaining model-cost budget''))
        else Inr (requested, entries))))"

definition ledger_reserve ::
    "iso_codec \<Rightarrow> int \<Rightarrow> string \<Rightarrow> string \<Rightarrow> pydec \<Rightarrow> cost_reservation ledger_op" where
  "ledger_reserve tc now reservation_id request_id maximum_cost_usd led =
     (case reserve_checks tc request_id maximum_cost_usd led of
        Inl e \<Rightarrow> (Inl e, led)
      | Inr (requested, entries) \<Rightarrow>
          (Inr \<lparr>cr_request_id = request_id, cr_reservation_id = reservation_id,
                cr_reserved_usd = requested\<rparr>,
           store_entries tc led
             (AList.update request_id
                (reserved_entry request_id reservation_id requested now) entries)))"

definition overrun_error :: "string \<Rightarrow> cost_error" where
  "overrun_error request_id =
     CostReservationOverrunError
       (''actual cost for '' @ request_id @ '' exceeded its maximum reservation'')"

definition settle_status :: "cost_reservation \<Rightarrow> decimal option \<Rightarrow> cost_entry_status" where
  "settle_status reservation actual =
     (case actual of None \<Rightarrow> UNCERTAIN_ACCOUNTED
      | Some a \<Rightarrow> if dlt (cr_reserved_usd reservation) a then RESERVATION_OVERRUN else RECONCILED)"

definition settle_cost :: "cost_reservation \<Rightarrow> decimal option \<Rightarrow> decimal" where
  "settle_cost reservation actual =
     (case actual of None \<Rightarrow> cr_reserved_usd reservation | Some a \<Rightarrow> a)"

definition validate_actual :: "pydec option \<Rightarrow> (cost_error, decimal option) result" where
  "validate_actual actual_cost_usd =
     (case actual_cost_usd of None \<Rightarrow> Inr None
      | Some v \<Rightarrow> rbind (validate_money v ''actual_cost_usd'' False) (\<lambda>a. Inr (Some a)))"

definition ledger_reconcile ::
    "iso_codec \<Rightarrow> int \<Rightarrow> cost_reservation \<Rightarrow> pydec option \<Rightarrow> cost_entry ledger_op" where
  "ledger_reconcile tc now reservation actual_cost_usd led =
     (case validate_actual actual_cost_usd of
        Inl e \<Rightarrow> (Inl e, led)
      | Inr actual \<Rightarrow>
          case rbind (load_entries tc led) (\<lambda>entries.
                 rbind (matching_entry entries reservation) (\<lambda>c. Inr (entries, c))) of
            Inl e \<Rightarrow> (Inl e, led)
          | Inr (entries, current) \<Rightarrow>
              if ce_status current \<noteq> RESERVED then
                (if ce_status current = settle_status reservation actual
                    \<and> opt_deq (ce_actual_cost_usd current) actual
                    \<and> deq (ce_accounted_cost_usd current) (settle_cost reservation actual)
                 then (if ce_status current = RESERVATION_OVERRUN
                       then (Inl (overrun_error (cr_request_id reservation)), led)
                       else (Inr current, led))
                 else (Inl (CostReservationStateError
                         (''request '' @ cr_request_id reservation @ '' was already finalized'')),
                       led))
              else let updated = current\<lparr>ce_status := settle_status reservation actual,
                           ce_actual_cost_usd := actual,
                           ce_accounted_cost_usd := settle_cost reservation actual,
                           ce_release_reason := None, ce_updated_at := now\<rparr>;
                       led' = store_entries tc led
                           (AList.update (ce_request_id current) updated entries)
                   in (if settle_status reservation actual = RESERVATION_OVERRUN
                       then Inl (overrun_error (cr_request_id reservation))
                       else Inr updated, led'))"

definition ledger_release ::
    "iso_codec \<Rightarrow> int \<Rightarrow> cost_reservation \<Rightarrow> release_reason \<Rightarrow> cost_entry ledger_op" where
  "ledger_release tc now reservation reason led =
     (case rbind (load_entries tc led) (\<lambda>entries.
             rbind (matching_entry entries reservation) (\<lambda>c. Inr (entries, c))) of
        Inl e \<Rightarrow> (Inl e, led)
      | Inr (entries, current) \<Rightarrow>
          if ce_status current = RELEASED then
            (if ce_release_reason current = Some reason then (Inr current, led)
             else (Inl (CostReservationStateError
                     (''request '' @ cr_request_id reservation
                      @ '' was released for a different reason'')), led))
          else if ce_status current \<noteq> RESERVED then
            (Inl (CostReservationStateError
               (''request '' @ cr_request_id reservation @ '' was already finalized'')), led)
          else let updated = current\<lparr>ce_status := RELEASED, ce_actual_cost_usd := None,
                       ce_accounted_cost_usd := dzero, ce_release_reason := Some reason,
                       ce_updated_at := now\<rparr>
               in (Inr updated,
                   store_entries tc led (AList.update (ce_request_id current) updated entries)))"

definition active_reservation ::
    "iso_codec \<Rightarrow> string \<Rightarrow> atomic_cost_ledger \<Rightarrow> (cost_error, cost_reservation option) result" where
  "active_reservation tc request_id led =
     rbind (validate_request_id request_id) (\<lambda>_.
     rbind (load_entries tc led) (\<lambda>entries.
     case dict_get entries request_id of
       None \<Rightarrow> Inr None
     | Some entry \<Rightarrow>
         if ce_status entry \<noteq> RESERVED then Inr None
         else rbind (as_reservation entry) (\<lambda>r. Inr (Some r))))"

definition ledger_snapshot ::
    "iso_codec \<Rightarrow> atomic_cost_ledger \<Rightarrow> (cost_error, cost_snapshot) result" where
  "ledger_snapshot tc led =
     rbind (load_entries tc led) (\<lambda>entries. Inr (snapshot_of (al_cap_usd led) entries))"

end
