(* ===== verification/Ledger_File.thy ===== *)
theory Ledger_File
  imports Cost_Ledger
begin

text \<open>
  The persisted form of the cost ledger: which amounts the ledger accepts, that an amount, an
  entry and a whole state written by \<open>serialize_state\<close> are read back by \<open>validate_state\<close> with the
  same values, and that whatever \<open>validate_state\<close> accepts is well formed.
\<close>

section \<open>Accepted amounts\<close>

lemma default_prec_pos [simp]: "0 < default_prec"
  by (simp add: default_prec_def)

definition money_in_bounds :: "decimal \<Rightarrow> bool" where
  "money_in_bounds d \<longleftrightarrow>
     - dexp (dnormalize default_prec d) \<le> 18 \<and> adjusted (dnormalize default_prec d) \<le> 12"

lemma max_le_numeral: "\<not> (18::int) < max 0 x \<longleftrightarrow> x \<le> 18" "\<not> (12::int) < max 1 y \<longleftrightarrow> y \<le> 12"
  by auto

lemma if_if_Inr_iff:
  "(if a then Inl x else if b then Inl y else Inr c) = Inr r \<longleftrightarrow> \<not> a \<and> \<not> b \<and> r = c"
  by auto

lemma validate_money_iff:
  "validate_money (DFin d) field positive = Inr r \<longleftrightarrow>
     r = (if val d = 0 then dzero else d) \<and> (if positive then 0 < val d else 0 \<le> val d)
     \<and> money_in_bounds r"
proof -
  define f where "f = (if val d = 0 then dzero else d)"
  define n where "n = dnormalize default_prec f"
  define a where "a = adjusted n"
  have "validate_money (DFin d) field positive = Inr r \<longleftrightarrow>
     \<not> (if positive then val d \<le> 0 else val d < 0)
     \<and> \<not> (18 < max 0 (- dexp n) \<or> 12 < max 1 a) \<and> r = f"
    unfolding validate_money_def Let_def pydec.case dcmp_iff val_dzero f_def n_def a_def adjusted_def
    by (rule if_if_Inr_iff)
  moreover have "money_in_bounds f \<longleftrightarrow> - dexp n \<le> 18 \<and> a \<le> 12"
    by (simp only: money_in_bounds_def n_def a_def)
  ultimately show ?thesis
    unfolding de_Morgan_disj max_le_numeral f_def [symmetric] by (cases positive) auto
qed

lemma money_in_bounds_cong: "val a = val b \<Longrightarrow> money_in_bounds a \<longleftrightarrow> money_in_bounds b"
  unfolding money_in_bounds_def using dnormalize_cong [of default_prec a b] by simp

lemma money_in_bounds_less:
  assumes "money_in_bounds d"
  shows "val d < 10 ^ 12"
proof (cases "mant d = 0")
  case False
  have "\<bar>val d\<bar> < 10 powi adjusted d" by (rule val_less_adjusted)
  also have "\<dots> \<le> 10 powi 12"
  proof (rule power_int_increasing)
    have "adjusted d \<le> adjusted (dnormalize default_prec d)"
      using False by (intro adjusted_dnormalize) simp
    then show "adjusted d \<le> 12" using assms unfolding money_in_bounds_def by linarith
  qed simp_all
  finally show ?thesis by simp
qed (simp add: val_def)

text \<open>
  With at most 28 significant digits the context rounding of \<open>normalize\<close> is the identity,
  and an accepted amount has at most 18 decimal places.
\<close>

lemma dstrip_exp_ge:
  "(m::int) \<noteq> 0 \<Longrightarrow> dexp (dstrip m e) \<ge> - int k \<Longrightarrow> on_grid k (Dec m e)"
proof -
  assume "dexp (dstrip m e) \<ge> - int k"
  then have "on_grid k (dstrip m e)" by (rule on_gridI)
  moreover have "val (dstrip m e) = val (Dec m e)" by (simp add: val_dstrip)
  ultimately show ?thesis using on_grid_cong by blast
qed

lemma money_in_bounds_on_grid:
  assumes "money_in_bounds d" and "ndigits (nat \<bar>mant d\<bar>) \<le> default_prec"
  shows "on_grid 18 d"
proof (cases "mant d = 0")
  case True
  then show ?thesis by (auto simp: on_grid_def val_def intro: exI [of _ 0])
next
  case False
  have "dnormalize default_prec d = dstrip (mant d) (dexp d)"
    using assms(2) by (simp add: dnormalize_def)
  then have "dexp (dstrip (mant d) (dexp d)) \<ge> - int 18"
    using assms(1) by (simp add: money_in_bounds_def)
  with False have "on_grid 18 (Dec (mant d) (dexp d))" by (intro dstrip_exp_ge)
  then show ?thesis by simp
qed

section \<open>Amounts survive the file\<close>

lemma rstrip_append_not: "c \<notin> set ys \<Longrightarrow> ys \<noteq> [] \<Longrightarrow> rstrip_char c (xs @ ys) = xs @ ys"
  by (cases ys rule: rev_cases) (auto simp: rstrip_char_def)

lemma rstrip_char_split: "\<exists>n. s = rstrip_char c s @ replicate n c"
proof -
  have "rev s = takeWhile (\<lambda>x. x = c) (rev s) @ dropWhile (\<lambda>x. x = c) (rev s)" by simp
  moreover have "takeWhile (\<lambda>x. x = c) (rev s) = replicate (length (takeWhile (\<lambda>x. x = c) (rev s))) c"
    by (rule replicate_eqI) (auto dest: set_takeWhileD)
  ultimately have "s = rstrip_char c s @ replicate (length (takeWhile (\<lambda>x. x = c) (rev s))) c"
    unfolding rstrip_char_def by (metis rev_append rev_replicate rev_rev_ident)
  then show ?thesis by blast
qed

lemma rstrip_point:
  assumes "list_all is_digit W" "W \<noteq> []" "list_all is_digit F" "F \<noteq> []"
  shows "rstrip_char (CHR ''.'') (rstrip_char (CHR ''0'') (W @ CHR ''.'' # F))
    = plain W (rstrip_char (CHR ''0'') F)"
proof -
  let ?G = "rstrip_char (CHR ''0'') F"
  have dig: "CHR ''.'' \<notin> set W" "CHR ''.'' \<notin> set F" using assms by (auto simp: list_all_iff)
  have tail: "rstrip_char (CHR ''0'') (xs @ CHR ''.'' # F) = xs @ CHR ''.'' # ?G" for xs
    by (auto simp: rstrip_char_def dropWhile_append)
  show ?thesis
  proof (cases "?G = []")
    case True
    have "rstrip_char (CHR ''.'') (W @ [CHR ''.'']) = rstrip_char (CHR ''.'') W"
      by (simp add: rstrip_char_def)
    also have "\<dots> = W" using rstrip_append_not [of "CHR ''.''" W "[]"] dig assms by simp
    finally show ?thesis using True tail [of W] by (simp add: plain_def)
  next
    case False
    have "set ?G \<subseteq> set F"
      using rstrip_char_split [of F "CHR ''0''"] by (metis Un_upper1 set_append)
    then have "CHR ''.'' \<notin> set ?G" using dig by auto
    then have "rstrip_char (CHR ''.'') ((W @ [CHR ''.'']) @ ?G) = (W @ [CHR ''.'']) @ ?G"
      using False by (rule rstrip_append_not)
    then show ?thesis using False tail [of W] by (simp add: plain_def)
  qed
qed

lemma val_plain_zeros:
  "val (Dec (int (digits_value 0 (W @ G @ replicate n (CHR ''0'')))) (- int (length G + n)))
     = val (Dec (int (digits_value 0 (W @ G))) (- int (length G)))"
  by (simp add: digits_value_append power_int_diff power_int_minus field_simps)

lemma length_digit_string: "length (digit_string n) = ndigits n"
proof (induction n rule: digit_string.induct)
  case (1 n)
  then show ?case by (subst digit_string.simps, subst ndigits.simps) simp
qed

lemma digit_string_zero_pad: "list_all is_digit (replicate n (CHR ''0''))"
  by (simp add: list_all_iff is_digit_def code_def)

lemma money_text_shape:
  assumes "0 \<le> mant d"
  obtains W F where "money_text d = plain W F" "W \<noteq> []" "list_all is_digit W" "list_all is_digit F"
    "val (Dec (int (digits_value 0 (W @ F))) (- int (length F))) = val d"
proof (cases "0 \<le> dexp d")
  case True
  let ?W = "digit_string (nat \<bar>mant d\<bar> * 10 ^ nat (dexp d))"
  have "CHR ''.'' \<notin> set ?W" using digit_string_digits by (metis list_all_iff point_class(2))
  then have "money_text d = plain ?W []"
    using True assms by (simp add: money_text_def format_f_def Let_def plain_def)
  moreover have "val (Dec (int (digits_value 0 (?W @ []))) (- int (length []))) = val d"
    using True assms by (simp add: val_def power_int_def)
  ultimately show ?thesis using that [of ?W "[]"] by simp
next
  case False
  define k where "k = nat (- dexp d)"
  define n where "n = nat \<bar>mant d\<bar>"
  let ?W = "digit_string (n div 10 ^ k)"
  let ?f = "digit_string (n mod 10 ^ k)"
  let ?F = "replicate (k - length ?f) (CHR ''0'') @ ?f"
  have k: "0 < k" "dexp d = - int k" using False by (simp_all add: k_def)
  have F: "list_all is_digit ?F" "?F \<noteq> []" by (simp_all add: digit_string_zero_pad)
  have "n mod 10 ^ k < 10 ^ k" by simp
  then have "length ?f \<le> k" using k(1) by (simp only: length_digit_string ndigits_le_iff)
  then have len: "length ?F = k" by simp
  have "format_f d = ?W @ CHR ''.'' # ?F"
    using False assms by (simp add: format_f_def Let_def k_def n_def)
  then have mt: "money_text d = plain ?W (rstrip_char (CHR ''0'') ?F)"
    using rstrip_point [of ?W ?F] F by (simp add: money_text_def Let_def) (simp add: plain_def)
  obtain j where j: "?F = rstrip_char (CHR ''0'') ?F @ replicate j (CHR ''0'')"
    using rstrip_char_split by blast
  let ?G = "rstrip_char (CHR ''0'') ?F"
  have lenG: "length ?G + j = k" using len j by (metis length_append length_replicate)
  have "val (Dec (int (digits_value 0 (?W @ ?G))) (- int (length ?G)))
    = val (Dec (int (digits_value 0 (?W @ ?F))) (- int k))"
    using val_plain_zeros [of ?W ?G j] lenG j by (metis of_nat_add)
  also have "digits_value 0 (?W @ ?F) = n div 10 ^ k * 10 ^ k + n mod 10 ^ k"
    using digits_value_acc [of "n div 10 ^ k" ?F] len
    by (simp only: digits_value_append digits_value_digit_string digits_value_zeros) simp
  also have "\<dots> = n" by (rule div_mult_mod_eq)
  also have "val (Dec (int n) (- int k)) = val d" using k assms by (simp add: n_def val_def)
  finally have v: "val (Dec (int (digits_value 0 (?W @ ?G))) (- int (length ?G))) = val d" .
  have "list_all is_digit ?G" using F(1) j by (metis list_all_append)
  then show ?thesis using that [OF mt _ _ _ v] by simp
qed

definition canon_money :: "decimal \<Rightarrow> decimal" where
  "canon_money d =
     (if deq d dzero then dzero
      else case decimal_of_string (money_text d) of Some (DFin x) \<Rightarrow> x | _ \<Rightarrow> d)"

definition money_ok :: "bool \<Rightarrow> decimal \<Rightarrow> bool" where
  "money_ok positive d \<longleftrightarrow> (if positive then 0 < val d else 0 \<le> val d) \<and> money_in_bounds d"

lemma money_ok_nonneg: "money_ok positive d \<Longrightarrow> 0 \<le> val d"
  by (auto simp: money_ok_def split: if_splits)

lemma money_ok_zero: "money_ok False dzero"
  by (simp add: money_ok_def money_in_bounds_def dnormalize_def dround_zero dzero_def dstrip.simps
      adjusted_def ndigits.simps)

lemma validate_money_ok: "validate_money (DFin d) field positive = Inr r \<Longrightarrow> money_ok positive r \<and> val r = val d"
  by (auto simp: validate_money_iff money_ok_def)

lemma canon_money_read:
  assumes "0 \<le> val d"
  shows "val (canon_money d) = val d"
    "\<exists>x. decimal_of_string (money_text d) = Some (DFin x) \<and> val x = val d
       \<and> canon_money d = (if val x = 0 then dzero else x)"
proof -
  have "0 \<le> mant d"
  proof (rule ccontr)
    assume "\<not> 0 \<le> mant d"
    then have "of_int (mant d) < (0::rat)" by simp
    then have "val d < 0" unfolding val_def by (rule mult_neg_pos) simp
    with assms show False by simp
  qed
  then obtain W F where "money_text d = plain W F" "W \<noteq> []" "list_all is_digit W" "list_all is_digit F"
    and v: "val (Dec (int (digits_value 0 (W @ F))) (- int (length F))) = val d"
    by (rule money_text_shape)
  then have x: "decimal_of_string (money_text d)
      = Some (DFin (Dec (int (digits_value 0 (W @ F))) (- int (length F))))"
    by (metis decimal_of_plain)
  show "\<exists>x. decimal_of_string (money_text d) = Some (DFin x) \<and> val x = val d
       \<and> canon_money d = (if val x = 0 then dzero else x)"
    using x v by (auto simp: canon_money_def deq_iff simp del: val_Dec)
  then show "val (canon_money d) = val d" by auto
qed

lemma money_ok_cong: "val a = val b \<Longrightarrow> money_ok p a \<longleftrightarrow> money_ok p b"
  using money_in_bounds_cong [of a b] by (simp add: money_ok_def)

lemma money_ok_canon: "money_ok p d \<Longrightarrow> money_ok p (canon_money d)"
  using canon_money_read(1) [of d] money_ok_cong [of d "canon_money d" p] money_ok_nonneg by metis

lemma validate_money_text:
  assumes "money_ok positive d"
  shows "\<exists>x. decimal_of_string (money_text d) = Some x \<and> validate_money x field positive = Inr (canon_money d)"
proof -
  obtain x where x: "decimal_of_string (money_text d) = Some (DFin x)" "val x = val d"
    "canon_money d = (if val x = 0 then dzero else x)"
    using canon_money_read(2) money_ok_nonneg [OF assms] by blast
  have "validate_money (DFin x) field positive = Inr (canon_money d)"
    using money_ok_canon [OF assms] assms x by (auto simp: validate_money_iff money_ok_def)
  with x(1) show ?thesis by blast
qed

lemma parse_money_text: "money_ok positive d \<Longrightarrow> parse_money_field (money_text d) field positive = Inr (canon_money d)"
  using validate_money_text [of positive d field] by (auto simp: parse_money_field_def)

section \<open>Entries survive the file\<close>

definition canon_entry :: "cost_entry \<Rightarrow> cost_entry" where
  "canon_entry e = e\<lparr>ce_reserved_usd := canon_money (ce_reserved_usd e),
     ce_actual_cost_usd := map_option canon_money (ce_actual_cost_usd e),
     ce_accounted_cost_usd := canon_money (ce_accounted_cost_usd e)\<rparr>"

text \<open>The instants a \<open>datetime\<close> can hold, in microseconds from the first of them.\<close>

definition valid_instant :: "int \<Rightarrow> bool" where
  "valid_instant t \<longleftrightarrow> 0 \<le> t \<and> t < 315537897600000000"

definition entry_wf :: "cost_entry \<Rightarrow> bool" where
  "entry_wf e \<longleftrightarrow>
     matches_ident ident_char 127 (ce_request_id e)
     \<and> length (ce_reservation_id e) = 32 \<and> list_all is_hex (ce_reservation_id e)
     \<and> money_ok True (ce_reserved_usd e) \<and> money_ok False (ce_accounted_cost_usd e)
     \<and> (case ce_actual_cost_usd e of None \<Rightarrow> True | Some a \<Rightarrow> money_ok False a)
     \<and> valid_instant (ce_created_at e) \<and> valid_instant (ce_updated_at e)
     \<and> ce_created_at e \<le> ce_updated_at e \<and> lifecycle_valid e"

definition entries_wf :: "cost_entries \<Rightarrow> bool" where
  "entries_wf entries \<longleftrightarrow>
     distinct (dict_keys entries) \<and> (\<forall>(k, e) \<in> set entries. k = ce_request_id e \<and> entry_wf e)"

text \<open>
  What the ledger relies on of \<open>datetime\<close>: the text of a UTC instant reads back as that instant
  with offset zero, and every instant read is a representable one.
\<close>

definition codec_ok :: "iso_codec \<Rightarrow> bool" where
  "codec_ok tc \<longleftrightarrow>
     (\<forall>t. valid_instant t \<longrightarrow> fromisoformat tc (isoformat tc t) = Some (t, Some 0))
     \<and> (\<forall>s t off. fromisoformat tc s = Some (t, off) \<longrightarrow> valid_instant t)"

definition digits_codec :: iso_codec where
  "digits_codec =
     \<lparr>isoformat = int_string,
      fromisoformat = (\<lambda>s. let t = int (digits_value 0 s)
         in if s \<noteq> [] \<and> list_all is_digit s \<and> valid_instant t then Some (t, Some 0) else None)\<rparr>"

lemma digits_codec_ok: "codec_ok digits_codec"
  by (auto simp: codec_ok_def digits_codec_def Let_def int_string_def valid_instant_def
      split: if_splits)

lemma enum_value_Some [simp]: "enum_value (Some a) = Inr a"
  by (simp add: enum_value_def)

lemma status_of_value_status [simp]: "status_of_value (status_value s) = Some s"
  by (cases s) (simp_all add: status_of_value_def)

lemma reason_of_value_reason [simp]: "reason_of_value (reason_value r) = Some r"
  by (cases r) (simp_all add: reason_of_value_def)

lemma parse_entry_cong:
  "set (dict_keys a) = set (dict_keys b) \<Longrightarrow> dict_get a = dict_get b \<Longrightarrow>
     parse_entry tc a = parse_entry tc b"
  by (simp add: parse_entry_def required_string_def)

lemma parse_timestamp_iso: "codec_ok tc \<Longrightarrow> valid_instant t \<Longrightarrow> parse_timestamp tc (isoformat tc t) = Inr t"
  by (simp add: parse_timestamp_def codec_ok_def)

lemma parse_optional_money:
  "(case a of None \<Rightarrow> True | Some d \<Rightarrow> money_ok False d) \<Longrightarrow>
     optional_field (\<lambda>s. parse_money_field s field False) (Some (opt_json (JStr \<circ> money_text) a))
       = Inr (map_option canon_money a)"
  by (cases a) (simp_all add: optional_field_def opt_json_def parse_money_text)

lemma parse_optional_reason:
  "optional_field (\<lambda>s. enum_value (reason_of_value s)) (Some (opt_json (JStr \<circ> reason_value) r)) = Inr r"
  by (cases r) (simp_all add: optional_field_def opt_json_def)

lemma parse_serialized_entry:
  assumes "codec_ok tc" "entry_wf e"
  shows "parse_entry tc (json_fields (serialize_entry tc e)) = Inr (canon_entry e)"
  using assms
  by (cases e) (simp add: parse_entry_def serialize_entry_def entry_keys_def required_string_def
      entry_wf_def validate_request_id_def parse_money_text parse_optional_money
      parse_optional_reason parse_timestamp_iso canon_entry_def catch_as_def insert_commute)

lemma sort_keys_serialize_entry:
  "set (dict_keys (json_fields (sort_keys (serialize_entry tc e))))
     = set (dict_keys (json_fields (serialize_entry tc e)))"
  "dict_get (json_fields (sort_keys (serialize_entry tc e)))
     = dict_get (json_fields (serialize_entry tc e))"
proof -
  obtain kvs where s: "serialize_entry tc e = JObj kvs" and d: "distinct (map fst kvs)"
    and id: "\<And>k v. (k, v) \<in> set kvs \<Longrightarrow> sort_keys v = v"
    by (rule that [of "json_fields (serialize_entry tc e)"])
      (auto simp: serialize_entry_def opt_json_def split: option.splits)
  have m: "map (\<lambda>(k, v). (k, sort_keys v)) kvs = kvs"
    by (rule map_idI) (auto dest: id)
  show "set (dict_keys (json_fields (sort_keys (serialize_entry tc e))))
     = set (dict_keys (json_fields (serialize_entry tc e)))" by (simp add: s m)
  show "dict_get (json_fields (sort_keys (serialize_entry tc e)))
     = dict_get (json_fields (serialize_entry tc e))" using d by (simp add: s m dict_get_sort)
qed

lemma parse_stored_entry:
  "codec_ok tc \<Longrightarrow> entry_wf e \<Longrightarrow>
     parse_entry tc (json_fields (sort_keys (serialize_entry tc e))) = Inr (canon_entry e)"
  using parse_entry_cong [OF sort_keys_serialize_entry] parse_serialized_entry by metis

lemma dict_update_new: "\<not> dict_has d k \<Longrightarrow> AList.update k v d = d @ [(k, v)]"
  by (induction d) auto

lemma parse_entries_append:
  assumes "codec_ok tc" "distinct (dict_keys acc @ dict_keys entries)"
    and "\<And>k e. (k, e) \<in> set entries \<Longrightarrow> k = ce_request_id e \<and> entry_wf e"
  shows "parse_entries tc acc (map (\<lambda>(k, e). (k, sort_keys (serialize_entry tc e))) entries)
    = Inr (acc @ map (\<lambda>(k, e). (k, canon_entry e)) entries)"
  using assms(2,3)
proof (induction entries arbitrary: acc)
  case (Cons p entries)
  obtain k e where p: "p = (k, e)" by (cases p)
  have ke: "k = ce_request_id e" "entry_wf e" using Cons.prems(2) [of k e] p by simp_all
  have obj: "is_object (sort_keys (serialize_entry tc e))" by (simp add: serialize_entry_def)
  have cid: "ce_request_id (canon_entry e) = ce_request_id e" by (simp add: canon_entry_def)
  have new: "\<not> dict_has acc k" using Cons.prems(1) p by auto
  have "parse_entries tc (acc @ [(k, canon_entry e)])
      (map (\<lambda>(k, e). (k, sort_keys (serialize_entry tc e))) entries)
    = Inr ((acc @ [(k, canon_entry e)]) @ map (\<lambda>(k, e). (k, canon_entry e)) entries)"
  proof (rule Cons.IH)
    show "distinct (dict_keys (acc @ [(k, canon_entry e)]) @ dict_keys entries)"
      using Cons.prems(1) p by auto
    show "\<And>k e. (k, e) \<in> set entries \<Longrightarrow> k = ce_request_id e \<and> entry_wf e"
      using Cons.prems(2) by (meson list.set_intros(2))
  qed
  moreover have "parse_entries tc acc ((k, sort_keys (serialize_entry tc e)) # rest)
      = parse_entries tc (acc @ [(k, canon_entry e)]) rest" for rest
    unfolding parse_entries.simps parse_stored_entry [OF assms(1) ke(2)] rbind_Inr cid
      dict_update_new [OF new]
    using obj new ke(1) by auto
  ultimately show ?case by (simp add: p)
qed simp

lemma lifecycle_canon:
  assumes "entry_wf e"
  shows "lifecycle_valid (canon_entry e)"
proof -
  have v: "val (canon_money (ce_reserved_usd e)) = val (ce_reserved_usd e)"
    "val (canon_money (ce_accounted_cost_usd e)) = val (ce_accounted_cost_usd e)"
    "\<And>a. ce_actual_cost_usd e = Some a \<Longrightarrow> val (canon_money a) = val a"
    using assms canon_money_read(1) by (auto simp: entry_wf_def dest: money_ok_nonneg)
  show ?thesis
    using assms unfolding entry_wf_def
    by (auto simp: lifecycle_valid_def canon_entry_def dcmp_iff v
        split: cost_entry_status.splits option.splits)
qed

lemma entry_wf_canon: "entry_wf e \<Longrightarrow> entry_wf (canon_entry e)"
  using lifecycle_canon [of e]
  by (auto simp: entry_wf_def canon_entry_def money_ok_canon split: option.splits)

lemma validate_lifecycle_iff:
  "validate_lifecycle entries = Inr u \<longleftrightarrow> (\<forall>(k, e) \<in> set entries. lifecycle_valid e)"
  by (induction entries rule: validate_lifecycle.induct) auto

definition canon_entries :: "cost_entries \<Rightarrow> cost_entries" where
  "canon_entries entries = map (\<lambda>(k, e). (k, canon_entry e)) (sort_key fst entries)"

lemma stored_state_fields:
  "json_fields (sort_keys (serialize_state tc cap entries)) =
     [(''cap_usd'', JStr (money_text cap)),
      (''entries'', JObj (map (\<lambda>(k, e). (k, sort_keys (serialize_entry tc e))) (sort_key fst entries))),
      (''schema_version'', JInt 1)]"
proof -
  let ?m = "map (\<lambda>(k, e). (k, sort_keys (serialize_entry tc e))) (sort_key fst entries)"
  have c: "map ((\<lambda>(k, v). (k, sort_keys v)) \<circ> (\<lambda>(k, e). (k, serialize_entry tc e)))
      (sort_key fst entries) = ?m" by (simp add: case_prod_unfold comp_def)
  have "map fst ?m = map fst (sort_key fst entries)" by (simp add: case_prod_unfold comp_def)
  then have "sorted (map fst ?m)" by (simp only: sorted_sort_key)
  then have "sort_key fst ?m = ?m" by (rule sort_key_id_if_sorted)
  then have "sort_key fst (map ((\<lambda>(k, v). (k, sort_keys v)) \<circ> (\<lambda>(k, e). (k, serialize_entry tc e)))
      (sort_key fst entries)) = ?m" by (simp only: c)
  then show ?thesis by (simp add: serialize_state_def)
qed

theorem ledger_state_roundtrip:
  assumes "codec_ok tc" "money_ok True cap" "entries_wf entries"
  shows "validate_state tc (sort_keys (serialize_state tc cap entries))
    = Inr (canon_money cap, canon_entries entries)"
proof -
  have wf: "k = ce_request_id e \<and> entry_wf e" if "(k, e) \<in> set (sort_key fst entries)" for k e
    using assms(3) that by (auto simp: entries_wf_def)
  have "distinct (dict_keys (sort_key fst entries))" using assms(3) by (simp add: entries_wf_def)
  with parse_entries_append [OF assms(1), of "[]" "sort_key fst entries"] wf
  have pe: "parse_entries tc [] (map (\<lambda>(k, e). (k, sort_keys (serialize_entry tc e))) (sort_key fst entries))
      = Inr (canon_entries entries)"
    by (simp add: canon_entries_def)
  have lc: "validate_lifecycle (canon_entries entries) = Inr ()"
    using wf by (auto simp: validate_lifecycle_iff canon_entries_def lifecycle_canon)
  obtain x where "decimal_of_string (money_text cap) = Some x"
    "validate_money x ''cap_usd'' True = Inr (canon_money cap)"
    using validate_money_text [OF assms(2)] by blast
  then show ?thesis
    by (simp add: validate_state_def stored_state_fields required_string_def catch_as_def pe lc
        insert_commute)
qed

section \<open>What the validator accepts\<close>

lemma validate_money_Inr:
  "validate_money v field positive = Inr r \<Longrightarrow> money_ok positive r"
  by (cases v) (auto simp: validate_money_iff money_ok_def, simp_all add: validate_money_def)

lemma parse_money_field_Inr: "parse_money_field s field positive = Inr r \<Longrightarrow> money_ok positive r"
  by (auto simp: parse_money_field_def split: option.splits dest: validate_money_Inr)

lemma parse_timestamp_Inr: "codec_ok tc \<Longrightarrow> parse_timestamp tc s = Inr t \<Longrightarrow> valid_instant t"
  by (auto simp: parse_timestamp_def codec_ok_def split: option.splits prod.splits if_splits)

lemma optional_money_Inr:
  "optional_field (\<lambda>s. parse_money_field s field False) v = Inr (Some a) \<Longrightarrow> money_ok False a"
  by (auto simp: optional_field_def result_simps split: option.splits json.splits
      dest: parse_money_field_Inr)

lemma parse_entry_Inr:
  assumes "codec_ok tc" "parse_entry tc value = Inr e" "lifecycle_valid e"
  shows "entry_wf e"
proof -
  note d = assms(2)[unfolded parse_entry_def rbind_eq_Inr_iff catch_as_eq_Inr_iff]
  from d show ?thesis
    apply (elim exE conjE)
    using assms(1,3)
    by (auto simp: entry_wf_def validate_request_id_def result_simps
        dest: parse_money_field_Inr parse_timestamp_Inr optional_money_Inr split: option.splits)
qed

lemma parse_entries_Inr:
  assumes "codec_ok tc" "parse_entries tc acc raw = Inr entries" "distinct (dict_keys acc)"
    "\<forall>(k, e) \<in> set acc. k = ce_request_id e \<and> (lifecycle_valid e \<longrightarrow> entry_wf e)"
  shows "distinct (dict_keys entries) \<and>
    (\<forall>(k, e) \<in> set entries. k = ce_request_id e \<and> (lifecycle_valid e \<longrightarrow> entry_wf e))"
  using assms(2-4)
proof (induction raw arbitrary: acc)
  case (Cons p raw)
  obtain key v where p: "p = (key, v)" by (cases p)
  from Cons.prems(1) p obtain e where e: "parse_entry tc (json_fields v) = Inr e"
      "key = ce_request_id e" "\<not> dict_has acc key"
      "parse_entries tc (AList.update key e acc) raw = Inr entries"
    by (auto simp: result_simps split: if_splits)
  show ?case
  proof (rule Cons.IH [OF e(4)])
    show "distinct (dict_keys (AList.update key e acc))" using Cons.prems(2) by simp
    show "\<forall>(k, e) \<in> set (AList.update key e acc).
        k = ce_request_id e \<and> (lifecycle_valid e \<longrightarrow> entry_wf e)"
      using Cons.prems(3) e(2) parse_entry_Inr [OF assms(1) e(1)]
      unfolding dict_update_new [OF e(3)] by auto
  qed
qed simp

lemma validate_state_wf:
  assumes "codec_ok tc" "validate_state tc v = Inr (cap, entries)"
  shows "money_ok True cap \<and> entries_wf entries"
proof -
  from assms(2) obtain raw where "money_ok True cap" "parse_entries tc [] raw = Inr entries"
      "validate_lifecycle entries = Inr ()"
    by (auto simp: validate_state_def Let_def result_simps
        split: if_splits option.splits json.splits dest!: validate_money_Inr)
  with parse_entries_Inr [OF assms(1), of "[]" raw entries] show ?thesis
    unfolding entries_wf_def validate_lifecycle_iff by auto
qed

lemma canon_entries_wf: "entries_wf entries \<Longrightarrow> entries_wf (canon_entries entries)"
proof -
  assume wf: "entries_wf entries"
  have k: "map fst (map (\<lambda>(k, e). (k, canon_entry e)) es) = map fst es" for es :: cost_entries
    by (induction es) auto
  have "distinct (dict_keys (canon_entries entries))"
    using wf unfolding canon_entries_def k by (simp add: entries_wf_def)
  moreover have "k = ce_request_id e \<and> entry_wf e" if "(k, e) \<in> set (canon_entries entries)" for k e
  proof -
    from that obtain e' where e': "(k, e') \<in> set entries" "e = canon_entry e'"
      by (auto simp: canon_entries_def)
    then have "k = ce_request_id e' \<and> entry_wf e'" using wf unfolding entries_wf_def by blast
    then show ?thesis using e'(2) entry_wf_canon [of e'] by (simp add: canon_entry_def)
  qed
  ultimately show ?thesis by (auto simp: entries_wf_def)
qed

end
