(* ===== verification/Ledger_Book.thy ===== *)
theory Ledger_Book
  imports Ledger_File
begin

text \<open>
  The abstract book of the cost ledger: the accounts a readable ledger file stands for, the
  totals over them, and that the snapshot the code computes with 64-digit decimal arithmetic
  equals those totals exactly.
\<close>

section \<open>The entries on disk\<close>

definition ledger_view :: "iso_codec \<Rightarrow> atomic_cost_ledger \<Rightarrow> cost_entries option" where
  "ledger_view tc led =
     (case al_disk led of None \<Rightarrow> None
      | Some v \<Rightarrow> (case validate_state tc v of Inl _ \<Rightarrow> None
          | Inr (cap, entries) \<Rightarrow> if deq cap (al_cap_usd led) then Some entries else None))"

lemma join_length:
  "(\<And>x. x \<in> set xs \<Longrightarrow> 0 < length x) \<Longrightarrow> length xs \<le> length (join sep xs)"
proof (induction sep xs rule: join.induct)
  case (3 sep x y ys)
  then have "length (y # ys) \<le> length (join sep (y # ys))" "0 < length x" by auto
  then show ?case by (cases x) simp_all
qed (auto simp: Suc_le_eq)

lemma dumps_object_length: "length kvs \<le> length (dumps (JObj kvs))"
proof -
  define ps where "ps = map (\<lambda>(k, v). quote k @ '':'' @ print_json v)
    (sort_key fst (map (\<lambda>(k, v). (k, sort_keys v)) kvs))"
  have "length ps \<le> length (join '','' ps)"
    by (rule join_length) (auto simp: ps_def quote_def)
  then show ?thesis by (simp add: dumps_def ps_def)
qed

lemma dumps_field_length:
  assumes "(k, v) \<in> set kvs"
  shows "length (dumps v) \<le> length (dumps (JObj kvs))"
proof -
  have mem: "x \<in> set xs \<Longrightarrow> length x \<le> length (join sep xs)" for x sep and xs :: "string list"
    by (induction sep xs rule: join.induct) auto
  define ps where "ps = map (\<lambda>(k, v). quote k @ '':'' @ print_json v)
    (sort_key fst (map (\<lambda>(k, v). (k, sort_keys v)) kvs))"
  have "quote k @ '':'' @ print_json (sort_keys v) \<in> set ps"
    using assms by (force simp: ps_def)
  from mem [OF this, of "'',''"] show ?thesis by (simp add: dumps_def ps_def)
qed

lemma parse_entries_length:
  "parse_entries tc acc raw = Inr entries \<Longrightarrow> length entries = length acc + length raw"
proof (induction raw arbitrary: acc)
  case (Cons p raw)
  obtain key v where p: "p = (key, v)" by (cases p)
  from Cons.prems p obtain e where e: "\<not> dict_has acc key"
      "parse_entries tc (AList.update key e acc) raw = Inr entries"
    by (auto simp: result_simps split: if_splits)
  with Cons.IH [OF e(2)] show ?case by (simp add: dict_update_new)
qed simp

lemma validate_state_length:
  assumes "validate_state tc v = Inr (cap, entries)"
  shows "length entries \<le> length (dumps v)"
proof -
  from assms obtain raw where raw: "dict_get (json_fields v) ''entries'' = Some (JObj raw)"
      "parse_entries tc [] raw = Inr entries"
    by (auto simp: validate_state_def Let_def result_simps
        split: if_splits option.splits json.splits)
  then have mem: "(''entries'', JObj raw) \<in> set (json_fields v)" by (auto dest: map_of_SomeD)
  then obtain kvs where v: "v = JObj kvs" by (cases v) auto
  have "length entries \<le> length (dumps (JObj raw))"
    using parse_entries_length [OF raw(2)] dumps_object_length [of raw] by simp
  also have "\<dots> \<le> length (dumps v)" using dumps_field_length mem v by fastforce
  finally show ?thesis .
qed

lemma load_entries_view:
  assumes "load_entries tc led = Inr entries"
  shows "ledger_view tc led = Some entries \<and> length entries \<le> max_state_bytes"
proof -
  from assms obtain v cap where v: "al_disk led = Some v" "length (dumps v) + 1 \<le> max_state_bytes"
      "validate_state tc v = Inr (cap, entries)" "deq cap (al_cap_usd led)"
    by (auto simp: load_entries_def required_state_def read_state_def result_simps
        split: option.splits if_splits)
  with validate_state_length [OF v(3)] show ?thesis by (simp add: ledger_view_def)
qed

lemma ledger_view_wf: "codec_ok tc \<Longrightarrow> ledger_view tc led = Some entries \<Longrightarrow> entries_wf entries"
  by (auto simp: ledger_view_def split: option.splits sum.splits if_splits dest: validate_state_wf)

lemma store_entries_cap [simp]: "al_cap_usd (store_entries tc led es) = al_cap_usd led"
  by (simp add: store_entries_def write_state_def)

lemma store_entries_view:
  assumes "codec_ok tc" "money_ok True (al_cap_usd led)" "entries_wf es"
  shows "ledger_view tc (store_entries tc led es) = Some (canon_entries es)"
proof -
  have "val (canon_money (al_cap_usd led)) = val (al_cap_usd led)"
    using assms(2) by (metis canon_money_read(1) money_ok_nonneg)
  then show ?thesis
    using ledger_state_roundtrip [OF assms]
    by (simp add: ledger_view_def store_entries_def write_state_def deq_iff)
qed

lemma dict_get_canon:
  "distinct (dict_keys es) \<Longrightarrow> dict_get (canon_entries es) k = map_option canon_entry (dict_get es k)"
  unfolding canon_entries_def map_of_map by (simp add: dict_get_sort)

lemma entry_wf_values:
  "entry_wf e \<Longrightarrow> val (canon_money (ce_reserved_usd e)) = val (ce_reserved_usd e)"
  "entry_wf e \<Longrightarrow> val (canon_money (ce_accounted_cost_usd e)) = val (ce_accounted_cost_usd e)"
  "entry_wf e \<Longrightarrow> map_option val (map_option canon_money (ce_actual_cost_usd e))
     = map_option val (ce_actual_cost_usd e)"
  using canon_money_read(1)
  by (auto simp: entry_wf_def dest: money_ok_nonneg split: option.splits)

section \<open>The abstract book\<close>

text \<open>
  What the file promises: for every request an account with exact amounts. \<open>ledger_book\<close> is
  the abstraction of the validated entries.
\<close>

record account =
  ac_status :: cost_entry_status
  ac_reserved :: rat
  ac_actual :: "rat option"
  ac_accounted :: rat
  ac_reason :: "release_reason option"

definition abs_account :: "cost_entry \<Rightarrow> account" where
  "abs_account e =
     \<lparr>ac_status = ce_status e, ac_reserved = val (ce_reserved_usd e),
      ac_actual = map_option val (ce_actual_cost_usd e),
      ac_accounted = val (ce_accounted_cost_usd e), ac_reason = ce_release_reason e\<rparr>"

type_synonym book = "string \<rightharpoonup> account"

definition book_of :: "cost_entries \<Rightarrow> book" where
  "book_of es k = map_option abs_account (dict_get es k)"

definition ledger_book :: "iso_codec \<Rightarrow> atomic_cost_ledger \<Rightarrow> book" where
  "ledger_book tc led = (case ledger_view tc led of None \<Rightarrow> Map.empty | Some es \<Rightarrow> book_of es)"

definition held_usd :: "cost_entry \<Rightarrow> rat" where
  "held_usd e = (if ce_status e = RESERVED then val (ce_reserved_usd e) else 0)"

definition entries_spent :: "cost_entries \<Rightarrow> rat" where
  "entries_spent es = dict_sum (val \<circ> ce_accounted_cost_usd) es"

definition entries_held :: "cost_entries \<Rightarrow> rat" where
  "entries_held es = dict_sum held_usd es"

definition entries_overrun :: "cost_entries \<Rightarrow> bool" where
  "entries_overrun es \<longleftrightarrow> (\<exists>e \<in> set (dict_values es). ce_status e = RESERVATION_OVERRUN)"

lemma abs_account_canon: "entry_wf e \<Longrightarrow> abs_account (canon_entry e) = abs_account e"
  using entry_wf_values [of e] by (simp add: abs_account_def canon_entry_def)

lemma entries_wf_member: "entries_wf es \<Longrightarrow> (k, e) \<in> set es \<Longrightarrow> k = ce_request_id e \<and> entry_wf e"
  unfolding entries_wf_def by blast

lemma entries_wf_value: "entries_wf es \<Longrightarrow> e \<in> set (dict_values es) \<Longrightarrow> entry_wf e"
  using entries_wf_member by fastforce

lemma entries_wf_get: "entries_wf es \<Longrightarrow> dict_get es k = Some e \<Longrightarrow> k = ce_request_id e \<and> entry_wf e"
  by (meson entries_wf_member map_of_SomeD)

lemma book_of_canon:
  assumes "entries_wf es"
  shows "book_of (canon_entries es) = book_of es"
proof
  fix k
  have "distinct (dict_keys es)" using assms by (simp add: entries_wf_def)
  then show "book_of (canon_entries es) k = book_of es k"
    using entries_wf_get [OF assms, of k]
    by (cases "dict_get es k") (simp_all add: book_of_def dict_get_canon abs_account_canon)
qed

lemma dict_sum_canon:
  assumes "entries_wf es" "\<And>e. entry_wf e \<Longrightarrow> f (canon_entry e) = f e"
  shows "dict_sum f (canon_entries es) = dict_sum f es"
proof -
  have "map (f \<circ> snd) (canon_entries es) = map (f \<circ> snd) (sort_key fst es)"
    using assms(2) entries_wf_member [OF assms(1)] by (auto simp: canon_entries_def)
  then have "dict_sum f (canon_entries es) = dict_sum f (sort_key fst es)"
    by (simp add: dict_sum_def)
  then show ?thesis by (simp add: dict_sum_sort)
qed

lemma entries_sums_canon:
  assumes "entries_wf es"
  shows "entries_spent (canon_entries es) = entries_spent es"
    "entries_held (canon_entries es) = entries_held es"
    "entries_overrun (canon_entries es) \<longleftrightarrow> entries_overrun es"
proof -
  show "entries_spent (canon_entries es) = entries_spent es"
    unfolding entries_spent_def
    by (rule dict_sum_canon [OF assms]) (simp add: canon_entry_def entry_wf_values)
  show "entries_held (canon_entries es) = entries_held es"
    unfolding entries_held_def
    by (rule dict_sum_canon [OF assms]) (simp add: canon_entry_def entry_wf_values held_usd_def)
  show "entries_overrun (canon_entries es) \<longleftrightarrow> entries_overrun es"
    by (force simp: entries_overrun_def canon_entries_def canon_entry_def)
qed

section \<open>Exactness of the snapshot\<close>

definition entry_exact :: "cost_entry \<Rightarrow> bool" where
  "entry_exact e \<longleftrightarrow> on_grid 18 (ce_reserved_usd e) \<and> on_grid 18 (ce_accounted_cost_usd e)"

definition entries_exact :: "cost_entries \<Rightarrow> bool" where
  "entries_exact es \<longleftrightarrow> (\<forall>e \<in> set (dict_values es). entry_exact e)"

lemma on_grid_canon_money: "0 \<le> val d \<Longrightarrow> on_grid k (canon_money d) \<longleftrightarrow> on_grid k d"
  using on_grid_cong canon_money_read(1) by blast

lemma entry_exact_canon: "entry_wf e \<Longrightarrow> entry_exact (canon_entry e) \<longleftrightarrow> entry_exact e"
  by (auto simp: entry_exact_def canon_entry_def entry_wf_def on_grid_canon_money money_ok_nonneg)

lemma entries_exact_canon: "entries_wf es \<Longrightarrow> entries_exact (canon_entries es) \<longleftrightarrow> entries_exact es"
  using entries_wf_member entry_exact_canon
  by (fastforce simp: entries_exact_def canon_entries_def)

lemma sum_list_bound:
  fixes f :: "'a \<Rightarrow> rat"
  assumes "\<And>x. x \<in> set xs \<Longrightarrow> f x \<le> c" "0 \<le> c"
  shows "sum_list (map f xs) \<le> of_nat (length xs) * c"
  using assms by (induction xs) (auto simp: algebra_simps intro: add_mono)

lemma money_sum_bound:
  assumes "length ds \<le> max_state_bytes" "\<And>d. d \<in> set ds \<Longrightarrow> val d < 10 ^ 12"
  shows "sum_list (map val ds) \<le> 10 ^ 20"
proof -
  have "sum_list (map val ds) \<le> of_nat (length ds) * 10 ^ 12"
    using assms(2) by (intro sum_list_bound) (auto intro: less_imp_le)
  also have "\<dots> \<le> of_nat max_state_bytes * 10 ^ 12"
    using assms(1) by (intro mult_right_mono) simp_all
  also have "\<dots> \<le> (10::rat) ^ 20" by (simp add: max_state_bytes_def)
  finally show ?thesis .
qed

lemma sum_filter_held:
  "sum_list (map val (map ce_reserved_usd (filter (\<lambda>e. ce_status e = RESERVED) (dict_values es))))
     = entries_held es"
  unfolding entries_held_def by (induction es) (auto simp: held_usd_def)

lemma dsum_money:
  assumes "length ds \<le> max_state_bytes"
    and "\<And>d. d \<in> set ds \<Longrightarrow> on_grid 18 d \<and> 0 \<le> val d \<and> val d < 10 ^ 12"
  shows "val (dsum snapshot_prec ds) = sum_list (map val ds)"
    "on_grid 18 (dsum snapshot_prec ds)" "0 \<le> sum_list (map val ds)" "sum_list (map val ds) \<le> 10 ^ 20"
proof -
  show b: "sum_list (map val ds) \<le> 10 ^ 20" using assms by (intro money_sum_bound) blast+
  then have s: "sum_list (map val ds) < 10 ^ (snapshot_prec - 18)" by (simp add: snapshot_prec_def)
  show "val (dsum snapshot_prec ds) = sum_list (map val ds)"
    using assms(2) s by (intro val_dsum [where k = 18]) (auto simp: snapshot_prec_def)
  show "on_grid 18 (dsum snapshot_prec ds)"
    using assms(2) s by (intro on_grid_dsum) (auto simp: snapshot_prec_def)
  show "0 \<le> sum_list (map val ds)" using assms(2) by (intro sum_list_nonneg) auto
qed

lemma entry_amounts:
  assumes "entry_wf e" "entry_exact e"
  shows "on_grid 18 (ce_accounted_cost_usd e) \<and> 0 \<le> val (ce_accounted_cost_usd e)
      \<and> val (ce_accounted_cost_usd e) < 10 ^ 12"
    "on_grid 18 (ce_reserved_usd e) \<and> 0 \<le> val (ce_reserved_usd e) \<and> val (ce_reserved_usd e) < 10 ^ 12"
proof -
  have "money_ok True (ce_reserved_usd e)" "money_ok False (ce_accounted_cost_usd e)"
    using assms(1) by (simp_all add: entry_wf_def)
  then show "on_grid 18 (ce_accounted_cost_usd e) \<and> 0 \<le> val (ce_accounted_cost_usd e)
      \<and> val (ce_accounted_cost_usd e) < 10 ^ 12"
    "on_grid 18 (ce_reserved_usd e) \<and> 0 \<le> val (ce_reserved_usd e) \<and> val (ce_reserved_usd e) < 10 ^ 12"
    using assms(2) money_in_bounds_less unfolding money_ok_def entry_exact_def by auto
qed

lemma snapshot_exact:
  assumes "entries_wf es" "entries_exact es" "length es \<le> max_state_bytes"
    and "money_ok True cap" "on_grid 18 cap"
  shows "val (cs_spent_usd (snapshot_of cap es)) = entries_spent es"
    "val (cs_active_reserved_usd (snapshot_of cap es)) = entries_held es"
    "val (cs_remaining_usd (snapshot_of cap es)) = max 0 (val cap - entries_spent es - entries_held es)"
    "cs_over_cap (snapshot_of cap es) \<longleftrightarrow> val cap < entries_spent es + entries_held es"
    "cs_has_reservation_overrun (snapshot_of cap es) \<longleftrightarrow> entries_overrun es"
proof -
  let ?A = "map ce_accounted_cost_usd (dict_values es)"
  let ?R = "map ce_reserved_usd (filter (\<lambda>e. ce_status e = RESERVED) (dict_values es))"
  let ?s = "dsum snapshot_prec ?A"
  let ?r = "dsum snapshot_prec ?R"
  have wf: "entry_wf e \<and> entry_exact e" if "e \<in> set (dict_values es)" for e
    using that assms(1,2) entries_wf_value unfolding entries_exact_def by blast
  have A: "on_grid 18 d \<and> 0 \<le> val d \<and> val d < 10 ^ 12" if "d \<in> set ?A" for d
    using that wf entry_amounts by fastforce
  have R: "on_grid 18 d \<and> 0 \<le> val d \<and> val d < 10 ^ 12" if "d \<in> set ?R" for d
    using that wf entry_amounts by fastforce
  have lR: "length ?R \<le> max_state_bytes" using assms(3) length_filter_le [of _ "dict_values es"]
    by (metis length_map le_trans)
  note a = dsum_money [of ?A, OF _ A]
  note r = dsum_money [of ?R, OF lR R, unfolded sum_filter_held]
  have sA: "sum_list (map val ?A) = entries_spent es"
    by (simp add: entries_spent_def dict_sum_def comp_def)
  have lA: "length ?A \<le> max_state_bytes" using assms(3) by simp
  have vs: "val ?s = entries_spent es" "on_grid 18 ?s" "0 \<le> entries_spent es" "entries_spent es \<le> 10 ^ 20"
    using a [OF lA] by (simp_all only: sA) 
  have capb: "0 < val cap" "val cap < 10 ^ 12"
    using assms(4) money_in_bounds_less by (auto simp: money_ok_def)
  have p: "18 \<le> snapshot_prec" "0 < snapshot_prec" "(10::rat) ^ 21 < 10 ^ (snapshot_prec - 18)"
    by (simp_all add: snapshot_prec_def)
  let ?d = "dsub snapshot_prec cap ?s"
  have b1: "\<bar>val cap - val ?s\<bar> < 10 ^ (snapshot_prec - 18)" using capb vs p(3) by simp
  have d: "val ?d = val cap - entries_spent es" "on_grid 18 ?d"
    using val_dsub [OF assms(5) vs(2) b1 p(1,2)] on_grid_dsub [OF assms(5) vs(2) b1 p(1,2)] vs(1) by simp_all
  have b2: "\<bar>val ?d - val ?r\<bar> < 10 ^ (snapshot_prec - 18)" using capb vs r p(3) d by simp
  have av: "val (dsub snapshot_prec ?d ?r) = val cap - entries_spent es - entries_held es"
    using val_dsub [OF d(2) r(2) b2 p(1,2)] d(1) r(1) by simp
  show "val (cs_spent_usd (snapshot_of cap es)) = entries_spent es"
    using vs(1) by (simp add: snapshot_of_def Let_def)
  show "val (cs_active_reserved_usd (snapshot_of cap es)) = entries_held es"
    using r(1) by (simp add: snapshot_of_def Let_def)
  show "val (cs_remaining_usd (snapshot_of cap es)) = max 0 (val cap - entries_spent es - entries_held es)"
    using av by (simp add: snapshot_of_def Let_def)
  show "cs_over_cap (snapshot_of cap es) \<longleftrightarrow> val cap < entries_spent es + entries_held es"
    using av by (auto simp: snapshot_of_def Let_def dlt_iff)
  show "cs_has_reservation_overrun (snapshot_of cap es) \<longleftrightarrow> entries_overrun es"
    by (auto simp: snapshot_of_def Let_def entries_overrun_def list_ex_iff)
qed

end
