(* ===== verification/Ledger_Ops.thy ===== *)
theory Ledger_Ops
  imports Ledger_Book
begin

text \<open>
  The operations of the cost ledger on a readable file: their exact effect on the abstract
  book, the contract of a spending guard, and the sequences of operations.
\<close>

section \<open>Contract of a spending guard\<close>

text \<open>
  The contract shared by every component that holds money for a call before it is sent and
  settles it afterwards: each step keeps the state usable, never moves the cap, never unblocks
  a blocked state, and while unblocked never lets the spent and held amounts pass the cap.
\<close>

locale spend_guard =
  fixes step :: "'s \<Rightarrow> 's \<Rightarrow> bool"
    and usable :: "'s \<Rightarrow> bool"
    and blocked :: "'s \<Rightarrow> bool"
    and cap :: "'s \<Rightarrow> rat"
    and spent :: "'s \<Rightarrow> rat"
    and held :: "'s \<Rightarrow> rat"
  assumes step_usable: "usable s \<Longrightarrow> step s t \<Longrightarrow> usable t"
    and step_cap: "usable s \<Longrightarrow> step s t \<Longrightarrow> cap t = cap s"
    and step_blocked: "usable s \<Longrightarrow> step s t \<Longrightarrow> blocked s \<Longrightarrow> blocked t"
    and step_within: "usable s \<Longrightarrow> step s t \<Longrightarrow> \<not> blocked t \<Longrightarrow>
      spent s + held s \<le> cap s \<Longrightarrow> spent t + held t \<le> cap t"
    and held_nonneg: "usable s \<Longrightarrow> 0 \<le> held s"
begin

lemma steps_usable: "step\<^sup>*\<^sup>* s t \<Longrightarrow> usable s \<Longrightarrow> usable t"
  by (induction rule: rtranclp_induct) (auto intro: step_usable)

lemma steps_cap: "step\<^sup>*\<^sup>* s t \<Longrightarrow> usable s \<Longrightarrow> cap t = cap s"
  by (induction rule: rtranclp_induct) (simp, metis step_cap steps_usable)

lemma steps_blocked: "step\<^sup>*\<^sup>* s t \<Longrightarrow> usable s \<Longrightarrow> blocked s \<Longrightarrow> blocked t"
  by (induction rule: rtranclp_induct) (auto intro: step_blocked steps_usable)

lemma steps_within_cap:
  assumes "step\<^sup>*\<^sup>* s t" "usable s" "spent s + held s \<le> cap s" "\<not> blocked t"
  shows "spent t + held t \<le> cap t"
  using assms
proof (induction rule: rtranclp_induct)
  case (step t u)
  then have "usable t" "\<not> blocked t" using steps_usable step_blocked by blast+
  with step show ?case using step_within by blast
qed

lemma steps_never_overspend:
  "step\<^sup>*\<^sup>* s t \<Longrightarrow> usable s \<Longrightarrow> spent s + held s \<le> cap s \<Longrightarrow> \<not> blocked t \<Longrightarrow> spent t \<le> cap s"
  using steps_within_cap [of s t] held_nonneg [of t] steps_usable [of s t] steps_cap [of s t] by linarith

end

section \<open>One operation on a readable ledger\<close>

definition ledger_ready :: "iso_codec \<Rightarrow> atomic_cost_ledger \<Rightarrow> bool" where
  "ledger_ready tc led \<longleftrightarrow>
     codec_ok tc \<and> money_ok True (al_cap_usd led) \<and> on_grid 18 (al_cap_usd led)
     \<and> (case ledger_view tc led of None \<Rightarrow> False | Some es \<Rightarrow> entries_exact es)"

definition view_entries :: "iso_codec \<Rightarrow> atomic_cost_ledger \<Rightarrow> cost_entries" where
  "view_entries tc led = (case ledger_view tc led of None \<Rightarrow> [] | Some es \<Rightarrow> es)"

definition ledger_spent :: "iso_codec \<Rightarrow> atomic_cost_ledger \<Rightarrow> rat" where
  "ledger_spent tc led = entries_spent (view_entries tc led)"

definition ledger_held :: "iso_codec \<Rightarrow> atomic_cost_ledger \<Rightarrow> rat" where
  "ledger_held tc led = entries_held (view_entries tc led)"

definition ledger_overrun :: "iso_codec \<Rightarrow> atomic_cost_ledger \<Rightarrow> bool" where
  "ledger_overrun tc led \<longleftrightarrow> entries_overrun (view_entries tc led)"

definition ledger_cap :: "atomic_cost_ledger \<Rightarrow> rat" where
  "ledger_cap led = val (al_cap_usd led)"

definition amount_exact :: "pydec \<Rightarrow> bool" where
  "amount_exact v \<longleftrightarrow> (case v of DFin d \<Rightarrow> on_grid 18 d | _ \<Rightarrow> True)"

text \<open>The wall clock has not run back behind the creation of an entry.\<close>

definition clock_ok :: "iso_codec \<Rightarrow> int \<Rightarrow> atomic_cost_ledger \<Rightarrow> bool" where
  "clock_ok tc now led \<longleftrightarrow>
     valid_instant now \<and> (\<forall>e \<in> set (dict_values (view_entries tc led)). ce_created_at e \<le> now)"

definition fresh_id_ok :: "string \<Rightarrow> bool" where
  "fresh_id_ok s \<longleftrightarrow> length s = 32 \<and> list_all is_hex s"

lemma ready_view:
  assumes "ledger_ready tc led"
  shows "ledger_view tc led = Some (view_entries tc led)" "entries_wf (view_entries tc led)"
    "entries_exact (view_entries tc led)" "distinct (dict_keys (view_entries tc led))"
proof -
  from assms obtain es where es: "codec_ok tc" "ledger_view tc led = Some es" "entries_exact es"
    by (auto simp: ledger_ready_def split: option.splits)
  then have "entries_wf es" using ledger_view_wf by blast
  with es show "ledger_view tc led = Some (view_entries tc led)" "entries_wf (view_entries tc led)"
    "entries_exact (view_entries tc led)" "distinct (dict_keys (view_entries tc led))"
    by (simp_all add: view_entries_def) (simp add: entries_wf_def)
qed

lemma load_ready:
  assumes "load_entries tc led = Inr es"
  shows "view_entries tc led = es" "length es \<le> max_state_bytes"
  using load_entries_view [OF assms] by (simp_all add: view_entries_def)

text \<open>Writing well-formed exact entries leaves a readable ledger with the same accounts.\<close>

lemma store_ready:
  assumes "ledger_ready tc led" "entries_wf es" "entries_exact es"
  shows "ledger_ready tc (store_entries tc led es)"
    "view_entries tc (store_entries tc led es) = canon_entries es"
    "ledger_book tc (store_entries tc led es) = book_of es"
    "ledger_spent tc (store_entries tc led es) = entries_spent es"
    "ledger_held tc (store_entries tc led es) = entries_held es"
    "ledger_overrun tc (store_entries tc led es) = entries_overrun es"
proof -
  have v: "ledger_view tc (store_entries tc led es) = Some (canon_entries es)"
    using assms(1,2) by (intro store_entries_view) (simp_all add: ledger_ready_def)
  then show c: "view_entries tc (store_entries tc led es) = canon_entries es"
    by (simp add: view_entries_def)
  show "ledger_ready tc (store_entries tc led es)"
    using assms v by (simp add: ledger_ready_def entries_exact_canon)
  show "ledger_book tc (store_entries tc led es) = book_of es"
    using v book_of_canon [OF assms(2)] by (simp add: ledger_book_def)
  show "ledger_spent tc (store_entries tc led es) = entries_spent es"
    "ledger_held tc (store_entries tc led es) = entries_held es"
    "ledger_overrun tc (store_entries tc led es) = entries_overrun es"
    using c entries_sums_canon [OF assms(2)]
    by (simp_all add: ledger_spent_def ledger_held_def ledger_overrun_def)
qed

lemma entries_update:
  assumes "entries_wf es" "entries_exact es" "entry_wf e" "entry_exact e"
  shows "entries_wf (AList.update (ce_request_id e) e es)"
    "entries_exact (AList.update (ce_request_id e) e es)"
    "book_of (AList.update (ce_request_id e) e es) = (book_of es)(ce_request_id e \<mapsto> abs_account e)"
proof -
  have mem: "(k, x) \<in> set (AList.update k0 e es) \<Longrightarrow> (k = k0 \<and> x = e) \<or> (k, x) \<in> set es" for k k0 x
    by (induction es) (auto split: if_splits)
  show "entries_wf (AList.update (ce_request_id e) e es)"
    using assms(1,3) mem unfolding entries_wf_def by blast+
  show "entries_exact (AList.update (ce_request_id e) e es)"
    using assms(2,4) dict_values_update_subset [of "ce_request_id e" e es]
    unfolding entries_exact_def by blast
  show "book_of (AList.update (ce_request_id e) e es) = (book_of es)(ce_request_id e \<mapsto> abs_account e)"
    by (auto simp: book_of_def dict_simps fun_eq_iff)
qed

lemma dict_value_iff:
  "distinct (dict_keys d) \<Longrightarrow> x \<in> set (dict_values d) \<longleftrightarrow> (\<exists>k. dict_get d k = Some x)"
  by (metis (no_types, lifting) dict_get_value imageE list.set_map map_of_is_SomeI prod.collapse)

lemma overrun_update:
  assumes "distinct (dict_keys es)"
    and "\<And>c. dict_get es k = Some c \<Longrightarrow> ce_status c \<noteq> RESERVATION_OVERRUN"
  shows "entries_overrun (AList.update k e es) \<longleftrightarrow>
    entries_overrun es \<or> ce_status e = RESERVATION_OVERRUN"
proof -
  have u: "entries_overrun d \<longleftrightarrow> (\<exists>k' x. dict_get d k' = Some x \<and> ce_status x = RESERVATION_OVERRUN)"
    if "distinct (dict_keys d)" for d
    using dict_value_iff [OF that] unfolding entries_overrun_def by metis
  show ?thesis
    unfolding u [OF assms(1)] u [OF dict_distinct_update [OF assms(1)]] dict_get_update
    using assms(2) by (metis option.inject)
qed


section \<open>Reserving\<close>

definition reserved_account :: "rat \<Rightarrow> account" where
  "reserved_account amount =
     \<lparr>ac_status = RESERVED, ac_reserved = amount, ac_actual = None, ac_accounted = 0,
      ac_reason = None\<rparr>"

lemma reserved_entry_wf:
  assumes "matches_ident ident_char 127 request_id" "fresh_id_ok reservation_id"
    "money_ok True amount" "on_grid 18 amount" "valid_instant now"
  shows "entry_wf (reserved_entry request_id reservation_id amount now)"
    "entry_exact (reserved_entry request_id reservation_id amount now)"
    "abs_account (reserved_entry request_id reservation_id amount now) = reserved_account (val amount)"
    "ce_request_id (reserved_entry request_id reservation_id amount now) = request_id"
  using assms money_ok_zero
  by (simp_all add: reserved_entry_def entry_wf_def entry_exact_def fresh_id_ok_def
      lifecycle_valid_def deq_iff abs_account_def reserved_account_def)

lemma validated_amount:
  assumes "validate_money v field positive = Inr a" "amount_exact v"
  shows "money_ok positive a \<and> on_grid 18 a \<and> (\<exists>d. v = DFin d \<and> val a = val d)"
proof -
  obtain d where d: "v = DFin d" using assms(1) by (cases v) (auto simp: validate_money_def)
  then have "val a = val d" "money_ok positive a"
    using assms(1) validate_money_ok [of d field positive a] by blast+
  moreover have "on_grid 18 d" using assms(2) d by (simp add: amount_exact_def)
  ultimately show ?thesis using d on_grid_cong by blast
qed

lemma reserve_checks_Inr:
  assumes "ledger_ready tc led" "amount_exact v" "reserve_checks tc request_id v led = Inr (a, es)"
  shows "es = view_entries tc led" "matches_ident ident_char 127 request_id"
    "money_ok True a" "on_grid 18 a" "\<exists>d. v = DFin d \<and> val a = val d"
    "\<not> dict_has es request_id" "\<not> ledger_overrun tc led"
    "ledger_spent tc led + ledger_held tc led + val a \<le> ledger_cap led"
proof -
  from assms(3) have r: "matches_ident ident_char 127 request_id"
      "validate_money v ''maximum_cost_usd'' True = Inr a" "load_entries tc led = Inr es"
      "\<not> dict_has es request_id" "\<not> cs_has_reservation_overrun (snapshot_of (al_cap_usd led) es)"
      "val a \<le> val (cs_remaining_usd (snapshot_of (al_cap_usd led) es))"
    by (auto simp: reserve_checks_def validate_request_id_def result_simps Let_def dlt_iff
        split: if_splits)
  show "matches_ident ident_char 127 request_id" "\<not> dict_has es request_id" using r by blast+
  show es: "es = view_entries tc led" using load_ready(1) [OF r(3)] by simp
  show a: "money_ok True a" "on_grid 18 a" "\<exists>d. v = DFin d \<and> val a = val d"
    using validated_amount [OF r(2) assms(2)] by auto
  have cap: "money_ok True (al_cap_usd led)" "on_grid 18 (al_cap_usd led)"
    using assms(1) by (simp_all add: ledger_ready_def)
  note snap = snapshot_exact [OF ready_view(2,3) [OF assms(1), folded es] load_ready(2) [OF r(3)] cap]
  show "\<not> ledger_overrun tc led" using r(5) snap(5) by (simp add: ledger_overrun_def es)
  have "0 < val a" using a(1) by (simp add: money_ok_def)
  with r(6) have "val a \<le> val (al_cap_usd led) - entries_spent es - entries_held es"
    unfolding snap(3) by (simp add: max_def split: if_splits)
  then show "ledger_spent tc led + ledger_held tc led + val a \<le> ledger_cap led"
    by (simp add: ledger_spent_def ledger_held_def ledger_cap_def es)
qed

lemma reserve_effect:
  assumes "ledger_ready tc led" "amount_exact v" "fresh_id_ok reservation_id" "valid_instant now"
    and "ledger_reserve tc now reservation_id request_id v led = (Inr r, led')"
  shows "ledger_ready tc led'" "al_cap_usd led' = al_cap_usd led"
    "ledger_book tc led' = (ledger_book tc led)(request_id \<mapsto> reserved_account (val (cr_reserved_usd r)))"
    "ledger_book tc led request_id = None"
    "ledger_spent tc led' = ledger_spent tc led"
    "ledger_held tc led' = ledger_held tc led + val (cr_reserved_usd r)"
    "\<not> ledger_overrun tc led'"
    "ledger_spent tc led' + ledger_held tc led' \<le> ledger_cap led'"
    "\<exists>d. v = DFin d \<and> val (cr_reserved_usd r) = val d"
proof -
  from assms(5) obtain a es where c: "reserve_checks tc request_id v led = Inr (a, es)"
      and ra: "cr_reserved_usd r = a"
      and led': "led' = store_entries tc led (AList.update request_id
        (reserved_entry request_id reservation_id a now) es)"
    by (auto simp: ledger_reserve_def split: sum.splits)
  note rc = reserve_checks_Inr [OF assms(1,2) c]
  let ?e = "reserved_entry request_id reservation_id a now"
  let ?es = "AList.update request_id ?e es"
  note e = reserved_entry_wf [OF rc(2) assms(3) rc(3,4) assms(4)]
  note rv = ready_view [OF assms(1), folded rc(1)]
  note up = entries_update [OF rv(2,3) e(1,2), unfolded e(4)]
  note st = store_ready [OF assms(1) up(1,2), folded led']
  have sums: "entries_spent ?es = entries_spent es" "entries_held ?es = entries_held es + val a"
    using rc(6) by (simp_all add: entries_spent_def entries_held_def dict_sum_update_new)
      (simp_all add: reserved_entry_def held_usd_def)
  have "dict_get es request_id = None" using rc(6) by (simp add: dict_get_None_iff)
  then have ov: "entries_overrun ?es \<longleftrightarrow> entries_overrun es"
    using overrun_update [OF rv(4), of request_id ?e] by (simp add: reserved_entry_def)
  show "ledger_ready tc led'" by (rule st(1))
  show "al_cap_usd led' = al_cap_usd led" by (simp add: led')
  show "ledger_book tc led' = (ledger_book tc led)(request_id \<mapsto> reserved_account (val (cr_reserved_usd r)))"
    using st(3) up(3) e(3) ra rv(1) by (simp add: ledger_book_def)
  show "ledger_book tc led request_id = None"
    using rv(1) rc(6) by (simp add: ledger_book_def book_of_def dict_get_None_iff)
  show s: "ledger_spent tc led' = ledger_spent tc led"
    using st(4) sums by (simp add: ledger_spent_def rc(1))
  show h: "ledger_held tc led' = ledger_held tc led + val (cr_reserved_usd r)"
    using st(5) sums ra by (simp add: ledger_held_def rc(1))
  show "\<not> ledger_overrun tc led'" using st(6) ov rc(7) by (simp add: ledger_overrun_def rc(1))
  show "ledger_spent tc led' + ledger_held tc led' \<le> ledger_cap led'"
    using s h rc(8) ra led' by (simp add: ledger_cap_def)
  show "\<exists>d. v = DFin d \<and> val (cr_reserved_usd r) = val d" using rc(5) ra by simp
qed

lemma reserve_refused: "ledger_reserve tc now rid req v led = (Inl e, led') \<Longrightarrow> led' = led"
  by (auto simp: ledger_reserve_def split: sum.splits)


section \<open>Settling\<close>

text \<open>
  Both \<open>reconcile\<close> and \<open>release\<close> replace one active entry by a final one; the totals move by
  exactly that entry.
\<close>

lemma settle_effect:
  assumes "ledger_ready tc led" "dict_get (view_entries tc led) k = Some c" "ce_status c = RESERVED"
    and "entry_wf u" "entry_exact u" "ce_request_id u = ce_request_id c" "ce_status u \<noteq> RESERVED"
    and "led' = store_entries tc led (AList.update (ce_request_id c) u (view_entries tc led))"
  shows "ledger_ready tc led'" "al_cap_usd led' = al_cap_usd led"
    "ledger_book tc led' = (ledger_book tc led)(k \<mapsto> abs_account u)"
    "ledger_spent tc led' = ledger_spent tc led + val (ce_accounted_cost_usd u)"
    "ledger_held tc led' = ledger_held tc led - val (ce_reserved_usd c)"
    "ledger_overrun tc led' \<longleftrightarrow> ledger_overrun tc led \<or> ce_status u = RESERVATION_OVERRUN"
proof -
  let ?es = "view_entries tc led"
  let ?es' = "AList.update (ce_request_id u) u ?es"
  note rv = ready_view [OF assms(1)]
  have k: "k = ce_request_id c" "entry_wf c" using entries_wf_get [OF rv(2) assms(2)] by blast+
  note up = entries_update [OF rv(2,3) assms(4,5)]
  have led': "led' = store_entries tc led ?es'" using assms(6,8) by simp
  note st = store_ready [OF assms(1) up(1,2), folded led']
  have get: "dict_get ?es (ce_request_id u) = Some c" using assms(2,6) k(1) by simp
  have acc0: "val (ce_accounted_cost_usd c) = 0"
    using k(2) assms(3) by (simp add: entry_wf_def lifecycle_valid_def deq_iff)
  have sums: "entries_spent ?es' = entries_spent ?es + val (ce_accounted_cost_usd u)"
    "entries_held ?es' = entries_held ?es - val (ce_reserved_usd c)"
    using dict_sum_update_old [OF rv(4) get, of "val \<circ> ce_accounted_cost_usd" u]
      dict_sum_update_old [OF rv(4) get, of held_usd u] acc0 assms(3,7)
    by (simp_all add: entries_spent_def entries_held_def held_usd_def)
  have ov: "entries_overrun ?es' \<longleftrightarrow> entries_overrun ?es \<or> ce_status u = RESERVATION_OVERRUN"
    using get assms(3) by (intro overrun_update [OF rv(4)]) simp
  show "ledger_ready tc led'" by (rule st(1))
  show "al_cap_usd led' = al_cap_usd led" by (simp add: led')
  show "ledger_book tc led' = (ledger_book tc led)(k \<mapsto> abs_account u)"
    using st(3) up(3) rv(1) k(1) assms(6) by (simp add: ledger_book_def)
  show "ledger_spent tc led' = ledger_spent tc led + val (ce_accounted_cost_usd u)"
    "ledger_held tc led' = ledger_held tc led - val (ce_reserved_usd c)"
    "ledger_overrun tc led' \<longleftrightarrow> ledger_overrun tc led \<or> ce_status u = RESERVATION_OVERRUN"
    using st(4-6) sums ov by (simp_all add: ledger_spent_def ledger_held_def ledger_overrun_def)
qed

lemma matching_entry_Inr:
  assumes "matching_entry es r = Inr c"
  shows "dict_get es (cr_request_id r) = Some c" "ce_reservation_id c = cr_reservation_id r"
    "val (ce_reserved_usd c) = val (cr_reserved_usd r)"
proof -
  from assms obtain a where a: "validate_money (DFin (cr_reserved_usd r)) ''reserved_usd'' True = Inr a"
    and m: "(case dict_get es (cr_request_id r) of
       None \<Rightarrow> Inl (CostReservationStateError (''unknown request ID: '' @ cr_request_id r))
     | Some current \<Rightarrow>
         if ce_reservation_id current \<noteq> cr_reservation_id r \<or> \<not> deq (ce_reserved_usd current) a
         then Inl (CostReservationStateError
                (''reservation handle does not match request '' @ cr_request_id r))
         else Inr current) = Inr c"
    unfolding matching_entry_def rbind_eq_Inr_iff by blast
  have va: "val a = val (cr_reserved_usd r)" using validate_money_ok [OF a] by blast
  from m have "dict_get es (cr_request_id r) = Some c \<and> ce_reservation_id c = cr_reservation_id r
      \<and> val (ce_reserved_usd c) = val a"
    by (cases "dict_get es (cr_request_id r)") (simp_all add: deq_iff split: if_splits)
  with va show "dict_get es (cr_request_id r) = Some c" "ce_reservation_id c = cr_reservation_id r"
    "val (ce_reserved_usd c) = val (cr_reserved_usd r)"
    by simp_all
qed

definition reconciled_entry :: "cost_entry \<Rightarrow> cost_reservation \<Rightarrow> decimal option \<Rightarrow> int \<Rightarrow> cost_entry" where
  "reconciled_entry c r actual now = c\<lparr>ce_status := settle_status r actual,
     ce_actual_cost_usd := actual, ce_accounted_cost_usd := settle_cost r actual,
     ce_release_reason := None, ce_updated_at := now\<rparr>"

definition released_entry :: "cost_entry \<Rightarrow> release_reason \<Rightarrow> int \<Rightarrow> cost_entry" where
  "released_entry c reason now = c\<lparr>ce_status := RELEASED, ce_actual_cost_usd := None,
     ce_accounted_cost_usd := dzero, ce_release_reason := Some reason, ce_updated_at := now\<rparr>"

definition actual_exact :: "pydec option \<Rightarrow> bool" where
  "actual_exact v \<longleftrightarrow> (case v of None \<Rightarrow> True | Some x \<Rightarrow> amount_exact x)"

definition actual_value :: "pydec option \<Rightarrow> rat option" where
  "actual_value v = (case v of Some (DFin d) \<Rightarrow> Some (val d) | _ \<Rightarrow> None)"

text \<open>The account a settlement leaves: unknown cost accounts the whole reservation.\<close>

definition settled_account :: "rat \<Rightarrow> rat option \<Rightarrow> account" where
  "settled_account reserved actual =
     \<lparr>ac_status = (case actual of None \<Rightarrow> UNCERTAIN_ACCOUNTED
        | Some a \<Rightarrow> if reserved < a then RESERVATION_OVERRUN else RECONCILED),
      ac_reserved = reserved, ac_actual = actual,
      ac_accounted = (case actual of None \<Rightarrow> reserved | Some a \<Rightarrow> a), ac_reason = None\<rparr>"

lemma reconciled_entry_wf:
  assumes "entry_wf c" "entry_exact c" "val (ce_reserved_usd c) = val (cr_reserved_usd r)"
    and "case actual of None \<Rightarrow> True | Some a \<Rightarrow> money_ok False a \<and> on_grid 18 a"
    and "valid_instant now" "ce_created_at c \<le> now"
  shows "entry_wf (reconciled_entry c r actual now)" "entry_exact (reconciled_entry c r actual now)"
    "abs_account (reconciled_entry c r actual now)
       = settled_account (val (ce_reserved_usd c)) (map_option val actual)"
proof -
  have m: "money_ok True (cr_reserved_usd r)" "on_grid 18 (cr_reserved_usd r)"
    using assms(1-3) money_ok_cong [of "ce_reserved_usd c" "cr_reserved_usd r" True]
      on_grid_cong [of "ce_reserved_usd c" "cr_reserved_usd r" 18]
    by (simp_all add: entry_wf_def entry_exact_def)
  then have m': "money_ok False (cr_reserved_usd r)" by (auto simp: money_ok_def)
  show "entry_wf (reconciled_entry c r actual now)"
    using assms m' by (cases actual) (auto simp: entry_wf_def reconciled_entry_def settle_status_def
        settle_cost_def lifecycle_valid_def dcmp_iff)
  show "entry_exact (reconciled_entry c r actual now)"
    using assms m by (cases actual) (auto simp: entry_exact_def reconciled_entry_def settle_cost_def)
  show "abs_account (reconciled_entry c r actual now)
       = settled_account (val (ce_reserved_usd c)) (map_option val actual)"
    using assms(3) by (cases actual) (auto simp: abs_account_def reconciled_entry_def settle_status_def
        settle_cost_def settled_account_def dcmp_iff)
qed

lemma released_entry_wf:
  assumes "entry_wf c" "entry_exact c" "valid_instant now" "ce_created_at c \<le> now"
  shows "entry_wf (released_entry c reason now)" "entry_exact (released_entry c reason now)"
  using assms money_ok_zero
  by (auto simp: entry_wf_def entry_exact_def released_entry_def lifecycle_valid_def deq_iff)

lemma ready_entry:
  assumes "ledger_ready tc led" "dict_get (view_entries tc led) k = Some c"
  shows "k = ce_request_id c" "entry_wf c" "entry_exact c"
    "ledger_book tc led k = Some (abs_account c)"
  using entries_wf_get [OF ready_view(2) [OF assms(1)] assms(2)] ready_view(1,3) [OF assms(1)]
    dict_get_value [OF assms(2)] assms(2)
  unfolding entries_exact_def by (blast, blast, blast, simp add: ledger_book_def book_of_def)

lemma clock_entry:
  assumes "clock_ok tc now led" "dict_get (view_entries tc led) k = Some c"
  shows "valid_instant now" "ce_created_at c \<le> now"
  using assms(1) dict_get_value [OF assms(2)] unfolding clock_ok_def by blast+

lemma validated_actual:
  assumes "validate_actual v = Inr actual" "actual_exact v"
  shows "(case actual of None \<Rightarrow> True | Some a \<Rightarrow> money_ok False a \<and> on_grid 18 a)
    \<and> map_option val actual = actual_value v"
proof (cases v)
  case (Some x)
  with assms obtain a where a: "validate_money x ''actual_cost_usd'' False = Inr a" "actual = Some a"
    by (auto simp: validate_actual_def result_simps)
  with Some assms(2) validated_amount [OF a(1)] show ?thesis
    by (auto simp: actual_exact_def actual_value_def)
qed (use assms in \<open>simp add: actual_value_def validate_actual_def\<close>)

lemma reconcile_cases:
  assumes "ledger_ready tc led" "actual_exact v" "clock_ok tc now led"
    and "ledger_reconcile tc now r v led = (res, led')"
  obtains (unchanged) "led' = led" "\<And>e c. res = Inr e \<Longrightarrow>
      dict_get (view_entries tc led) (cr_request_id r) = Some c \<Longrightarrow> ce_status c \<noteq> RESERVED"
  | (settled) c actual where "dict_get (view_entries tc led) (cr_request_id r) = Some c"
      "ce_status c = RESERVED" "val (ce_reserved_usd c) = val (cr_reserved_usd r)"
      "map_option val actual = actual_value v"
      "entry_wf (reconciled_entry c r actual now)" "entry_exact (reconciled_entry c r actual now)"
      "abs_account (reconciled_entry c r actual now)
         = settled_account (val (ce_reserved_usd c)) (actual_value v)"
      "led' = store_entries tc led
         (AList.update (ce_request_id c) (reconciled_entry c r actual now) (view_entries tc led))"
      "res = (if settle_status r actual = RESERVATION_OVERRUN
              then Inl (overrun_error (cr_request_id r)) else Inr (reconciled_entry c r actual now))"
proof -
  consider (err) e where "validate_actual v = Inl e" | (ok) actual where "validate_actual v = Inr actual"
    by (cases "validate_actual v") blast+
  then show thesis
  proof cases
    case err
    with assms(4) show thesis by (intro unchanged) (auto simp: ledger_reconcile_def)
  next
    case (ok actual)
    note act = validated_actual [OF ok assms(2)]
    show thesis
    proof (cases "rbind (load_entries tc led) (\<lambda>entries.
        rbind (matching_entry entries r) (\<lambda>c. Inr (entries, c)))")
      case (Inl e)
      with ok assms(4) show thesis by (intro unchanged) (auto simp: ledger_reconcile_def)
    next
      case (Inr p)
      then obtain es c where p: "p = (es, c)" "load_entries tc led = Inr es" "matching_entry es r = Inr c"
        by (auto simp: result_simps)
      have es: "es = view_entries tc led" using load_ready(1) [OF p(2)] by simp
      note m = matching_entry_Inr [OF p(3)]
      show thesis
      proof (cases "ce_status c = RESERVED")
        case False
        with ok Inr p assms(4) m(1) [unfolded es] show thesis
          by (intro unchanged) (auto simp: ledger_reconcile_def split: if_splits)
      next
        case True
        note g = m(1) [unfolded es]
        note u = reconciled_entry_wf [OF ready_entry(2,3) [OF assms(1) g] m(3) conjunct1 [OF act]
            clock_entry [OF assms(3) g]]
        from ok Inr p True assms(4) have l: "led' = store_entries tc led
            (AList.update (ce_request_id c) (reconciled_entry c r actual now) es)"
          "res = (if settle_status r actual = RESERVATION_OVERRUN
              then Inl (overrun_error (cr_request_id r)) else Inr (reconciled_entry c r actual now))"
          by (auto simp: ledger_reconcile_def Let_def reconciled_entry_def)
        show thesis
          by (rule settled [OF g True m(3) conjunct2 [OF act] u(1,2)
                u(3) [unfolded conjunct2 [OF act]] l(1) [unfolded es] l(2)])
      qed
    qed
  qed
qed

lemma release_cases:
  assumes "ledger_ready tc led" "clock_ok tc now led"
    and "ledger_release tc now r reason led = (res, led')"
  obtains (unchanged) "led' = led" "\<And>e c. res = Inr e \<Longrightarrow>
      dict_get (view_entries tc led) (cr_request_id r) = Some c \<Longrightarrow> ce_status c \<noteq> RESERVED"
  | (settled) c where "dict_get (view_entries tc led) (cr_request_id r) = Some c"
      "ce_status c = RESERVED" "val (ce_reserved_usd c) = val (cr_reserved_usd r)"
      "entry_wf (released_entry c reason now)" "entry_exact (released_entry c reason now)"
      "led' = store_entries tc led
         (AList.update (ce_request_id c) (released_entry c reason now) (view_entries tc led))"
      "res = Inr (released_entry c reason now)"
proof (cases "rbind (load_entries tc led) (\<lambda>entries.
        rbind (matching_entry entries r) (\<lambda>c. Inr (entries, c)))")
  case (Inl e)
  with assms(3) show thesis by (intro unchanged) (auto simp: ledger_release_def)
next
  case (Inr p)
  then obtain es c where p: "p = (es, c)" "load_entries tc led = Inr es" "matching_entry es r = Inr c"
    by (auto simp: result_simps)
  have es: "es = view_entries tc led" using load_ready(1) [OF p(2)] by simp
  note m = matching_entry_Inr [OF p(3)]
  show thesis
  proof (cases "ce_status c = RESERVED")
    case False
    with Inr p assms(3) m(1) [unfolded es] show thesis
      by (intro unchanged) (auto simp: ledger_release_def split: if_splits)
  next
    case True
    note g = m(1) [unfolded es]
    note u = released_entry_wf [OF ready_entry(2,3) [OF assms(1) g] clock_entry [OF assms(2) g], of reason]
    from Inr p True assms(3) have l: "led' = store_entries tc led
        (AList.update (ce_request_id c) (released_entry c reason now) es)"
      "res = Inr (released_entry c reason now)"
      by (auto simp: ledger_release_def Let_def released_entry_def)
    show thesis by (rule settled [OF g True m(3) u l(1) [unfolded es] l(2)])
  qed
qed

section \<open>Sequences of operations\<close>

inductive ledger_step :: "iso_codec \<Rightarrow> atomic_cost_ledger \<Rightarrow> atomic_cost_ledger \<Rightarrow> bool"
  for tc where
  reserve: "ledger_reserve tc now reservation_id request_id v led = (res, led') \<Longrightarrow>
     amount_exact v \<Longrightarrow> fresh_id_ok reservation_id \<Longrightarrow> valid_instant now \<Longrightarrow> ledger_step tc led led'"
| reconcile: "ledger_reconcile tc now r actual led = (res, led') \<Longrightarrow>
     actual_exact actual \<Longrightarrow> clock_ok tc now led \<Longrightarrow> ledger_step tc led led'"
| release: "ledger_release tc now r reason led = (res, led') \<Longrightarrow>
     clock_ok tc now led \<Longrightarrow> ledger_step tc led led'"

text \<open>The four effects a step can have on the book and its totals.\<close>

lemma ledger_step_effect:
  assumes "ledger_step tc led led'" "ledger_ready tc led"
  obtains (unchanged) "led' = led"
  | (reserved) k a where "ledger_ready tc led'" "al_cap_usd led' = al_cap_usd led"
      "ledger_book tc led k = None" "ledger_book tc led' = (ledger_book tc led)(k \<mapsto> reserved_account a)"
      "ledger_spent tc led' + ledger_held tc led' \<le> ledger_cap led'"
      "\<not> ledger_overrun tc led" "\<not> ledger_overrun tc led'"
  | (finished) k c u where "ledger_ready tc led'" "al_cap_usd led' = al_cap_usd led"
      "ledger_book tc led k = Some c" "ac_status c = RESERVED" "ac_status u \<noteq> RESERVED"
      "ledger_book tc led' = (ledger_book tc led)(k \<mapsto> u)"
      "ledger_spent tc led' = ledger_spent tc led + ac_accounted u"
      "ledger_held tc led' = ledger_held tc led - ac_reserved c"
      "ledger_overrun tc led' \<longleftrightarrow> ledger_overrun tc led \<or> ac_status u = RESERVATION_OVERRUN"
      "ac_status u \<noteq> RESERVATION_OVERRUN \<longrightarrow> ac_accounted u \<le> ac_reserved c"
  using assms(1)
proof cases
  case (reserve now rid req v res)
  show thesis
  proof (cases res)
    case (Inl e)
    with reserve show thesis by (intro unchanged) (simp add: reserve_refused)
  next
    case (Inr r)
    note ef = reserve_effect [OF assms(2) reserve(2-4) reserve(1)[unfolded Inr]]
    have "\<not> ledger_overrun tc led"
      using reserve(1) Inr reserve_checks_Inr(7) [OF assms(2) reserve(2)]
      by (auto simp: ledger_reserve_def split: sum.splits)
    with ef reserved show thesis by blast
  qed
next
  case (reconcile now r v res)
  from assms(2) reconcile(2,3,1) show thesis
  proof (cases rule: reconcile_cases)
    case (settled c actual)
    let ?u = "reconciled_entry c r actual now"
    have nr: "ce_status ?u \<noteq> RESERVED" "ce_request_id ?u = ce_request_id c"
      by (auto simp: reconciled_entry_def settle_status_def split: option.splits)
    note ef = settle_effect [OF assms(2) settled(1,2,5,6) nr(2,1) settled(8)]
    note ready_entry(4) [OF assms(2) settled(1)]
    moreover have "ac_status (abs_account ?u) \<noteq> RESERVATION_OVERRUN \<longrightarrow>
        ac_accounted (abs_account ?u) \<le> ac_reserved (abs_account c)"
      unfolding settled(7) by (auto simp: settled_account_def abs_account_def split: option.splits)
    ultimately show thesis
      using ef settled(2) nr(1) by (intro finished [of "cr_request_id r" "abs_account c" "abs_account ?u"])
        (simp_all add: abs_account_def)
  qed (rule unchanged)
next
  case (release now r reason res)
  from assms(2) release(2,1) show thesis
  proof (cases rule: release_cases)
    case (settled c)
    let ?u = "released_entry c reason now"
    have nr: "ce_status ?u \<noteq> RESERVED" "ce_request_id ?u = ce_request_id c"
      "ce_accounted_cost_usd ?u = dzero" by (simp_all add: released_entry_def)
    note ef = settle_effect [OF assms(2) settled(1,2,4,5) nr(2,1) settled(6)]
    note ready_entry(4) [OF assms(2) settled(1)]
    moreover have "0 \<le> val (ce_reserved_usd c)"
      using ready_entry(2) [OF assms(2) settled(1)] by (simp add: entry_wf_def money_ok_def)
    ultimately show thesis
      using ef settled(2) nr by (intro finished [of "cr_request_id r" "abs_account c" "abs_account ?u"])
        (simp_all add: abs_account_def)
  qed (rule unchanged)
qed

end
