(* ===== verification/Ledger_Guard.thy ===== *)
theory Ledger_Guard
  imports Ledger_Ops
begin

text \<open>
  The cost ledger meets the contract of a spending guard; the forward behaviour of settling,
  and a small concrete ledger the theorems are evaluated on.
\<close>

section \<open>The ledger is a spending guard\<close>

interpretation ledger: spend_guard "ledger_step tc" "ledger_ready tc" "ledger_overrun tc"
  ledger_cap "ledger_spent tc" "ledger_held tc" for tc
proof
  fix led led' assume r: "ledger_ready tc led" and st: "ledger_step tc led led'"
  from st r show "ledger_ready tc led'"
    by (cases rule: ledger_step_effect) (auto intro: r)
  from st r show "ledger_cap led' = ledger_cap led"
    by (cases rule: ledger_step_effect) (simp_all add: ledger_cap_def)
  from st r show "ledger_overrun tc led \<Longrightarrow> ledger_overrun tc led'"
    by (cases rule: ledger_step_effect) simp_all
  from st r show "ledger_spent tc led' + ledger_held tc led' \<le> ledger_cap led'"
    if "\<not> ledger_overrun tc led'" "ledger_spent tc led + ledger_held tc led \<le> ledger_cap led"
    using that by (cases rule: ledger_step_effect) (auto simp: ledger_cap_def)
next
  fix led assume r: "ledger_ready tc led"
  show "0 \<le> ledger_held tc led"
    unfolding ledger_held_def entries_held_def
  proof (rule dict_sum_nonneg)
    fix e assume "e \<in> set (dict_values (view_entries tc led))"
    then have "entry_wf e" using entries_wf_value ready_view(2) [OF r] by blast
    then show "0 \<le> held_usd e" by (simp add: held_usd_def entry_wf_def money_ok_def)
  qed
qed

lemma open_initialized:
  assumes "codec_ok tc" "amount_exact cap" "open_ledger tc INITIALIZE lock disk cap = Inr led"
  shows "ledger_ready tc led" "ledger_spent tc led = 0" "ledger_held tc led = 0"
    "\<exists>d. cap = DFin d \<and> ledger_cap led = val d" "0 < ledger_cap led" "disk = None"
proof -
  from assms(3) obtain a where a: "validate_money cap ''cap_usd'' True = Inr a" and d: "disk = None"
      and led: "led = write_state \<lparr>al_cap_usd = a, al_lock = True, al_disk = None\<rparr> (new_state a)"
    by (auto simp: open_ledger_def result_simps read_state_def Let_def split: if_splits)
  note m = validated_amount [OF a assms(2)]
  have "new_state a = serialize_state tc a []" by (simp add: new_state_def serialize_state_def)
  then have st: "led = store_entries tc \<lparr>al_cap_usd = a, al_lock = True, al_disk = None\<rparr> []"
    using led by (simp add: store_entries_def)
  then have v: "ledger_view tc led = Some []"
    using store_entries_view [OF assms(1), of "\<lparr>al_cap_usd = a, al_lock = True, al_disk = None\<rparr>" "[]"] m
    by (simp add: entries_wf_def canon_entries_def)
  have cap: "al_cap_usd led = a" by (simp add: st)
  show "ledger_ready tc led" using v m cap assms(1) by (simp add: ledger_ready_def entries_exact_def)
  show "ledger_spent tc led = 0" "ledger_held tc led = 0"
    using v by (simp_all add: ledger_spent_def ledger_held_def view_entries_def entries_spent_def entries_held_def)
  show "\<exists>d. cap = DFin d \<and> ledger_cap led = val d" "0 < ledger_cap led" "disk = None"
    using m cap d by (auto simp: ledger_cap_def money_ok_def)
qed

lemma steps_keep_final:
  assumes "(ledger_step tc)\<^sup>*\<^sup>* led led'" "ledger_ready tc led"
    and "ledger_book tc led k = Some a" "ac_status a \<noteq> RESERVED"
  shows "ledger_book tc led' k = Some a"
  using assms
proof (induction rule: rtranclp_induct)
  case (step x y)
  have r: "ledger_ready tc x" using ledger.steps_usable step by blast
  have b: "ledger_book tc x k = Some a" using step by blast
  from step(2) r show ?case by (cases rule: ledger_step_effect) (use b step.prems in auto)
qed

lemma matching_entry_ok:
  assumes "matches_ident ident_char 127 (cr_request_id r)" "money_ok True (cr_reserved_usd r)"
    and "dict_get es (cr_request_id r) = Some c" "ce_reservation_id c = cr_reservation_id r"
    and "val (ce_reserved_usd c) = val (cr_reserved_usd r)"
  shows "matching_entry es r = Inr c"
proof -
  have "validate_money (DFin (cr_reserved_usd r)) ''reserved_usd'' True = Inr (cr_reserved_usd r)"
    using assms(2) by (auto simp: validate_money_iff money_ok_def)
  then show ?thesis using assms
    by (simp add: matching_entry_def validate_request_id_def deq_iff)
qed

text \<open>A handle that names an active entry of the file.\<close>

definition holds_reservation :: "cost_entries \<Rightarrow> cost_reservation \<Rightarrow> bool" where
  "holds_reservation es r \<longleftrightarrow>
     (case dict_get es (cr_request_id r) of None \<Rightarrow> False
      | Some c \<Rightarrow> ce_status c = RESERVED \<and> ce_reservation_id c = cr_reservation_id r
          \<and> val (ce_reserved_usd c) = val (cr_reserved_usd r))"

lemma holds_reservation_matching:
  assumes "entries_wf es" "holds_reservation es r"
  shows "\<exists>c. matching_entry es r = Inr c \<and> dict_get es (cr_request_id r) = Some c \<and> ce_status c = RESERVED"
proof -
  from assms(2) obtain c where c: "dict_get es (cr_request_id r) = Some c" "ce_status c = RESERVED"
    "ce_reservation_id c = cr_reservation_id r" "val (ce_reserved_usd c) = val (cr_reserved_usd r)"
    by (auto simp: holds_reservation_def split: option.splits)
  have wf: "cr_request_id r = ce_request_id c \<and> entry_wf c" using entries_wf_get [OF assms(1) c(1)] .
  then have "matches_ident ident_char 127 (cr_request_id r)" "money_ok True (cr_reserved_usd r)"
    using c(4) money_ok_cong [of "ce_reserved_usd c" "cr_reserved_usd r" True] by (auto simp: entry_wf_def)
  then have "matching_entry es r = Inr c" using c by (intro matching_entry_ok)
  with c show ?thesis by blast
qed


lemma reconcile_settles:
  assumes "load_entries tc led = Inr es" "matching_entry es r = Inr c" "ce_status c = RESERVED"
    and "validate_actual v = Inr actual"
  shows "ledger_reconcile tc now r v led =
    (if settle_status r actual = RESERVATION_OVERRUN then Inl (overrun_error (cr_request_id r))
     else Inr (reconciled_entry c r actual now),
     store_entries tc led (AList.update (ce_request_id c) (reconciled_entry c r actual now) es))"
  using assms by (simp add: ledger_reconcile_def reconciled_entry_def Let_def)

lemma release_settles:
  assumes "load_entries tc led = Inr es" "matching_entry es r = Inr c" "ce_status c = RESERVED"
  shows "ledger_release tc now r reason led = (Inr (released_entry c reason now),
     store_entries tc led (AList.update (ce_request_id c) (released_entry c reason now) es))"
  using assms by (simp add: ledger_release_def released_entry_def Let_def)

lemma load_stored:
  assumes "codec_ok tc" "money_ok True (al_cap_usd led)" "entries_wf es"
    and "length (dumps (sort_keys (serialize_state tc (al_cap_usd led) es))) < max_state_bytes"
  shows "load_entries tc (store_entries tc led es) = Inr (canon_entries es)"
proof -
  have "val (canon_money (al_cap_usd led)) = val (al_cap_usd led)"
    using assms(2) by (metis canon_money_read(1) money_ok_nonneg)
  moreover have "is_object (sort_keys (serialize_state tc (al_cap_usd led) es))"
    by (simp add: serialize_state_def)
  ultimately show ?thesis
    using ledger_state_roundtrip [OF assms(1-3)] assms(4)
    by (simp add: load_entries_def required_state_def read_state_def store_entries_def
        write_state_def deq_iff)
qed

section \<open>A small ledger to evaluate on\<close>

lemma dexp_dstrip_ge: "m \<noteq> 0 \<Longrightarrow> e \<le> dexp (dstrip m e)"
proof (induction m e rule: dstrip.induct)
  case (1 m e)
  then show ?case by (subst dstrip.simps) (auto simp: dvd_eq_mod_eq_0 [symmetric] dvd_div_eq_0_iff)
qed

lemma money_ok_Dec:
  assumes "0 < m" "m < 10 ^ 12" "- 18 \<le> e" "e \<le> 0"
  shows "money_ok True (Dec m e)" "money_ok False (Dec m e)"
proof -
  have n: "ndigits (nat \<bar>m\<bar>) \<le> 12" using assms(1,2) by (simp add: ndigits_le_iff nat_less_iff)
  then have r: "dround default_prec (Dec m e) = Dec m e" by (simp add: default_prec_def)
  have "dnormalize default_prec (Dec m e) = dstrip m e"
    using r by (simp add: dnormalize_def)
  moreover have "adjusted (dstrip m e) \<le> 12"
    using n assms(1,4) adjusted_dstrip [of m e] by (simp add: adjusted_def)
  moreover have "e \<le> dexp (dstrip m e)" using assms(1) by (intro dexp_dstrip_ge) simp
  ultimately have "money_in_bounds (Dec m e)" using assms(3) by (simp add: money_in_bounds_def)
  then show "money_ok True (Dec m e)" "money_ok False (Dec m e)"
    using assms(1) by (simp_all add: money_ok_def)
qed

definition demo_ledger :: atomic_cost_ledger where
  "demo_ledger = \<lparr>al_cap_usd = Dec 10 0, al_lock = True, al_disk = None\<rparr>"

definition demo_id :: string where
  "demo_id = ''0123456789abcdef0123456789abcdef''"

definition demo_entry :: cost_entry where
  "demo_entry = reserved_entry ''r1'' demo_id (Dec 25 (- 1)) 7"

definition demo_handle :: cost_reservation where
  "demo_handle = \<lparr>cr_request_id = ''r1'', cr_reservation_id = demo_id, cr_reserved_usd = Dec 25 (- 1)\<rparr>"

definition demo_fresh :: atomic_cost_ledger where
  "demo_fresh = store_entries digits_codec demo_ledger []"

definition demo_held :: atomic_cost_ledger where
  "demo_held = store_entries digits_codec demo_fresh [(''r1'', demo_entry)]"

lemma demo_amounts: "money_ok True (Dec 10 0)" "money_ok True (Dec 25 (- 1))" "money_ok False (Dec 20 (- 1))"
  "on_grid 18 (Dec 10 0)" "on_grid 18 (Dec 25 (- 1))" "on_grid 18 (Dec 20 (- 1))"
  by (simp_all add: money_ok_Dec on_gridI)

lemma demo_entry_wf: "entry_wf demo_entry" "entry_exact demo_entry" "ce_request_id demo_entry = ''r1''"
proof -
  have m: "matches_ident ident_char 127 ''r1''" by code_simp
  have f: "fresh_id_ok demo_id" by code_simp
  have v: "valid_instant 7" by (simp add: valid_instant_def)
  note w = reserved_entry_wf [OF m f demo_amounts(2,5) v, folded demo_entry_def]
  show "entry_wf demo_entry" "entry_exact demo_entry" "ce_request_id demo_entry = ''r1''"
    using w by simp_all
qed

lemma demo_open: "open_ledger digits_codec INITIALIZE False None (DFin (Dec 10 0)) = Inr demo_fresh"
proof -
  have "validate_money (DFin (Dec 10 0)) ''cap_usd'' True = Inr (Dec 10 0)"
    using demo_amounts(1) by (simp add: validate_money_iff money_ok_def)
  then show ?thesis
    by (simp add: open_ledger_def read_state_def demo_fresh_def demo_ledger_def store_entries_def
        new_state_def serialize_state_def Let_def)
qed

lemma demo_load: "load_entries digits_codec demo_fresh = Inr []"
  "load_entries digits_codec demo_held = Inr (canon_entries [(''r1'', demo_entry)])"
proof -
  have s: "length (dumps (sort_keys (serialize_state digits_codec (Dec 10 0) []))) < 4000"
    "length (dumps (sort_keys (serialize_state digits_codec (Dec 10 0) [(''r1'', demo_entry)]))) < 4000"
    by code_simp+
  have wf: "entries_wf []" "entries_wf [(''r1'', demo_entry)]"
    using demo_entry_wf by (simp_all add: entries_wf_def)
  have cap: "al_cap_usd demo_ledger = Dec 10 0" "al_cap_usd demo_fresh = Dec 10 0"
    by (simp_all add: demo_fresh_def demo_ledger_def)
  have b: "4000 < max_state_bytes" by (simp add: max_state_bytes_def)
  have "load_entries digits_codec demo_fresh = Inr (canon_entries [])"
    unfolding demo_fresh_def using s(1) b cap demo_amounts(1) wf(1)
    by (intro load_stored digits_codec_ok) simp_all
  then show "load_entries digits_codec demo_fresh = Inr []" by (simp add: canon_entries_def)
  show "load_entries digits_codec demo_held = Inr (canon_entries [(''r1'', demo_entry)])"
    unfolding demo_held_def using s(2) b cap demo_amounts(1) wf(2)
    by (intro load_stored digits_codec_ok) simp_all
qed

lemma demo_fresh_ready: "ledger_ready digits_codec demo_fresh" "ledger_spent digits_codec demo_fresh = 0"
  "ledger_held digits_codec demo_fresh = 0" "ledger_cap demo_fresh = 10" "\<not> ledger_overrun digits_codec demo_fresh"
proof -
  have "amount_exact (DFin (Dec 10 0))" using demo_amounts by (simp add: amount_exact_def)
  note o = open_initialized [OF digits_codec_ok this demo_open]
  then show "ledger_ready digits_codec demo_fresh" "ledger_spent digits_codec demo_fresh = 0"
    "ledger_held digits_codec demo_fresh = 0" "ledger_cap demo_fresh = 10" by simp_all
  show "\<not> ledger_overrun digits_codec demo_fresh"
    using load_ready(1) [OF demo_load(1)] by (simp add: ledger_overrun_def entries_overrun_def)
qed

lemma demo_reserve:
  "ledger_reserve digits_codec 7 demo_id ''r1'' (DFin (Dec 25 (- 1))) demo_fresh = (Inr demo_handle, demo_held)"
proof -
  have m: "matches_ident ident_char 127 ''r1''" by code_simp
  have a: "validate_money (DFin (Dec 25 (- 1))) ''maximum_cost_usd'' True = Inr (Dec 25 (- 1))"
    using demo_amounts(2) by (simp add: validate_money_iff money_ok_def)
  have cap: "al_cap_usd demo_fresh = Dec 10 0" by (simp add: demo_fresh_def demo_ledger_def)
  note snap = snapshot_exact [of "[]" "Dec 10 0", unfolded entries_spent_def entries_held_def
      entries_overrun_def entries_wf_def entries_exact_def, simplified]
  have "val (Dec 25 (- 1)) \<le> val (cs_remaining_usd (snapshot_of (Dec 10 0) []))"
    "\<not> cs_has_reservation_overrun (snapshot_of (Dec 10 0) [])"
    using snap demo_amounts(1,4) by simp_all
  then have "reserve_checks digits_codec ''r1'' (DFin (Dec 25 (- 1))) demo_fresh = Inr (Dec 25 (- 1), [])"
    using m a by (simp add: reserve_checks_def validate_request_id_def demo_load cap dlt_iff)
  then show ?thesis
    by (simp add: ledger_reserve_def demo_handle_def demo_held_def demo_entry_def)
qed

lemma demo_held_ready: "ledger_ready digits_codec demo_held"
  "holds_reservation (canon_entries [(''r1'', demo_entry)]) demo_handle"
  "clock_ok digits_codec 9 demo_held"
proof -
  have "fresh_id_ok demo_id" by code_simp
  then show "ledger_ready digits_codec demo_held"
    using demo_amounts by (intro reserve_effect(1) [OF demo_fresh_ready(1) _ _ _ demo_reserve])
      (simp_all add: amount_exact_def valid_instant_def)
  have c: "canon_entries [(''r1'', demo_entry)] = [(''r1'', canon_entry demo_entry)]"
    by (simp add: canon_entries_def)
  show "holds_reservation (canon_entries [(''r1'', demo_entry)]) demo_handle"
    using entry_wf_values(1) [OF demo_entry_wf(1)]
    by (simp add: c holds_reservation_def demo_handle_def)
      (simp add: canon_entry_def demo_entry_def reserved_entry_def)
  show "clock_ok digits_codec 9 demo_held"
    unfolding clock_ok_def load_ready(1) [OF demo_load(2)] c
    by (simp add: canon_entry_def demo_entry_def reserved_entry_def valid_instant_def)
qed

lemma demo_step: "ledger_step digits_codec demo_fresh demo_held"
proof (rule ledger_step.reserve [OF demo_reserve])
  show "amount_exact (DFin (Dec 25 (- 1)))" using demo_amounts by (simp add: amount_exact_def)
  show "fresh_id_ok demo_id" by code_simp
  show "valid_instant 7" by (simp add: valid_instant_def)
qed

lemma demo_held_overrun: "\<not> ledger_overrun digits_codec demo_held"
  using load_ready(1) [OF demo_load(2)] entries_sums_canon(3) [of "[(''r1'', demo_entry)]"] demo_entry_wf
  by (simp add: ledger_overrun_def entries_wf_def)
    (simp add: entries_overrun_def demo_entry_def reserved_entry_def)

lemma demo_held_totals: "ledger_held digits_codec demo_held = 5 / 2" "ledger_spent digits_codec demo_held = 0"
proof -
  have a: "amount_exact (DFin (Dec 25 (- 1)))" using demo_amounts by (simp add: amount_exact_def)
  have f: "fresh_id_ok demo_id" by code_simp
  have v: "valid_instant 7" by (simp add: valid_instant_def)
  note ef = reserve_effect(5,6) [OF demo_fresh_ready(1) a f v demo_reserve]
  show "ledger_held digits_codec demo_held = 5 / 2" "ledger_spent digits_codec demo_held = 0"
    using ef demo_fresh_ready(2,3) by (simp_all add: demo_handle_def power_int_def)
qed

lemma demo_canon: "canon_entries [(''r1'', demo_entry)] = [(''r1'', demo_entry)]"
proof -
  have t: "money_text (Dec 25 (- 1)) = plain ''2'' ''5''" by code_simp
  have "list_all is_digit ''2''" "list_all is_digit ''5''" by code_simp+
  then have "decimal_of_string (plain ''2'' ''5'') = Some (DFin (Dec (int (digits_value 0 (''2'' @ ''5''))) (- int (length ''5''))))"
    by (intro decimal_of_plain) simp_all
  also have "digits_value 0 (''2'' @ ''5'') = 25" by code_simp
  finally have "decimal_of_string (money_text (Dec 25 (- 1))) = Some (DFin (Dec 25 (- 1)))" by (simp add: t)
  then have "canon_money (Dec 25 (- 1)) = Dec 25 (- 1)" "canon_money dzero = dzero"
    by (simp_all add: canon_money_def deq_iff)
  then show ?thesis by (simp add: canon_entries_def canon_entry_def demo_entry_def reserved_entry_def)
qed

text \<open>The demonstration ledger after settling at an actual cost.\<close>

definition demo_settled_entry :: "decimal \<Rightarrow> cost_entry" where
  "demo_settled_entry a = reconciled_entry demo_entry demo_handle (Some a) 9"

definition demo_settled :: "decimal \<Rightarrow> atomic_cost_ledger" where
  "demo_settled a = store_entries digits_codec demo_held [(''r1'', demo_settled_entry a)]"

lemma demo_reconcile:
  assumes "money_ok False a" "val a \<noteq> 0"
  shows "validate_actual (Some (DFin a)) = Inr (Some a)"
    "ledger_reconcile digits_codec 9 demo_handle (Some (DFin a)) demo_held =
      (if val (Dec 25 (- 1)) < val a then Inl (overrun_error ''r1'') else Inr (demo_settled_entry a),
       demo_settled a)"
proof -
  show v: "validate_actual (Some (DFin a)) = Inr (Some a)"
    using assms by (simp add: validate_actual_def validate_money_iff money_ok_def result_simps)
  have "dict_get [(''r1'', demo_entry)] (cr_request_id demo_handle) = Some demo_entry"
    by (simp add: demo_handle_def)
  moreover have "entries_wf [(''r1'', demo_entry)]" using demo_entry_wf by (simp add: entries_wf_def)
  ultimately have m: "matching_entry [(''r1'', demo_entry)] demo_handle = Inr demo_entry"
      "ce_status demo_entry = RESERVED"
    using holds_reservation_matching [OF _ demo_held_ready(2) [unfolded demo_canon]] by auto
  have h: "cr_request_id demo_handle = ''r1''" "cr_reserved_usd demo_handle = Dec 25 (- 1)"
    by (simp_all add: demo_handle_def)
  show "ledger_reconcile digits_codec 9 demo_handle (Some (DFin a)) demo_held =
      (if val (Dec 25 (- 1)) < val a then Inl (overrun_error ''r1'') else Inr (demo_settled_entry a),
       demo_settled a)"
    using reconcile_settles [OF demo_load(2) [unfolded demo_canon] m v, of 9] demo_entry_wf(3)
    by (simp add: demo_settled_def demo_settled_entry_def settle_status_def h dlt_iff del: val_Dec)
qed

lemma demo_settle_step:
  assumes "money_ok False a" "val a \<noteq> 0" "on_grid 18 a"
  shows "ledger_step digits_codec demo_held (demo_settled a)"
  using assms by (intro ledger_step.reconcile [OF demo_reconcile(2) _ demo_held_ready(3)])
    (simp_all add: actual_exact_def amount_exact_def)

lemma demo_settled_facts:
  assumes "money_ok False a" "val a \<noteq> 0" "on_grid 18 a"
  shows "ledger_ready digits_codec (demo_settled a)"
    "ledger_book digits_codec (demo_settled a) ''r1'' = Some (settled_account (5 / 2) (Some (val a)))"
    "ledger_overrun digits_codec (demo_settled a) \<longleftrightarrow> 5 / 2 < val a"
proof -
  show "ledger_ready digits_codec (demo_settled a)"
    using ledger.step_usable [OF demo_held_ready(1) demo_settle_step [OF assms]] .
  have w: "entry_wf (demo_settled_entry a)" "entry_exact (demo_settled_entry a)"
    "abs_account (demo_settled_entry a) = settled_account (val (ce_reserved_usd demo_entry)) (map_option val (Some a))"
    unfolding demo_settled_entry_def using demo_entry_wf assms
    by (intro reconciled_entry_wf; simp add: demo_entry_def reserved_entry_def demo_handle_def valid_instant_def)+
  have id: "ce_request_id (demo_settled_entry a) = ''r1''" "ce_status demo_entry = RESERVED"
    "ce_request_id demo_entry = ''r1''" "ce_reserved_usd demo_entry = Dec 25 (- 1)"
    by (simp_all add: demo_settled_entry_def reconciled_entry_def demo_entry_def reserved_entry_def)
  have st: "ce_status (demo_settled_entry a) = (if 5 / 2 < val a then RESERVATION_OVERRUN else RECONCILED)"
    by (simp add: demo_settled_entry_def reconciled_entry_def settle_status_def dlt_iff demo_handle_def power_int_def)
  have v: "view_entries digits_codec demo_held = [(''r1'', demo_entry)]"
    using load_ready(1) [OF demo_load(2)] by (simp add: demo_canon)
  have "dict_get (view_entries digits_codec demo_held) ''r1'' = Some demo_entry" by (simp add: v)
  moreover have "demo_settled a = store_entries digits_codec demo_held
      (AList.update (ce_request_id demo_entry) (demo_settled_entry a) (view_entries digits_codec demo_held))"
    by (simp add: v id demo_settled_def)
  ultimately have ef: "ledger_book digits_codec (demo_settled a) =
      (ledger_book digits_codec demo_held)(''r1'' \<mapsto> abs_account (demo_settled_entry a))"
    "ledger_overrun digits_codec (demo_settled a) \<longleftrightarrow>
      ledger_overrun digits_codec demo_held \<or> ce_status (demo_settled_entry a) = RESERVATION_OVERRUN"
    using settle_effect(3,6) [OF demo_held_ready(1) _ id(2) w(1,2)] id st by auto
  show "ledger_book digits_codec (demo_settled a) ''r1'' = Some (settled_account (5 / 2) (Some (val a)))"
    using ef(1) w(3) id by (simp add: power_int_def)
  show "ledger_overrun digits_codec (demo_settled a) \<longleftrightarrow> 5 / 2 < val a"
    using ef(2) st demo_held_overrun by simp
qed

lemma demo_settled_load:
  "load_entries digits_codec (demo_settled (Dec 20 (- 1))) = Inr (canon_entries [(''r1'', demo_settled_entry (Dec 20 (- 1)))])"
proof -
  have s: "length (dumps (sort_keys (serialize_state digits_codec (Dec 10 0)
      [(''r1'', demo_settled_entry (Dec 20 (- 1)))]))) < 4000" by code_simp
  have cap: "al_cap_usd demo_held = Dec 10 0"
    by (simp add: demo_held_def demo_fresh_def demo_ledger_def)
  have "entry_wf (demo_settled_entry (Dec 20 (- 1)))" "ce_request_id (demo_settled_entry (Dec 20 (- 1))) = ''r1''"
    unfolding demo_settled_entry_def using demo_entry_wf demo_amounts
    by (intro reconciled_entry_wf; simp add: demo_entry_def reserved_entry_def demo_handle_def valid_instant_def)
      (simp add: reconciled_entry_def demo_entry_def reserved_entry_def)
  then show ?thesis
    unfolding demo_settled_def using s cap demo_amounts(1)
    by (intro load_stored digits_codec_ok) (simp_all add: entries_wf_def max_state_bytes_def)
qed

end
