(* ===== verification/Ledger_Theorems.thy ===== *)
theory Ledger_Theorems
  imports Ledger_Guard
begin

text \<open>
  The properties of the durable cost ledger (\<open>orchestration/cost_ledger.py\<close>).
\<close>

section \<open>Facts about stored times\<close>

lemma canon_entry_fields [simp]:
  "ce_status (canon_entry e) = ce_status e" "ce_request_id (canon_entry e) = ce_request_id e"
  "ce_reservation_id (canon_entry e) = ce_reservation_id e"
  "ce_release_reason (canon_entry e) = ce_release_reason e"
  by (simp_all add: canon_entry_def)

lemma parse_entries_each:
  "parse_entries tc acc raw = Inr es \<Longrightarrow> (k, v) \<in> set raw \<Longrightarrow> \<exists>e. parse_entry tc (json_fields v) = Inr e"
  by (induction raw arbitrary: acc) (auto simp: result_simps split: if_splits)

lemma parse_entry_times:
  assumes "parse_entry tc value = Inr e"
  shows "ce_created_at e \<le> ce_updated_at e"
    "\<exists>s. required_string value ''created_at'' = Inr s \<and> parse_timestamp tc s = Inr (ce_created_at e)"
    "\<exists>s. required_string value ''updated_at'' = Inr s \<and> parse_timestamp tc s = Inr (ce_updated_at e)"
  using assms[unfolded parse_entry_def rbind_eq_Inr_iff] by auto

lemma stored_times_ordered:
  assumes "codec_ok tc" "validate_state tc (sort_keys (serialize_state tc cap es)) = Inr p"
    and "(k, e) \<in> set es" "valid_instant (ce_created_at e)" "valid_instant (ce_updated_at e)"
  shows "ce_created_at e \<le> ce_updated_at e"
proof -
  let ?raw = "map (\<lambda>(k, e). (k, sort_keys (serialize_entry tc e))) (sort_key fst es)"
  from assms(2) obtain out where "parse_entries tc [] ?raw = Inr out"
    unfolding validate_state_def stored_state_fields
    by (auto simp: Let_def result_simps required_string_def split: if_splits)
  moreover have "(k, sort_keys (serialize_entry tc e)) \<in> set ?raw" using assms(3) by force
  ultimately obtain x where "parse_entry tc (json_fields (sort_keys (serialize_entry tc e))) = Inr x"
    using parse_entries_each by blast
  then have "parse_entry tc (json_fields (serialize_entry tc e)) = Inr x"
    using parse_entry_cong [OF sort_keys_serialize_entry] by metis
  from parse_entry_times [OF this] show ?thesis
    using parse_timestamp_iso [OF assms(1,4)] parse_timestamp_iso [OF assms(1,5)]
    by (auto simp: required_string_def serialize_entry_def)
qed

section \<open>Properties\<close>

text \<open>
  C1: From a freshly initialised ledger, after any sequence of reserve, reconcile and
  release calls (successful or refused, in any order) the file is still readable, the cap is
  the configured one, and as long as no provider cost exceeded its reservation the accounted
  cost and the active reservations together stay within the cap. Amounts are on the grid of
  18 decimal places the ledger supports and the clock does not run backwards.
\<close>

theorem ledger_never_overspends:
  assumes "codec_ok tc" "amount_exact cap" "open_ledger tc INITIALIZE lock disk cap = Inr led"
    and "(ledger_step tc)\<^sup>*\<^sup>* led led'" "\<not> ledger_overrun tc led'"
  shows "ledger_ready tc led' \<and> ledger_cap led' = ledger_cap led
    \<and> ledger_spent tc led' + ledger_held tc led' \<le> ledger_cap led"
proof -
  note o = open_initialized [OF assms(1-3)]
  have "ledger_spent tc led + ledger_held tc led \<le> ledger_cap led" using o by simp
  then show ?thesis
    using ledger.steps_usable [OF assms(4) o(1)] ledger.steps_cap [OF assms(4) o(1)]
      ledger.steps_within_cap [OF assms(4) o(1) _ assms(5)] by simp
qed

theorem ledger_never_overspends_witness:
  "ledger_spent digits_codec demo_held + ledger_held digits_codec demo_held \<le> 10"
  using ledger_never_overspends [OF digits_codec_ok _ demo_open
      r_into_rtranclp [where r = "ledger_step digits_codec", OF demo_step] demo_held_overrun] demo_amounts demo_fresh_ready(4)
  by (simp add: amount_exact_def)

text \<open>
  C2: A successful \<open>reserve\<close> refines the abstract book: the requested amount is a finite decimal, the
  handle names the request and the fresh reservation and holds exactly the requested amount, the
  request had no account and now has an active one with exactly that amount and nothing accounted, no
  other account changed, the held total grew by exactly that amount and the cap still bounds
  everything. The ledger is readable, the amount is on its grid of 18 decimal places and the clock is
  in range.
\<close>

theorem ledger_reserve_refines:
  assumes "ledger_ready tc led" "amount_exact v" "fresh_id_ok reservation_id" "valid_instant now"
    and "ledger_reserve tc now reservation_id request_id v led = (Inr r, led')"
  shows "\<exists>requested. v = DFin requested
    \<and> cr_request_id r = request_id \<and> cr_reservation_id r = reservation_id
    \<and> val (cr_reserved_usd r) = val requested
    \<and> ledger_book tc led request_id = None
    \<and> ledger_book tc led' = (ledger_book tc led)
        (request_id \<mapsto> \<lparr>ac_status = RESERVED, ac_reserved = val requested, ac_actual = None,
          ac_accounted = 0, ac_reason = None\<rparr>)
    \<and> ledger_spent tc led' = ledger_spent tc led
    \<and> ledger_held tc led' = ledger_held tc led + val requested
    \<and> ledger_cap led' = ledger_cap led
    \<and> ledger_spent tc led' + ledger_held tc led' \<le> ledger_cap led"
proof -
  note ef = reserve_effect [OF assms]
  from ef(9) obtain d where "v = DFin d" "val (cr_reserved_usd r) = val d" by blast
  moreover have "cr_request_id r = request_id" "cr_reservation_id r = reservation_id"
    using assms(5) by (auto simp: ledger_reserve_def split: sum.splits)
  ultimately show ?thesis using ef by (simp add: reserved_account_def ledger_cap_def)
qed

theorem ledger_reserve_refines_witness:
  "ledger_held digits_codec demo_held = 5 / 2 \<and> val (cr_reserved_usd demo_handle) = 5 / 2"
proof -
  have "fresh_id_ok demo_id" by code_simp
  then show ?thesis
    using ledger_reserve_refines [OF demo_fresh_ready(1) _ _ _ demo_reserve] demo_amounts
      demo_fresh_ready(3)
    by (simp add: amount_exact_def valid_instant_def demo_handle_def power_int_def)
qed

text \<open>
  On a readable ledger \<open>reserve\<close> admits a well-formed request exactly when
  its identifier is new, no overrun was recorded and the amount fits in what the cap leaves:
  no rounding of the 64-digit sums refuses or admits anything else.
\<close>

theorem ledger_reserve_admits:
  assumes "ledger_ready tc led" "load_entries tc led = Inr es"
    and "matches_ident ident_char 127 request_id" "money_ok True d" "on_grid 18 d"
  shows "(\<exists>r led'. ledger_reserve tc now reservation_id request_id (DFin d) led = (Inr r, led')) \<longleftrightarrow>
    ledger_book tc led request_id = None \<and> \<not> ledger_overrun tc led
    \<and> ledger_spent tc led + ledger_held tc led + val d \<le> ledger_cap led"
proof -
  have es: "es = view_entries tc led" "length es \<le> max_state_bytes" using load_ready [OF assms(2)] by simp_all
  have cap: "money_ok True (al_cap_usd led)" "on_grid 18 (al_cap_usd led)"
    using assms(1) by (simp_all add: ledger_ready_def)
  note snap = snapshot_exact [OF ready_view(2,3) [OF assms(1), folded es(1)] es(2) cap]
  have bk: "ledger_book tc led request_id = None \<longleftrightarrow> \<not> dict_has es request_id"
    using ready_view(1) [OF assms(1)] es(1) by (simp add: ledger_book_def book_of_def dict_get_None_iff)
  have a: "validate_money (DFin d) ''maximum_cost_usd'' True = Inr d" "0 < val d"
    using assms(4) by (auto simp: validate_money_iff money_ok_def)
  have "(\<exists>p. reserve_checks tc request_id (DFin d) led = Inr p) \<longleftrightarrow>
      \<not> dict_has es request_id \<and> \<not> entries_overrun es
      \<and> val d \<le> max 0 (val (al_cap_usd led) - entries_spent es - entries_held es)"
    using assms(2,3) a(1)
    by (simp add: reserve_checks_def validate_request_id_def Let_def snap dlt_iff not_less) auto
  moreover have "(\<exists>r led'. ledger_reserve tc now reservation_id request_id (DFin d) led = (Inr r, led')) \<longleftrightarrow>
      (\<exists>p. reserve_checks tc request_id (DFin d) led = Inr p)"
    by (auto simp: ledger_reserve_def split: sum.splits)
  ultimately show ?thesis
    using a(2) by (auto simp: bk ledger_overrun_def ledger_spent_def ledger_held_def ledger_cap_def
        es(1) [symmetric])
qed

theorem ledger_reserve_admits_witness:
  "\<not> (\<exists>r led'. ledger_reserve digits_codec 9 demo_id ''r2'' (DFin (Dec 11 0)) demo_fresh = (Inr r, led'))"
proof -
  have "matches_ident ident_char 127 ''r2''" by code_simp
  then show ?thesis
    using ledger_reserve_admits [OF demo_fresh_ready(1) demo_load(1), of "''r2''" "Dec 11 0" 9 demo_id]
      demo_fresh_ready by (simp add: money_ok_Dec on_gridI)
qed

text \<open>
  C3: \<open>reconcile\<close> with the handle of an active reservation settles it: a known
  cost is accounted exactly, an unknown cost accounts the whole reservation, a cost above
  the reservation is recorded before the overrun error is raised, and every other account is
  kept.
\<close>

theorem ledger_reconcile_refines:
  assumes "ledger_ready tc led" "load_entries tc led = Inr es" "holds_reservation es r"
    and "actual_exact v" "validate_actual v = Inr actual" "clock_ok tc now led"
  shows "\<exists>res led'. ledger_reconcile tc now r v led = (res, led')
    \<and> ledger_ready tc led'
    \<and> ledger_book tc led' = (ledger_book tc led)
        (cr_request_id r \<mapsto> settled_account (val (cr_reserved_usd r)) (actual_value v))
    \<and> ledger_held tc led' = ledger_held tc led - val (cr_reserved_usd r)
    \<and> ledger_spent tc led' = ledger_spent tc led
        + (case actual_value v of None \<Rightarrow> val (cr_reserved_usd r) | Some a \<Rightarrow> a)
    \<and> (if (\<exists>a. actual_value v = Some a \<and> val (cr_reserved_usd r) < a)
        then res = Inl (overrun_error (cr_request_id r)) \<and> ledger_overrun tc led'
        else (\<exists>e. res = Inr e \<and> ledger_overrun tc led' = ledger_overrun tc led))"
proof -
  have es: "es = view_entries tc led" using load_ready [OF assms(2)] by simp
  note rv = ready_view [OF assms(1), folded es]
  obtain c where c: "matching_entry es r = Inr c" "dict_get es (cr_request_id r) = Some c" "ce_status c = RESERVED"
    using holds_reservation_matching [OF rv(2) assms(3)] by blast
  note run = reconcile_settles [OF assms(2) c(1,3) assms(5), of now]
  note act = validated_actual [OF assms(5,4)]
  note g = c(2) [unfolded es]
  note m = matching_entry_Inr(3) [OF c(1)]
  let ?u = "reconciled_entry c r actual now"
  note u = reconciled_entry_wf [OF ready_entry(2,3) [OF assms(1) g] m conjunct1 [OF act]
      clock_entry [OF assms(6) g]]
  have nr: "ce_status ?u \<noteq> RESERVED" "ce_request_id ?u = ce_request_id c"
    "ce_accounted_cost_usd ?u = settle_cost r actual" "ce_status ?u = settle_status r actual"
    by (auto simp: reconciled_entry_def settle_status_def split: option.splits)
  note ef = settle_effect [OF assms(1) g c(3) u(1,2) nr(2,1) refl]
  have av: "actual_value v = map_option val actual" using act by simp
  show ?thesis
    unfolding run es
    using ef u(3) m nr(3,4) av
    by (cases actual) (simp_all add: settle_cost_def settle_status_def dlt_iff)
qed

theorem ledger_reconcile_refines_witness:
  "ledger_spent digits_codec (snd (ledger_reconcile digits_codec 9 demo_handle (Some (DFin (Dec 20 (- 1)))) demo_held)) = 2
   \<and> ledger_held digits_codec (snd (ledger_reconcile digits_codec 9 demo_handle (Some (DFin (Dec 20 (- 1)))) demo_held)) = 0"
proof -
  have a: "validate_actual (Some (DFin (Dec 20 (- 1)))) = Inr (Some (Dec 20 (- 1)))"
    using demo_amounts(3) by (simp add: validate_actual_def validate_money_iff money_ok_def result_simps)
  from demo_held_totals ledger_reconcile_refines [OF demo_held_ready(1) demo_load(2) demo_held_ready(2) _ a demo_held_ready(3)]
  show ?thesis using demo_amounts
    by (auto simp: actual_exact_def amount_exact_def actual_value_def demo_handle_def power_int_def)
qed

text \<open>
  \<open>release\<close> of an active reservation restores exactly its capacity,
  accounts nothing and records the reason.
\<close>

theorem ledger_release_refines:
  assumes "ledger_ready tc led" "load_entries tc led = Inr es" "holds_reservation es r"
    and "clock_ok tc now led"
  shows "\<exists>e led'. ledger_release tc now r reason led = (Inr e, led')
    \<and> ledger_ready tc led' \<and> ce_status e = RELEASED
    \<and> (\<exists>a. ledger_book tc led' = (ledger_book tc led)(cr_request_id r \<mapsto> a)
          \<and> ac_status a = RELEASED \<and> ac_accounted a = 0 \<and> ac_reason a = Some reason)
    \<and> ledger_spent tc led' = ledger_spent tc led
    \<and> ledger_held tc led' = ledger_held tc led - val (cr_reserved_usd r)
    \<and> ledger_overrun tc led' = ledger_overrun tc led"
proof -
  have es: "es = view_entries tc led" using load_ready [OF assms(2)] by simp
  note rv = ready_view [OF assms(1), folded es]
  obtain c where c: "matching_entry es r = Inr c" "dict_get es (cr_request_id r) = Some c" "ce_status c = RESERVED"
    using holds_reservation_matching [OF rv(2) assms(3)] by blast
  note run = release_settles [OF assms(2) c(1,3), of now reason]
  note g = c(2) [unfolded es]
  let ?u = "released_entry c reason now"
  note u = released_entry_wf [OF ready_entry(2,3) [OF assms(1) g] clock_entry [OF assms(4) g], of reason]
  have nr: "ce_status ?u \<noteq> RESERVED" "ce_request_id ?u = ce_request_id c" by (simp_all add: released_entry_def)
  note ef = settle_effect [OF assms(1) g c(3) u nr(2,1) refl]
  have "ac_status (abs_account ?u) = RELEASED \<and> ac_accounted (abs_account ?u) = 0
      \<and> ac_reason (abs_account ?u) = Some reason \<and> ce_status ?u = RELEASED"
    by (simp add: abs_account_def released_entry_def)
  with ef matching_entry_Inr(3) [OF c(1)] show ?thesis
    unfolding run es by (auto simp: abs_account_def)
qed

theorem ledger_release_refines_witness:
  "ledger_held digits_codec (snd (ledger_release digits_codec 9 demo_handle CANCELLED_BEFORE_SEND demo_held)) = 0"
  using ledger_release_refines [OF demo_held_ready(1) demo_load(2) demo_held_ready(2,3), of CANCELLED_BEFORE_SEND]
    demo_held_totals by (auto simp: demo_handle_def power_int_def)

text \<open>
  C4: An account that is no longer active is immutable: no later sequence of operations
  changes its status or amounts.
\<close>

theorem ledger_final_accounts_never_change:
  assumes "ledger_ready tc led" "ledger_book tc led k = Some a" "ac_status a \<noteq> RESERVED"
    and "(ledger_step tc)\<^sup>*\<^sup>* led led'"
  shows "ledger_book tc led' k = Some a"
  using steps_keep_final [OF assms(4,1-3)] .

theorem ledger_final_accounts_never_change_witness:
  "ledger_book digits_codec (snd (ledger_reserve digits_codec 11 demo_id ''r2'' (DFin (Dec 1 0)) (demo_settled (Dec 20 (- 1)))))
     ''r1'' = Some (settled_account (5 / 2) (Some 2))"
proof -
  let ?led = "demo_settled (Dec 20 (- 1))"
  let ?next = "snd (ledger_reserve digits_codec 11 demo_id ''r2'' (DFin (Dec 1 0)) ?led)"
  have "ledger_step digits_codec ?led ?next"
  proof (rule ledger_step.reserve [OF prod.collapse [symmetric]])
    show "amount_exact (DFin (Dec 1 0))" by (simp add: amount_exact_def on_gridI)
    show "fresh_id_ok demo_id" by code_simp
    show "valid_instant 11" by (simp add: valid_instant_def)
  qed
  then show ?thesis
    using ledger_final_accounts_never_change [of digits_codec ?led "''r1''" "settled_account (5 / 2) (Some 2)" ?next]
      demo_settled_facts [of "Dec 20 (- 1)"] demo_amounts
    by (simp add: settled_account_def power_int_def r_into_rtranclp)
qed

text \<open>
  Once a provider cost above its reservation was recorded, every later reservation is
  refused and leaves the file as it is.
\<close>

theorem ledger_overrun_blocks_reservations:
  assumes "ledger_ready tc led" "ledger_overrun tc led" "(ledger_step tc)\<^sup>*\<^sup>* led led'"
    and "amount_exact v"
  shows "\<exists>e. ledger_reserve tc now reservation_id request_id v led' = (Inl e, led')"
proof (cases "reserve_checks tc request_id v led'")
  case (Inl e)
  then show ?thesis by (simp add: ledger_reserve_def)
next
  case (Inr p)
  have "ledger_ready tc led'" "ledger_overrun tc led'"
    using ledger.steps_usable [OF assms(3,1)] ledger.steps_blocked [OF assms(3,1,2)] .
  with Inr reserve_checks_Inr(7) [OF _ assms(4)] show ?thesis by (cases p) blast
qed

theorem ledger_overrun_blocks_reservations_witness:
  "\<exists>e. ledger_reserve digits_codec 11 demo_id ''r2'' (DFin (Dec 1 0)) (demo_settled (Dec 3 0))
     = (Inl e, demo_settled (Dec 3 0))"
  using ledger_overrun_blocks_reservations [of digits_codec "demo_settled (Dec 3 0)"
      "demo_settled (Dec 3 0)" "DFin (Dec 1 0)" 11 demo_id "''r2''"] demo_settled_facts [of "Dec 3 0"]
  by (simp add: money_ok_Dec on_gridI amount_exact_def)

text \<open>
  Repeating a \<open>reconcile\<close> that succeeded, at any later time, returns the
  recorded outcome again and writes nothing.
\<close>

theorem ledger_reconcile_idempotent:
  assumes "ledger_ready tc led" "load_entries tc led = Inr es" "holds_reservation es r"
    and "actual_exact v" "validate_actual v = Inr actual" "clock_ok tc now led"
    and "ledger_reconcile tc now r v led = (Inr e, led')" "load_entries tc led' = Inr es'"
  shows "\<exists>e'. ledger_reconcile tc now' r v led' = (Inr e', led') \<and> abs_account e' = abs_account e"
proof -
  have es: "es = view_entries tc led" using load_ready [OF assms(2)] by simp
  note rv = ready_view [OF assms(1), folded es]
  obtain c where c: "matching_entry es r = Inr c" "dict_get es (cr_request_id r) = Some c" "ce_status c = RESERVED"
    using holds_reservation_matching [OF rv(2) assms(3)] by blast
  let ?u = "reconciled_entry c r actual now"
  note run = reconcile_settles [OF assms(2) c(1,3) assms(5), of now]
  have ns: "settle_status r actual \<noteq> RESERVATION_OVERRUN" and e: "e = ?u"
    and led': "led' = store_entries tc led (AList.update (ce_request_id c) ?u es)"
    using assms(7) unfolding run by (auto split: if_splits)
  note g = c(2) [unfolded es]
  note act = validated_actual [OF assms(5,4)]
  note m = matching_entry_Inr [OF c(1)]
  note u = reconciled_entry_wf [OF ready_entry(2,3) [OF assms(1) g] m(3) conjunct1 [OF act]
      clock_entry [OF assms(6) g]]
  have uid: "ce_request_id ?u = ce_request_id c" by (simp add: reconciled_entry_def)
  note up = entries_update [OF rv(2,3) u(1,2), unfolded uid]
  note st = store_ready [OF assms(1) up(1,2), folded led']
  have es': "es' = canon_entries (AList.update (ce_request_id c) ?u es)"
    using load_ready(1) [OF assms(8)] st(2) by simp
  have cid: "cr_request_id r = ce_request_id c" "entry_wf c"
    using entries_wf_get [OF rv(2) c(2)] by blast+
  have get': "dict_get es' (cr_request_id r) = Some (canon_entry ?u)"
    unfolding es' cid(1) using up(1) by (subst dict_get_canon) (auto simp: entries_wf_def dict_simps)
  note vals = entry_wf_values [OF u(1)]
  have rid: "ce_reservation_id ?u = cr_reservation_id r" "ce_reserved_usd ?u = ce_reserved_usd c"
    "ce_accounted_cost_usd ?u = settle_cost r actual" "ce_actual_cost_usd ?u = actual"
    "ce_status ?u = settle_status r actual"
    using m(2) by (simp_all add: reconciled_entry_def)
  have m': "matching_entry es' r = Inr (canon_entry ?u)"
  proof (rule matching_entry_ok [OF _ _ get'])
    show "matches_ident ident_char 127 (cr_request_id r)" using cid by (simp add: entry_wf_def)
    show "money_ok True (cr_reserved_usd r)"
      using cid(2) m(3) money_ok_cong [of "ce_reserved_usd c" "cr_reserved_usd r" True]
      by (simp add: entry_wf_def)
    show "ce_reservation_id (canon_entry ?u) = cr_reservation_id r" using rid by simp
    show "val (ce_reserved_usd (canon_entry ?u)) = val (cr_reserved_usd r)"
      using vals(1) rid(2) m(3) by (simp add: canon_entry_def)
  qed
  have "ce_status ?u \<noteq> RESERVED"
    unfolding rid(5) by (simp add: settle_status_def split: option.splits)
  moreover have "opt_deq (ce_actual_cost_usd (canon_entry ?u)) actual"
    using vals(3) rid(4) by (cases actual) (simp_all add: opt_deq_def canon_entry_def deq_iff)
  moreover have "deq (ce_accounted_cost_usd (canon_entry ?u)) (settle_cost r actual)"
    using vals(2) rid(3) by (simp add: canon_entry_def deq_iff)
  ultimately have "ledger_reconcile tc now' r v led' = (Inr (canon_entry ?u), led')"
    using assms(5,8) m' ns rid(5) by (simp add: ledger_reconcile_def)
  moreover have "abs_account (canon_entry ?u) = abs_account e"
    using abs_account_canon [OF u(1)] e by simp
  ultimately show ?thesis by blast
qed

theorem ledger_reconcile_idempotent_witness:
  "\<exists>e. ledger_reconcile digits_codec 11 demo_handle (Some (DFin (Dec 20 (- 1)))) (demo_settled (Dec 20 (- 1)))
     = (Inr e, demo_settled (Dec 20 (- 1)))"
proof -
  have a: "actual_exact (Some (DFin (Dec 20 (- 1))))" "val (Dec 20 (- 1)) \<noteq> 0"
    "\<not> val (Dec 25 (- 1)) < val (Dec 20 (- 1))"
    using demo_amounts by (simp_all add: actual_exact_def amount_exact_def power_int_def)
  note r = demo_reconcile [OF demo_amounts(3) a(2), unfolded if_not_P [OF a(3)]]
  show ?thesis
    using ledger_reconcile_idempotent [OF demo_held_ready(1) demo_load(2) demo_held_ready(2) a(1)
        r(1) demo_held_ready(3) r(2) demo_settled_load] by blast
qed

text \<open>Two entries that differ at most in how their amounts are written.\<close>

definition same_entry :: "cost_entry \<Rightarrow> cost_entry \<Rightarrow> bool" where
  "same_entry e e' \<longleftrightarrow>
     ce_request_id e' = ce_request_id e \<and> ce_reservation_id e' = ce_reservation_id e
     \<and> ce_status e' = ce_status e \<and> ce_release_reason e' = ce_release_reason e
     \<and> ce_created_at e' = ce_created_at e \<and> ce_updated_at e' = ce_updated_at e
     \<and> val (ce_reserved_usd e') = val (ce_reserved_usd e)
     \<and> val (ce_accounted_cost_usd e') = val (ce_accounted_cost_usd e)
     \<and> map_option val (ce_actual_cost_usd e') = map_option val (ce_actual_cost_usd e)"

lemma same_entry_canon: "entry_wf e \<Longrightarrow> same_entry e (canon_entry e)"
  using entry_wf_values [of e] by (simp add: same_entry_def canon_entry_def)

text \<open>
  C5: A state written by \<open>serialize_state\<close> is read back by \<open>validate_state\<close>: the same cap and the same
  entries in the order of their request identifiers. Every field of an entry is the one written: its
  request and reservation identifiers, its status and release reason, its creation and update times,
  and the value of each amount.
\<close>

theorem ledger_file_roundtrip:
  assumes "codec_ok tc" "money_ok True cap" "entries_wf es"
  shows "\<exists>cap' es'. validate_state tc (sort_keys (serialize_state tc cap es)) = Inr (cap', es')
    \<and> val cap' = val cap \<and> dict_keys es' = sort (dict_keys es)
    \<and> (\<forall>k. rel_option same_entry (dict_get es k) (dict_get es' k))
    \<and> book_of es' = book_of es \<and> entries_wf es'"
proof -
  have "map fst (map (\<lambda>(k, e). (k, canon_entry e)) d) = map fst d" for d :: cost_entries
    by (induction d) auto
  then have "dict_keys (canon_entries es) = dict_keys (sort_key fst es)"
    unfolding canon_entries_def .
  also have "\<dots> = sort (dict_keys es)"
    by (rule properties_for_sort [symmetric]) simp_all
  finally have keys: "dict_keys (canon_entries es) = sort (dict_keys es)" .
  have each: "rel_option same_entry (dict_get es k) (dict_get (canon_entries es) k)" for k
  proof (cases "dict_get es k")
    case (Some e)
    then have "same_entry e (canon_entry e)" using entries_wf_get [OF assms(3)] same_entry_canon by blast
    then show ?thesis using assms(3) Some by (simp add: entries_wf_def dict_get_canon)
  qed (use assms(3) in \<open>simp add: entries_wf_def dict_get_canon\<close>)
  show ?thesis
    using keys each ledger_state_roundtrip [OF assms] canon_money_read(1) [OF money_ok_nonneg [OF assms(2)]]
      book_of_canon [OF assms(3)] canon_entries_wf [OF assms(3)] by blast
qed

theorem ledger_file_roundtrip_witness:
  "\<exists>cap es. validate_state digits_codec
     (sort_keys (serialize_state digits_codec (Dec 10 0) [(''r1'', demo_entry)])) = Inr (cap, es)
     \<and> val cap = 10 \<and> dict_keys es = [''r1''] \<and> rel_option same_entry (Some demo_entry) (dict_get es ''r1'')"
proof -
  have wf: "entries_wf [(''r1'', demo_entry)]" using demo_entry_wf by (simp add: entries_wf_def)
  have "val (Dec 10 0) = 10" "sort (dict_keys [(''r1'', demo_entry)]) = [''r1'']"
    "dict_get [(''r1'', demo_entry)] ''r1'' = Some demo_entry" by simp_all
  then show ?thesis
    using ledger_file_roundtrip [OF digits_codec_ok demo_amounts(1) wf] by metis
qed

text \<open>
  Opening an existing ledger never recreates a missing file, requires the lock file, and
  leaves the file as found; initialisation is refused when either file exists.
\<close>

theorem ledger_open_never_recreates:
  "open_ledger tc OPEN_EXISTING lock None cap \<noteq> Inr led
   \<and> (open_ledger tc OPEN_EXISTING lock disk cap = Inr led' \<longrightarrow>
        lock \<and> al_disk led' = disk \<and> ledger_view tc led' \<noteq> None)
   \<and> (open_ledger tc INITIALIZE lock disk cap = Inr led' \<longrightarrow> \<not> lock \<and> disk = None)"
  by (auto simp: open_ledger_def result_simps read_state_def Let_def ledger_view_def deq_iff
      split: if_splits option.splits)

theorem ledger_open_never_recreates_witness:
  "open_ledger digits_codec INITIALIZE False None (DFin (Dec 10 0)) = Inr demo_fresh
   \<and> open_ledger digits_codec OPEN_EXISTING True None (DFin (Dec 10 0)) \<noteq> Inr demo_fresh"
  using ledger_open_never_recreates [of digits_codec True "DFin (Dec 10 0)" demo_fresh None demo_fresh]
    demo_open by blast

text \<open>
  The code writes the wall clock into \<open>updated_at\<close> without comparing it
  with \<open>created_at\<close>: a \<open>reconcile\<close> while the clock is behind the
  creation of the entry leaves a file that the validator of every later operation refuses.
\<close>

theorem ledger_clock_regression_breaks_the_file:
  assumes "codec_ok tc" "load_entries tc led = Inr es" "holds_reservation es r"
    and "validate_actual v = Inr actual" "valid_instant now"
    and "dict_get es (cr_request_id r) = Some c" "now < ce_created_at c"
  shows "ledger_view tc (snd (ledger_reconcile tc now r v led)) = None"
proof -
  have wf: "entries_wf es" using load_entries_view [OF assms(2)] ledger_view_wf [OF assms(1)] by blast
  obtain c' where c': "matching_entry es r = Inr c'" "dict_get es (cr_request_id r) = Some c'" "ce_status c' = RESERVED"
    using holds_reservation_matching [OF wf assms(3)] by blast
  let ?u = "reconciled_entry c r actual now"
  let ?es = "AList.update (ce_request_id c) ?u es"
  have cc: "c' = c" using c'(2) assms(6) by simp
  note run = reconcile_settles [OF assms(2) c'(1,3) assms(4), of now, unfolded cc]
  have "entry_wf c" using entries_wf_get [OF wf assms(6)] by blast
  then have "valid_instant (ce_created_at ?u)" "valid_instant (ce_updated_at ?u)"
    "ce_updated_at ?u < ce_created_at ?u"
    using assms(5,7) by (simp_all add: entry_wf_def reconciled_entry_def)
  moreover have "(ce_request_id c, ?u) \<in> set ?es" by (induction es) auto
  ultimately have nv: "validate_state tc (sort_keys (serialize_state tc cap ?es)) \<noteq> Inr p" for cap p
    using stored_times_ordered [OF assms(1)] by (metis not_le)
  have "ledger_view tc (store_entries tc led ?es) = None"
    using nv [of "al_cap_usd led"]
    by (cases "validate_state tc (sort_keys (serialize_state tc (al_cap_usd led) ?es))")
      (auto simp: ledger_view_def store_entries_def write_state_def)
  then show ?thesis unfolding run snd_conv .
qed

theorem ledger_clock_regression_breaks_the_file_witness:
  "ledger_view digits_codec (snd (ledger_reconcile digits_codec 6 demo_handle None demo_held)) = None"
  using ledger_clock_regression_breaks_the_file [OF digits_codec_ok demo_load(2) demo_held_ready(2),
      of None None 6 demo_entry]
  by (simp add: demo_canon validate_actual_def valid_instant_def demo_handle_def)
    (simp add: demo_entry_def reserved_entry_def)

text \<open>
  The bound of 18 decimal places is checked on the amount rounded to 28 significant
  digits, so an amount with 19 decimal places is accepted unrounded.
\<close>

theorem validate_money_accepts_nineteen_decimals:
  "validate_money (DFin (Dec 9999999999990000000000000000001 (- 19))) field True
     = Inr (Dec 9999999999990000000000000000001 (- 19))
   \<and> \<not> on_grid 18 (Dec 9999999999990000000000000000001 (- 19))"
proof -
  let ?m = "9999999999990000000000000000001 :: int"
  have n: "ndigits 9999999999990000000000000000001 = 31" by (simp add: ndigits.simps)
  have q: "(9999999999990000000000000000 :: nat) = div_half_even 9999999999990000000000000000001 (10 ^ 3)"
    by (simp add: div_half_even_def)
  have r: "dround default_prec (Dec ?m (- 19)) = Dec 9999999999990000000000000000 (- 16)"
    using dround_big [of 9999999999990000000000000000001 ?m 3 default_prec, OF _ _ _ q]
    by (simp add: n default_prec_def)
  have s: "dstrip 9999999999990000000000000000 (- 16) = Dec 999999999999 0"
    by (simp add: dstrip.simps)
  have "dnormalize default_prec (Dec ?m (- 19)) = Dec 999999999999 0"
    unfolding dnormalize_def r Let_def decimal.sel s ..
  moreover have "ndigits 999999999999 = 12" by (simp add: ndigits.simps)
  ultimately have "money_in_bounds (Dec ?m (- 19))" by (simp add: money_in_bounds_def adjusted_def)
  then have "validate_money (DFin (Dec ?m (- 19))) field True = Inr (Dec ?m (- 19))"
    by (simp add: validate_money_iff)
  moreover have "\<not> on_grid 18 (Dec ?m (- 19))"
  proof
    assume "on_grid 18 (Dec ?m (- 19))"
    then obtain z :: int where "of_int ?m * 10 powi (- 19) * 10 ^ 18 = (of_int z :: rat)"
      by (auto simp: on_grid_def)
    then have "of_int ?m = (of_int (10 * z) :: rat)" by (simp add: power_int_def field_simps)
    then have "?m = 10 * z" by (simp only: of_int_eq_iff)
    then show False by presburger
  qed
  ultimately show ?thesis by blast
qed

end
