(* ===== verification/Budget_Evidence.thy ===== *)
theory Budget_Evidence
  imports Cost_Ledger
begin

text \<open>
  The evidence values of \<open>orchestration/budgets.py\<close>: token-state snapshots, self-hashed token
  and request-count reservations, endpoint price bounds, reservation handles, and the
  normalization of recovered ledger baselines and attempts. \<open>sha256\<close> stands for the
  hexadecimal digest of a UTF-8 text and is an argument of everything that hashes.
\<close>

section \<open>Errors, patterns and limits\<close>

datatype budget_error =
    BudgetExhaustedError string
  | BudgetReservationStateError string
  | UnprovenCostBoundError string
  | TokenReservationOverrunError string
  | ValueError string
  | LedgerError cost_error

type_synonym 'a budget_result = "(budget_error, 'a) result"

definition model_author_char :: "char \<Rightarrow> bool" where
  "model_author_char c \<longleftrightarrow> is_alnum c \<or> c \<in> set ''._-''"

definition is_model_id :: "string \<Rightarrow> bool" where
  "is_model_id s =
     (let author = takeWhile (\<lambda>c. c \<noteq> CHR ''/'') s; rest = dropWhile (\<lambda>c. c \<noteq> CHR ''/'') s
      in matches_ident model_author_char 127 author
         \<and> (case rest of [] \<Rightarrow> False | _ # name \<Rightarrow> matches_ident ident_char 255 name))"

abbreviation is_role_id :: "string \<Rightarrow> bool" where
  "is_role_id \<equiv> matches_ident ident_char 127"

abbreviation is_limit_scope :: "string \<Rightarrow> bool" where
  "is_limit_scope \<equiv> matches_ident ident_char 127"

definition endpoint_char :: "char \<Rightarrow> bool" where
  "endpoint_char c \<longleftrightarrow> is_alnum c \<or> c \<in> set '' ._:/-''"

definition is_endpoint_id :: "string \<Rightarrow> bool" where
  "is_endpoint_id s = matches_ident endpoint_char 255 s"

definition is_pricing_field :: "string \<Rightarrow> bool" where
  "is_pricing_field s =
     (case s of [] \<Rightarrow> False
      | c # cs \<Rightarrow> is_lower c \<and> length cs \<le> 63
          \<and> list_all (\<lambda>c. is_lower c \<or> is_digit c \<or> c = CHR ''_'') cs)"

definition max_metered_units :: int where
  "max_metered_units = 2 ^ 63 - 1"

definition cost_prec :: nat where
  "cost_prec = 96"

definition metered :: "int \<Rightarrow> bool" where
  "metered n \<longleftrightarrow> 0 \<le> n \<and> n \<le> max_metered_units"

definition opt_metered :: "int option \<Rightarrow> bool" where
  "opt_metered n \<longleftrightarrow> (case n of None \<Rightarrow> True | Some i \<Rightarrow> metered i)"

definition state_error :: "string \<Rightarrow> 'a budget_result" where
  "state_error m = Inl (BudgetReservationStateError m)"

definition refuse_if :: "bool \<Rightarrow> 'e \<Rightarrow> ('e, unit) result" where
  "refuse_if c e = (if c then Inl e else Inr ())"

lemma refuse_if_Inr [simp]: "refuse_if c e = Inr u \<longleftrightarrow> \<not> c"
  by (simp add: refuse_if_def)

lemma refuse_if_False [simp]: "refuse_if False e = Inr ()"
  and refuse_if_True [simp]: "refuse_if True e = Inl e"
  by (simp_all add: refuse_if_def)

text \<open>The capability \<open>_TrustedRequestLimitScope\<close>: only the issuing function makes one.\<close>

datatype trusted_limit_scope = TrustedLimitScope (scope_identifier: string)

definition issue_trusted_request_limit_scope :: "string \<Rightarrow> trusted_limit_scope budget_result" where
  "issue_trusted_request_limit_scope identifier =
     rbind (require (is_limit_scope identifier)
       (BudgetReservationStateError
          ''request-limit scope must use restricted non-secret identifier characters'')) (\<lambda>_.
     Inr (TrustedLimitScope identifier))"

section \<open>Token-state evidence\<close>

record token_budget_state =
  ts_spent_input :: int
  ts_reserved_input :: int
  ts_remaining_input :: "int option"
  ts_spent_output :: int
  ts_reserved_output :: int
  ts_remaining_output :: "int option"

definition remaining_token_capacity ::
    "int option \<Rightarrow> int \<Rightarrow> int \<Rightarrow> string \<Rightarrow> int option budget_result" where
  "remaining_token_capacity limit spent reserved field =
     (case limit of None \<Rightarrow> Inr None
      | Some l \<Rightarrow>
          if l - spent - reserved < 0
          then Inl (ValueError (field @ '' token state exceeds its global limit''))
          else Inr (Some (l - spent - reserved)))"

definition token_state_fields_ok :: "token_budget_state \<Rightarrow> bool" where
  "token_state_fields_ok s \<longleftrightarrow>
     metered (ts_spent_input s) \<and> metered (ts_reserved_input s) \<and> opt_metered (ts_remaining_input s)
     \<and> metered (ts_spent_output s) \<and> metered (ts_reserved_output s)
     \<and> opt_metered (ts_remaining_output s)"

definition token_budget_state_of ::
    "int option \<Rightarrow> int option \<Rightarrow> int \<Rightarrow> int \<Rightarrow> int \<Rightarrow> int \<Rightarrow> token_budget_state budget_result" where
  "token_budget_state_of limit_in limit_out spent_in reserved_in spent_out reserved_out =
     rbind (remaining_token_capacity limit_in spent_in reserved_in ''input'') (\<lambda>remaining_in.
     rbind (remaining_token_capacity limit_out spent_out reserved_out ''output'') (\<lambda>remaining_out.
     let s = \<lparr>ts_spent_input = spent_in, ts_reserved_input = reserved_in,
              ts_remaining_input = remaining_in, ts_spent_output = spent_out,
              ts_reserved_output = reserved_out, ts_remaining_output = remaining_out\<rparr>
     in if token_state_fields_ok s then Inr s
        else Inl (ValueError ''token budget state field is out of range'')))"

definition validate_token_state ::
    "token_budget_state \<Rightarrow> int option \<Rightarrow> int option \<Rightarrow> unit budget_result" where
  "validate_token_state s limit_in limit_out =
     rbind (remaining_token_capacity limit_in (ts_spent_input s) (ts_reserved_input s) ''input'')
       (\<lambda>expected_input.
     rbind (require (ts_remaining_input s = expected_input)
       (ValueError ''input token remaining capacity is inconsistent'')) (\<lambda>_.
     rbind (remaining_token_capacity limit_out (ts_spent_output s) (ts_reserved_output s) ''output'')
       (\<lambda>expected_output.
     require (ts_remaining_output s = expected_output)
       (ValueError ''output token remaining capacity is inconsistent''))))"

record token_reservation_evidence =
  te_request_id :: string
  te_exact_model_id :: string
  te_role :: string
  te_plan_sha256 :: string
  te_prompt_tokens :: int
  te_visible_output_tokens :: int
  te_reasoning_tokens :: int
  te_completion_tokens :: int
  te_input_limit :: "int option"
  te_output_limit :: "int option"
  te_before :: token_budget_state
  te_after :: token_budget_state
  te_evidence_sha256 :: string

definition token_state_json :: "token_budget_state \<Rightarrow> json" where
  "token_state_json s = JObj
     [(''spent_input_tokens'', JInt (ts_spent_input s)),
      (''reserved_input_tokens'', JInt (ts_reserved_input s)),
      (''remaining_input_tokens'', opt_json JInt (ts_remaining_input s)),
      (''spent_output_tokens'', JInt (ts_spent_output s)),
      (''reserved_output_tokens'', JInt (ts_reserved_output s)),
      (''remaining_output_tokens'', opt_json JInt (ts_remaining_output s))]"

definition token_evidence_payload :: "token_reservation_evidence \<Rightarrow> json" where
  "token_evidence_payload e = JObj
     [(''schema_version'', JStr ''2.0''), (''request_id'', JStr (te_request_id e)),
      (''exact_model_id'', JStr (te_exact_model_id e)), (''role'', JStr (te_role e)),
      (''request_token_plan_sha256'', JStr (te_plan_sha256 e)),
      (''planned_prompt_tokens'', JInt (te_prompt_tokens e)),
      (''planned_visible_output_tokens'', JInt (te_visible_output_tokens e)),
      (''planned_reasoning_tokens'', JInt (te_reasoning_tokens e)),
      (''planned_completion_tokens'', JInt (te_completion_tokens e)),
      (''global_input_token_limit'', opt_json JInt (te_input_limit e)),
      (''global_output_token_limit'', opt_json JInt (te_output_limit e)),
      (''before'', token_state_json (te_before e)), (''after'', token_state_json (te_after e))]"

definition canonical_evidence_sha256 :: "(string \<Rightarrow> string) \<Rightarrow> json \<Rightarrow> string" where
  "canonical_evidence_sha256 sha256 payload = sha256 (dumps payload)"

definition evidence_request_id_ok :: "string \<Rightarrow> unit budget_result" where
  "evidence_request_id_ok s =
     rbind (require (s \<noteq> []) (ValueError ''token reservation request ID is empty'')) (\<lambda>_.
     require (length s \<le> 256 \<and> \<not> list_ex (\<lambda>c. is_space c \<or> code c < 32) s)
       (ValueError ''token reservation request ID is invalid''))"

text \<open>The field constraints of the evidence class, checked before its validator runs.\<close>

definition token_evidence_fields_ok :: "token_reservation_evidence \<Rightarrow> bool" where
  "token_evidence_fields_ok e \<longleftrightarrow>
     is_sha256_hex (te_plan_sha256 e) \<and> metered (te_prompt_tokens e)
     \<and> metered (te_visible_output_tokens e) \<and> metered (te_reasoning_tokens e)
     \<and> metered (te_completion_tokens e) \<and> opt_metered (te_input_limit e)
     \<and> opt_metered (te_output_limit e) \<and> token_state_fields_ok (te_before e)
     \<and> token_state_fields_ok (te_after e) \<and> is_sha256_hex (te_evidence_sha256 e)"

definition validate_token_evidence ::
    "(string \<Rightarrow> string) \<Rightarrow> token_reservation_evidence \<Rightarrow> token_reservation_evidence budget_result" where
  "validate_token_evidence sha256 e =
     rbind (require (token_evidence_fields_ok e) (ValueError ''token reservation field is invalid'')) (\<lambda>_.
     rbind (evidence_request_id_ok (te_request_id e)) (\<lambda>_.
     rbind (require (is_model_id (te_exact_model_id e))
       (ValueError ''token reservation requires an exact author/model ID'')) (\<lambda>_.
     rbind (require (is_role_id (te_role e)) (ValueError ''token reservation role is invalid'')) (\<lambda>_.
     rbind (validate_token_state (te_before e) (te_input_limit e) (te_output_limit e)) (\<lambda>_.
     rbind (validate_token_state (te_after e) (te_input_limit e) (te_output_limit e)) (\<lambda>_.
     rbind (require (ts_spent_input (te_before e) = ts_spent_input (te_after e)
         \<and> ts_spent_output (te_before e) = ts_spent_output (te_after e))
       (ValueError ''token reservation may not change spent token counters'')) (\<lambda>_.
     rbind (require (te_visible_output_tokens e + te_reasoning_tokens e = te_completion_tokens e)
       (ValueError ''visible-output and reasoning reservations do not conserve completion tokens'')) (\<lambda>_.
     rbind (require (ts_reserved_input (te_before e) + te_prompt_tokens e = ts_reserved_input (te_after e))
       (ValueError ''input token reservation does not conserve tokens'')) (\<lambda>_.
     rbind (require (ts_reserved_output (te_before e) + te_completion_tokens e
         = ts_reserved_output (te_after e))
       (ValueError ''output token reservation does not conserve tokens'')) (\<lambda>_.
     rbind (require (te_evidence_sha256 e
         = canonical_evidence_sha256 sha256 (token_evidence_payload e))
       (ValueError ''token reservation evidence self-hash does not match'')) (\<lambda>_. Inr e)))))))))))"

definition build_token_evidence ::
    "(string \<Rightarrow> string) \<Rightarrow> string \<Rightarrow> string \<Rightarrow> string \<Rightarrow> string \<Rightarrow> int \<Rightarrow> int \<Rightarrow> int \<Rightarrow> int \<Rightarrow>
     int option \<Rightarrow> int option \<Rightarrow> int \<Rightarrow> int \<Rightarrow> int \<Rightarrow> int \<Rightarrow> token_reservation_evidence budget_result" where
  "build_token_evidence sha256 request_id exact_model_id role plan_sha256 prompt visible reasoning
       completion limit_in limit_out spent_in reserved_in spent_out reserved_out =
     rbind (token_budget_state_of limit_in limit_out spent_in reserved_in spent_out reserved_out)
       (\<lambda>before.
     rbind (token_budget_state_of limit_in limit_out spent_in (reserved_in + prompt) spent_out
              (reserved_out + completion)) (\<lambda>after.
     let payload = \<lparr>te_request_id = request_id, te_exact_model_id = exact_model_id, te_role = role,
             te_plan_sha256 = plan_sha256, te_prompt_tokens = prompt,
             te_visible_output_tokens = visible, te_reasoning_tokens = reasoning,
             te_completion_tokens = completion, te_input_limit = limit_in,
             te_output_limit = limit_out, te_before = before, te_after = after,
             te_evidence_sha256 = []\<rparr>
     in validate_token_evidence sha256
          (payload\<lparr>te_evidence_sha256 :=
             canonical_evidence_sha256 sha256 (token_evidence_payload payload)\<rparr>)))"

section \<open>Request-count evidence\<close>

record limit_reservation_evidence =
  le_request_id :: string
  le_exact_model_id :: string
  le_role :: string
  le_plan_sha256 :: string
  le_scope :: string
  le_count_before :: int
  le_count_after :: int
  le_maximum :: int
  le_evidence_sha256 :: string

definition limit_evidence_payload :: "limit_reservation_evidence \<Rightarrow> json" where
  "limit_evidence_payload e = JObj
     [(''schema_version'', JStr ''1.0''), (''request_id'', JStr (le_request_id e)),
      (''exact_model_id'', JStr (le_exact_model_id e)), (''role'', JStr (le_role e)),
      (''request_token_plan_sha256'', JStr (le_plan_sha256 e)),
      (''request_limit_scope'', JStr (le_scope e)),
      (''request_limit_count_before'', JInt (le_count_before e)),
      (''request_limit_count_after'', JInt (le_count_after e)),
      (''request_limit_maximum'', JInt (le_maximum e))]"

definition validate_limit_evidence ::
    "(string \<Rightarrow> string) \<Rightarrow> limit_reservation_evidence \<Rightarrow> limit_reservation_evidence budget_result" where
  "validate_limit_evidence sha256 e =
     rbind (require (matches_ident ident_char 127 (le_request_id e) \<and> is_sha256_hex (le_plan_sha256 e)
         \<and> is_limit_scope (le_scope e) \<and> metered (le_count_before e)
         \<and> 1 \<le> le_count_after e \<and> metered (le_count_after e)
         \<and> 1 \<le> le_maximum e \<and> metered (le_maximum e) \<and> is_sha256_hex (le_evidence_sha256 e))
       (ValueError ''request-limit reservation field is invalid'')) (\<lambda>_.
     rbind (require (is_model_id (le_exact_model_id e))
       (ValueError ''request-limit reservation requires an exact author/model ID'')) (\<lambda>_.
     rbind (require (is_role_id (le_role e))
       (ValueError ''request-limit reservation role is invalid'')) (\<lambda>_.
     rbind (require (le_count_after e = le_count_before e + 1)
       (ValueError ''request-limit reservation count is not consecutive'')) (\<lambda>_.
     rbind (require (le_count_after e \<le> le_maximum e)
       (ValueError ''request-limit reservation exceeds its configured maximum'')) (\<lambda>_.
     rbind (require (le_evidence_sha256 e
         = canonical_evidence_sha256 sha256 (limit_evidence_payload e))
       (ValueError ''request-limit reservation evidence self-hash does not match'')) (\<lambda>_. Inr e))))))"

definition build_limit_evidence ::
    "(string \<Rightarrow> string) \<Rightarrow> string \<Rightarrow> string \<Rightarrow> string \<Rightarrow> string \<Rightarrow> string \<Rightarrow> int \<Rightarrow> int \<Rightarrow>
     limit_reservation_evidence budget_result" where
  "build_limit_evidence sha256 request_id exact_model_id role plan_sha256 scope count_before maximum =
     (let payload = \<lparr>le_request_id = request_id, le_exact_model_id = exact_model_id, le_role = role,
             le_plan_sha256 = plan_sha256, le_scope = scope, le_count_before = count_before,
             le_count_after = count_before + 1, le_maximum = maximum, le_evidence_sha256 = []\<rparr>
      in validate_limit_evidence sha256
           (payload\<lparr>le_evidence_sha256 :=
              canonical_evidence_sha256 sha256 (limit_evidence_payload payload)\<rparr>))"

section \<open>Endpoint prices\<close>

record price_component =
  pc_pricing_field :: string
  pc_unit_price_usd :: decimal
  pc_maximum_units :: int

definition validate_price :: "pydec \<Rightarrow> decimal budget_result" where
  "validate_price v =
     (case v of
        DFin d \<Rightarrow>
          if dlt d dzero
          then Inl (ValueError ''endpoint price must be a finite non-negative Decimal'')
          else let n = dnormalize default_prec d;
                   decimal_places = max 0 (- dexp n);
                   integer_digits = max 1 (int (ndigits (nat \<bar>mant n\<bar>)) + dexp n)
               in if 36 < decimal_places
                  then Inl (ValueError ''endpoint price exceeds supported decimal precision'')
                  else if 12 < integer_digits
                  then Inl (ValueError ''endpoint price exceeds supported magnitude'')
                  else Inr n
      | _ \<Rightarrow> Inl (ValueError ''endpoint price must be a finite non-negative Decimal''))"

text \<open>A price or cap as the caller gives it: text, or a \<open>Decimal\<close>, or (caps only) an integer.\<close>

datatype price_input = PriceText string | PriceDecimal pydec | PriceInt int

definition parse_price :: "price_input \<Rightarrow> decimal budget_result" where
  "parse_price v =
     (case v of
        PriceText s \<Rightarrow>
          if s = [] \<or> s \<noteq> strip_spaces s then Inl (ValueError ''endpoint price is invalid'')
          else (case decimal_of_string s of
                  None \<Rightarrow> Inl (ValueError ''endpoint price is invalid'')
                | Some d \<Rightarrow> validate_price d)
      | PriceDecimal d \<Rightarrow> validate_price d
      | PriceInt _ \<Rightarrow> Inl (ValueError ''endpoint prices must be decimal strings''))"

definition make_price_component :: "string \<Rightarrow> pydec \<Rightarrow> int \<Rightarrow> price_component budget_result" where
  "make_price_component field price units =
     rbind (require (is_pricing_field field) (ValueError ''endpoint pricing field is invalid'')) (\<lambda>_.
     rbind (validate_price price) (\<lambda>unit_price.
     rbind (require (metered units) (ValueError ''endpoint pricing maximum units are invalid'')) (\<lambda>_.
     Inr \<lparr>pc_pricing_field = field, pc_unit_price_usd = unit_price, pc_maximum_units = units\<rparr>)))"

definition component_maximum_cost :: "price_component \<Rightarrow> decimal" where
  "component_maximum_cost c = dmul cost_prec (pc_unit_price_usd c) (dec_of_int (pc_maximum_units c))"

record endpoint_cost_bound =
  eb_exact_model_id :: string
  eb_provider_endpoint :: string
  eb_request_material_sha256 :: string
  eb_pricing_snapshot_sha256 :: string
  eb_components :: "price_component list"

definition pricing_snapshot_hash ::
    "(string \<Rightarrow> string) \<Rightarrow> string \<Rightarrow> string \<Rightarrow> price_component list \<Rightarrow> string" where
  "pricing_snapshot_hash sha256 exact_model_id provider_endpoint components =
     sha256 (dumps (JObj
       [(''exact_model_id'', JStr exact_model_id), (''provider_endpoint'', JStr provider_endpoint),
        (''pricing'', JObj (map (\<lambda>c. (pc_pricing_field c, JStr (format_f (pc_unit_price_usd c))))
           components))]))"

text \<open>
  \<open>quantize\<close> raises \<open>InvalidOperation\<close> (an \<open>ArithmeticError\<close>) when the result needs more digits
  than the context has.
\<close>

definition bound_maximum_cost :: "endpoint_cost_bound \<Rightarrow> decimal budget_result" where
  "bound_maximum_cost b =
     (case dquantize cost_prec Ceiling (- 18)
             (dsum cost_prec (map component_maximum_cost (eb_components b))) of
        None \<Rightarrow> Inl (ValueError ''InvalidOperation'')
      | Some c \<Rightarrow> Inr c)"

definition maximum_units_for :: "endpoint_cost_bound \<Rightarrow> string \<Rightarrow> int budget_result" where
  "maximum_units_for b pricing_field =
     (case find (\<lambda>c. pc_pricing_field c = pricing_field) (eb_components b) of
        None \<Rightarrow> Inl (UnprovenCostBoundError
                   (''endpoint cost bound omits required '' @ pricing_field @ '' pricing''))
      | Some c \<Rightarrow> Inr (pc_maximum_units c))"

definition validate_cost_bound ::
    "(string \<Rightarrow> string) \<Rightarrow> endpoint_cost_bound \<Rightarrow> endpoint_cost_bound budget_result" where
  "validate_cost_bound sha256 b =
     (let fields = map pc_pricing_field (eb_components b)
      in rbind (require (is_model_id (eb_exact_model_id b))
           (ValueError ''endpoint cost bound requires an exact author/model ID'')) (\<lambda>_.
         rbind (require (is_endpoint_id (eb_provider_endpoint b))
           (ValueError ''endpoint cost bound provider endpoint is invalid'')) (\<lambda>_.
         rbind (require (is_sha256_hex (eb_request_material_sha256 b))
           (ValueError ''endpoint cost bound request hash is invalid'')) (\<lambda>_.
         rbind (require (eb_components b \<noteq> [])
           (ValueError ''endpoint cost bound requires non-empty pricing components'')) (\<lambda>_.
         rbind (require (fields = sort fields \<and> distinct fields)
           (ValueError ''endpoint pricing components must be unique and sorted'')) (\<lambda>_.
         rbind (require ({''prompt'', ''completion''} \<subseteq> set fields)
           (ValueError ''endpoint pricing must include prompt and completion fields'')) (\<lambda>_.
         rbind (require (eb_pricing_snapshot_sha256 b
             = pricing_snapshot_hash sha256 (eb_exact_model_id b) (eb_provider_endpoint b)
                 (eb_components b))
           (ValueError ''endpoint pricing snapshot hash does not match the bound'')) (\<lambda>_.
         rbind (bound_maximum_cost b) (\<lambda>maximum.
         rbind (require (dlt dzero maximum)
           (ValueError ''endpoint request maximum cost must be positive'')) (\<lambda>_. Inr b))))))))))"

definition cost_bound_from_pricing ::
    "(string \<Rightarrow> string) \<Rightarrow> string \<Rightarrow> string \<Rightarrow> string \<Rightarrow> (string, price_input) dict \<Rightarrow> (string, int) dict
       \<Rightarrow> endpoint_cost_bound budget_result" where
  "cost_bound_from_pricing sha256 exact_model_id provider_endpoint request_material pricing
       maximum_units =
     rbind (require (pricing \<noteq> []) (ValueError ''endpoint pricing must be non-empty'')) (\<lambda>_.
     rbind (require (set (dict_keys pricing) = set (dict_keys maximum_units))
       (ValueError ''every endpoint pricing field requires a maximum-unit bound'')) (\<lambda>_.
     rbind (traverse (\<lambda>(field, value).
         rbind (parse_price value) (\<lambda>price.
         make_price_component field (DFin price) (dict_get_default maximum_units field 0)))
       (sort_key fst pricing)) (\<lambda>components.
     validate_cost_bound sha256
       \<lparr>eb_exact_model_id = exact_model_id, eb_provider_endpoint = provider_endpoint,
        eb_request_material_sha256 = sha256 request_material,
        eb_pricing_snapshot_sha256 =
          pricing_snapshot_hash sha256 exact_model_id provider_endpoint components,
        eb_components = components\<rparr>)))"

section \<open>Reservation handles\<close>

record budget_reservation =
  br_identifier :: string
  br_estimated_cost_usd :: pyfloat
  br_persistent :: "cost_reservation option"
  br_endpoint_cost_bound :: "endpoint_cost_bound option"
  br_exact_model_id :: "string option"
  br_role :: "string option"
  br_planned_prompt :: "int option"
  br_planned_visible_output :: "int option"
  br_planned_reasoning :: "int option"
  br_planned_completion :: "int option"
  br_plan_sha256 :: "string option"
  br_token_evidence :: "token_reservation_evidence option"
  br_limit_scope :: "string option"
  br_limit_evidence :: "limit_reservation_evidence option"

definition split_error :: "budget_reservation \<Rightarrow> unit budget_result" where
  "split_error r =
     (case (br_planned_visible_output r, br_planned_reasoning r) of
        (None, None) \<Rightarrow> Inr ()
      | (Some v, Some g) \<Rightarrow>
          (case br_planned_completion r of
             None \<Rightarrow> Inl (ValueError
               ''split output token reservations require a combined completion reservation'')
           | Some c \<Rightarrow> require (v + g = c) (ValueError
               ''visible-output and reasoning reservations do not conserve completion tokens''))
      | _ \<Rightarrow> Inl (ValueError
          ''visible-output and reasoning token reservations must be supplied together''))"

definition evidence_matches :: "budget_reservation \<Rightarrow> token_reservation_evidence \<Rightarrow> bool" where
  "evidence_matches r e \<longleftrightarrow>
     te_request_id e = br_identifier r \<and> Some (te_exact_model_id e) = br_exact_model_id r
     \<and> Some (te_role e) = br_role r \<and> Some (te_plan_sha256 e) = br_plan_sha256 r
     \<and> Some (te_prompt_tokens e) = br_planned_prompt r
     \<and> Some (te_visible_output_tokens e) = br_planned_visible_output r
     \<and> Some (te_reasoning_tokens e) = br_planned_reasoning r
     \<and> Some (te_completion_tokens e) = br_planned_completion r"

definition limit_evidence_matches :: "budget_reservation \<Rightarrow> string \<Rightarrow> bool" where
  "limit_evidence_matches r scope \<longleftrightarrow>
     (case br_limit_evidence r of None \<Rightarrow> False
      | Some e \<Rightarrow> le_request_id e = br_identifier r \<and> Some (le_exact_model_id e) = br_exact_model_id r
          \<and> Some (le_role e) = br_role r \<and> Some (le_plan_sha256 e) = br_plan_sha256 r
          \<and> le_scope e = scope)"

text \<open>\<open>Reservation.__post_init__\<close>.\<close>

definition validate_reservation :: "budget_reservation \<Rightarrow> budget_reservation budget_result" where
  "validate_reservation r =
     rbind (split_error r) (\<lambda>_.
     case br_plan_sha256 r of
       None \<Rightarrow>
         rbind (require (br_token_evidence r = None)
           (ValueError ''legacy reservation cannot carry plan-bound token evidence'')) (\<lambda>_.
         rbind (require (br_limit_scope r = None \<and> br_limit_evidence r = None)
           (ValueError ''request-limit scope requires plan-bound token evidence'')) (\<lambda>_. Inr r))
     | Some plan \<Rightarrow>
         rbind (require (is_sha256_hex plan) (ValueError ''request token plan hash is invalid'')) (\<lambda>_.
         rbind (refuse_if (br_exact_model_id r = None \<or> br_role r = None \<or> br_planned_prompt r = None
             \<or> br_planned_visible_output r = None \<or> br_planned_reasoning r = None
             \<or> br_planned_completion r = None)
           (ValueError ''plan-bound reservation requires complete model and token fields'')) (\<lambda>_.
         case br_token_evidence r of
           None \<Rightarrow> Inl (ValueError ''plan-bound reservation requires atomic token evidence'')
         | Some e \<Rightarrow>
             rbind (require (evidence_matches r e)
               (ValueError ''reservation fields differ from its atomic token evidence'')) (\<lambda>_.
             case br_limit_scope r of
               None \<Rightarrow>
                 rbind (require (br_limit_evidence r = None)
                   (ValueError ''unscheduled reservation cannot carry request-limit evidence''))
                   (\<lambda>_. Inr r)
             | Some scope \<Rightarrow>
                 rbind (require (limit_evidence_matches r scope)
                   (ValueError ''reservation request-limit scope differs from its atomic evidence''))
                   (\<lambda>_. Inr r)))))"

text \<open>Equality of handles as Python compares them: decimals by value.\<close>

definition eq_cost_reservation :: "cost_reservation \<Rightarrow> cost_reservation \<Rightarrow> bool" where
  "eq_cost_reservation a b \<longleftrightarrow>
     cr_request_id a = cr_request_id b \<and> cr_reservation_id a = cr_reservation_id b
     \<and> deq (cr_reserved_usd a) (cr_reserved_usd b)"

definition eq_component :: "price_component \<Rightarrow> price_component \<Rightarrow> bool" where
  "eq_component a b \<longleftrightarrow>
     pc_pricing_field a = pc_pricing_field b \<and> deq (pc_unit_price_usd a) (pc_unit_price_usd b)
     \<and> pc_maximum_units a = pc_maximum_units b"

definition eq_cost_bound :: "endpoint_cost_bound \<Rightarrow> endpoint_cost_bound \<Rightarrow> bool" where
  "eq_cost_bound a b \<longleftrightarrow>
     a\<lparr>eb_components := []\<rparr> = b\<lparr>eb_components := []\<rparr>
     \<and> list_all2 eq_component (eb_components a) (eb_components b)"

definition eq_option :: "('a \<Rightarrow> 'a \<Rightarrow> bool) \<Rightarrow> 'a option \<Rightarrow> 'a option \<Rightarrow> bool" where
  "eq_option f a b = (case (a, b) of (None, None) \<Rightarrow> True | (Some x, Some y) \<Rightarrow> f x y | _ \<Rightarrow> False)"

definition eq_reservation :: "budget_reservation \<Rightarrow> budget_reservation \<Rightarrow> bool" where
  "eq_reservation a b \<longleftrightarrow>
     a\<lparr>br_persistent := None, br_endpoint_cost_bound := None\<rparr>
       = b\<lparr>br_persistent := None, br_endpoint_cost_bound := None\<rparr>
     \<and> eq_option eq_cost_reservation (br_persistent a) (br_persistent b)
     \<and> eq_option eq_cost_bound (br_endpoint_cost_bound a) (br_endpoint_cost_bound b)"

section \<open>Numbers the manager accepts\<close>

definition validate_token_count :: "int \<Rightarrow> string \<Rightarrow> int budget_result" where
  "validate_token_count n field =
     (if metered n then Inr n else Inl (ValueError (field @ '' is invalid'')))"

definition validate_optional_tokens :: "int option \<Rightarrow> string \<Rightarrow> int option budget_result" where
  "validate_optional_tokens v field =
     (case v of None \<Rightarrow> Inr None | Some n \<Rightarrow> rbind (validate_token_count n field) (\<lambda>n. Inr (Some n)))"

definition validate_scope_key :: "(string \<Rightarrow> bool) \<Rightarrow> string \<Rightarrow> string \<Rightarrow> unit budget_result" where
  "validate_scope_key pattern scope key =
     require (pattern key) (ValueError (scope @ '' budget key is invalid''))"

text \<open>The provider's reported cost: a \<open>Decimal\<close>, an integer or a float (by its shortest text).\<close>

datatype cost_input = CostDecimal pydec | CostInt int | CostFloat pyfloat

definition normalize_actual_cost :: "cost_input option \<Rightarrow> decimal option budget_result" where
  "normalize_actual_cost v =
     (case v of None \<Rightarrow> Inr None
      | Some c \<Rightarrow>
          let parsed = (case c of CostDecimal d \<Rightarrow> d | CostInt i \<Rightarrow> DFin (dec_of_int i)
                        | CostFloat x \<Rightarrow> DFin (float_decimal x))
          in case parsed of
               DFin d \<Rightarrow>
                 if dlt d dzero then state_error ''provider actual cost is invalid''
                 else (case dquantize cost_prec Ceiling (- 18) d of
                         None \<Rightarrow> state_error ''provider actual cost is invalid''
                       | Some q \<Rightarrow> Inr (Some q))
             | _ \<Rightarrow> state_error ''provider actual cost is invalid'')"

definition parse_usd_cap :: "price_input \<Rightarrow> string \<Rightarrow> decimal budget_result" where
  "parse_usd_cap v scope =
     rbind (case v of
         PriceText s \<Rightarrow>
           if s = [] \<or> s \<noteq> strip_spaces s then Inl (ValueError (scope @ '' USD cap is invalid''))
           else (case decimal_of_string s of
                   None \<Rightarrow> Inl (ValueError (scope @ '' USD cap is invalid'')) | Some d \<Rightarrow> Inr d)
       | PriceDecimal d \<Rightarrow> Inr d
       | PriceInt i \<Rightarrow> Inr (DFin (dec_of_int i))) (\<lambda>parsed.
     case parsed of
       DFin d \<Rightarrow>
         if dlt d dzero
         then Inl (ValueError (scope @ '' USD cap must be finite and non-negative''))
         else (case dquantize default_prec HalfEven (- 18) d of
                 None \<Rightarrow> Inl (ValueError (scope @ '' USD cap exceeds supported precision''))
               | Some q \<Rightarrow>
                   if \<not> deq d q
                   then Inl (ValueError (scope @ '' USD cap exceeds supported precision''))
                   else if 12 < max 1 (int (ndigits (nat \<bar>mant d\<bar>)) + dexp d)
                   then Inl (ValueError (scope @ '' USD cap exceeds supported magnitude''))
                   else Inr q)
     | _ \<Rightarrow> Inl (ValueError (scope @ '' USD cap must be finite and non-negative'')))"

fun validate_scoped_caps ::
    "(string \<Rightarrow> bool) \<Rightarrow> string \<Rightarrow> (string, decimal) dict \<Rightarrow> (string \<times> price_input) list
       \<Rightarrow> (string, decimal) dict budget_result" where
  "validate_scoped_caps pattern scope validated [] = Inr validated"
| "validate_scoped_caps pattern scope validated ((key, value) # rest) =
     rbind (validate_scope_key pattern scope key) (\<lambda>_.
     rbind (parse_usd_cap value scope) (\<lambda>cap.
     validate_scoped_caps pattern scope (AList.update key cap validated) rest))"

type_synonym usd_counters = "(string, decimal) dict"

definition increment_decimal :: "usd_counters \<Rightarrow> string \<Rightarrow> decimal \<Rightarrow> usd_counters" where
  "increment_decimal values key amount =
     AList.update key (dadd default_prec (dict_get_default values key dzero) amount) values"

definition decrement_decimal :: "usd_counters \<Rightarrow> string \<Rightarrow> decimal \<Rightarrow> usd_counters budget_result" where
  "decrement_decimal values key amount =
     (case dict_get values key of
        None \<Rightarrow> state_error ''scoped reservation accounting is inconsistent''
      | Some current \<Rightarrow>
          if dlt current amount then state_error ''scoped reservation accounting is inconsistent''
          else let remaining = dsub default_prec current amount
               in Inr (if deq remaining dzero then AList.delete key values
                       else AList.update key remaining values))"

end
