(* ===== verification/Budget_Recovery.thy ===== *)
theory Budget_Recovery
  imports Budget_Evidence
begin

text \<open>
  Recovery of a budget from the scheduler journal (\<open>orchestration/budgets.py\<close>): normalization of
  the recovered ledger baseline and provider attempts, and the one-shot capability registry
  that binds them to exact usage records. A capability is a key of the registry; that a
  discarded capability disappears with its last reference is not modelled.
\<close>

section \<open>Comparisons of arbitrary decimals\<close>

text \<open>
  An ordering comparison with a NaN raises \<open>InvalidOperation\<close> (\<open>None\<close>); equality with a NaN is
  false.
\<close>

fun pydec_less :: "pydec \<Rightarrow> pydec \<Rightarrow> bool option" where
  "pydec_less DNaN _ = None"
| "pydec_less _ DNaN = None"
| "pydec_less (DFin a) (DFin b) = Some (dlt a b)"
| "pydec_less (DFin _) (DInf neg) = Some (\<not> neg)"
| "pydec_less (DInf neg) (DFin _) = Some neg"
| "pydec_less (DInf a) (DInf b) = Some (a \<and> \<not> b)"

fun pydec_eq :: "pydec \<Rightarrow> pydec \<Rightarrow> bool" where
  "pydec_eq (DFin a) (DFin b) = deq a b"
| "pydec_eq (DInf a) (DInf b) = (a = b)"
| "pydec_eq _ _ = False"

definition invalid_operation :: budget_error where
  "invalid_operation = ValueError ''InvalidOperation''"

definition compare_less :: "pydec \<Rightarrow> pydec \<Rightarrow> bool budget_result" where
  "compare_less a b = (case pydec_less a b of None \<Rightarrow> Inl invalid_operation | Some r \<Rightarrow> Inr r)"

section \<open>Recovered attempts and baselines\<close>

record recovered_attempt =
  ra_request_id :: string
  ra_logical_request_id :: string
  ra_task_id :: string
  ra_requested_model :: string
  ra_role :: string
  ra_status :: string
  ra_reserved_cost :: pydec
  ra_accounted_cost :: pydec

text \<open>The journal's form of an attempt: the costs are texts.\<close>

record raw_attempt =
  rw_request_id :: string
  rw_logical_request_id :: string
  rw_task_id :: string
  rw_requested_model :: string
  rw_role :: string
  rw_status :: string
  rw_reserved_cost :: string
  rw_accounted_cost :: string

record recovered_baseline =
  rb_cap_usd :: pydec
  rb_spent_usd :: pydec
  rb_ledger_snapshot_sha256 :: string
  rb_baseline_sha256 :: string
  rb_entry_sha256s :: "(string \<times> string) list"

record raw_baseline =
  rwb_cap_usd :: string
  rwb_spent_usd :: string
  rwb_ledger_snapshot_sha256 :: string
  rwb_baseline_sha256 :: string
  rwb_entries :: "(string \<times> string) list"

definition normalize_recovered_cost_baseline ::
    "raw_baseline option \<Rightarrow> recovered_baseline option budget_result" where
  "normalize_recovered_cost_baseline value =
     (case value of None \<Rightarrow> Inr None
      | Some v \<Rightarrow>
          (case (decimal_of_string (rwb_cap_usd v), decimal_of_string (rwb_spent_usd v)) of
             (Some cap, Some spent) \<Rightarrow>
               rbind (compare_less (DFin dzero) cap) (\<lambda>cap_positive.
               if \<not> cap_positive then state_error ''cost-ledger recovery baseline is invalid''
               else rbind (compare_less spent (DFin dzero)) (\<lambda>spent_negative.
               if spent_negative then state_error ''cost-ledger recovery baseline is invalid''
               else rbind (compare_less cap spent) (\<lambda>over.
               let entries = rwb_entries v
               in if over \<or> \<not> is_sha256_hex (rwb_ledger_snapshot_sha256 v)
                     \<or> \<not> is_sha256_hex (rwb_baseline_sha256 v)
                     \<or> entries \<noteq> sort_key fst (remdups entries)
                     \<or> \<not> distinct (map fst entries)
                     \<or> \<not> list_all (\<lambda>(k, h). is_limit_scope k \<and> is_sha256_hex h) entries
                  then state_error ''cost-ledger recovery baseline is invalid''
                  else Inr (Some \<lparr>rb_cap_usd = cap, rb_spent_usd = spent,
                         rb_ledger_snapshot_sha256 = rwb_ledger_snapshot_sha256 v,
                         rb_baseline_sha256 = rwb_baseline_sha256 v,
                         rb_entry_sha256s = entries\<rparr>))))
           | _ \<Rightarrow> state_error ''cost-ledger recovery baseline is invalid''))"

definition normalize_recovered_scheduler_attempt :: "raw_attempt \<Rightarrow> recovered_attempt budget_result" where
  "normalize_recovered_scheduler_attempt v =
     (case (decimal_of_string (rw_reserved_cost v), decimal_of_string (rw_accounted_cost v)) of
        (Some reserved, Some accounted) \<Rightarrow>
          if \<not> is_limit_scope (rw_request_id v) \<or> \<not> is_limit_scope (rw_logical_request_id v)
             \<or> \<not> is_limit_scope (rw_task_id v) \<or> \<not> is_model_id (rw_requested_model v)
             \<or> \<not> is_role_id (rw_role v)
          then state_error ''scheduler cost-recovery attempt is invalid''
          else rbind (compare_less (DFin dzero) reserved) (\<lambda>positive.
          if \<not> positive then state_error ''scheduler cost-recovery attempt is invalid''
          else rbind (compare_less accounted (DFin dzero)) (\<lambda>negative.
          if negative then state_error ''scheduler cost-recovery attempt is invalid''
          else Inr \<lparr>ra_request_id = rw_request_id v, ra_logical_request_id = rw_logical_request_id v,
                 ra_task_id = rw_task_id v, ra_requested_model = rw_requested_model v,
                 ra_role = rw_role v, ra_status = rw_status v, ra_reserved_cost = reserved,
                 ra_accounted_cost = accounted\<rparr>))
      | _ \<Rightarrow> state_error ''scheduler cost-recovery attempt is invalid'')"

fun pydec_format_f :: "pydec \<Rightarrow> string" where
  "pydec_format_f (DFin d) = format_f d"
| "pydec_format_f (DInf neg) = (if neg then ''-Infinity'' else ''Infinity'')"
| "pydec_format_f DNaN = ''NaN''"

definition recovered_attempt_hash :: "(string \<Rightarrow> string) \<Rightarrow> recovered_attempt \<Rightarrow> string" where
  "recovered_attempt_hash sha256 a =
     sha256 (dumps (JObj
       [(''request_id'', JStr (ra_request_id a)),
        (''logical_request_id'', JStr (ra_logical_request_id a)),
        (''task_id'', JStr (ra_task_id a)), (''requested_model'', JStr (ra_requested_model a)),
        (''role'', JStr (ra_role a)), (''status'', JStr (ra_status a)),
        (''reserved_cost_usd_exact'', JStr (pydec_format_f (ra_reserved_cost a))),
        (''accounted_cost_usd_exact'', JStr (pydec_format_f (ra_accounted_cost a)))]))"

section \<open>Usage records and the capability registry\<close>

text \<open>
  A usage record as recovery reads it. \<open>ru_payload\<close> is its JSON form; whether it is creditable
  or accountable, whether it has a request token plan, and the attempt evidence extracted from
  it are what the functions of \<open>models/usage.py\<close> return for the record.
\<close>

record recovered_usage =
  ru_payload :: json
  ru_request_id :: string
  ru_creditable :: bool
  ru_accountable :: bool
  ru_has_plan :: bool
  ru_token_evidence :: "token_reservation_evidence list"
  ru_limit_evidence :: "limit_reservation_evidence list"
  ru_attempts :: nat
  ru_accounted_cost_exact :: "pydec option"
  ru_reported_cost_exact :: "pydec option"
  ru_prompt_tokens :: int
  ru_completion_tokens :: int
  ru_requested_model :: string
  ru_role :: string

definition usage_recovery_hash :: "(string \<Rightarrow> string) \<Rightarrow> recovered_usage \<Rightarrow> string" where
  "usage_recovery_hash sha256 u = sha256 (dumps (ru_payload u))"

record recovery_claims =
  rc_attempts :: "recovered_attempt list"
  rc_baseline :: "recovered_baseline option"

record registered_scope =
  rs_usage_hashes :: "string list"
  rs_attempt_hashes :: "string list"
  rs_claims :: recovery_claims

type_synonym recovery_registry = "(nat, registered_scope) dict"

definition issue_recovery_scope ::
    "(string \<Rightarrow> string) \<Rightarrow> nat \<Rightarrow> recovered_usage list \<Rightarrow> raw_attempt list \<Rightarrow> raw_baseline option
       \<Rightarrow> recovery_registry \<Rightarrow> nat budget_result \<times> recovery_registry" where
  "issue_recovery_scope sha256 fresh records non_usage_attempts baseline registry =
     (let request_ids = map ru_request_id records;
          checked =
            rbind (refuse_if (list_ex (\<lambda>i. i = []) request_ids \<or> request_ids \<noteq> sort (remdups request_ids))
              (BudgetReservationStateError
                 ''budget recovery usage identities must be unique and sorted'')) (\<lambda>_.
            rbind (traverse normalize_recovered_scheduler_attempt non_usage_attempts) (\<lambda>normalized.
            let attempts = sort_key ra_request_id normalized; ids = map ra_request_id attempts
            in rbind (refuse_if (ids \<noteq> sort (remdups ids) \<or> set ids \<inter> set request_ids \<noteq> {})
                 (BudgetReservationStateError
                    ''budget recovery provider-attempt identities repeat'')) (\<lambda>_.
               rbind (normalize_recovered_cost_baseline baseline) (\<lambda>recovered_baseline.
               Inr \<lparr>rs_usage_hashes = map (usage_recovery_hash sha256) records,
                    rs_attempt_hashes = map (recovered_attempt_hash sha256) attempts,
                    rs_claims = \<lparr>rc_attempts = attempts, rc_baseline = recovered_baseline\<rparr>\<rparr>))))
      in case checked of Inl e \<Rightarrow> (Inl e, registry)
         | Inr s \<Rightarrow> (Inr fresh, AList.update fresh s registry))"

definition preview_recovery_scope ::
    "(string \<Rightarrow> string) \<Rightarrow> recovered_usage list \<Rightarrow> nat \<Rightarrow> recovery_registry \<Rightarrow> recovery_claims budget_result" where
  "preview_recovery_scope sha256 records scope registry =
     (case dict_get registry scope of
        None \<Rightarrow> state_error ''budget recovery capability is invalid, mismatched, or consumed''
      | Some s \<Rightarrow>
          if rs_usage_hashes s \<noteq> map (usage_recovery_hash sha256) records
          then state_error ''budget recovery capability is invalid, mismatched, or consumed''
          else Inr (rs_claims s))"

definition consume_recovery_scope ::
    "(string \<Rightarrow> string) \<Rightarrow> recovered_usage list \<Rightarrow> nat \<Rightarrow> recovery_registry
       \<Rightarrow> recovery_claims budget_result \<times> recovery_registry" where
  "consume_recovery_scope sha256 records scope registry =
     (case preview_recovery_scope sha256 records scope registry of
        Inl e \<Rightarrow> (Inl e, registry)
      | Inr claims \<Rightarrow> (Inr claims, AList.delete scope registry))"

end
