(* ===== verification/Budget_Manager.thy ===== *)
theory Budget_Manager
  imports Budget_Recovery
begin

text \<open>
  \<open>BudgetManager\<close> of \<open>orchestration/budgets.py\<close>: reservations before send, reconciliation of
  actual usage, release, and recovery from the durable ledger. Each method body that runs under
  the manager's lock is one step on the manager state. The clock, the fresh ledger identifier,
  the digest function and the timestamp codec are the environment of a call.
\<close>

section \<open>State\<close>

datatype limit_key = RoleKey string | ScheduledTaskKey string

record reconciliation =
  rn_actual_cost :: "decimal option"
  rn_actual_prompt :: "int option"
  rn_actual_completion :: "int option"
  rn_actual_reasoning :: "int option"
  rn_accounted_cost :: pyfloat
  rn_accounted_cost_exact :: decimal
  rn_accounted_prompt :: "int option"
  rn_accounted_completion :: "int option"
  rn_accounted_reasoning :: "int option"
  rn_cost_overrun :: bool
  rn_token_overrun :: bool

record budget_manager =
  bm_input_budget :: "int option"
  bm_output_budget :: "int option"
  bm_model_caps :: usd_counters
  bm_role_caps :: usd_counters
  bm_total_usd :: pyfloat
  bm_max_output_tokens :: int
  bm_rate :: pyfloat
  bm_max_requests :: int
  bm_ledger :: "atomic_cost_ledger option"
  bm_require_bound :: bool
  bm_spent :: pyfloat
  bm_spent_exact :: decimal
  bm_reserved :: usd_counters
  bm_issued :: "(string, budget_reservation) dict"
  bm_reconciled :: "(string, reconciliation) dict"
  bm_released :: "string list"
  bm_pending :: "(string, recovered_attempt) dict"
  bm_limit_counts :: "(limit_key, int) dict"
  bm_reserved_input :: int
  bm_spent_input :: int
  bm_reserved_output :: int
  bm_spent_output :: int
  bm_reserved_model :: usd_counters
  bm_spent_model :: usd_counters
  bm_reserved_role :: usd_counters
  bm_spent_role :: usd_counters
  bm_recovery_required :: bool

record call_env =
  env_sha256 :: "string \<Rightarrow> string"
  env_codec :: iso_codec
  env_now :: int
  env_fresh_id :: string

type_synonym 'a manager_op = "budget_manager \<Rightarrow> 'a budget_result \<times> budget_manager"

definition lift_ledger :: "(cost_error, 'a) result \<Rightarrow> 'a budget_result" where
  "lift_ledger = catch_as LedgerError"

definition new_manager ::
    "call_env \<Rightarrow> pyfloat \<Rightarrow> int \<Rightarrow> pyfloat \<Rightarrow> int \<Rightarrow> atomic_cost_ledger option \<Rightarrow> bool \<Rightarrow>
     int option \<Rightarrow> int option \<Rightarrow> (string \<times> price_input) list option \<Rightarrow>
     (string \<times> price_input) list option \<Rightarrow> budget_manager budget_result" where
  "new_manager env total_usd max_output_tokens rate max_requests ledger require_bound
       input_budget output_budget model_caps role_caps =
     rbind (refuse_if (require_bound \<and> ledger = None)
       (BudgetReservationStateError
          ''endpoint-bound certification costs require a durable atomic ledger'')) (\<lambda>_.
     rbind (validate_optional_tokens input_budget ''global input token budget'') (\<lambda>input.
     rbind (validate_optional_tokens output_budget ''global output token budget'') (\<lambda>output.
     rbind (case model_caps of None \<Rightarrow> Inr [] | Some c \<Rightarrow> validate_scoped_caps is_model_id ''model'' [] c)
       (\<lambda>models.
     rbind (case role_caps of None \<Rightarrow> Inr [] | Some c \<Rightarrow> validate_scoped_caps is_role_id ''role'' [] c)
       (\<lambda>roles.
     rbind (case ledger of None \<Rightarrow> Inr None
            | Some led \<Rightarrow> rbind (lift_ledger (ledger_snapshot (env_codec env) led)) (\<lambda>s. Inr (Some s)))
       (\<lambda>snapshot.
     rbind (refuse_if (case snapshot of None \<Rightarrow> False
         | Some s \<Rightarrow> cs_over_cap s \<or> list_ex (\<lambda>e. ce_status e = RESERVATION_OVERRUN) (cs_entries s))
       (BudgetReservationStateError ''persistent model-cost ledger requires explicit recovery'')) (\<lambda>_.
     Inr \<lparr>bm_input_budget = input, bm_output_budget = output, bm_model_caps = models,
          bm_role_caps = roles, bm_total_usd = total_usd, bm_max_output_tokens = max_output_tokens,
          bm_rate = rate, bm_max_requests = max_requests, bm_ledger = ledger,
          bm_require_bound = require_bound,
          bm_spent = (case snapshot of None \<Rightarrow> 0 | Some s \<Rightarrow> float_of_decimal (cs_spent_usd s)),
          bm_spent_exact = (case snapshot of None \<Rightarrow> dzero | Some s \<Rightarrow> cs_spent_usd s),
          bm_reserved = [], bm_issued = [], bm_reconciled = [], bm_released = [], bm_pending = [],
          bm_limit_counts = [], bm_reserved_input = 0, bm_spent_input = 0, bm_reserved_output = 0,
          bm_spent_output = 0, bm_reserved_model = [], bm_spent_model = [], bm_reserved_role = [],
          bm_spent_role = [],
          bm_recovery_required = (case snapshot of None \<Rightarrow> False | Some s \<Rightarrow> cs_entries s \<noteq> [])\<rparr>)))))))"

section \<open>Estimates and views\<close>

definition estimate_tokens :: "string \<Rightarrow> int" where
  "estimate_tokens text = max 1 \<lceil>fdiv (of_nat (utf8_length text)) 3\<rceil>"

definition estimate_request_cost :: "budget_manager \<Rightarrow> string \<Rightarrow> pyfloat" where
  "estimate_request_cost m prompt =
     (let tokens = estimate_tokens prompt + bm_max_output_tokens m
      in fdiv (fmul (fl (of_int tokens)) (bm_rate m)) 1000000)"

definition reserved_usd_exact :: "budget_manager \<Rightarrow> decimal" where
  "reserved_usd_exact m = dsum default_prec (dict_values (bm_reserved m))"

definition reserved_usd :: "budget_manager \<Rightarrow> pyfloat" where
  "reserved_usd m = float_of_decimal (reserved_usd_exact m)"

definition remaining_usd :: "budget_manager \<Rightarrow> pyfloat" where
  "remaining_usd m = max 0 (fsub (fsub (bm_total_usd m) (bm_spent m)) (reserved_usd m))"

definition remaining_input_tokens :: "budget_manager \<Rightarrow> int option" where
  "remaining_input_tokens m =
     (case bm_input_budget m of None \<Rightarrow> None
      | Some b \<Rightarrow> Some (max 0 (b - bm_spent_input m - bm_reserved_input m)))"

definition remaining_output_tokens :: "budget_manager \<Rightarrow> int option" where
  "remaining_output_tokens m =
     (case bm_output_budget m of None \<Rightarrow> None
      | Some b \<Rightarrow> Some (max 0 (b - bm_spent_output m - bm_reserved_output m)))"

definition scoped_counter ::
    "(string \<Rightarrow> bool) \<Rightarrow> string \<Rightarrow> usd_counters \<Rightarrow> string \<Rightarrow> decimal budget_result" where
  "scoped_counter pattern scope counters key =
     rbind (validate_scope_key pattern scope key) (\<lambda>_. Inr (dict_get_default counters key dzero))"

section \<open>Reserving\<close>

record reserve_request =
  rq_identifier :: string
  rq_role :: string
  rq_prompt :: string
  rq_bound :: "endpoint_cost_bound option"
  rq_exact_model_id :: "string option"
  rq_planned_prompt :: "int option"
  rq_planned_visible :: "int option"
  rq_planned_reasoning :: "int option"
  rq_planned_completion :: "int option"
  rq_plan_sha256 :: "string option"
  rq_limit_scope :: "trusted_limit_scope option"

definition maximum_request_cost :: "call_env \<Rightarrow> budget_manager \<Rightarrow> reserve_request \<Rightarrow> decimal budget_result" where
  "maximum_request_cost env m rq =
     (case rq_bound rq of
        None \<Rightarrow>
          if bm_require_bound m
          then Inl (UnprovenCostBoundError
                 ''certification paid request lacks an endpoint-bound maximum cost'')
          else Inr (float_decimal (estimate_request_cost m (rq_prompt rq)))
      | Some b \<Rightarrow>
          rbind (require (eb_request_material_sha256 b = env_sha256 env (rq_prompt rq))
            (UnprovenCostBoundError ''endpoint cost bound does not match the serialized request'')) (\<lambda>_.
          rbind (maximum_units_for b ''prompt'') (\<lambda>prompt_units.
          rbind (refuse_if (prompt_units < max 1 (int (utf8_length (rq_prompt rq))))
            (UnprovenCostBoundError
               ''endpoint prompt-token ceiling is below the UTF-8 byte upper bound'')) (\<lambda>_.
          rbind (maximum_units_for b ''completion'') (\<lambda>completion_units.
          rbind (refuse_if (completion_units < bm_max_output_tokens m)
            (UnprovenCostBoundError
               ''endpoint completion-token ceiling is below the configured output maximum'')) (\<lambda>_.
          bound_maximum_cost b))))))"

record resolved_scope =
  rv_model :: "string option"
  rv_prompt :: "int option"
  rv_visible :: "int option"
  rv_reasoning :: "int option"
  rv_completion :: "int option"
  rv_plan :: "string option"

definition resolve_model :: "reserve_request \<Rightarrow> string option budget_result" where
  "resolve_model rq =
     rbind (case rq_exact_model_id rq of None \<Rightarrow> Inr ()
            | Some model \<Rightarrow> validate_scope_key is_model_id ''model'' model) (\<lambda>_.
     case rq_bound rq of
       None \<Rightarrow> Inr (rq_exact_model_id rq)
     | Some b \<Rightarrow>
         (case rq_exact_model_id rq of
            None \<Rightarrow> Inr (Some (eb_exact_model_id b))
          | Some model \<Rightarrow>
              if model \<noteq> eb_exact_model_id b
              then state_error ''request model differs from the endpoint cost bound''
              else Inr (Some (eb_exact_model_id b))))"

definition check_token_ceilings :: "budget_manager \<Rightarrow> reserve_request \<Rightarrow> resolved_scope \<Rightarrow> unit budget_result" where
  "check_token_ceilings m rq v =
     rbind (refuse_if ((rv_prompt v = None) \<noteq> (rv_completion v = None))
       (BudgetReservationStateError
          ''planned prompt and completion token ceilings must be supplied together'')) (\<lambda>_.
     rbind (refuse_if ((rv_visible v = None) \<noteq> (rv_reasoning v = None))
       (BudgetReservationStateError
          ''planned visible-output and reasoning token ceilings must be supplied together'')) (\<lambda>_.
     rbind (case (rv_visible v, rv_reasoning v, rv_completion v) of
         (Some vis, _, None) \<Rightarrow>
           state_error ''split output token ceilings require a planned completion ceiling''
       | (Some vis, Some rea, Some com) \<Rightarrow>
           refuse_if (vis + rea \<noteq> com) (BudgetReservationStateError
             ''planned visible-output and reasoning tokens do not conserve completion tokens'')
       | _ \<Rightarrow> Inr ()) (\<lambda>_.
     rbind (refuse_if (case rv_plan v of None \<Rightarrow> False | Some p \<Rightarrow> \<not> is_sha256_hex p)
       (BudgetReservationStateError ''request token plan hash is invalid'')) (\<lambda>_.
     rbind (refuse_if (rv_plan v \<noteq> None
         \<and> (rv_model v = None \<or> rv_prompt v = None \<or> rv_completion v = None))
       (BudgetReservationStateError
          ''request token plan hash requires an exact model and complete token ceilings'')) (\<lambda>_.
     rbind (refuse_if (rv_plan v \<noteq> None \<and> (rv_visible v = None \<or> rv_reasoning v = None))
       (BudgetReservationStateError
          ''request token plan hash requires visible-output and reasoning token ceilings'')) (\<lambda>_.
     rbind (refuse_if (rv_prompt v \<noteq> None \<and> rv_model v = None)
       (BudgetReservationStateError ''planned token ceilings require an exact model ID'')) (\<lambda>_.
     rbind (refuse_if (bm_model_caps m \<noteq> [] \<and> rv_model v = None)
       (BudgetReservationStateError ''per-model USD caps require an exact model ID'')) (\<lambda>_.
     rbind (refuse_if (bm_input_budget m \<noteq> None \<and> rv_prompt v = None)
       (BudgetReservationStateError
          ''global input token budget requires a planned prompt-token ceiling'')) (\<lambda>_.
     rbind (refuse_if (bm_output_budget m \<noteq> None \<and> rv_completion v = None)
       (BudgetReservationStateError
          ''global output token budget requires a planned completion-token ceiling'')) (\<lambda>_.
     case (rq_bound rq, rv_prompt v, rv_completion v) of
       (Some b, Some prompt, Some completion) \<Rightarrow>
         rbind (maximum_units_for b ''prompt'') (\<lambda>units.
         rbind (refuse_if (units < prompt)
           (BudgetReservationStateError ''planned prompt tokens exceed the endpoint cost bound'')) (\<lambda>_.
         rbind (maximum_units_for b ''completion'') (\<lambda>units.
         refuse_if (units < completion)
           (BudgetReservationStateError
              ''planned completion tokens exceed the endpoint cost bound''))))
     | _ \<Rightarrow> Inr ()))))))))))"

definition validate_request_scope :: "budget_manager \<Rightarrow> reserve_request \<Rightarrow> resolved_scope budget_result" where
  "validate_request_scope m rq =
     rbind (validate_scope_key is_role_id ''role'' (rq_role rq)) (\<lambda>_.
     rbind (resolve_model rq) (\<lambda>model.
     rbind (validate_optional_tokens (rq_planned_prompt rq) ''planned prompt tokens'') (\<lambda>prompt.
     rbind (validate_optional_tokens (rq_planned_completion rq) ''planned completion tokens'') (\<lambda>completion.
     rbind (validate_optional_tokens (rq_planned_visible rq) ''planned visible-output tokens'') (\<lambda>visible.
     rbind (validate_optional_tokens (rq_planned_reasoning rq) ''planned reasoning tokens'') (\<lambda>reasoning.
     let v = \<lparr>rv_model = model, rv_prompt = prompt, rv_visible = visible, rv_reasoning = reasoning,
              rv_completion = completion, rv_plan = rq_plan_sha256 rq\<rparr>
     in rbind (check_token_ceilings m rq v) (\<lambda>_. Inr v)))))))"

definition require_usd_scope_capacity ::
    "string \<Rightarrow> string \<Rightarrow> decimal \<Rightarrow> usd_counters \<Rightarrow> usd_counters \<Rightarrow> usd_counters \<Rightarrow> unit budget_result" where
  "require_usd_scope_capacity scope key maximum_cost caps spent reserved =
     (case dict_get caps key of
        None \<Rightarrow>
          if caps \<noteq> []
          then Inl (BudgetExhaustedError
                 (''request has no configured '' @ scope @ '' USD budget for '' @ key))
          else Inr ()
      | Some cap \<Rightarrow>
          let available = dsub default_prec (dsub default_prec cap (dict_get_default spent key dzero))
                (dict_get_default reserved key dzero)
          in refuse_if (dlt available maximum_cost)
               (BudgetExhaustedError
                  (''request exceeds the remaining '' @ scope @ '' USD budget for '' @ key)))"

definition exceeds_token_budget :: "int option \<Rightarrow> int option \<Rightarrow> int \<Rightarrow> int \<Rightarrow> bool" where
  "exceeds_token_budget planned budget spent reserved =
     (case (planned, budget) of
        (Some p, Some b) \<Rightarrow> b - spent - reserved < p
      | _ \<Rightarrow> False)"

definition require_scoped_capacity ::
    "budget_manager \<Rightarrow> string \<Rightarrow> resolved_scope \<Rightarrow> decimal \<Rightarrow> unit budget_result" where
  "require_scoped_capacity m role v maximum_cost =
     rbind (refuse_if (exceeds_token_budget (rv_prompt v) (bm_input_budget m) (bm_spent_input m)
         (bm_reserved_input m))
       (BudgetExhaustedError ''request exceeds the remaining global input-token budget'')) (\<lambda>_.
     rbind (refuse_if (exceeds_token_budget (rv_completion v) (bm_output_budget m) (bm_spent_output m)
         (bm_reserved_output m))
       (BudgetExhaustedError ''request exceeds the remaining global output-token budget'')) (\<lambda>_.
     rbind (case rv_model v of None \<Rightarrow> Inr ()
            | Some model \<Rightarrow> require_usd_scope_capacity ''model'' model maximum_cost (bm_model_caps m)
                (bm_spent_model m) (bm_reserved_model m)) (\<lambda>_.
     require_usd_scope_capacity ''role'' role maximum_cost (bm_role_caps m) (bm_spent_role m)
       (bm_reserved_role m))))"

definition limit_key_of :: "reserve_request \<Rightarrow> limit_key" where
  "limit_key_of rq =
     (case rq_limit_scope rq of None \<Rightarrow> RoleKey (rq_role rq)
      | Some s \<Rightarrow> ScheduledTaskKey (scope_identifier s))"

definition check_adoption :: "budget_manager \<Rightarrow> reserve_request \<Rightarrow> resolved_scope \<Rightarrow> decimal \<Rightarrow> unit budget_result" where
  "check_adoption m rq v maximum_cost =
     (case dict_get (bm_pending m) (rq_identifier rq) of
        None \<Rightarrow> refuse_if (bm_pending m \<noteq> [])
          (BudgetReservationStateError
             ''a proven pre-send reservation must be adopted before other dispatch'')
      | Some a \<Rightarrow> refuse_if (ra_role a \<noteq> rq_role rq \<or> Some (ra_requested_model a) \<noteq> rv_model v
            \<or> \<not> pydec_eq (ra_reserved_cost a) (DFin maximum_cost))
          (BudgetReservationStateError
             ''resumed request differs from its durable pre-send reservation''))"

definition make_token_evidence ::
    "call_env \<Rightarrow> budget_manager \<Rightarrow> reserve_request \<Rightarrow> resolved_scope
       \<Rightarrow> token_reservation_evidence option budget_result" where
  "make_token_evidence env m rq v =
     (case (rv_plan v, rv_model v, rv_prompt v, rv_visible v, rv_reasoning v, rv_completion v) of
        (Some plan, Some model, Some prompt, Some visible, Some reasoning, Some completion) \<Rightarrow>
          rbind (build_token_evidence (env_sha256 env) (rq_identifier rq) model (rq_role rq) plan
              prompt visible reasoning completion (bm_input_budget m) (bm_output_budget m)
              (bm_spent_input m) (bm_reserved_input m) (bm_spent_output m) (bm_reserved_output m))
            (\<lambda>e. Inr (Some e))
      | _ \<Rightarrow> Inr None)"

definition make_limit_evidence ::
    "call_env \<Rightarrow> budget_manager \<Rightarrow> reserve_request \<Rightarrow> resolved_scope \<Rightarrow> int
       \<Rightarrow> limit_reservation_evidence option budget_result" where
  "make_limit_evidence env m rq v used =
     (case (rq_limit_scope rq, rv_model v, rv_plan v) of
        (Some scope, Some model, Some plan) \<Rightarrow>
          rbind (build_limit_evidence (env_sha256 env) (rq_identifier rq) model (rq_role rq) plan
              (scope_identifier scope) used (bm_max_requests m)) (\<lambda>e. Inr (Some e))
      | _ \<Rightarrow> Inr None)"

text \<open>
  All the checks of \<open>reserve\<close> before the durable ledger is touched. The refusal for lack of
  budget does not spell out the two amounts its message prints.
\<close>

definition reserve_plan ::
    "call_env \<Rightarrow> reserve_request \<Rightarrow> budget_manager
       \<Rightarrow> (decimal \<times> resolved_scope \<times> int \<times> budget_reservation) budget_result" where
  "reserve_plan env rq m =
     rbind (refuse_if (bm_recovery_required m)
       (BudgetReservationStateError
          ''persistent budget counters require exact usage recovery before dispatch'')) (\<lambda>_.
     rbind (maximum_request_cost env m rq) (\<lambda>maximum_cost.
     rbind (validate_request_scope m rq) (\<lambda>v.
     rbind (refuse_if (rq_limit_scope rq \<noteq> None \<and> rv_plan v = None)
       (BudgetReservationStateError ''request-limit scope requires a plan-bound reservation'')) (\<lambda>_.
     rbind (refuse_if (dict_has (bm_issued m) (rq_identifier rq))
       (BudgetReservationStateError ''request reservation identifier was already issued'')) (\<lambda>_.
     rbind (check_adoption m rq v maximum_cost) (\<lambda>_.
     let used = dict_get_default (bm_limit_counts m) (limit_key_of rq) 0
     in rbind (refuse_if (bm_max_requests m \<le> used)
          (BudgetExhaustedError
             (''request limit reached for '' @ (case limit_key_of rq of
                RoleKey r \<Rightarrow> ''role '' @ r | ScheduledTaskKey t \<Rightarrow> ''scheduled task '' @ t)))) (\<lambda>_.
        rbind (refuse_if
          (dlt (dsub default_prec (dsub default_prec (float_decimal (bm_total_usd m)) (bm_spent_exact m))
                 (reserved_usd_exact m)) maximum_cost)
          (BudgetExhaustedError (''request for '' @ rq_role rq @ '' exceeds the remaining budget''))) (\<lambda>_.
        rbind (require_scoped_capacity m (rq_role rq) v maximum_cost) (\<lambda>_.
        rbind (make_token_evidence env m rq v) (\<lambda>token_evidence.
        rbind (make_limit_evidence env m rq v used) (\<lambda>limit_evidence.
        rbind (validate_reservation
          \<lparr>br_identifier = rq_identifier rq, br_estimated_cost_usd = float_of_decimal maximum_cost,
           br_persistent = None, br_endpoint_cost_bound = rq_bound rq, br_exact_model_id = rv_model v,
           br_role = Some (rq_role rq), br_planned_prompt = rv_prompt v,
           br_planned_visible_output = rv_visible v, br_planned_reasoning = rv_reasoning v,
           br_planned_completion = rv_completion v, br_plan_sha256 = rv_plan v,
           br_token_evidence = token_evidence,
           br_limit_scope = map_option scope_identifier (rq_limit_scope rq),
           br_limit_evidence = limit_evidence\<rparr>) (\<lambda>reservation.
        Inr (maximum_cost, v, used, reservation)))))))))))))"

text \<open>The durable side: adopt a recovered reservation or make a new one.\<close>

definition reserve_durable ::
    "call_env \<Rightarrow> reserve_request \<Rightarrow> decimal \<Rightarrow> budget_manager
       \<Rightarrow> cost_reservation option budget_result \<times> atomic_cost_ledger option" where
  "reserve_durable env rq maximum_cost m =
     (case dict_get (bm_pending m) (rq_identifier rq) of
        Some a \<Rightarrow>
          (case bm_ledger m of
             None \<Rightarrow> (state_error ''pre-send reservation adoption requires its persistent ledger'', None)
           | Some led \<Rightarrow>
               (rbind (lift_ledger (active_reservation (env_codec env) (rq_identifier rq) led)) (\<lambda>p.
                case p of
                  None \<Rightarrow> state_error ''durable pre-send reservation is no longer active''
                | Some r \<Rightarrow>
                    if \<not> pydec_eq (DFin (cr_reserved_usd r)) (ra_reserved_cost a)
                    then state_error ''durable pre-send reservation is no longer active''
                    else Inr (Some r)),
                Some led))
      | None \<Rightarrow>
          (case bm_ledger m of
             None \<Rightarrow> (Inr None, None)
           | Some led \<Rightarrow>
               let (res, led') = ledger_reserve (env_codec env) (env_now env) (env_fresh_id env)
                     (rq_identifier rq) (DFin maximum_cost) led
               in ((case res of
                      Inl (CostBudgetExceededError _) \<Rightarrow>
                        Inl (BudgetExhaustedError (''request for '' @ rq_role rq
                               @ '' exceeds the persistent model-cost budget''))
                    | Inl e \<Rightarrow> Inl (LedgerError e)
                    | Inr r \<Rightarrow> Inr (Some r)),
                   Some led')))"

definition opt_increment :: "usd_counters \<Rightarrow> string option \<Rightarrow> decimal \<Rightarrow> usd_counters" where
  "opt_increment counters key amount =
     (case key of None \<Rightarrow> counters | Some k \<Rightarrow> increment_decimal counters k amount)"

definition opt_tokens :: "int option \<Rightarrow> int" where
  "opt_tokens n = (case n of None \<Rightarrow> 0 | Some i \<Rightarrow> i)"

definition reserve_scoped :: "budget_reservation \<Rightarrow> decimal \<Rightarrow> budget_manager \<Rightarrow> budget_manager" where
  "reserve_scoped r maximum_cost m = m\<lparr>
     bm_reserved_input := bm_reserved_input m + opt_tokens (br_planned_prompt r),
     bm_reserved_output := bm_reserved_output m + opt_tokens (br_planned_completion r),
     bm_reserved_model := opt_increment (bm_reserved_model m) (br_exact_model_id r) maximum_cost,
     bm_reserved_role := opt_increment (bm_reserved_role m) (br_role r) maximum_cost\<rparr>"

definition manager_reserve :: "call_env \<Rightarrow> reserve_request \<Rightarrow> budget_reservation manager_op" where
  "manager_reserve env rq m =
     (case reserve_plan env rq m of
        Inl e \<Rightarrow> (Inl e, m)
      | Inr (maximum_cost, v, used, planned) \<Rightarrow>
          (case reserve_durable env rq maximum_cost m of
             (Inl e, led) \<Rightarrow> (Inl e, m\<lparr>bm_ledger := led\<rparr>)
           | (Inr persistent, led) \<Rightarrow>
               let reservation = planned\<lparr>br_persistent := persistent\<rparr>;
                   m1 = m\<lparr>bm_ledger := led,
                     bm_reserved := AList.update (rq_identifier rq) maximum_cost (bm_reserved m),
                     bm_limit_counts := AList.update (limit_key_of rq) (used + 1) (bm_limit_counts m),
                     bm_issued := AList.update (rq_identifier rq) reservation (bm_issued m)\<rparr>;
                   m2 = reserve_scoped reservation maximum_cost m1
               in (Inr reservation, m2\<lparr>bm_pending := AList.delete (rq_identifier rq) (bm_pending m2)\<rparr>)))"

section \<open>Settling\<close>

definition opt_decrement :: "usd_counters \<Rightarrow> string option \<Rightarrow> decimal \<Rightarrow> usd_counters budget_result" where
  "opt_decrement counters key amount =
     (case key of None \<Rightarrow> Inr counters | Some k \<Rightarrow> decrement_decimal counters k amount)"

text \<open>The counters are changed one after the other; a refused decrement leaves the earlier changes.\<close>

definition release_scoped :: "budget_reservation \<Rightarrow> decimal \<Rightarrow> unit manager_op" where
  "release_scoped r reserved_cost m =
     (let m1 = m\<lparr>bm_reserved_input := bm_reserved_input m - opt_tokens (br_planned_prompt r),
                 bm_reserved_output := bm_reserved_output m - opt_tokens (br_planned_completion r)\<rparr>
      in case opt_decrement (bm_reserved_model m1) (br_exact_model_id r) reserved_cost of
           Inl e \<Rightarrow> (Inl e, m1)
         | Inr models \<Rightarrow>
             let m2 = m1\<lparr>bm_reserved_model := models\<rparr>
             in case opt_decrement (bm_reserved_role m2) (br_role r) reserved_cost of
                  Inl e \<Rightarrow> (Inl e, m2)
                | Inr roles \<Rightarrow> (Inr (), m2\<lparr>bm_reserved_role := roles\<rparr>))"

definition close_scoped_reservation ::
    "budget_reservation \<Rightarrow> decimal \<Rightarrow> decimal \<Rightarrow> int option \<Rightarrow> int option \<Rightarrow> unit manager_op" where
  "close_scoped_reservation r reserved_cost accounted_cost accounted_prompt accounted_completion m =
     (case release_scoped r reserved_cost m of
        (Inl e, m1) \<Rightarrow> (Inl e, m1)
      | (Inr _, m1) \<Rightarrow>
          (Inr (), m1\<lparr>bm_spent_input := bm_spent_input m1 + opt_tokens accounted_prompt,
             bm_spent_output := bm_spent_output m1 + opt_tokens accounted_completion,
             bm_spent_model := opt_increment (bm_spent_model m1) (br_exact_model_id r) accounted_cost,
             bm_spent_role := opt_increment (bm_spent_role m1) (br_role r) accounted_cost\<rparr>))"

record actual_usage =
  au_cost :: "decimal option"
  au_prompt :: "int option"
  au_completion :: "int option"
  au_reasoning :: "int option"

definition or_else :: "'a option \<Rightarrow> 'a option \<Rightarrow> 'a option" where
  "or_else a b = (case a of None \<Rightarrow> b | Some _ \<Rightarrow> a)"

definition reasoning_observation_missing :: "budget_reservation \<Rightarrow> actual_usage \<Rightarrow> bool" where
  "reasoning_observation_missing r u \<longleftrightarrow>
     (case br_planned_reasoning r of None \<Rightarrow> False | Some p \<Rightarrow> 0 < p)
     \<and> au_completion u \<noteq> None \<and> au_reasoning u = None"

definition accounted_reasoning :: "budget_reservation \<Rightarrow> actual_usage \<Rightarrow> int option" where
  "accounted_reasoning r u =
     (if au_completion u = None \<or> reasoning_observation_missing r u then br_planned_reasoning r
      else if au_reasoning u = None \<and> br_planned_reasoning r = Some 0 then Some 0
      else au_reasoning u)"

definition opt_greater :: "int option \<Rightarrow> int option \<Rightarrow> bool" where
  "opt_greater a b = (case (a, b) of (Some x, Some y) \<Rightarrow> y < x | _ \<Rightarrow> False)"

definition token_overrun_of :: "budget_reservation \<Rightarrow> actual_usage \<Rightarrow> bool" where
  "token_overrun_of r u \<longleftrightarrow>
     (let prompt = or_else (au_prompt u) (br_planned_prompt r);
          completion = or_else (au_completion u) (br_planned_completion r);
          reasoning = accounted_reasoning r u;
          visible = (case (completion, reasoning) of (Some c, Some g) \<Rightarrow> Some (c - g) | _ \<Rightarrow> None)
      in reasoning_observation_missing r u \<or> opt_greater reasoning completion
         \<or> opt_greater prompt (br_planned_prompt r) \<or> opt_greater completion (br_planned_completion r)
         \<or> opt_greater reasoning (br_planned_reasoning r)
         \<or> opt_greater visible (br_planned_visible_output r))"

definition normalize_usage ::
    "cost_input option \<Rightarrow> int option \<Rightarrow> int option \<Rightarrow> int option \<Rightarrow> actual_usage budget_result" where
  "normalize_usage cost prompt completion reasoning =
     rbind (normalize_actual_cost cost) (\<lambda>c.
     rbind (validate_optional_tokens prompt ''provider actual prompt tokens'') (\<lambda>p.
     rbind (validate_optional_tokens completion ''provider actual completion tokens'') (\<lambda>q.
     rbind (validate_optional_tokens reasoning ''provider actual reasoning tokens'') (\<lambda>g.
     rbind (refuse_if (g \<noteq> None \<and> q = None)
       (BudgetReservationStateError
          ''provider reasoning-token usage requires completion-token usage'')) (\<lambda>_.
     Inr \<lparr>au_cost = c, au_prompt = p, au_completion = q, au_reasoning = g\<rparr>)))))"

definition issued_matches :: "budget_manager \<Rightarrow> budget_reservation \<Rightarrow> bool" where
  "issued_matches m r =
     (case dict_get (bm_issued m) (br_identifier r) of None \<Rightarrow> False | Some i \<Rightarrow> eq_reservation i r)"

definition cost_overrun_error :: budget_error where
  "cost_overrun_error =
     LedgerError (CostReservationOverrunError ''actual cost exceeded its maximum reservation'')"

definition token_overrun_error :: budget_error where
  "token_overrun_error = TokenReservationOverrunError
     ''actual token usage exceeded or did not prove its planned reservation''"

text \<open>The answer to a repeated reconciliation.\<close>

definition repeated_reconcile :: "reconciliation \<Rightarrow> actual_usage \<Rightarrow> pyfloat budget_result" where
  "repeated_reconcile prior u =
     (if \<not> eq_option deq (rn_actual_cost prior) (au_cost u)
      then state_error ''request reservation was reconciled with a different cost''
      else if rn_actual_prompt prior \<noteq> au_prompt u \<or> rn_actual_completion prior \<noteq> au_completion u
        \<or> rn_actual_reasoning prior \<noteq> au_reasoning u
      then state_error ''request reservation was reconciled with different token usage''
      else if rn_cost_overrun prior then Inl cost_overrun_error
      else if rn_token_overrun prior then Inl token_overrun_error
      else Inr (rn_accounted_cost prior))"

definition reconcile_checks :: "budget_manager \<Rightarrow> budget_reservation \<Rightarrow> actual_usage \<Rightarrow> decimal budget_result" where
  "reconcile_checks m r u =
     rbind (refuse_if (br_identifier r \<in> set (bm_released m))
       (BudgetReservationStateError ''released request reservation cannot be reconciled'')) (\<lambda>_.
     rbind (case br_planned_prompt r of
         None \<Rightarrow> refuse_if (au_prompt u \<noteq> None \<or> au_completion u \<noteq> None \<or> au_reasoning u \<noteq> None)
           (BudgetReservationStateError
              ''provider token usage cannot be reconciled without a token plan'')
       | Some _ \<Rightarrow> refuse_if (br_planned_completion r = None \<or> br_exact_model_id r = None)
           (BudgetReservationStateError ''request reservation has an incomplete token plan'')) (\<lambda>_.
     rbind (refuse_if (au_reasoning u \<noteq> None \<and> br_planned_reasoning r = None)
       (BudgetReservationStateError
          ''provider reasoning-token usage cannot be reconciled without a split token plan'')) (\<lambda>_.
     case dict_get (bm_reserved m) (br_identifier r) of
       None \<Rightarrow> state_error ''request reservation has no active budget''
     | Some estimated \<Rightarrow> Inr estimated)))"

text \<open>The durable side of a reconciliation: only an overrun is remembered and raised later.\<close>

definition reconcile_durable ::
    "call_env \<Rightarrow> budget_reservation \<Rightarrow> decimal option \<Rightarrow> budget_manager
       \<Rightarrow> cost_error option budget_result \<times> atomic_cost_ledger option" where
  "reconcile_durable env r actual m =
     (case (bm_ledger m, br_persistent r) of
        (Some led, Some p) \<Rightarrow>
          let (res, led') = ledger_reconcile (env_codec env) (env_now env) p (map_option DFin actual) led
          in ((case res of
                 Inl (CostReservationOverrunError t) \<Rightarrow> Inr (Some (CostReservationOverrunError t))
               | Inl e \<Rightarrow> Inl (LedgerError e)
               | Inr _ \<Rightarrow> Inr None), Some led')
      | (led, _) \<Rightarrow> (Inr None, led))"

definition reconciliation_of ::
    "budget_reservation \<Rightarrow> actual_usage \<Rightarrow> decimal \<Rightarrow> bool \<Rightarrow> reconciliation" where
  "reconciliation_of r u accounted cost_overrun =
     \<lparr>rn_actual_cost = au_cost u, rn_actual_prompt = au_prompt u,
      rn_actual_completion = au_completion u, rn_actual_reasoning = au_reasoning u,
      rn_accounted_cost = float_of_decimal accounted, rn_accounted_cost_exact = accounted,
      rn_accounted_prompt = or_else (au_prompt u) (br_planned_prompt r),
      rn_accounted_completion = or_else (au_completion u) (br_planned_completion r),
      rn_accounted_reasoning = accounted_reasoning r u, rn_cost_overrun = cost_overrun,
      rn_token_overrun = token_overrun_of r u\<rparr>"

definition finish_reconcile ::
    "call_env \<Rightarrow> budget_reservation \<Rightarrow> actual_usage \<Rightarrow> decimal \<Rightarrow> pyfloat manager_op" where
  "finish_reconcile env r u estimated m =
     (case reconcile_durable env r (au_cost u) m of
        (Inl e, led) \<Rightarrow> (Inl e, m\<lparr>bm_ledger := led\<rparr>)
      | (Inr persistent_overrun, led) \<Rightarrow>
          let accounted = (case au_cost u of None \<Rightarrow> estimated | Some c \<Rightarrow> c);
              cost_overrun = (case au_cost u of None \<Rightarrow> False | Some c \<Rightarrow> dlt estimated c)
                \<or> persistent_overrun \<noteq> None;
              m1 = m\<lparr>bm_ledger := led, bm_reserved := AList.delete (br_identifier r) (bm_reserved m)\<rparr>
          in case close_scoped_reservation r estimated accounted
                    (or_else (au_prompt u) (br_planned_prompt r))
                    (or_else (au_completion u) (br_planned_completion r)) m1 of
               (Inl e, m2) \<Rightarrow> (Inl e, m2)
             | (Inr _, m2) \<Rightarrow>
                 let m3 = m2\<lparr>bm_spent := fadd (bm_spent m2) (float_of_decimal accounted),
                       bm_spent_exact := dadd default_prec (bm_spent_exact m2) accounted,
                       bm_reconciled := AList.update (br_identifier r)
                         (reconciliation_of r u accounted cost_overrun) (bm_reconciled m2)\<rparr>
                 in (if cost_overrun
                     then Inl (case persistent_overrun of Some e \<Rightarrow> LedgerError e
                               | None \<Rightarrow> cost_overrun_error)
                     else if token_overrun_of r u then Inl token_overrun_error
                     else Inr (float_of_decimal accounted), m3))"

definition manager_reconcile ::
    "call_env \<Rightarrow> budget_reservation \<Rightarrow> cost_input option \<Rightarrow> int option \<Rightarrow> int option \<Rightarrow> int option
       \<Rightarrow> pyfloat manager_op" where
  "manager_reconcile env r cost prompt completion reasoning m =
     (case normalize_usage cost prompt completion reasoning of
        Inl e \<Rightarrow> (Inl e, m)
      | Inr u \<Rightarrow>
          if \<not> issued_matches m r
          then (state_error ''request reservation handle is unknown or inconsistent'', m)
          else case dict_get (bm_reconciled m) (br_identifier r) of
            Some prior \<Rightarrow> (repeated_reconcile prior u, m)
          | None \<Rightarrow>
              (case reconcile_checks m r u of
                 Inl e \<Rightarrow> (Inl e, m)
               | Inr estimated \<Rightarrow> finish_reconcile env r u estimated m))"

definition reconciled_cost_usd_exact :: "budget_manager \<Rightarrow> budget_reservation \<Rightarrow> decimal budget_result" where
  "reconciled_cost_usd_exact m r =
     (if \<not> issued_matches m r then state_error ''request reservation handle is unknown or inconsistent''
      else case dict_get (bm_reconciled m) (br_identifier r) of
        None \<Rightarrow> state_error ''request reservation is not reconciled''
      | Some c \<Rightarrow> Inr (rn_accounted_cost_exact c))"

definition release_durable ::
    "call_env \<Rightarrow> budget_reservation \<Rightarrow> budget_manager \<Rightarrow> unit budget_result \<times> atomic_cost_ledger option" where
  "release_durable env r m =
     (case (bm_ledger m, br_persistent r) of
        (Some led, Some p) \<Rightarrow>
          let (res, led') = ledger_release (env_codec env) (env_now env) p FAILED_BEFORE_SEND led
          in ((case res of Inl e \<Rightarrow> Inl (LedgerError e) | Inr _ \<Rightarrow> Inr ()), Some led')
      | (led, _) \<Rightarrow> (Inr (), led))"

definition manager_release :: "call_env \<Rightarrow> budget_reservation \<Rightarrow> unit manager_op" where
  "manager_release env r m =
     (if \<not> issued_matches m r
      then (state_error ''request reservation handle is unknown or inconsistent'', m)
      else if br_identifier r \<in> set (bm_released m) then (Inr (), m)
      else if dict_has (bm_reconciled m) (br_identifier r)
      then (state_error ''reconciled request reservation cannot be released'', m)
      else case release_durable env r m of
        (Inl e, led) \<Rightarrow> (Inl e, m\<lparr>bm_ledger := led\<rparr>)
      | (Inr _, led) \<Rightarrow>
          (case dict_get (bm_reserved m) (br_identifier r) of
             None \<Rightarrow> (state_error ''request reservation has no active budget'', m\<lparr>bm_ledger := led\<rparr>)
           | Some reserved_cost \<Rightarrow>
               (case release_scoped r reserved_cost
                       (m\<lparr>bm_ledger := led,
                          bm_reserved := AList.delete (br_identifier r) (bm_reserved m)\<rparr>) of
                  (Inl e, m2) \<Rightarrow> (Inl e, m2)
                | (Inr _, m2) \<Rightarrow>
                    (Inr (), m2\<lparr>bm_released := br_identifier r # bm_released m2\<rparr>))))"

section \<open>Recovery from the durable ledger\<close>

record restore_state =
  rt_expected_ids :: "string list"
  rt_expected_spent :: decimal
  rt_input :: int
  rt_output :: int
  rt_model :: usd_counters
  rt_role :: usd_counters
  rt_counts :: "(limit_key, int) dict"
  rt_uncertain :: bool
  rt_uncertain_scopes :: "limit_key list"
  rt_pending :: "(string, recovered_attempt) dict"

definition start_restore :: restore_state where
  "start_restore = \<lparr>rt_expected_ids = [], rt_expected_spent = dzero, rt_input = 0, rt_output = 0,
     rt_model = [], rt_role = [], rt_counts = [], rt_uncertain = False, rt_uncertain_scopes = [],
     rt_pending = []\<rparr>"

fun restore_baseline_entries ::
    "call_env \<Rightarrow> (string, cost_entry) dict \<Rightarrow> (string \<times> string) list \<Rightarrow> restore_state \<Rightarrow> restore_state budget_result"
where
  "restore_baseline_entries env entries [] st = Inr st"
| "restore_baseline_entries env entries ((request_id, entry_sha256) # rest) st =
     (case dict_get entries request_id of
        None \<Rightarrow> state_error ''persistent model-cost ledger differs from campaign baseline''
      | Some e \<Rightarrow>
          if cost_entry_sha256 (env_sha256 env) (env_codec env) e \<noteq> entry_sha256
          then state_error ''persistent model-cost ledger differs from campaign baseline''
          else restore_baseline_entries env entries rest
                 (st\<lparr>rt_expected_ids := request_id # rt_expected_ids st\<rparr>))"

definition restore_baseline ::
    "call_env \<Rightarrow> decimal \<Rightarrow> (string, cost_entry) dict \<Rightarrow> recovered_baseline option \<Rightarrow> restore_state
       \<Rightarrow> restore_state budget_result" where
  "restore_baseline env cap entries baseline st =
     (case baseline of None \<Rightarrow> Inr st
      | Some b \<Rightarrow>
          if \<not> pydec_eq (DFin cap) (rb_cap_usd b)
          then state_error ''persistent model-cost ledger cap differs from campaign baseline''
          else rbind (restore_baseline_entries env entries (rb_entry_sha256s b) st) (\<lambda>st'.
            case rb_spent_usd b of
              DFin d \<Rightarrow> Inr (st'\<lparr>rt_expected_spent := d\<rparr>)
            | _ \<Rightarrow> state_error ''persistent model-cost ledger contains unbound recovery entries''))"

definition recovered_cost_matches :: "recovered_usage \<Rightarrow> cost_entry list \<Rightarrow> bool" where
  "recovered_cost_matches u exact \<longleftrightarrow>
     (case ru_accounted_cost_exact u of None \<Rightarrow> False
      | Some c \<Rightarrow> pydec_eq (DFin (dsum default_prec (map ce_accounted_cost_usd exact))) c)
     \<and> (case ru_reported_cost_exact u of
          None \<Rightarrow> ce_actual_cost_usd (last exact) = None
        | Some c \<Rightarrow> (case ce_actual_cost_usd (last exact) of None \<Rightarrow> False
            | Some a \<Rightarrow> pydec_eq (DFin a) c))"

definition recovered_tokens :: "recovered_usage \<Rightarrow> int \<Rightarrow> int list \<Rightarrow> int" where
  "recovered_tokens u observed planned =
     sum_list (butlast planned) + (if ru_creditable u \<or> 0 < observed then observed else last planned)"

definition finite_or_zero :: "pydec option \<Rightarrow> decimal" where
  "finite_or_zero v = (case v of Some (DFin d) \<Rightarrow> d | _ \<Rightarrow> dzero)"

definition restore_record ::
    "(string, cost_entry) dict \<Rightarrow> recovered_usage \<Rightarrow> restore_state \<Rightarrow> restore_state budget_result" where
  "restore_record entries u st =
     rbind (require (ru_accountable u)
       (BudgetReservationStateError ''budget recovery requires exact runtime-accountable usage'')) (\<lambda>_.
     rbind (require (ru_has_plan u)
       (BudgetReservationStateError ''budget recovery usage lacks an exact request token plan'')) (\<lambda>_.
     let tokens = ru_token_evidence u; limits = ru_limit_evidence u; ids = map te_request_id tokens
     in rbind (refuse_if (length tokens \<noteq> ru_attempts u \<or> length limits \<noteq> ru_attempts u \<or> limits = [])
          (BudgetReservationStateError
             ''budget recovery usage lacks complete scheduled attempt evidence'')) (\<lambda>_.
        rbind (refuse_if (ids \<noteq> map le_request_id limits)
          (BudgetReservationStateError ''budget recovery token and request attempts differ'')) (\<lambda>_.
        rbind (refuse_if (set (rt_expected_ids st) \<inter> set ids \<noteq> {})
          (BudgetReservationStateError ''budget recovery repeats a provider attempt'')) (\<lambda>_.
        rbind (refuse_if (list_ex (\<lambda>i. dict_get entries i = None) ids)
          (BudgetReservationStateError
             ''persistent model-cost ledger omits a recovered provider attempt'')) (\<lambda>_.
        let exact = List.map_filter (dict_get entries) ids
        in rbind (refuse_if (list_ex (\<lambda>e. ce_status e \<notin> {RECONCILED, UNCERTAIN_ACCOUNTED}) exact
               \<or> (ru_creditable u \<and> ce_status (last exact) \<noteq> RECONCILED))
             (BudgetReservationStateError
                ''persistent model-cost ledger has an invalid attempt state'')) (\<lambda>_.
           rbind (refuse_if (ru_accounted_cost_exact u = None
               \<or> (ru_creditable u \<and> ru_reported_cost_exact u = None))
             (BudgetReservationStateError
                ''budget recovery usage lacks exact decimal cost evidence'')) (\<lambda>_.
           rbind (require (recovered_cost_matches u exact)
             (BudgetReservationStateError
                ''persistent model-cost ledger differs from recovered usage cost'')) (\<lambda>_.
           let cost = finite_or_zero (ru_accounted_cost_exact u);
               scopes = remdups (map le_scope limits);
               key = ScheduledTaskKey (hd scopes)
           in rbind (refuse_if (length scopes \<noteq> 1)
                (BudgetReservationStateError
                   ''budget recovery request-limit scope is ambiguous'')) (\<lambda>_.
              rbind (refuse_if (dict_has (rt_counts st) key)
                (BudgetReservationStateError
                   ''budget recovery repeats a scheduled request-limit scope'')) (\<lambda>_.
              Inr (st\<lparr>rt_expected_ids := ids @ rt_expected_ids st,
                rt_expected_spent := dadd default_prec (rt_expected_spent st) cost,
                rt_input := rt_input st
                  + recovered_tokens u (ru_prompt_tokens u) (map te_prompt_tokens tokens),
                rt_output := rt_output st
                  + recovered_tokens u (ru_completion_tokens u) (map te_completion_tokens tokens),
                rt_model := increment_decimal (rt_model st) (ru_requested_model u) cost,
                rt_role := increment_decimal (rt_role st) (ru_role u) cost,
                rt_counts := AList.update key (le_count_after (last limits)) (rt_counts st)\<rparr>))))))))))))"

fun restore_records ::
    "(string, cost_entry) dict \<Rightarrow> recovered_usage list \<Rightarrow> restore_state \<Rightarrow> restore_state budget_result" where
  "restore_records entries [] st = Inr st"
| "restore_records entries (u # us) st =
     rbind (restore_record entries u st) (restore_records entries us)"

definition restore_attempt ::
    "(string, cost_entry) dict \<Rightarrow> recovered_attempt \<Rightarrow> restore_state \<Rightarrow> restore_state budget_result" where
  "restore_attempt entries a st =
     (if ra_request_id a \<in> set (rt_expected_ids st)
      then state_error ''budget recovery repeats a provider attempt''
      else case dict_get entries (ra_request_id a) of
        None \<Rightarrow> state_error ''persistent model-cost ledger omits a recovered provider attempt''
      | Some e \<Rightarrow>
          let st1 = st\<lparr>rt_expected_ids := ra_request_id a # rt_expected_ids st\<rparr>;
              key = ScheduledTaskKey (ra_logical_request_id a)
          in if ra_status a = ''adopted_proven_pre_send'' then
               (if ce_status e \<noteq> RESERVED \<or> ce_release_reason e \<noteq> None
                   \<or> \<not> deq (ce_accounted_cost_usd e) dzero
                   \<or> \<not> pydec_eq (DFin (ce_reserved_usd e)) (ra_reserved_cost a)
                   \<or> \<not> pydec_eq (ra_accounted_cost a) (DFin dzero)
                then state_error ''adopted pre-send recovery differs from the persistent ledger''
                else Inr (st1\<lparr>rt_pending := AList.update (ra_request_id a) a (rt_pending st1)\<rparr>))
             else if dict_has (rt_counts st1) key \<and> key \<notin> set (rt_uncertain_scopes st1)
             then state_error ''budget recovery repeats a scheduled request-limit scope''
             else let st2 = (if key \<in> set (rt_uncertain_scopes st1) then st1
                             else st1\<lparr>rt_counts := AList.update key 1 (rt_counts st1),
                                      rt_uncertain_scopes := key # rt_uncertain_scopes st1\<rparr>)
                  in if ce_status e \<noteq> UNCERTAIN_ACCOUNTED \<or> ce_actual_cost_usd e \<noteq> None
                        \<or> \<not> pydec_eq (DFin (ce_reserved_usd e)) (ra_reserved_cost a)
                        \<or> \<not> pydec_eq (DFin (ce_accounted_cost_usd e)) (ra_accounted_cost a)
                     then state_error ''uncertain dispatched recovery differs from the persistent ledger''
                     else let cost = finite_or_zero (Some (ra_accounted_cost a))
                          in Inr (st2\<lparr>rt_uncertain := True,
                               rt_expected_spent := dadd default_prec (rt_expected_spent st2) cost,
                               rt_model := increment_decimal (rt_model st2) (ra_requested_model a) cost,
                               rt_role := increment_decimal (rt_role st2) (ra_role a) cost\<rparr>))"

fun restore_attempts ::
    "(string, cost_entry) dict \<Rightarrow> recovered_attempt list \<Rightarrow> restore_state \<Rightarrow> restore_state budget_result" where
  "restore_attempts entries [] st = Inr st"
| "restore_attempts entries (a # as) st =
     rbind (restore_attempt entries a st) (restore_attempts entries as)"

text \<open>Without a token observation of a dispatched attempt the whole budget counts as spent.\<close>

definition saturate_uncertain :: "budget_manager \<Rightarrow> restore_state \<Rightarrow> restore_state" where
  "saturate_uncertain m st =
     (if rt_uncertain st
      then st\<lparr>rt_input := (case bm_input_budget m of None \<Rightarrow> rt_input st | Some b \<Rightarrow> b),
              rt_output := (case bm_output_budget m of None \<Rightarrow> rt_output st | Some b \<Rightarrow> b)\<rparr>
      else st)"

definition restore_plan ::
    "call_env \<Rightarrow> recovered_usage list \<Rightarrow> recovery_claims \<Rightarrow> cost_snapshot \<Rightarrow> budget_manager
       \<Rightarrow> restore_state budget_result" where
  "restore_plan env records claims snapshot m =
     (let entries = map (\<lambda>e. (ce_request_id e, e)) (cs_entries snapshot)
      in rbind (restore_baseline env (cs_cap_usd snapshot) entries (rc_baseline claims) start_restore)
           (\<lambda>st0.
         rbind (restore_records entries records st0) (\<lambda>st1.
         rbind (restore_attempts entries (rc_attempts claims) st1) (\<lambda>st2.
         let st = saturate_uncertain m st2
         in rbind (refuse_if (set (dict_keys entries) \<noteq> set (rt_expected_ids st)
                \<or> \<not> deq (cs_spent_usd snapshot) (rt_expected_spent st))
              (BudgetReservationStateError
                 ''persistent model-cost ledger contains unbound recovery entries'')) (\<lambda>_.
            rbind (refuse_if ((case bm_input_budget m of None \<Rightarrow> False | Some b \<Rightarrow> b < rt_input st)
                \<or> (case bm_output_budget m of None \<Rightarrow> False | Some b \<Rightarrow> b < rt_output st))
              (BudgetReservationStateError
                 ''recovered token usage exceeds the configured global budget'')) (\<lambda>_. Inr st))))))"

definition restore_recovered_usage ::
    "call_env \<Rightarrow> recovered_usage list \<Rightarrow> nat \<Rightarrow> recovery_registry \<Rightarrow> budget_manager
       \<Rightarrow> unit budget_result \<times> recovery_registry \<times> budget_manager" where
  "restore_recovered_usage env records scope registry m =
     (case bm_ledger m of
        None \<Rightarrow> (state_error ''budget recovery requires the exact persistent model-cost ledger'',
                 registry, m)
      | Some led \<Rightarrow>
          (case rbind (refuse_if (\<not> bm_recovery_required m)
                  (BudgetReservationStateError ''budget recovery is not required or already ran'')) (\<lambda>_.
                rbind (refuse_if (bm_issued m \<noteq> [] \<or> bm_reserved m \<noteq> [] \<or> bm_reconciled m \<noteq> []
                    \<or> bm_released m \<noteq> [])
                  (BudgetReservationStateError
                     ''budget recovery requires a fresh manager before any request'')) (\<lambda>_.
                rbind (lift_ledger (ledger_snapshot (env_codec env) led)) (\<lambda>snapshot.
                rbind (preview_recovery_scope (env_sha256 env) records scope registry) (\<lambda>claims.
                rbind (restore_plan env records claims snapshot m) (\<lambda>st. Inr (snapshot, st)))))) of
             Inl e \<Rightarrow> (Inl e, registry, m)
           | Inr (snapshot, st) \<Rightarrow>
               (case consume_recovery_scope (env_sha256 env) records scope registry of
                  (Inl e, registry') \<Rightarrow> (Inl e, registry', m)
                | (Inr _, registry') \<Rightarrow>
                    (Inr (), registry',
                     m\<lparr>bm_spent_input := rt_input st, bm_spent_output := rt_output st,
                       bm_spent_model := rt_model st, bm_spent_role := rt_role st,
                       bm_limit_counts := rt_counts st, bm_pending := rt_pending st,
                       bm_spent_exact := cs_spent_usd snapshot,
                       bm_spent := float_of_decimal (cs_spent_usd snapshot),
                       bm_recovery_required := False\<rparr>))))"

end
