(* ===== verification/Budget_Bounds.thy ===== *)
theory Budget_Bounds
  imports Budget_Manager
begin

text \<open>
  Facts about the numbers of a budget: the certified maximum cost of a request covers the exact
  cost of its components, the float division of the token estimate is the exact ceiling, and
  token evidence conserves tokens and respects its limits.
\<close>

section \<open>Endpoint price bounds\<close>

definition price_component_ok :: "price_component \<Rightarrow> bool" where
  "price_component_ok c \<longleftrightarrow>
     on_grid 36 (pc_unit_price_usd c) \<and> 0 \<le> val (pc_unit_price_usd c)
     \<and> val (pc_unit_price_usd c) < 10 ^ 12 \<and> metered (pc_maximum_units c)"

definition component_cost :: "price_component \<Rightarrow> rat" where
  "component_cost c = val (pc_unit_price_usd c) * of_int (pc_maximum_units c)"

lemma val_dmul:
  assumes "on_grid k a" "\<bar>val a * of_int n\<bar> < 10 ^ (p - k)" "k \<le> p" "0 < p"
  shows "val (dmul p a (dec_of_int n)) = val a * of_int n" "on_grid k (dmul p a (dec_of_int n))"
proof -
  let ?r = "Dec (mant a * mant (dec_of_int n)) (dexp a + dexp (dec_of_int n))"
  have v: "val ?r = val a * of_int n" using val_dmul_raw [of a "dec_of_int n"] by (simp only: val_dec_of_int)
  obtain z :: int where "val a * 10 ^ k = of_int z" using assms(1) by (auto simp: on_grid_def)
  then have "val ?r * 10 ^ k = of_int (z * n)" unfolding v by (simp add: mult.commute mult.left_commute)
  then have g: "on_grid k ?r" unfolding on_grid_def by blast
  have "val (dround p ?r) = val ?r" using g assms(2-4) v by (intro dround_exact) simp_all
  then show d: "val (dmul p a (dec_of_int n)) = val a * of_int n"
    using v by (simp only: dmul_def)
  then show "on_grid k (dmul p a (dec_of_int n))" using g v on_grid_cong by metis
qed

lemma metered_bound: "metered n \<Longrightarrow> 0 \<le> n \<and> n < 10 ^ 19"
  by (auto simp: metered_def max_metered_units_def)

lemma component_cost_bounds:
  assumes "price_component_ok c"
  shows "0 \<le> component_cost c" "component_cost c \<le> 10 ^ 31"
proof -
  have u: "0 \<le> (of_int (pc_maximum_units c) :: rat)" "(of_int (pc_maximum_units c) :: rat) \<le> 10 ^ 19"
    using assms metered_bound [of "pc_maximum_units c"] by (auto simp: price_component_ok_def)
  show "0 \<le> component_cost c" using assms u by (simp add: component_cost_def price_component_ok_def)
  have "component_cost c \<le> 10 ^ 12 * 10 ^ 19"
    unfolding component_cost_def using assms u by (intro mult_mono) (simp_all add: price_component_ok_def)
  then show "component_cost c \<le> 10 ^ 31" by simp
qed

lemma component_cost_exact:
  assumes "price_component_ok c"
  shows "val (component_maximum_cost c) = component_cost c" "on_grid 36 (component_maximum_cost c)"
proof -
  have b: "\<bar>val (pc_unit_price_usd c) * of_int (pc_maximum_units c)\<bar> < 10 ^ (cost_prec - 36)"
    using component_cost_bounds [OF assms] by (simp add: component_cost_def cost_prec_def)
  have g: "on_grid 36 (pc_unit_price_usd c)" using assms by (simp add: price_component_ok_def)
  note e = val_dmul [OF g b]
  show "val (component_maximum_cost c) = component_cost c" "on_grid 36 (component_maximum_cost c)"
    using e by (simp_all add: component_maximum_cost_def component_cost_def cost_prec_def)
qed

lemma components_sum_exact:
  assumes "\<And>c. c \<in> set cs \<Longrightarrow> price_component_ok c" "length cs \<le> 10 ^ 20"
  shows "val (dsum cost_prec (map component_maximum_cost cs)) = sum_list (map component_cost cs)"
    "0 \<le> sum_list (map component_cost cs)"
proof -
  have eq: "map val (map component_maximum_cost cs) = map component_cost cs"
    using assms(1) component_cost_exact(1) by simp
  show nn: "0 \<le> sum_list (map component_cost cs)"
    using assms(1) component_cost_bounds(1) by (intro sum_list_nonneg) auto
  have "sum_list (map component_cost cs) \<le> of_nat (length cs) * 10 ^ 31"
    using assms(1) component_cost_bounds(2) by (induction cs) (auto simp: algebra_simps intro: add_mono)
  also have "\<dots> \<le> of_nat (10 ^ 20) * 10 ^ 31"
    using assms(2) by (intro mult_right_mono) (simp_all only: of_nat_le_iff zero_le_power zero_le_numeral)
  also have "\<dots> < 10 ^ (cost_prec - 36)" by (simp add: cost_prec_def)
  finally have b: "sum_list (map component_cost cs) < 10 ^ (cost_prec - 36)" .
  show "val (dsum cost_prec (map component_maximum_cost cs)) = sum_list (map component_cost cs)"
    unfolding eq [symmetric]
  proof (rule val_dsum [where k = 36])
    show "on_grid 36 d \<and> 0 \<le> val d" if "d \<in> set (map component_maximum_cost cs)" for d
      using that assms(1) component_cost_exact component_cost_bounds(1) by auto
    show "sum_list (map val (map component_maximum_cost cs)) < 10 ^ (cost_prec - 36)"
      using b by (simp only: eq)
  qed (simp_all add: cost_prec_def)
qed

lemma bound_cost_covers:
  assumes "bound_maximum_cost b = Inr c" "list_all price_component_ok (eb_components b)"
    and "length (eb_components b) \<le> 10 ^ 20"
  shows "sum_list (map component_cost (eb_components b)) \<le> val c"
    "val c < sum_list (map component_cost (eb_components b)) + 1 / 10 ^ 18"
    "on_grid 18 c" "0 \<le> val c"
proof -
  let ?t = "dsum cost_prec (map component_maximum_cost (eb_components b))"
  have q: "dquantize cost_prec Ceiling (- int 18) ?t = Some c"
    using assms(1) by (simp add: bound_maximum_cost_def split: option.splits)
  have e: "val ?t = sum_list (map component_cost (eb_components b))"
    "0 \<le> sum_list (map component_cost (eb_components b))"
    using assms(2,3) components_sum_exact [of "eb_components b"] by (auto simp: list_all_iff)
  show "sum_list (map component_cost (eb_components b)) \<le> val c"
    using dquantize_ceiling(1) [OF q] e by simp
  then show "0 \<le> val c" using e by simp
  show "val c < sum_list (map component_cost (eb_components b)) + 1 / 10 ^ 18"
    using dquantize_ceiling(2) [OF q] unfolding e(1) .
  show "on_grid 18 c" using dquantize_grid [OF q] .
qed

lemma mant_nonneg: "0 \<le> mant d \<longleftrightarrow> 0 \<le> val d"
proof -
  have "\<not> (10::rat) powi dexp d \<le> 0" by (simp add: not_le)
  then show ?thesis by (simp add: val_def zero_le_mult_iff)
qed

lemma dround_nonneg:
  assumes "0 \<le> val d"
  shows "0 \<le> val (dround p d)"
proof -
  define n where "n = nat \<bar>mant d\<bar>"
  define k where "k = ndigits n - p"
  define q where "q = div_half_even n (10 ^ k)"
  have m: "0 \<le> mant d" using assms by (simp add: mant_nonneg)
  show ?thesis
  proof (cases "ndigits n \<le> p")
    case True
    then show ?thesis using assms by (simp add: n_def)
  next
    case False
    then have "p < ndigits n" by simp
    from dround_big [OF n_def k_def this q_def, of "dexp d"] m
    have "0 \<le> mant (dround p d)" by (simp add: sgn_if)
    then show ?thesis by (simp add: mant_nonneg)
  qed
qed

lemma validate_price_ok:
  assumes "validate_price v = Inr r"
  shows "on_grid 36 r \<and> 0 \<le> val r \<and> val r < 10 ^ 12"
proof -
  obtain d where v: "v = DFin d" using assms by (cases v) (simp_all add: validate_price_def)
  define n where "n = dnormalize default_prec d"
  define a where "a = adjusted n"
  have "validate_price v = Inr r \<longleftrightarrow> \<not> val d < 0 \<and> \<not> 36 < max 0 (- dexp n) \<and> \<not> 12 < max 1 a \<and> r = n"
    unfolding v validate_price_def pydec.case dcmp_iff val_dzero Let_def n_def a_def adjusted_def
    by auto
  with assms have r: "0 \<le> val d" "- dexp n \<le> 36" "a \<le> 12" "r = n" by auto
  have "on_grid 36 n" using r(2) by (intro on_gridI) simp
  moreover have "0 \<le> val n" using dround_nonneg [OF r(1)] by (simp add: n_def val_dnormalize)
  moreover have "val n < 10 ^ 12"
  proof -
    have "\<bar>val n\<bar> < 10 powi a" unfolding a_def by (rule val_less_adjusted)
    also have "\<dots> \<le> 10 powi 12" using r(3) by (intro power_int_increasing) simp_all
    finally show ?thesis by simp
  qed
  ultimately show ?thesis by (simp add: r(4))
qed

lemma make_price_component_ok: "make_price_component f v u = Inr c \<Longrightarrow> price_component_ok c"
  using validate_price_ok by (auto simp: make_price_component_def result_simps price_component_ok_def)

lemma traverse_all:
  "traverse f xs = Inr ys \<Longrightarrow> (\<And>x y. x \<in> set xs \<Longrightarrow> f x = Inr y \<Longrightarrow> P y) \<Longrightarrow> list_all P ys"
proof (induction xs arbitrary: ys)
  case (Cons x xs)
  from Cons.prems(1) obtain y zs where y: "f x = Inr y" "traverse f xs = Inr zs" "ys = y # zs"
    by (auto simp: result_simps)
  have "P y" by (rule Cons.prems(2) [OF _ y(1)]) simp
  moreover have "list_all P zs" by (rule Cons.IH [OF y(2)], rule Cons.prems(2)) simp_all
  ultimately show ?case by (simp add: y(3))
qed simp

lemma validate_cost_bound_Inr:
  assumes "validate_cost_bound sha b = Inr b'"
  shows "b' = b" "\<exists>c. bound_maximum_cost b = Inr c \<and> 0 < val c"
    "distinct (map pc_pricing_field (eb_components b))"
    "''prompt'' \<in> set (map pc_pricing_field (eb_components b))"
    "''completion'' \<in> set (map pc_pricing_field (eb_components b))"
  using assms by (auto simp: validate_cost_bound_def Let_def result_simps dlt_iff)

lemma cost_bound_from_pricing_ok:
  assumes "cost_bound_from_pricing sha model endpoint material pricing units = Inr b"
  shows "list_all price_component_ok (eb_components b)" "length (eb_components b) = length pricing"
    "validate_cost_bound sha b = Inr b" "eb_request_material_sha256 b = sha material"
proof -
  from assms obtain cs where cs: "traverse (\<lambda>(field, value).
         rbind (parse_price value) (\<lambda>price.
         make_price_component field (DFin price) (dict_get_default units field 0)))
       (sort_key fst pricing) = Inr cs"
    and v: "validate_cost_bound sha
       \<lparr>eb_exact_model_id = model, eb_provider_endpoint = endpoint,
        eb_request_material_sha256 = sha material,
        eb_pricing_snapshot_sha256 = pricing_snapshot_hash sha model endpoint cs,
        eb_components = cs\<rparr> = Inr b"
    by (auto simp: cost_bound_from_pricing_def result_simps)
  have b: "eb_components b = cs" "eb_request_material_sha256 b = sha material"
    using validate_cost_bound_Inr(1) [OF v] by simp_all
  show "list_all price_component_ok (eb_components b)"
    unfolding b(1) using cs by (rule traverse_all) (auto simp: result_simps dest: make_price_component_ok)
  show "length (eb_components b) = length pricing"
    using traverse_eq_Inr_length [OF cs] b by simp
  show "validate_cost_bound sha b = Inr b" using v validate_cost_bound_Inr(1) [OF v] by simp
  show "eb_request_material_sha256 b = sha material" by (rule b(2))
qed

lemma maximum_units_member:
  assumes "maximum_units_for b f = Inr n"
  shows "\<exists>c \<in> set (eb_components b). pc_pricing_field c = f \<and> pc_maximum_units c = n"
  using assms by (auto simp: maximum_units_for_def find_Some_iff split: option.splits)

lemma two_members_le_sum:
  fixes g :: "'a \<Rightarrow> rat"
  assumes "x \<in> set xs" "y \<in> set xs" "x \<noteq> y" "\<And>z. z \<in> set xs \<Longrightarrow> 0 \<le> g z"
  shows "g x + g y \<le> sum_list (map g xs)"
  using assms
proof (induction xs)
  case (Cons z zs)
  have nn: "0 \<le> sum_list (map g zs)" using Cons.prems by (intro sum_list_nonneg) auto
  have mem: "u \<in> set zs \<Longrightarrow> g u \<le> sum_list (map g zs)" for u
    using Cons.prems(4) by (intro member_le_sum_list) auto
  show ?case
  proof (cases "x = z \<or> y = z")
    case True
    then show ?thesis using Cons.prems mem by auto
  next
    case False
    with Cons show ?thesis by (fastforce intro: add_increasing)
  qed
qed simp

section \<open>The token estimate\<close>

lemma nbits_less: "n < 2 ^ k \<Longrightarrow> nbits n \<le> k"
proof (cases "n = 0")
  case False
  assume "n < 2 ^ k"
  with False nbits_bounds [of n] have "2 ^ (nbits n - 1) < (2::nat) ^ k" by linarith
  then have "nbits n - 1 < k" by (simp only: power_strict_increasing_iff one_less_numeral_iff semiring_norm)
  then show ?thesis by linarith
qed (simp add: nbits.simps)

lemma floor_log2_less:
  assumes "0 < x" "x < 2 ^ k" "0 < k"
  shows "floor_log2 x < int k"
proof (cases "1 \<le> x")
  case True
  have "\<lfloor>x\<rfloor> < 2 ^ k" using assms(2) by (simp add: floor_less_iff)
  moreover have "0 \<le> \<lfloor>x\<rfloor>" using True by simp
  ultimately have "nat \<lfloor>x\<rfloor> < 2 ^ k" by (simp add: nat_less_iff)
  then have "nbits (nat \<lfloor>x\<rfloor>) \<le> k" by (rule nbits_less)
  then show ?thesis using True by (simp add: floor_log2_def)
next
  case False
  then show ?thesis using assms(3) by (simp add: floor_log2_def)
qed

lemma fl_int:
  assumes "\<bar>z\<bar> < 2 ^ 52"
  shows "fl (of_int z) = of_int z"
proof (cases "z = 0")
  case False
  let ?x = "of_int z :: rat"
  have "0 < \<bar>?x\<bar>" "\<bar>?x\<bar> < 2 ^ 52" using False assms by (simp_all add: of_int_abs [symmetric] del: of_int_abs)
  then have e: "floor_log2 \<bar>?x\<bar> < 52" using floor_log2_less [of "\<bar>?x\<bar>" 52] by simp
  have "1 \<le> \<bar>?x\<bar>" using False by (simp add: of_int_abs [symmetric] del: of_int_abs)
  then have "0 < nat \<lfloor>\<bar>?x\<bar>\<rfloor>" by linarith
  then have "0 < nbits (nat \<lfloor>\<bar>?x\<bar>\<rfloor>)" by (subst nbits.simps) simp
  then have e0: "0 \<le> floor_log2 \<bar>?x\<bar>" using \<open>1 \<le> \<bar>?x\<bar>\<close> by (simp add: floor_log2_def)
  define s where "s = nat (52 - floor_log2 \<bar>?x\<bar>)"
  have s: "min 1074 (52 - floor_log2 \<bar>?x\<bar>) = int s" using e e0 by (simp add: s_def)
  have "?x * 2 powi int s = of_int (z * 2 ^ s)" by simp
  then have "fl ?x = of_int (z * 2 ^ s) * 2 powi (- int s)"
    using False s by (simp only: fl_def Let_def round_even_of_int) simp
  also have "\<dots> = ?x" by (simp add: power_int_minus)
  finally show ?thesis .
qed (simp add: fl_def)

lemma fl_third:
  assumes "0 < n" "n < 2 ^ 52"
  shows "\<bar>fl (of_nat n / 3) - of_nat n / 3\<bar> \<le> 1 / 8"
proof -
  let ?x = "of_nat n / 3 :: rat"
  have "of_nat n < (of_nat (2 ^ 52) :: rat)" using assms(2) by (simp only: of_nat_less_iff)
  then have x: "0 < ?x" "?x < 2 ^ 51" using assms(1) by simp_all
  then have e: "floor_log2 \<bar>?x\<bar> < 51" using floor_log2_less [of ?x 51] by simp
  have lo: "- 1022 \<le> floor_log2 \<bar>?x\<bar>"
  proof (cases "1 \<le> ?x")
    case True
    then show ?thesis by (simp add: floor_log2_def)
  next
    case False
    have "1 \<le> (of_nat n :: rat)" using assms(1) by simp
    then have "1 / ?x \<le> 3" using assms(1) by (simp add: field_simps)
    then have "\<lceil>1 / ?x\<rceil> \<le> 3" by (simp add: ceiling_le_iff)
    then have "nat (\<lceil>1 / ?x\<rceil> - 1) \<le> 2" by linarith
    then have "nat (\<lceil>1 / ?x\<rceil> - 1) < 2 ^ 2" by (rule le_less_trans) simp
    then have "nbits (nat (\<lceil>1 / ?x\<rceil> - 1)) \<le> 2" by (rule nbits_less)
    then show ?thesis using False x(1) by (simp add: floor_log2_def)
  qed
  have "\<bar>fl ?x - ?x\<bar> \<le> 2 powi (floor_log2 \<bar>?x\<bar> - 53)" using x(1) lo by (intro fl_error) simp_all
  also have "\<dots> \<le> 2 powi (- 3)" using e by (intro power_int_increasing) simp_all
  also have "\<dots> = 1 / 8" by (simp add: power_int_def power3_eq_cube)
  finally show ?thesis .
qed

lemma ceil_fl_third:
  assumes "n < 2 ^ 52"
  shows "\<lceil>fl (of_nat n / 3)\<rceil> = int ((n + 2) div 3)"
proof (cases "n = 0")
  case False
  define q where "q = n div 3"
  have n: "n = 3 * q + n mod 3" by (simp add: q_def)
  have x: "of_nat n / 3 = (of_nat q + of_nat (n mod 3) / 3 :: rat)"
    by (subst n) (simp add: add_divide_distrib)
  define y where "y = fl (of_nat n / 3)"
  have b: "\<bar>y - of_nat n / 3\<bar> \<le> 1 / 8" unfolding y_def using False assms by (intro fl_third) simp_all
  consider "n mod 3 = 0" | "n mod 3 = 1" | "n mod 3 = 2" by linarith
  then show ?thesis
  proof cases
    case 1
    then have "of_nat n / 3 = (of_int (int q) :: rat)" using x by simp
    moreover have "\<bar>int q\<bar> < 2 ^ 52" using assms by (simp add: q_def)
    ultimately have "fl (of_nat n / 3) = of_int (int q)" using fl_int by presburger
    then show ?thesis using 1 by (simp add: q_def) presburger
  next
    case 2
    have "of_nat n / 3 = (of_nat q + 1 / 3 :: rat)" using x 2 by simp
    with b have "of_nat q < y" "y \<le> of_nat q + 1" unfolding y_def [symmetric] by linarith+
    then have "\<lceil>y\<rceil> = int q + 1" by (simp add: ceiling_eq_iff)
    then show ?thesis using 2 by (simp add: q_def y_def) presburger
  next
    case 3
    have "of_nat n / 3 = (of_nat q + 2 / 3 :: rat)" using x 3 by simp
    with b have "of_nat q < y" "y \<le> of_nat q + 1" unfolding y_def [symmetric] by linarith+
    then have "\<lceil>y\<rceil> = int q + 1" by (simp add: ceiling_eq_iff)
    then show ?thesis using 3 by (simp add: q_def y_def) presburger
  qed
qed (simp add: fl_def)

section \<open>Token evidence\<close>

lemma remaining_token_capacity_Inr:
  "remaining_token_capacity limit spent reserved f = Inr r \<longleftrightarrow>
     (case limit of None \<Rightarrow> r = None | Some l \<Rightarrow> spent + reserved \<le> l \<and> r = Some (l - spent - reserved))"
  by (auto simp: remaining_token_capacity_def split: option.splits if_splits)

lemma validate_token_evidence_Inr:
  assumes "validate_token_evidence sha e = Inr e'"
  shows "e' = e"
    "te_visible_output_tokens e + te_reasoning_tokens e = te_completion_tokens e"
    "ts_spent_input (te_after e) = ts_spent_input (te_before e)"
    "ts_spent_output (te_after e) = ts_spent_output (te_before e)"
    "ts_reserved_input (te_after e) = ts_reserved_input (te_before e) + te_prompt_tokens e"
    "ts_reserved_output (te_after e) = ts_reserved_output (te_before e) + te_completion_tokens e"
    "te_input_limit e = Some l \<Longrightarrow> ts_spent_input (te_after e) + ts_reserved_input (te_after e) \<le> l"
    "te_output_limit e = Some l \<Longrightarrow> ts_spent_output (te_after e) + ts_reserved_output (te_after e) \<le> l"
    "te_evidence_sha256 e = canonical_evidence_sha256 sha (token_evidence_payload e)"
  using assms
  by (auto simp: validate_token_evidence_def validate_token_state_def result_simps
      remaining_token_capacity_Inr split: option.splits)

lemma token_budget_state_of_Inr:
  assumes "token_budget_state_of limit_in limit_out si ri so ro = Inr s"
  shows "ts_spent_input s = si" "ts_reserved_input s = ri" "ts_spent_output s = so"
    "ts_reserved_output s = ro"
  using assms by (auto simp: token_budget_state_of_def result_simps Let_def split: if_splits)

lemma build_token_evidence_Inr:
  assumes "build_token_evidence sha rid model role plan prompt visible reasoning completion
      limit_in limit_out spent_in reserved_in spent_out reserved_out = Inr e"
  shows "validate_token_evidence sha e = Inr e" "te_request_id e = rid" "te_exact_model_id e = model"
    "te_role e = role" "te_plan_sha256 e = plan" "te_prompt_tokens e = prompt"
    "te_visible_output_tokens e = visible" "te_reasoning_tokens e = reasoning"
    "te_completion_tokens e = completion" "te_input_limit e = limit_in" "te_output_limit e = limit_out"
    "ts_spent_input (te_before e) = spent_in" "ts_reserved_input (te_before e) = reserved_in"
    "ts_spent_output (te_before e) = spent_out" "ts_reserved_output (te_before e) = reserved_out"
proof -
  from assms obtain before after where
    st: "token_budget_state_of limit_in limit_out spent_in reserved_in spent_out reserved_out = Inr before"
    and v0: "(let payload = \<lparr>te_request_id = rid, te_exact_model_id = model, te_role = role,
             te_plan_sha256 = plan, te_prompt_tokens = prompt,
             te_visible_output_tokens = visible, te_reasoning_tokens = reasoning,
             te_completion_tokens = completion, te_input_limit = limit_in,
             te_output_limit = limit_out, te_before = before, te_after = after,
             te_evidence_sha256 = []\<rparr> in validate_token_evidence sha
        (payload\<lparr>te_evidence_sha256 :=
           canonical_evidence_sha256 sha (token_evidence_payload payload)\<rparr>)) = Inr e"
    unfolding build_token_evidence_def rbind_eq_Inr_iff by blast
  define p where p: "p = \<lparr>te_request_id = rid, te_exact_model_id = model, te_role = role,
             te_plan_sha256 = plan, te_prompt_tokens = prompt,
             te_visible_output_tokens = visible, te_reasoning_tokens = reasoning,
             te_completion_tokens = completion, te_input_limit = limit_in,
             te_output_limit = limit_out, te_before = before, te_after = after,
             te_evidence_sha256 = []\<rparr>"
  note b = token_budget_state_of_Inr [OF st]
  have v: "validate_token_evidence sha
      (p\<lparr>te_evidence_sha256 := canonical_evidence_sha256 sha (token_evidence_payload p)\<rparr>) = Inr e"
    using v0 unfolding Let_def p .
  have e: "e = p\<lparr>te_evidence_sha256 := canonical_evidence_sha256 sha (token_evidence_payload p)\<rparr>"
    using validate_token_evidence_Inr(1) [OF v] .
  then show "validate_token_evidence sha e = Inr e" using v by simp
  show "te_request_id e = rid" "te_exact_model_id e = model"
    "te_role e = role" "te_plan_sha256 e = plan" "te_prompt_tokens e = prompt"
    "te_visible_output_tokens e = visible" "te_reasoning_tokens e = reasoning"
    "te_completion_tokens e = completion" "te_input_limit e = limit_in" "te_output_limit e = limit_out"
    "ts_spent_input (te_before e) = spent_in" "ts_reserved_input (te_before e) = reserved_in"
    "ts_spent_output (te_before e) = spent_out" "ts_reserved_output (te_before e) = reserved_out"
    using e p b by simp_all
qed

end
