(* ===== verification/Budget_Invariant.thy ===== *)
theory Budget_Invariant
  imports Budget_Bounds
begin

text \<open>
  The invariant of the budget manager in certification mode: every counter equals the exact sum
  over the active reservations it stands for, and no cap is passed as long as no settlement
  exceeded its reservation.
\<close>

section \<open>Weighted sums over a dictionary\<close>

definition wsum :: "('k \<Rightarrow> 'v \<Rightarrow> 'n) \<Rightarrow> ('k, 'v) dict \<Rightarrow> 'n::comm_monoid_add" where
  "wsum w d = sum_list (map (\<lambda>(k, v). w k v) d)"

lemma wsum_Nil [simp]: "wsum w [] = 0"
  and wsum_Cons [simp]: "wsum w ((k, v) # d) = w k v + wsum w d"
  by (simp_all add: wsum_def)

lemma wsum_update_new: "\<not> dict_has d k \<Longrightarrow> wsum w (AList.update k v d) = wsum w d + w k v"
  by (induction d) (auto simp: ac_simps)

lemma wsum_delete:
  fixes w :: "'k \<Rightarrow> 'v \<Rightarrow> 'n::ab_group_add"
  shows "distinct (dict_keys d) \<Longrightarrow> dict_get d k = Some v \<Longrightarrow> wsum w (AList.delete k d) = wsum w d - w k v"
proof (induction d)
  case (Cons p d)
  obtain k' v' where p: "p = (k', v')" by (cases p)
  show ?case
  proof (cases "k' = k")
    case True
    with Cons.prems p show ?thesis by (auto simp: dict_delete_absent AList.delete_simps)
  next
    case False
    with Cons p show ?thesis by (simp add: AList.delete_simps)
  qed
qed simp

lemma wsum_cong:
  "(\<And>k v. (k, v) \<in> set d \<Longrightarrow> w k v = w' k v) \<Longrightarrow> wsum w d = wsum w' d"
  unfolding wsum_def by (intro arg_cong [of _ _ sum_list] map_cong) auto

lemma wsum_nonneg:
  fixes w :: "'k \<Rightarrow> 'v \<Rightarrow> 'n::ordered_comm_monoid_add"
  shows "(\<And>k v. (k, v) \<in> set d \<Longrightarrow> 0 \<le> w k v) \<Longrightarrow> 0 \<le> wsum w d"
  unfolding wsum_def by (intro sum_list_nonneg) auto

lemma wsum_mono:
  fixes w :: "'k \<Rightarrow> 'v \<Rightarrow> 'n::ordered_comm_monoid_add"
  shows "(\<And>k v. (k, v) \<in> set d \<Longrightarrow> w k v \<le> w' k v) \<Longrightarrow> wsum w d \<le> wsum w' d"
  unfolding wsum_def by (intro sum_list_mono) auto

lemma wsum_member:
  fixes w :: "'k \<Rightarrow> 'v \<Rightarrow> 'n::ordered_ab_group_add"
  assumes "distinct (dict_keys d)" "dict_get d k = Some v" "\<And>k v. (k, v) \<in> set d \<Longrightarrow> 0 \<le> w k v"
  shows "w k v \<le> wsum w d"
proof -
  have "0 \<le> wsum w (AList.delete k d)"
  proof (rule wsum_nonneg)
    fix k' v' assume "(k', v') \<in> set (AList.delete k d)"
    then have "(k', v') \<in> set d" by (induction d) (auto simp: AList.delete_simps split: if_splits)
    then show "0 \<le> w k' v'" by (rule assms(3))
  qed
  then show ?thesis using wsum_delete [OF assms(1,2), of w] by simp
qed

lemma set_delete: "(k', v) \<in> set (AList.delete k d) \<longleftrightarrow> k' \<noteq> k \<and> (k', v) \<in> set d"
  by (induction d) (auto simp: AList.delete_simps)

section \<open>Exact USD counters\<close>

definition counter_val :: "usd_counters \<Rightarrow> string \<Rightarrow> rat" where
  "counter_val c k = val (dict_get_default c k dzero)"

definition counter_exact :: "usd_counters \<Rightarrow> bool" where
  "counter_exact c \<longleftrightarrow> distinct (dict_keys c)
     \<and> (\<forall>k. on_grid 18 (dict_get_default c k dzero) \<and> 0 \<le> counter_val c k)"

lemma default_exact: "18 \<le> default_prec" "0 < default_prec" "default_prec - 18 = 10"
  by (simp_all add: default_prec_def)

lemma dict_default_update:
  "dict_get_default (AList.update k v d) j w = (if j = k then v else dict_get_default d j w)"
  by (simp add: dict_get_default_def dict_simps)

lemma dict_default_delete:
  "dict_get_default (AList.delete k d) j w = (if j = k then w else dict_get_default d j w)"
  by (simp add: dict_get_default_def dict_simps)

lemma increment_exact:
  assumes "counter_exact c" "on_grid 18 a" "0 \<le> val a" "counter_val c k + val a < 10 ^ 10"
  shows "counter_exact (increment_decimal c k a)"
    "counter_val (increment_decimal c k a) j = counter_val c j + (if j = k then val a else 0)"
proof -
  let ?x = "dict_get_default c k dzero"
  have x: "on_grid 18 ?x" "0 \<le> val ?x" "\<bar>val ?x + val a\<bar> < 10 ^ (default_prec - 18)"
    using assms by (auto simp: counter_exact_def counter_val_def default_exact)
  have s: "val (dadd default_prec ?x a) = val ?x + val a" "on_grid 18 (dadd default_prec ?x a)"
    using val_dadd [OF x(1) assms(2) x(3) default_exact(1,2)]
      on_grid_dadd [OF x(1) assms(2) x(3) default_exact(1,2)] .
  show "counter_exact (increment_decimal c k a)"
    using assms(1,3) s x(2)
    by (auto simp: counter_exact_def counter_val_def increment_decimal_def dict_default_update)
  show "counter_val (increment_decimal c k a) j = counter_val c j + (if j = k then val a else 0)"
    using s by (simp add: counter_val_def increment_decimal_def dict_default_update)
qed

lemma decrement_exact:
  assumes "counter_exact c" "on_grid 18 a" "0 < val a" "val a \<le> counter_val c k" "counter_val c k < 10 ^ 10"
  shows "\<exists>c'. decrement_decimal c k a = Inr c' \<and> counter_exact c'
    \<and> (\<forall>j. counter_val c' j = counter_val c j - (if j = k then val a else 0))"
proof -
  obtain x where x: "dict_get c k = Some x"
    using assms(3,4) by (cases "dict_get c k") (auto simp: counter_val_def dict_get_default_def)
  have v: "counter_val c k = val x" "on_grid 18 x"
    using x assms(1) by (auto simp: counter_val_def counter_exact_def dict_get_default_def dest: spec [of _ k])
  have b: "\<bar>val x - val a\<bar> < 10 ^ (default_prec - 18)" using assms(3-5) v by (simp add: default_exact)
  have s: "val (dsub default_prec x a) = val x - val a" "on_grid 18 (dsub default_prec x a)"
    using val_dsub [OF v(2) assms(2) b default_exact(1,2)]
      on_grid_dsub [OF v(2) assms(2) b default_exact(1,2)] .
  let ?c = "if val x - val a = 0 then AList.delete k c else AList.update k (dsub default_prec x a) c"
  have "decrement_decimal c k a = Inr ?c"
    using x assms(4) v s(1) by (simp add: decrement_decimal_def dcmp_iff Let_def)
  moreover have "counter_exact ?c"
    using assms(1,4) v s
    by (auto simp: counter_exact_def counter_val_def dict_default_update dict_default_delete)
  moreover have "counter_val ?c j = counter_val c j - (if j = k then val a else 0)" for j
    using v s by (auto simp: counter_val_def dict_default_update dict_default_delete)
  ultimately show ?thesis by blast
qed

text \<open>The same for an optional key.\<close>

lemma opt_increment_exact:
  assumes "counter_exact c" "on_grid 18 a" "0 \<le> val a" "\<And>k. key = Some k \<Longrightarrow> counter_val c k + val a < 10 ^ 10"
  shows "counter_exact (opt_increment c key a)"
    "counter_val (opt_increment c key a) j = counter_val c j + (if key = Some j then val a else 0)"
  using assms increment_exact [of c a] by (auto simp: opt_increment_def split: option.splits)

lemma opt_decrement_exact:
  assumes "counter_exact c" "on_grid 18 a" "0 < val a"
    "\<And>k. key = Some k \<Longrightarrow> val a \<le> counter_val c k \<and> counter_val c k < 10 ^ 10"
  shows "\<exists>c'. opt_decrement c key a = Inr c' \<and> counter_exact c'
    \<and> (\<forall>j. counter_val c' j = counter_val c j - (if key = Some j then val a else 0))"
proof (cases key)
  case (Some k)
  obtain c' where "decrement_decimal c k a = Inr c'" "counter_exact c'"
    "\<forall>j. counter_val c' j = counter_val c j - (if j = k then val a else 0)"
    using decrement_exact [OF assms(1-3)] assms(4) [OF Some] by blast
  then show ?thesis by (intro exI [of _ c']) (auto simp: opt_decrement_def Some)
qed (use assms in \<open>auto simp: opt_decrement_def\<close>)


section \<open>The invariant of the manager\<close>

definition issued_field :: "budget_manager \<Rightarrow> (budget_reservation \<Rightarrow> 'a option) \<Rightarrow> string \<Rightarrow> 'a option" where
  "issued_field m f i = (case dict_get (bm_issued m) i of None \<Rightarrow> None | Some r \<Rightarrow> f r)"

text \<open>What the active reservations hold: in all, under one model or role, and in tokens.\<close>

definition held_total :: "budget_manager \<Rightarrow> rat" where
  "held_total m = wsum (\<lambda>i c. val c) (bm_reserved m)"

definition held_under :: "budget_manager \<Rightarrow> (budget_reservation \<Rightarrow> string option) \<Rightarrow> string \<Rightarrow> rat" where
  "held_under m f k = wsum (\<lambda>i c. if issued_field m f i = Some k then val c else 0) (bm_reserved m)"

definition held_tokens :: "budget_manager \<Rightarrow> (budget_reservation \<Rightarrow> int option) \<Rightarrow> int" where
  "held_tokens m f = wsum (\<lambda>i c. opt_tokens (issued_field m f i)) (bm_reserved m)"

definition reservation_shape :: "string \<Rightarrow> budget_reservation \<Rightarrow> bool" where
  "reservation_shape i r \<longleftrightarrow> br_identifier r = i
     \<and> 0 \<le> opt_tokens (br_planned_prompt r) \<and> 0 \<le> opt_tokens (br_planned_completion r)"

definition manager_shape :: "budget_manager \<Rightarrow> bool" where
  "manager_shape m \<longleftrightarrow>
     distinct (dict_keys (bm_reserved m)) \<and> distinct (dict_keys (bm_issued m))
     \<and> distinct (dict_keys (bm_reconciled m))
     \<and> (\<forall>i. dict_has (bm_reserved m) i \<longrightarrow> dict_has (bm_issued m) i
          \<and> \<not> dict_has (bm_reconciled m) i \<and> i \<notin> set (bm_released m))
     \<and> (\<forall>i. dict_has (bm_reconciled m) i \<or> i \<in> set (bm_released m) \<longrightarrow> dict_has (bm_issued m) i)
     \<and> (\<forall>i r. dict_get (bm_issued m) i = Some r \<longrightarrow> reservation_shape i r)
     \<and> (\<forall>i c. dict_get (bm_reserved m) i = Some c \<longrightarrow> on_grid 18 c \<and> 0 < val c)"

definition caps_ok :: "usd_counters \<Rightarrow> bool" where
  "caps_ok caps \<longleftrightarrow> (\<forall>k c. dict_get caps k = Some c \<longrightarrow> on_grid 18 c \<and> 0 \<le> val c \<and> val c < 10 ^ 10)"

definition total_exact :: "budget_manager \<Rightarrow> decimal" where
  "total_exact m = float_decimal (bm_total_usd m)"

definition manager_config :: "budget_manager \<Rightarrow> bool" where
  "manager_config m \<longleftrightarrow> bm_require_bound m \<and> on_grid 18 (total_exact m) \<and> val (total_exact m) < 10 ^ 10
     \<and> caps_ok (bm_model_caps m) \<and> caps_ok (bm_role_caps m)"

text \<open>A settlement above its reservation blocks nothing in the code, but ends the guarantee.\<close>

definition manager_overrun :: "budget_manager \<Rightarrow> bool" where
  "manager_overrun m \<longleftrightarrow>
     (\<exists>i n. dict_get (bm_reconciled m) i = Some n \<and> (rn_cost_overrun n \<or> rn_token_overrun n))"

definition scope_totals ::
    "budget_manager \<Rightarrow> usd_counters \<Rightarrow> usd_counters \<Rightarrow> usd_counters
       \<Rightarrow> (budget_reservation \<Rightarrow> string option) \<Rightarrow> bool" where
  "scope_totals m caps spent reserved f \<longleftrightarrow>
     counter_exact spent \<and> counter_exact reserved
     \<and> (\<forall>k. counter_val reserved k = held_under m f k)
     \<and> (\<forall>k. counter_val spent k \<le> val (bm_spent_exact m))
     \<and> (\<forall>k c. dict_get caps k = Some c \<longrightarrow> counter_val spent k + counter_val reserved k \<le> val c)"

definition token_totals :: "budget_manager \<Rightarrow> int option \<Rightarrow> int \<Rightarrow> int \<Rightarrow> (budget_reservation \<Rightarrow> int option) \<Rightarrow> bool" where
  "token_totals m budget spent reserved f \<longleftrightarrow>
     reserved = held_tokens m f \<and> (case budget of None \<Rightarrow> True | Some b \<Rightarrow> spent + reserved \<le> b)"

definition manager_totals :: "budget_manager \<Rightarrow> bool" where
  "manager_totals m \<longleftrightarrow>
     on_grid 18 (bm_spent_exact m) \<and> 0 \<le> val (bm_spent_exact m)
     \<and> val (bm_spent_exact m) + held_total m \<le> val (total_exact m)
     \<and> scope_totals m (bm_model_caps m) (bm_spent_model m) (bm_reserved_model m) br_exact_model_id
     \<and> scope_totals m (bm_role_caps m) (bm_spent_role m) (bm_reserved_role m) br_role
     \<and> token_totals m (bm_input_budget m) (bm_spent_input m) (bm_reserved_input m) br_planned_prompt
     \<and> token_totals m (bm_output_budget m) (bm_spent_output m) (bm_reserved_output m)
         br_planned_completion"

definition manager_ok :: "budget_manager \<Rightarrow> bool" where
  "manager_ok m \<longleftrightarrow> manager_shape m \<and> manager_config m \<and> (manager_overrun m \<or> manager_totals m)"

lemma shape_reserved_pos:
  "manager_shape m \<Longrightarrow> (i, c) \<in> set (bm_reserved m) \<Longrightarrow> on_grid 18 c \<and> 0 < val c"
  unfolding manager_shape_def by (metis map_of_is_SomeI)

lemma held_under_le: "manager_shape m \<Longrightarrow> held_under m f k \<le> held_total m"
  unfolding held_under_def held_total_def
  by (intro wsum_mono) (auto dest: shape_reserved_pos intro: less_imp_le)

lemma held_total_nonneg: "manager_shape m \<Longrightarrow> 0 \<le> held_total m"
  unfolding held_total_def by (intro wsum_nonneg) (auto dest: shape_reserved_pos intro: less_imp_le)

lemma held_under_nonneg: "manager_shape m \<Longrightarrow> 0 \<le> held_under m f k"
  unfolding held_under_def by (intro wsum_nonneg) (auto dest: shape_reserved_pos intro: less_imp_le)

lemma reserved_sum_exact:
  assumes "manager_shape m" "held_total m < 10 ^ 10"
  shows "val (reserved_usd_exact m) = held_total m" "on_grid 18 (reserved_usd_exact m)"
proof -
  have s: "sum_list (map val (dict_values (bm_reserved m))) = held_total m"
    by (simp add: held_total_def wsum_def comp_def case_prod_unfold)
  have d: "on_grid 18 d \<and> 0 \<le> val d" if "d \<in> set (dict_values (bm_reserved m))" for d
    using that shape_reserved_pos [OF assms(1)] by fastforce
  have b: "sum_list (map val (dict_values (bm_reserved m))) < 10 ^ (default_prec - 18)"
    using assms(2) unfolding s default_exact .
  show "val (reserved_usd_exact m) = held_total m" "on_grid 18 (reserved_usd_exact m)"
    unfolding reserved_usd_exact_def
    using val_dsum [OF d b default_exact(1,2)] on_grid_dsum [OF d b default_exact(1,2)] s by simp_all
qed

end
