(* ===== verification/Budget_Reserve.thy ===== *)
theory Budget_Reserve
  imports Budget_Invariant
begin

text \<open>
  A successful reservation keeps the invariant of the budget manager.
\<close>

section \<open>Reserving keeps the invariant\<close>

lemma validate_reservation_Inr: "validate_reservation r = Inr r' \<Longrightarrow> r' = r"
  by (auto simp: validate_reservation_def result_simps split: option.splits)

lemma validate_optional_tokens_Inr:
  "validate_optional_tokens v f = Inr w \<Longrightarrow> w = v \<and> 0 \<le> opt_tokens w"
  by (auto simp: validate_optional_tokens_def validate_token_count_def metered_def opt_tokens_def
      split: option.splits if_splits)

lemma validate_request_scope_Inr:
  assumes "validate_request_scope m rq = Inr v"
  shows "0 \<le> opt_tokens (rv_prompt v)" "0 \<le> opt_tokens (rv_completion v)"
    "check_token_ceilings m rq v = Inr ()"
proof -
  from assms have "0 \<le> opt_tokens (rv_prompt v) \<and> 0 \<le> opt_tokens (rv_completion v)
      \<and> check_token_ceilings m rq v = Inr ()"
    unfolding validate_request_scope_def Let_def rbind_eq_Inr_iff
    by (elim exE conjE) (auto dest!: validate_optional_tokens_Inr)
  then show "0 \<le> opt_tokens (rv_prompt v)" "0 \<le> opt_tokens (rv_completion v)"
    "check_token_ceilings m rq v = Inr ()" by blast+
qed

lemma reserve_plan_Inr:
  assumes "reserve_plan env rq m = Inr (c, v, n, r)"
  shows "maximum_request_cost env m rq = Inr c" "validate_request_scope m rq = Inr v"
    "\<not> dict_has (bm_issued m) (rq_identifier rq)" "\<not> bm_recovery_required m"
    "n = dict_get_default (bm_limit_counts m) (limit_key_of rq) 0" "n < bm_max_requests m"
    "val c \<le> val (dsub default_prec (dsub default_prec (total_exact m) (bm_spent_exact m))
       (reserved_usd_exact m))"
    "require_scoped_capacity m (rq_role rq) v c = Inr ()"
    "br_identifier r = rq_identifier rq" "br_exact_model_id r = rv_model v"
    "br_role r = Some (rq_role rq)" "br_planned_prompt r = rv_prompt v"
    "br_planned_completion r = rv_completion v" "check_adoption m rq v c = Inr ()"
  using assms
  by (auto simp: reserve_plan_def result_simps Let_def dlt_iff total_exact_def not_less
      dest!: validate_reservation_Inr)

definition bound_valid :: "call_env \<Rightarrow> reserve_request \<Rightarrow> bool" where
  "bound_valid env rq \<longleftrightarrow>
     (case rq_bound rq of None \<Rightarrow> True
      | Some b \<Rightarrow> validate_cost_bound (env_sha256 env) b = Inr b
          \<and> list_all price_component_ok (eb_components b) \<and> length (eb_components b) \<le> 10 ^ 20)"

lemma certified_cost:
  assumes "maximum_request_cost env m rq = Inr c" "bm_require_bound m" "bound_valid env rq"
  shows "on_grid 18 c" "0 < val c"
proof -
  obtain b where b: "rq_bound rq = Some b" "bound_maximum_cost b = Inr c"
    using assms(1,2) by (auto simp: maximum_request_cost_def result_simps split: option.splits)
  have v: "validate_cost_bound (env_sha256 env) b = Inr b" "list_all price_component_ok (eb_components b)"
    "length (eb_components b) \<le> 10 ^ 20" using assms(3) b(1) by (simp_all add: bound_valid_def)
  show "on_grid 18 c" using bound_cost_covers(3) [OF b(2) v(2,3)] .
  show "0 < val c" using validate_cost_bound_Inr(2) [OF v(1)] b(2) by simp
qed

text \<open>The state a successful reservation leaves.\<close>

lemma manager_reserve_Inr:
  assumes "manager_reserve env rq m = (Inr r, m')"
  obtains c v n planned p led where "reserve_plan env rq m = Inr (c, v, n, planned)"
    "reserve_durable env rq c m = (Inr p, led)" "r = planned\<lparr>br_persistent := p\<rparr>"
    "m' = (let m1 = m\<lparr>bm_ledger := led,
             bm_reserved := AList.update (rq_identifier rq) c (bm_reserved m),
             bm_limit_counts := AList.update (limit_key_of rq) (n + 1) (bm_limit_counts m),
             bm_issued := AList.update (rq_identifier rq) r (bm_issued m)\<rparr>;
           m2 = reserve_scoped r c m1
       in m2\<lparr>bm_pending := AList.delete (rq_identifier rq) (bm_pending m2)\<rparr>)"
  using assms unfolding manager_reserve_def
  by (auto simp: Let_def split: sum.splits prod.splits)

text \<open>A refused reservation changes nothing, in the manager or in the ledger file.\<close>

lemma reserve_durable_Inl: "reserve_durable env rq c m = (Inl e, led) \<Longrightarrow> led = bm_ledger m"
  by (auto simp: reserve_durable_def Let_def ledger_reserve_def split: option.splits sum.splits prod.splits)

lemma manager_reserve_Inl:
  assumes "manager_reserve env rq m = (Inl e, m')"
  shows "m' = m"
proof (cases "reserve_plan env rq m")
  case (Inl x)
  with assms show ?thesis by (simp add: manager_reserve_def)
next
  case (Inr x)
  with assms show ?thesis unfolding manager_reserve_def Let_def
    by (auto split: sum.splits prod.splits dest: reserve_durable_Inl)
qed

lemma manager_ok_ledger: "manager_ok (m\<lparr>bm_ledger := led\<rparr>) = manager_ok m"
  by (simp add: manager_ok_def manager_shape_def manager_config_def manager_overrun_def manager_totals_def
      scope_totals_def token_totals_def held_total_def held_under_def held_tokens_def issued_field_def
      total_exact_def)

lemma usd_scope_capacity:
  assumes "require_usd_scope_capacity scope k c caps spent reserved = Inr ()"
    and "caps_ok caps" "counter_exact spent" "counter_exact reserved"
    and "counter_val spent k < 10 ^ 10" "counter_val reserved k < 10 ^ 10"
    and "dict_get caps k = Some cap" "counter_val spent k + counter_val reserved k \<le> val cap"
  shows "counter_val spent k + counter_val reserved k + val c \<le> val cap"
proof -
  let ?s = "dict_get_default spent k dzero"
  let ?r = "dict_get_default reserved k dzero"
  have cap: "on_grid 18 cap" "0 \<le> val cap" "val cap < 10 ^ 10" using assms(2,7) by (auto simp: caps_ok_def)
  have s: "on_grid 18 ?s" "0 \<le> val ?s" and r: "on_grid 18 ?r" "0 \<le> val ?r"
    using assms(3,4) by (auto simp: counter_exact_def counter_val_def)
  have le: "val ?s + val ?r \<le> val cap" using assms(8) by (simp add: counter_val_def)
  have b1: "\<bar>val cap - val ?s\<bar> < 10 ^ (default_prec - 18)" using cap s r le by (simp add: default_exact)
  have d1: "val (dsub default_prec cap ?s) = val cap - val ?s" "on_grid 18 (dsub default_prec cap ?s)"
    using val_dsub [OF cap(1) s(1) b1 default_exact(1,2)] on_grid_dsub [OF cap(1) s(1) b1 default_exact(1,2)] .
  have b2: "\<bar>val (dsub default_prec cap ?s) - val ?r\<bar> < 10 ^ (default_prec - 18)"
    using cap s r d1 le by (simp add: default_exact)
  have d2: "val (dsub default_prec (dsub default_prec cap ?s) ?r) = val cap - val ?s - val ?r"
    using val_dsub [OF d1(2) r(1) b2 default_exact(1,2)] d1(1) by simp
  show ?thesis
    using assms(1,7) d2 by (simp add: require_usd_scope_capacity_def Let_def dlt_iff counter_val_def)
qed


lemma issued_field_update:
  "bm_issued m' = AList.update i r (bm_issued m) \<Longrightarrow>
     issued_field m' f j = (if j = i then f r else issued_field m f j)"
  by (simp add: issued_field_def dict_simps)

lemma held_reserve:
  assumes "bm_reserved m' = AList.update i c (bm_reserved m)" "bm_issued m' = AList.update i r (bm_issued m)"
    and "\<not> dict_has (bm_reserved m) i"
  shows "held_total m' = held_total m + val c"
    "held_under m' f k = held_under m f k + (if f r = Some k then val c else 0)"
    "held_tokens m' g = held_tokens m g + opt_tokens (g r)"
proof -
  have keys: "j \<noteq> i" if "(j, x) \<in> set (bm_reserved m)" for j x
    using that assms(3) by force
  show "held_total m' = held_total m + val c"
    using assms(3) by (simp add: held_total_def assms(1) wsum_update_new)
  have "wsum (\<lambda>j c. if issued_field m' f j = Some k then val c else 0) (bm_reserved m) = held_under m f k"
    unfolding held_under_def by (rule wsum_cong) (auto simp: issued_field_update [OF assms(2)] dest: keys)
  then show "held_under m' f k = held_under m f k + (if f r = Some k then val c else 0)"
    unfolding held_under_def assms(1) wsum_update_new [OF assms(3)]
    by (simp add: issued_field_update [OF assms(2)])
  have "wsum (\<lambda>j c. opt_tokens (issued_field m' g j)) (bm_reserved m) = held_tokens m g"
    unfolding held_tokens_def by (rule wsum_cong) (auto simp: issued_field_update [OF assms(2)] dest: keys)
  then show "held_tokens m' g = held_tokens m g + opt_tokens (g r)"
    unfolding held_tokens_def assms(1) wsum_update_new [OF assms(3)]
    by (simp add: issued_field_update [OF assms(2)])
qed

lemma scope_totals_reserve:
  assumes "scope_totals m caps spent reserved f" "manager_shape m" "on_grid 18 c" "0 < val c"
    and "\<And>k. held_under m' f k = held_under m f k + (if f r = Some k then val c else 0)"
    and "held_total m + val c < 10 ^ 10" "bm_spent_exact m' = bm_spent_exact m" "val (bm_spent_exact m) < 10 ^ 10"
    and "\<And>k. f r = Some k \<Longrightarrow> require_usd_scope_capacity scope k c caps spent reserved = Inr ()"
    and "caps_ok caps"
  shows "scope_totals m' caps spent (opt_increment reserved (f r) c) f"
proof -
  note st = assms(1) [unfolded scope_totals_def]
  have hb: "counter_val reserved k \<le> held_total m" for k
    using st held_under_le [OF assms(2)] by simp
  have inc: "counter_exact (opt_increment reserved (f r) c)"
    "counter_val (opt_increment reserved (f r) c) j
       = counter_val reserved j + (if f r = Some j then val c else 0)" for j
    using opt_increment_exact [of reserved c "f r"] st assms(3,4) hb assms(6)
    by (meson add_right_mono le_less_trans less_imp_le)+
  have "counter_val spent k + counter_val (opt_increment reserved (f r) c) k \<le> val cap"
    if "dict_get caps k = Some cap" for k cap
  proof (cases "f r = Some k")
    case True
    have "counter_val spent k < 10 ^ 10" using st assms(8) by (meson le_less_trans)
    moreover have "counter_val reserved k < 10 ^ 10" using hb [of k] assms(4,6) by linarith
    ultimately show ?thesis
      using usd_scope_capacity [OF assms(9) [OF True] assms(10) _ _ _ _ that] st inc(2) True that by auto
  next
    case False
    have "counter_val spent k + counter_val reserved k \<le> val cap" using st that by blast
    with False inc(2) [of k] show ?thesis by simp
  qed
  then show ?thesis
    using st inc assms(5,7) unfolding scope_totals_def by simp
qed

lemma token_totals_reserve:
  assumes "token_totals m budget spent reserved g" "held_tokens m' g = held_tokens m g + opt_tokens (g r)"
    and "\<not> exceeds_token_budget (g r) budget spent reserved"
  shows "token_totals m' budget spent (reserved + opt_tokens (g r)) g"
  using assms by (cases budget; cases "g r")
    (simp_all add: token_totals_def exceeds_token_budget_def opt_tokens_def)


lemma total_capacity:
  assumes "manager_shape m" "manager_config m" "manager_totals m"
    and "val c \<le> val (dsub default_prec (dsub default_prec (total_exact m) (bm_spent_exact m))
       (reserved_usd_exact m))"
  shows "val (bm_spent_exact m) + held_total m + val c \<le> val (total_exact m)"
proof -
  have t: "on_grid 18 (total_exact m)" "val (total_exact m) < 10 ^ 10"
    and s: "on_grid 18 (bm_spent_exact m)" "0 \<le> val (bm_spent_exact m)"
    and le: "val (bm_spent_exact m) + held_total m \<le> val (total_exact m)"
    using assms(2,3) by (simp_all add: manager_config_def manager_totals_def)
  note h = held_total_nonneg [OF assms(1)]
  have hb: "held_total m < 10 ^ 10" using le s(2) t(2) by linarith
  note r = reserved_sum_exact [OF assms(1) hb]
  have b1: "\<bar>val (total_exact m) - val (bm_spent_exact m)\<bar> < 10 ^ (default_prec - 18)"
    using t(2) s(2) le h by (simp add: default_exact)
  let ?d = "dsub default_prec (total_exact m) (bm_spent_exact m)"
  have d: "val ?d = val (total_exact m) - val (bm_spent_exact m)" "on_grid 18 ?d"
    using val_dsub [OF t(1) s(1) b1 default_exact(1,2)] on_grid_dsub [OF t(1) s(1) b1 default_exact(1,2)] .
  have b2: "\<bar>val ?d - val (reserved_usd_exact m)\<bar> < 10 ^ (default_prec - 18)"
    using t(2) s(2) le h d r by (simp add: default_exact)
  show ?thesis using assms(4) val_dsub [OF d(2) r(2) b2 default_exact(1,2)] d(1) r(1) by simp
qed

lemma require_scoped_capacity_Inr:
  assumes "require_scoped_capacity m role v c = Inr ()"
  shows "\<not> exceeds_token_budget (rv_prompt v) (bm_input_budget m) (bm_spent_input m) (bm_reserved_input m)"
    "\<not> exceeds_token_budget (rv_completion v) (bm_output_budget m) (bm_spent_output m) (bm_reserved_output m)"
    "rv_model v = Some k \<Longrightarrow> require_usd_scope_capacity ''model'' k c (bm_model_caps m)
       (bm_spent_model m) (bm_reserved_model m) = Inr ()"
    "require_usd_scope_capacity ''role'' role c (bm_role_caps m) (bm_spent_role m) (bm_reserved_role m) = Inr ()"
  using assms by (auto simp: require_scoped_capacity_def result_simps)

lemma reserve_keeps_ok:
  assumes "manager_ok m" "bound_valid env rq" "manager_reserve env rq m = (Inr r, m')"
  shows "manager_ok m'"
proof -
  have sh: "manager_shape m" and cf: "manager_config m" using assms(1) by (simp_all add: manager_ok_def)
  from assms(3) obtain c v n planned p led where pl: "reserve_plan env rq m = Inr (c, v, n, planned)"
    and r: "r = planned\<lparr>br_persistent := p\<rparr>"
    and m': "m' = (let m1 = m\<lparr>bm_ledger := led,
             bm_reserved := AList.update (rq_identifier rq) c (bm_reserved m),
             bm_limit_counts := AList.update (limit_key_of rq) (n + 1) (bm_limit_counts m),
             bm_issued := AList.update (rq_identifier rq) r (bm_issued m)\<rparr>;
           m2 = reserve_scoped r c m1
       in m2\<lparr>bm_pending := AList.delete (rq_identifier rq) (bm_pending m2)\<rparr>)"
    by (rule manager_reserve_Inr)
  note rp = reserve_plan_Inr [OF pl]
  let ?i = "rq_identifier rq"
  have rf: "br_identifier r = ?i" "br_exact_model_id r = rv_model v" "br_role r = Some (rq_role rq)"
    "br_planned_prompt r = rv_prompt v" "br_planned_completion r = rv_completion v"
    using rp(9-13) r by simp_all
  have cost: "on_grid 18 c" "0 < val c"
    using certified_cost [OF rp(1) _ assms(2)] cf by (simp_all add: manager_config_def)
  have fresh: "\<not> dict_has (bm_reserved m) ?i"
    using sh rp(3) unfolding manager_shape_def by blast
  have fl: "bm_reserved m' = AList.update ?i c (bm_reserved m)" "bm_issued m' = AList.update ?i r (bm_issued m)"
    "bm_reconciled m' = bm_reconciled m" "bm_released m' = bm_released m" "total_exact m' = total_exact m"
    "bm_spent_exact m' = bm_spent_exact m"
    by (simp_all add: m' Let_def reserve_scoped_def total_exact_def)
  note held = held_reserve [OF fl(1,2) fresh]
  have sh': "manager_shape m'"
  proof -
    have "reservation_shape ?i r"
      using rf validate_request_scope_Inr [OF rp(2)] by (simp add: reservation_shape_def)
    moreover have "\<not> dict_has (bm_reconciled m) ?i \<and> ?i \<notin> set (bm_released m)"
      using sh rp(3) unfolding manager_shape_def by blast
    ultimately show ?thesis
      using sh cost unfolding manager_shape_def fl dict_get_update set_keys_update
      by (auto simp del: set_map map_of_eq_Some_iff split: if_splits)
  qed
  have cf': "manager_config m'"
    using cf by (simp add: manager_config_def fl(5)) (simp add: m' Let_def reserve_scoped_def)
  show ?thesis
  proof (cases "manager_overrun m")
    case True
    then have "manager_overrun m'" by (simp add: manager_overrun_def fl)
    with sh' cf' show ?thesis by (simp add: manager_ok_def)
  next
    case False
    then have tt: "manager_totals m" using assms(1) by (simp add: manager_ok_def)
    note t = tt [unfolded manager_totals_def]
    note cap = total_capacity [OF sh cf tt rp(7)]
    note rs = require_scoped_capacity_Inr [OF rp(8)]
    have lt: "val (total_exact m) < 10 ^ 10" using cf by (simp add: manager_config_def)
    have b: "held_total m + val c < 10 ^ 10" "val (bm_spent_exact m) < 10 ^ 10"
      using cap t lt cost held_total_nonneg [OF sh] by linarith+
    have model: "scope_totals m' (bm_model_caps m) (bm_spent_model m)
        (opt_increment (bm_reserved_model m) (br_exact_model_id r) c) br_exact_model_id"
      using t sh cost held(2) b fl(6) rs(3) cf rf(2)
      by (intro scope_totals_reserve [where m = m and scope = "''model''"]) (auto simp: manager_config_def)
    have role: "scope_totals m' (bm_role_caps m) (bm_spent_role m)
        (opt_increment (bm_reserved_role m) (br_role r) c) br_role"
      using t sh cost held(2) b fl(6) rs(4) cf rf(3)
      by (intro scope_totals_reserve [where m = m and scope = "''role''"]) (auto simp: manager_config_def)
    have inp: "token_totals m' (bm_input_budget m) (bm_spent_input m)
        (bm_reserved_input m + opt_tokens (br_planned_prompt r)) br_planned_prompt"
      using t held(3) rs(1) rf(4) by (intro token_totals_reserve [where m = m]) simp_all
    have out: "token_totals m' (bm_output_budget m) (bm_spent_output m)
        (bm_reserved_output m + opt_tokens (br_planned_completion r)) br_planned_completion"
      using t held(3) rs(2) rf(5) by (intro token_totals_reserve [where m = m]) simp_all
    have "manager_totals m'"
      unfolding manager_totals_def fl(5,6) held(1)
      using t cap model role inp out by (simp add: m' Let_def reserve_scoped_def add.assoc)
    with sh' cf' show ?thesis by (simp add: manager_ok_def)
  qed
qed

end
