(* ===== verification/Budget_Settle.thy ===== *)
theory Budget_Settle
  imports Budget_Reserve
begin

text \<open>
  Releasing and reconciling keep the invariant of the budget manager.
\<close>

section \<open>Settling keeps the invariant\<close>

lemma eq_reservation_fields:
  assumes "eq_reservation a b"
  shows "br_identifier b = br_identifier a" "br_exact_model_id b = br_exact_model_id a"
    "br_role b = br_role a" "br_planned_prompt b = br_planned_prompt a"
    "br_planned_completion b = br_planned_completion a"
  using assms by (cases a; cases b; simp add: eq_reservation_def)+

lemma issued_matches_fields:
  assumes "issued_matches m r"
  shows "issued_field m br_exact_model_id (br_identifier r) = br_exact_model_id r"
    "issued_field m br_role (br_identifier r) = br_role r"
    "issued_field m br_planned_prompt (br_identifier r) = br_planned_prompt r"
    "issued_field m br_planned_completion (br_identifier r) = br_planned_completion r"
    "dict_has (bm_issued m) (br_identifier r)"
  using assms eq_reservation_fields
  by (auto simp: issued_matches_def issued_field_def dict_has_iff simp del: set_map split: option.splits)

lemma issued_matches_shape:
  "manager_shape m \<Longrightarrow> issued_matches m r \<Longrightarrow> reservation_shape (br_identifier r) r"
  using eq_reservation_fields
  by (force simp: issued_matches_def manager_shape_def reservation_shape_def simp del: set_map
      map_of_eq_Some_iff split: option.splits)

lemma held_settle:
  assumes "bm_reserved m' = AList.delete i (bm_reserved m)" "bm_issued m' = bm_issued m"
    and "distinct (dict_keys (bm_reserved m))" "dict_get (bm_reserved m) i = Some c"
  shows "held_total m' = held_total m - val c"
    "held_under m' f k = held_under m f k - (if issued_field m f i = Some k then val c else 0)"
    "held_tokens m' g = held_tokens m g - opt_tokens (issued_field m g i)"
proof -
  show "held_total m' = held_total m - val c"
    unfolding held_total_def assms(1) by (rule wsum_delete [OF assms(3,4)])
  have "issued_field m' f = issued_field m f" by (simp add: issued_field_def assms(2) fun_eq_iff)
  then show "held_under m' f k = held_under m f k - (if issued_field m f i = Some k then val c else 0)"
    unfolding held_under_def assms(1) by (simp only: wsum_delete [OF assms(3,4)])
  have "issued_field m' g = issued_field m g" by (simp add: issued_field_def assms(2) fun_eq_iff)
  then show "held_tokens m' g = held_tokens m g - opt_tokens (issued_field m g i)"
    unfolding held_tokens_def assms(1) by (simp only: wsum_delete [OF assms(3,4)])
qed

text \<open>A settlement touches only the counters of what is reserved.\<close>

lemma release_scoped_frame:
  assumes "release_scoped r c n = (res, n')"
  shows "bm_reserved n' = bm_reserved n" "bm_issued n' = bm_issued n" "bm_total_usd n' = bm_total_usd n"
    "bm_require_bound n' = bm_require_bound n" "bm_model_caps n' = bm_model_caps n"
    "bm_role_caps n' = bm_role_caps n" "bm_input_budget n' = bm_input_budget n"
    "bm_output_budget n' = bm_output_budget n" "bm_reconciled n' = bm_reconciled n"
    "bm_released n' = bm_released n" "bm_spent_exact n' = bm_spent_exact n"
    "bm_recovery_required n' = bm_recovery_required n" "bm_pending n' = bm_pending n"
    "bm_limit_counts n' = bm_limit_counts n" "bm_max_requests n' = bm_max_requests n"
    "bm_ledger n' = bm_ledger n"
  using assms by (auto simp: release_scoped_def Let_def split: sum.splits)

lemma release_scoped_exact:
  assumes "counter_exact (bm_reserved_model m)" "counter_exact (bm_reserved_role m)"
    and "on_grid 18 c" "0 < val c"
    and "\<And>k. br_exact_model_id r = Some k \<Longrightarrow> val c \<le> counter_val (bm_reserved_model m) k
           \<and> counter_val (bm_reserved_model m) k < 10 ^ 10"
    and "\<And>k. br_role r = Some k \<Longrightarrow> val c \<le> counter_val (bm_reserved_role m) k
           \<and> counter_val (bm_reserved_role m) k < 10 ^ 10"
  obtains x y where "release_scoped r c m = (Inr (), m\<lparr>
      bm_reserved_input := bm_reserved_input m - opt_tokens (br_planned_prompt r),
      bm_reserved_output := bm_reserved_output m - opt_tokens (br_planned_completion r),
      bm_reserved_model := x, bm_reserved_role := y\<rparr>)"
    "counter_exact x" "counter_exact y"
    "\<And>k. counter_val x k = counter_val (bm_reserved_model m) k
       - (if br_exact_model_id r = Some k then val c else 0)"
    "\<And>k. counter_val y k = counter_val (bm_reserved_role m) k - (if br_role r = Some k then val c else 0)"
proof -
  obtain x where x: "opt_decrement (bm_reserved_model m) (br_exact_model_id r) c = Inr x" "counter_exact x"
    "\<forall>k. counter_val x k = counter_val (bm_reserved_model m) k
       - (if br_exact_model_id r = Some k then val c else 0)"
    using opt_decrement_exact [OF assms(1,3,4,5)] by blast
  obtain y where y: "opt_decrement (bm_reserved_role m) (br_role r) c = Inr y" "counter_exact y"
    "\<forall>k. counter_val y k = counter_val (bm_reserved_role m) k - (if br_role r = Some k then val c else 0)"
    using opt_decrement_exact [OF assms(2,3,4,6)] by blast
  show thesis
    by (rule that [where x = x and y = y]) (use x y in \<open>simp_all add: release_scoped_def Let_def\<close>)
qed

text \<open>What totals become when one active reservation is removed and an amount is spent.\<close>

lemma scope_totals_settle:
  assumes "scope_totals m caps spent reserved f" "counter_exact reserved'" "counter_exact spent'"
    and "\<And>k. counter_val reserved' k = counter_val reserved k - (if f r = Some k then val c else 0)"
    and "\<And>k. counter_val spent' k = counter_val spent k + (if f r = Some k then val a else 0)"
    and "\<And>k. held_under m' f k = held_under m f k - (if f r = Some k then val c else 0)"
    and "0 \<le> val a" "val a \<le> val c" "val (bm_spent_exact m') = val (bm_spent_exact m) + val a"
  shows "scope_totals m' caps spent' reserved' f"
proof -
  note st = assms(1) [unfolded scope_totals_def]
  have "counter_val spent' k \<le> val (bm_spent_exact m')" for k
  proof -
    have "counter_val spent k \<le> val (bm_spent_exact m)" using st by blast
    then show ?thesis using assms(5) [of k] assms(7,9) by (auto split: if_splits)
  qed
  moreover have "counter_val spent' k + counter_val reserved' k \<le> val cap"
    if "dict_get caps k = Some cap" for k cap
  proof -
    have "counter_val spent k + counter_val reserved k \<le> val cap" using st that by blast
    then show ?thesis using assms(4) [of k] assms(5) [of k] assms(8) by (cases "f r = Some k") simp_all
  qed
  moreover have "counter_val reserved' k = held_under m' f k" for k
    using st assms(4) [of k] assms(6) [of k] by simp
  ultimately show ?thesis using assms(2,3) unfolding scope_totals_def by blast
qed

lemma token_totals_settle:
  assumes "token_totals m budget spent reserved g"
    and "held_tokens m' g = held_tokens m g - opt_tokens (g r)" "a \<le> opt_tokens (g r)"
  shows "token_totals m' budget (spent + a) (reserved - opt_tokens (g r)) g"
  using assms by (auto simp: token_totals_def split: option.splits)

lemma settle_room:
  assumes "manager_shape m" "manager_totals m" "manager_config m"
    and "dict_get (bm_reserved m) i = Some c" "issued_field m f i = Some k"
  shows "val c \<le> held_under m f k" "held_under m f k < 10 ^ 10"
proof -
  have d: "distinct (dict_keys (bm_reserved m))" using assms(1) by (simp add: manager_shape_def)
  have "(if issued_field m f i = Some k then val c else 0) \<le> held_under m f k"
    unfolding held_under_def
    by (rule wsum_member [OF d assms(4)]) (auto dest: shape_reserved_pos [OF assms(1)] intro: less_imp_le)
  then show "val c \<le> held_under m f k" using assms(5) by simp
  show "held_under m f k < 10 ^ 10"
    using held_under_le [OF assms(1), of f k] assms(2,3)
    unfolding manager_totals_def manager_config_def by linarith
qed


definition settled_fields :: "budget_manager \<Rightarrow> budget_reservation \<Rightarrow> budget_manager \<Rightarrow> bool" where
  "settled_fields m r m' \<longleftrightarrow>
     bm_reserved m' = AList.delete (br_identifier r) (bm_reserved m) \<and> bm_issued m' = bm_issued m
     \<and> bm_total_usd m' = bm_total_usd m \<and> bm_require_bound m' = bm_require_bound m
     \<and> bm_model_caps m' = bm_model_caps m \<and> bm_role_caps m' = bm_role_caps m
     \<and> bm_input_budget m' = bm_input_budget m \<and> bm_output_budget m' = bm_output_budget m
     \<and> (\<forall>i. i \<noteq> br_identifier r \<longrightarrow> dict_get (bm_reconciled m') i = dict_get (bm_reconciled m) i)
     \<and> set (bm_released m') - {br_identifier r} = set (bm_released m) - {br_identifier r}
     \<and> distinct (dict_keys (bm_reconciled m'))"

lemma settle_shape:
  assumes "manager_shape m" "issued_matches m r" "settled_fields m r m'"
  shows "manager_shape m'"
proof -
  note f = assms(3) [unfolded settled_fields_def]
  note sh = assms(1) [unfolded manager_shape_def]
  have iss: "dict_has (bm_issued m) (br_identifier r)" by (rule issued_matches_fields(5) [OF assms(2)])
  have rec: "dict_has (bm_reconciled m') i = dict_has (bm_reconciled m) i" if "i \<noteq> br_identifier r" for i
    using f that unfolding dict_has_iff by simp
  have rel: "i \<in> set (bm_released m') \<longleftrightarrow> i \<in> set (bm_released m)" if "i \<noteq> br_identifier r" for i
    using f that by blast
  have res: "dict_get (bm_reserved m') i = (if i = br_identifier r then None else dict_get (bm_reserved m) i)" for i
    using f by (simp add: dict_simps)
  have "dict_has (bm_issued m') i \<and> \<not> dict_has (bm_reconciled m') i \<and> i \<notin> set (bm_released m')"
    if "dict_has (bm_reserved m') i" for i
  proof -
    have "i \<noteq> br_identifier r" "dict_has (bm_reserved m) i"
      using that res [of i] unfolding dict_has_iff by (auto split: if_splits)
    then show ?thesis using sh f rec [of i] rel [of i] by metis
  qed
  moreover have "dict_has (bm_issued m') i" if "dict_has (bm_reconciled m') i \<or> i \<in> set (bm_released m')" for i
    using that sh f rec [of i] rel [of i] iss by metis
  moreover have "on_grid 18 c \<and> 0 < val c" if "dict_get (bm_reserved m') i = Some c" for i c
    using that res [of i] sh by (auto split: if_splits)
  moreover have "distinct (dict_keys (bm_reserved m'))" using sh f by (simp add: distinct_delete)
  ultimately show ?thesis using sh f unfolding manager_shape_def by metis
qed

lemma settle_config: "manager_config m \<Longrightarrow> settled_fields m r m' \<Longrightarrow> manager_config m'"
  by (simp add: settled_fields_def manager_config_def total_exact_def)

lemma settle_totals:
  assumes "manager_shape m" "manager_totals m" "issued_matches m r" "settled_fields m r m'"
    and "dict_get (bm_reserved m) (br_identifier r) = Some c" "0 \<le> val a" "val a \<le> val c"
    and "on_grid 18 (bm_spent_exact m')" "val (bm_spent_exact m') = val (bm_spent_exact m) + val a"
    and "counter_exact (bm_spent_model m')" "\<And>k. counter_val (bm_spent_model m') k
        = counter_val (bm_spent_model m) k + (if br_exact_model_id r = Some k then val a else 0)"
    and "counter_exact (bm_spent_role m')" "\<And>k. counter_val (bm_spent_role m') k
        = counter_val (bm_spent_role m) k + (if br_role r = Some k then val a else 0)"
    and "counter_exact (bm_reserved_model m')" "\<And>k. counter_val (bm_reserved_model m') k
        = counter_val (bm_reserved_model m) k - (if br_exact_model_id r = Some k then val c else 0)"
    and "counter_exact (bm_reserved_role m')" "\<And>k. counter_val (bm_reserved_role m') k
        = counter_val (bm_reserved_role m) k - (if br_role r = Some k then val c else 0)"
    and "bm_reserved_input m' = bm_reserved_input m - opt_tokens (br_planned_prompt r)"
    and "bm_reserved_output m' = bm_reserved_output m - opt_tokens (br_planned_completion r)"
    and "bm_spent_input m' = bm_spent_input m + p" "p \<le> opt_tokens (br_planned_prompt r)"
    and "bm_spent_output m' = bm_spent_output m + q" "q \<le> opt_tokens (br_planned_completion r)"
  shows "manager_totals m'"
proof -
  note f = assms(4) [unfolded settled_fields_def]
  note t = assms(2) [unfolded manager_totals_def]
  have d: "distinct (dict_keys (bm_reserved m))" using assms(1) by (simp add: manager_shape_def)
  have fr: "bm_reserved m' = AList.delete (br_identifier r) (bm_reserved m)" and fi: "bm_issued m' = bm_issued m"
    using f by blast+
  note held = held_settle [OF fr fi d assms(5)]
  note im = issued_matches_fields [OF assms(3)]
  note h = held(1) held(2) [where f = br_exact_model_id, unfolded im(1)] held(2) [where f = br_role, unfolded im(2)]
    held(3) [where g = br_planned_prompt, unfolded im(3)] held(3) [where g = br_planned_completion, unfolded im(4)]
  have tot: "total_exact m' = total_exact m" using f by (simp add: total_exact_def)
  have caps: "bm_model_caps m' = bm_model_caps m" "bm_role_caps m' = bm_role_caps m"
    "bm_input_budget m' = bm_input_budget m" "bm_output_budget m' = bm_output_budget m"
    using f by blast+
  have st: "scope_totals m (bm_model_caps m) (bm_spent_model m) (bm_reserved_model m) br_exact_model_id"
    "scope_totals m (bm_role_caps m) (bm_spent_role m) (bm_reserved_role m) br_role"
    "token_totals m (bm_input_budget m) (bm_spent_input m) (bm_reserved_input m) br_planned_prompt"
    "token_totals m (bm_output_budget m) (bm_spent_output m) (bm_reserved_output m) br_planned_completion"
    using t by blast+
  have "scope_totals m' (bm_model_caps m') (bm_spent_model m') (bm_reserved_model m') br_exact_model_id"
    unfolding caps by (rule scope_totals_settle [OF st(1) assms(14,10,15,11) h(2) assms(6,7,9)])
  moreover have "scope_totals m' (bm_role_caps m') (bm_spent_role m') (bm_reserved_role m') br_role"
    unfolding caps by (rule scope_totals_settle [OF st(2) assms(16,12,17,13) h(3) assms(6,7,9)])
  moreover have "token_totals m' (bm_input_budget m') (bm_spent_input m') (bm_reserved_input m') br_planned_prompt"
    unfolding caps assms(18,20) by (rule token_totals_settle [OF st(3) h(4) assms(21)])
  moreover have "token_totals m' (bm_output_budget m') (bm_spent_output m') (bm_reserved_output m')
      br_planned_completion"
    unfolding caps assms(19,22) by (rule token_totals_settle [OF st(4) h(5) assms(23)])
  moreover have "val (bm_spent_exact m') + held_total m' \<le> val (total_exact m')"
    using t h(1) assms(7,9) unfolding tot by linarith
  moreover have "0 \<le> val (bm_spent_exact m')" using t assms(6,9) by simp
  ultimately show ?thesis unfolding manager_totals_def using assms(8) by blast
qed


lemma reserved_room:
  assumes "manager_shape m" "manager_totals m" "manager_config m" "issued_matches m r"
    and "dict_get (bm_reserved m) (br_identifier r) = Some c"
  shows "br_exact_model_id r = Some k \<Longrightarrow> val c \<le> counter_val (bm_reserved_model m) k
      \<and> counter_val (bm_reserved_model m) k < 10 ^ 10"
    "br_role r = Some k \<Longrightarrow> val c \<le> counter_val (bm_reserved_role m) k
      \<and> counter_val (bm_reserved_role m) k < 10 ^ 10"
  using settle_room [OF assms(1-3,5)] issued_matches_fields(1,2) [OF assms(4)] assms(2)
  by (auto simp: manager_totals_def scope_totals_def)

lemma release_scoped_settles:
  assumes "manager_shape m" "manager_totals m" "manager_config m" "issued_matches m r"
    and "dict_get (bm_reserved m) (br_identifier r) = Some c"
    and "bm_reserved_model n = bm_reserved_model m" "bm_reserved_role n = bm_reserved_role m"
  obtains x y where "release_scoped r c n = (Inr (), n\<lparr>
      bm_reserved_input := bm_reserved_input n - opt_tokens (br_planned_prompt r),
      bm_reserved_output := bm_reserved_output n - opt_tokens (br_planned_completion r),
      bm_reserved_model := x, bm_reserved_role := y\<rparr>)"
    "counter_exact x" "counter_exact y"
    "\<And>k. counter_val x k = counter_val (bm_reserved_model m) k
       - (if br_exact_model_id r = Some k then val c else 0)"
    "\<And>k. counter_val y k = counter_val (bm_reserved_role m) k - (if br_role r = Some k then val c else 0)"
proof -
  have ex: "counter_exact (bm_reserved_model m)" "counter_exact (bm_reserved_role m)"
    using assms(2) by (simp_all add: manager_totals_def scope_totals_def)
  have c: "on_grid 18 c" "0 < val c" using assms(1,5) by (auto simp: manager_shape_def)
  note room = reserved_room [OF assms(1-5)]
  show thesis
    using release_scoped_exact [of n c r, unfolded assms(6,7), OF ex c room] that by metis
qed

section \<open>Releasing\<close>

text \<open>A refused settlement of the ledger leaves its file as it was.\<close>

lemma release_durable_Inl: "release_durable env r m = (Inl e, led) \<Longrightarrow> led = bm_ledger m"
  by (auto simp: release_durable_def ledger_release_def Let_def
      split: option.splits sum.splits prod.splits if_splits)

lemma manager_release_cases:
  assumes "manager_release env r m = (res, m')"
  obtains (kept) "m' = m" "res = Inr () \<Longrightarrow> issued_matches m r \<and> br_identifier r \<in> set (bm_released m)"
  | (lost) led e where "issued_matches m r" "br_identifier r \<notin> set (bm_released m)"
      "\<not> dict_has (bm_reconciled m) (br_identifier r)" "\<not> dict_has (bm_reserved m) (br_identifier r)"
      "m' = m\<lparr>bm_ledger := led\<rparr>" "res = Inl e"
  | (settled) led c m2 where "issued_matches m r" "br_identifier r \<notin> set (bm_released m)"
      "\<not> dict_has (bm_reconciled m) (br_identifier r)"
      "release_durable env r m = (Inr (), led)"
      "dict_get (bm_reserved m) (br_identifier r) = Some c"
      "release_scoped r c (m\<lparr>bm_ledger := led,
         bm_reserved := AList.delete (br_identifier r) (bm_reserved m)\<rparr>) = (res, m2)"
      "m' = (case res of Inl e \<Rightarrow> m2 | Inr _ \<Rightarrow> m2\<lparr>bm_released := br_identifier r # bm_released m2\<rparr>)"
proof -
  consider (bad) "\<not> issued_matches m r" | (again) "issued_matches m r" "br_identifier r \<in> set (bm_released m)"
    | (closed) "issued_matches m r" "br_identifier r \<notin> set (bm_released m)"
        "dict_has (bm_reconciled m) (br_identifier r)"
    | (live) "issued_matches m r" "br_identifier r \<notin> set (bm_released m)"
        "\<not> dict_has (bm_reconciled m) (br_identifier r)" by blast
  then show thesis
  proof cases
    case live
    obtain dres led where d: "release_durable env r m = (dres, led)" by (cases "release_durable env r m")
    show thesis
    proof (cases dres)
      case (Inl e)
      with assms live d release_durable_Inl [of env r m e led] show thesis
        by (intro kept) (auto simp: manager_release_def)
    next
      case (Inr x)
      show thesis
      proof (cases "dict_get (bm_reserved m) (br_identifier r)")
        case None
        with assms live d Inr show thesis
          by (intro lost [of led "BudgetReservationStateError ''request reservation has no active budget''"])
            (auto simp: manager_release_def state_error_def dict_get_None_iff simp del: set_map)
      next
        case (Some c)
        obtain sres m2 where s: "release_scoped r c (m\<lparr>bm_ledger := led,
            bm_reserved := AList.delete (br_identifier r) (bm_reserved m)\<rparr>) = (sres, m2)"
          by (cases "release_scoped r c (m\<lparr>bm_ledger := led,
            bm_reserved := AList.delete (br_identifier r) (bm_reserved m)\<rparr>)")
        have "sres = res \<and> m' = (case res of Inl e \<Rightarrow> m2
            | Inr _ \<Rightarrow> m2\<lparr>bm_released := br_identifier r # bm_released m2\<rparr>)"
          using assms live d Inr Some s by (cases sres) (auto simp: manager_release_def)
        with live d Inr Some s show thesis by (intro settled [of led c m2]) simp_all
      qed
    qed
  next
    case bad
    with assms show thesis by (intro kept) (auto simp: manager_release_def state_error_def)
  next
    case again
    with assms show thesis by (intro kept) (auto simp: manager_release_def)
  next
    case closed
    with assms show thesis by (intro kept) (auto simp: manager_release_def state_error_def)
  qed
qed

lemma release_keeps_ok:
  assumes "manager_ok m" "manager_release env r m = (res, m')"
  shows "manager_ok m'"
  using assms(2)
proof (cases rule: manager_release_cases)
  case kept
  then show ?thesis using assms(1) by simp
next
  case (lost led e)
  then show ?thesis using assms(1) by (simp add: manager_ok_ledger)
next
  case (settled led c m2)
  let ?n = "m\<lparr>bm_ledger := led, bm_reserved := AList.delete (br_identifier r) (bm_reserved m)\<rparr>"
  have sh: "manager_shape m" and cf: "manager_config m" using assms(1) by (simp_all add: manager_ok_def)
  note fr = release_scoped_frame [OF settled(6)]
  have rc: "bm_reconciled m' = bm_reconciled m"
    unfolding settled(7) by (cases res) (simp_all add: fr)
  have sf: "settled_fields m r m'"
    unfolding settled_fields_def settled(7)
    using sh by (cases res) (auto simp: fr manager_shape_def)
  note keep = settle_shape [OF sh settled(1) sf] settle_config [OF cf sf]
  show ?thesis
  proof (cases "manager_overrun m")
    case True
    then have "manager_overrun m'" by (simp add: manager_overrun_def rc)
    with keep show ?thesis by (simp add: manager_ok_def)
  next
    case False
    then have tt: "manager_totals m" using assms(1) by (simp add: manager_ok_def)
    obtain x y where rs: "release_scoped r c ?n = (Inr (), ?n\<lparr>
        bm_reserved_input := bm_reserved_input ?n - opt_tokens (br_planned_prompt r),
        bm_reserved_output := bm_reserved_output ?n - opt_tokens (br_planned_completion r),
        bm_reserved_model := x, bm_reserved_role := y\<rparr>)"
      "counter_exact x" "counter_exact y"
      "\<And>k. counter_val x k = counter_val (bm_reserved_model m) k
         - (if br_exact_model_id r = Some k then val c else 0)"
      "\<And>k. counter_val y k = counter_val (bm_reserved_role m) k - (if br_role r = Some k then val c else 0)"
      by (rule release_scoped_settles [OF sh tt cf settled(1,5), of ?n]) simp_all
    have "0 < val c" using sh settled(5) by (auto simp: manager_shape_def)
    moreover have "reservation_shape (br_identifier r) r"
      using issued_matches_shape [OF sh settled(1)] .
    ultimately have "manager_totals m'"
      using rs settled(6) tt unfolding settled(7)
      by (intro settle_totals [OF sh tt settled(1) sf [unfolded settled(7)] settled(5), of dzero])
        (auto simp: manager_totals_def scope_totals_def reservation_shape_def)
    with keep show ?thesis by (simp add: manager_ok_def)
  qed
qed


section \<open>Reconciling\<close>

lemma manager_reconcile_cases:
  assumes "manager_reconcile env r cost prompt completion reasoning m = (res, m')"
  obtains (refused) e where "m' = m" "res = Inl e"
  | (repeated) u n where "m' = m" "normalize_usage cost prompt completion reasoning = Inr u" "issued_matches m r"
      "dict_get (bm_reconciled m) (br_identifier r) = Some n" "res = repeated_reconcile n u"
  | (finish) u c where "normalize_usage cost prompt completion reasoning = Inr u" "issued_matches m r"
      "dict_get (bm_reconciled m) (br_identifier r) = None" "reconcile_checks m r u = Inr c"
      "finish_reconcile env r u c m = (res, m')"
proof (cases "normalize_usage cost prompt completion reasoning")
  case (Inl e)
  with assms show thesis by (intro refused [of e]) (simp_all add: manager_reconcile_def)
next
  case (Inr u)
  show thesis
  proof (cases "issued_matches m r")
    case False
    with Inr assms show thesis
      by (intro refused) (auto simp: manager_reconcile_def state_error_def)
  next
    case True
    show thesis
    proof (cases "dict_get (bm_reconciled m) (br_identifier r)")
      case (Some n)
      with Inr True assms show thesis by (intro repeated [of u n]) (simp_all add: manager_reconcile_def)
    next
      case None
      show thesis
      proof (cases "reconcile_checks m r u")
        case (Inl e)
        with Inr None True assms \<open>normalize_usage cost prompt completion reasoning = Inr u\<close> show thesis
          by (intro refused [of e]) (simp_all add: manager_reconcile_def)
      next
        case (Inr c)
        with None True assms \<open>normalize_usage cost prompt completion reasoning = Inr u\<close> show thesis
          by (intro finish [of u c]) (simp_all add: manager_reconcile_def)
      qed
    qed
  qed
qed

lemma reconcile_checks_Inr:
  assumes "reconcile_checks m r u = Inr c"
  shows "dict_get (bm_reserved m) (br_identifier r) = Some c" "br_identifier r \<notin> set (bm_released m)"
    "br_planned_prompt r = None \<Longrightarrow> au_prompt u = None \<and> au_completion u = None"
    "br_planned_prompt r \<noteq> None \<Longrightarrow> br_planned_completion r \<noteq> None"
  using assms by (auto simp: reconcile_checks_def result_simps state_error_def split: option.splits)

definition accounted_of :: "actual_usage \<Rightarrow> decimal \<Rightarrow> decimal" where
  "accounted_of u c = (case au_cost u of None \<Rightarrow> c | Some x \<Rightarrow> x)"

definition overrun_of :: "actual_usage \<Rightarrow> decimal \<Rightarrow> cost_error option \<Rightarrow> bool" where
  "overrun_of u c ov \<longleftrightarrow> (case au_cost u of None \<Rightarrow> False | Some x \<Rightarrow> dlt c x) \<or> ov \<noteq> None"

lemma reconcile_durable_Inl: "reconcile_durable env r a m = (Inl e, led) \<Longrightarrow> led = bm_ledger m"
  by (auto simp: reconcile_durable_def ledger_reconcile_def overrun_error_def Let_def
      split: option.splits sum.splits prod.splits if_splits cost_error.splits)

lemma finish_reconcile_cases:
  assumes "finish_reconcile env r u c m = (res, m')"
  obtains (kept) e where "m' = m" "res = Inl e"
  | (stuck) led e where "release_scoped r c (m\<lparr>bm_ledger := led,
        bm_reserved := AList.delete (br_identifier r) (bm_reserved m)\<rparr>) = (Inl e, m')" "res = Inl e"
  | (settled) ov led m1 where "reconcile_durable env r (au_cost u) m = (Inr ov, led)"
      "release_scoped r c (m\<lparr>bm_ledger := led,
         bm_reserved := AList.delete (br_identifier r) (bm_reserved m)\<rparr>) = (Inr (), m1)"
      "m' = m1\<lparr>bm_spent_input := bm_spent_input m1 + opt_tokens (or_else (au_prompt u) (br_planned_prompt r)),
         bm_spent_output := bm_spent_output m1
           + opt_tokens (or_else (au_completion u) (br_planned_completion r)),
         bm_spent_model := opt_increment (bm_spent_model m1) (br_exact_model_id r) (accounted_of u c),
         bm_spent_role := opt_increment (bm_spent_role m1) (br_role r) (accounted_of u c),
         bm_spent := fadd (bm_spent m1) (float_of_decimal (accounted_of u c)),
         bm_spent_exact := dadd default_prec (bm_spent_exact m1) (accounted_of u c),
         bm_reconciled := AList.update (br_identifier r)
           (reconciliation_of r u (accounted_of u c) (overrun_of u c ov)) (bm_reconciled m1)\<rparr>"
      "res = (if overrun_of u c ov then Inl (case ov of Some e \<Rightarrow> LedgerError e | None \<Rightarrow> cost_overrun_error)
         else if token_overrun_of r u then Inl token_overrun_error
         else Inr (float_of_decimal (accounted_of u c)))"
proof -
  obtain dres led where d: "reconcile_durable env r (au_cost u) m = (dres, led)"
    by (cases "reconcile_durable env r (au_cost u) m")
  show thesis
  proof (cases dres)
    case (Inl e)
    with assms d reconcile_durable_Inl [of env r "au_cost u" m e led] show thesis
      by (intro kept [of e]) (simp_all add: finish_reconcile_def)
  next
    case (Inr ov)
    obtain sres m1 where s: "release_scoped r c (m\<lparr>bm_ledger := led,
        bm_reserved := AList.delete (br_identifier r) (bm_reserved m)\<rparr>) = (sres, m1)"
      by (cases "release_scoped r c (m\<lparr>bm_ledger := led,
        bm_reserved := AList.delete (br_identifier r) (bm_reserved m)\<rparr>)")
    show thesis
    proof (cases sres)
      case (Inl e)
      with assms d Inr s show thesis
        by (intro stuck [of led e]) (simp_all add: finish_reconcile_def close_scoped_reservation_def)
    next
      case (Inr x)
      with d s assms \<open>dres = Inr ov\<close> show thesis
        by (intro settled [of ov led m1])
          (auto simp: finish_reconcile_def close_scoped_reservation_def accounted_of_def overrun_of_def Let_def)
    qed
  qed
qed


lemma normalize_actual_cost_Inr:
  assumes "normalize_actual_cost cost = Inr (Some a)"
  shows "on_grid 18 a" "0 \<le> val a"
proof -
  from assms obtain d where q: "dquantize cost_prec Ceiling (- int 18) d = Some a" and d: "0 \<le> val d"
    by (auto simp: normalize_actual_cost_def Let_def state_error_def dlt_iff not_less
        split: option.splits pydec.splits if_splits cost_input.splits)
  show "on_grid 18 a" by (rule dquantize_grid [OF q])
  show "0 \<le> val a" using dquantize_ceiling(1) [OF q] d by linarith
qed

lemma normalize_usage_Inr:
  assumes "normalize_usage cost prompt completion reasoning = Inr u"
  shows "normalize_actual_cost cost = Inr (au_cost u)"
  using assms unfolding normalize_usage_def rbind_eq_Inr_iff by (elim exE conjE) auto

lemma tokens_settle:
  assumes "\<not> token_overrun_of r u" "reconcile_checks m r u = Inr c"
  shows "opt_tokens (or_else (au_prompt u) (br_planned_prompt r)) \<le> opt_tokens (br_planned_prompt r)"
    "opt_tokens (or_else (au_completion u) (br_planned_completion r)) \<le> opt_tokens (br_planned_completion r)"
proof -
  show "opt_tokens (or_else (au_prompt u) (br_planned_prompt r)) \<le> opt_tokens (br_planned_prompt r)"
    using assms(1) reconcile_checks_Inr(3) [OF assms(2)]
    by (cases "au_prompt u"; cases "br_planned_prompt r")
      (simp_all add: token_overrun_of_def Let_def opt_greater_def or_else_def opt_tokens_def)
  show "opt_tokens (or_else (au_completion u) (br_planned_completion r)) \<le> opt_tokens (br_planned_completion r)"
    using assms(1) reconcile_checks_Inr(3,4) [OF assms(2)]
    by (cases "au_completion u"; cases "br_planned_completion r"; cases "br_planned_prompt r")
      (simp_all add: token_overrun_of_def Let_def opt_greater_def or_else_def opt_tokens_def)
qed


lemma accounted_of_bounds:
  assumes "normalize_usage cost prompt completion reasoning = Inr u" "on_grid 18 c" "0 < val c"
  shows "on_grid 18 (accounted_of u c)" "0 \<le> val (accounted_of u c)"
    "\<not> overrun_of u c ov \<Longrightarrow> val (accounted_of u c) \<le> val c"
  using assms(2,3) normalize_usage_Inr [OF assms(1)] normalize_actual_cost_Inr [of cost]
  by (auto simp: accounted_of_def overrun_of_def dlt_iff split: option.splits)

lemma overrun_monotone:
  assumes "manager_overrun m" "dict_get (bm_reconciled m) i = None"
    and "bm_reconciled m' = AList.update i n (bm_reconciled m)"
  shows "manager_overrun m'"
proof -
  obtain j k where "dict_get (bm_reconciled m) j = Some k" "rn_cost_overrun k \<or> rn_token_overrun k"
    using assms(1) by (auto simp: manager_overrun_def)
  moreover from this(1) assms(2) have "j \<noteq> i" by auto
  ultimately show ?thesis using assms(3) unfolding manager_overrun_def
    by (intro exI [of _ j] exI [of _ k]) (simp add: dict_simps)
qed

lemma overrun_new:
  "bm_reconciled m' = AList.update i n (bm_reconciled m) \<Longrightarrow> rn_cost_overrun n \<or> rn_token_overrun n \<Longrightarrow>
     manager_overrun m'"
  unfolding manager_overrun_def by (intro exI [of _ i] exI [of _ n]) (simp add: dict_simps)

lemma spent_room:
  assumes "manager_shape m" "manager_config m" "manager_totals m"
    and "dict_get (bm_reserved m) i = Some c" "on_grid 18 a" "0 \<le> val a" "val a \<le> val c"
  shows "val (bm_spent_exact m) + val a < 10 ^ 10"
    "val (dadd default_prec (bm_spent_exact m) a) = val (bm_spent_exact m) + val a"
    "on_grid 18 (dadd default_prec (bm_spent_exact m) a)"
proof -
  note t = assms(3) [unfolded manager_totals_def]
  have d: "distinct (dict_keys (bm_reserved m))" using assms(1) by (simp add: manager_shape_def)
  have "val c \<le> held_total m"
    unfolding held_total_def
    by (rule wsum_member [OF d assms(4)]) (auto dest: shape_reserved_pos [OF assms(1)] intro: less_imp_le)
  then show lt: "val (bm_spent_exact m) + val a < 10 ^ 10"
    using t assms(2,7) by (simp add: manager_config_def)
  have ab: "\<bar>val (bm_spent_exact m) + val a\<bar> < 10 ^ (default_prec - 18)" "on_grid 18 (bm_spent_exact m)"
    using lt t assms(6) by (simp_all add: default_exact)
  show "val (dadd default_prec (bm_spent_exact m) a) = val (bm_spent_exact m) + val a"
    "on_grid 18 (dadd default_prec (bm_spent_exact m) a)"
    using val_dadd [OF ab(2) assms(5) ab(1) default_exact(1,2)]
      on_grid_dadd [OF ab(2) assms(5) ab(1) default_exact(1,2)] .
qed

text \<open>A settlement that exceeds nothing moves its amount from reserved to spent.\<close>

lemma reconcile_totals:
  assumes "manager_shape m" "manager_config m" "manager_totals m" "issued_matches m r" "settled_fields m r m'"
    and "dict_get (bm_reserved m) (br_identifier r) = Some c"
    and "release_scoped r c n = (Inr (), m1)" "n = m\<lparr>bm_ledger := led,
         bm_reserved := AList.delete (br_identifier r) (bm_reserved m)\<rparr>"
    and "on_grid 18 a" "0 \<le> val a" "val a \<le> val c"
    and "p \<le> opt_tokens (br_planned_prompt r)" "q \<le> opt_tokens (br_planned_completion r)"
    and "m' = m1\<lparr>bm_spent_input := bm_spent_input m1 + p, bm_spent_output := bm_spent_output m1 + q,
         bm_spent_model := opt_increment (bm_spent_model m1) (br_exact_model_id r) a,
         bm_spent_role := opt_increment (bm_spent_role m1) (br_role r) a,
         bm_spent := s, bm_spent_exact := dadd default_prec (bm_spent_exact m1) a,
         bm_reconciled := rc\<rparr>"
  shows "manager_totals m'"
proof -
  obtain x y where rs: "release_scoped r c n = (Inr (), n\<lparr>
      bm_reserved_input := bm_reserved_input n - opt_tokens (br_planned_prompt r),
      bm_reserved_output := bm_reserved_output n - opt_tokens (br_planned_completion r),
      bm_reserved_model := x, bm_reserved_role := y\<rparr>)"
    and xy: "counter_exact x" "counter_exact y"
    "\<And>k. counter_val x k = counter_val (bm_reserved_model m) k
       - (if br_exact_model_id r = Some k then val c else 0)"
    "\<And>k. counter_val y k = counter_val (bm_reserved_role m) k - (if br_role r = Some k then val c else 0)"
    by (rule release_scoped_settles [OF assms(1,3,2,4,6), of n]) (simp_all add: assms(8))
  note t = assms(3) [unfolded manager_totals_def]
  have st: "counter_exact (bm_spent_model m)" "counter_exact (bm_spent_role m)"
    "\<And>k. counter_val (bm_spent_model m) k \<le> val (bm_spent_exact m)"
    "\<And>k. counter_val (bm_spent_role m) k \<le> val (bm_spent_exact m)"
    using t by (simp_all add: scope_totals_def)
  note room = spent_room [OF assms(1-3,6,9-11)]
  have lts: "counter_val (bm_spent_model m) k + val a < 10 ^ 10"
    "counter_val (bm_spent_role m) k + val a < 10 ^ 10" for k
    using room(1) st(3,4) [of k] by linarith+
  note inc = opt_increment_exact [OF st(1) assms(9,10) lts(1), of "br_exact_model_id r"]
    opt_increment_exact [OF st(2) assms(9,10) lts(2), of "br_role r"]
  have m1: "m1 = n\<lparr>bm_reserved_input := bm_reserved_input n - opt_tokens (br_planned_prompt r),
      bm_reserved_output := bm_reserved_output n - opt_tokens (br_planned_completion r),
      bm_reserved_model := x, bm_reserved_role := y\<rparr>"
    using rs assms(7) by simp
  show ?thesis
    by (rule settle_totals [OF assms(1,3-6,10,11)])
      (use room(2,3) inc xy assms(12,13) in \<open>simp_all add: assms(14) m1 assms(8)\<close>)
qed

lemma finish_keeps_ok:
  assumes "manager_ok m" "finish_reconcile env r u c m = (res, m')" "issued_matches m r"
    and "dict_get (bm_reconciled m) (br_identifier r) = None" "reconcile_checks m r u = Inr c"
    and "normalize_usage cost prompt completion reasoning = Inr u"
  shows "manager_ok m'"
proof -
  have sh: "manager_shape m" and cf: "manager_config m" using assms(1) by (simp_all add: manager_ok_def)
  note ck = reconcile_checks_Inr [OF assms(5)]
  have c: "on_grid 18 c" "0 < val c" using sh ck(1) by (auto simp: manager_shape_def)
  from assms(2) show ?thesis
  proof (cases rule: finish_reconcile_cases)
    case (kept e)
    with assms(1) show ?thesis by simp
  next
    case (stuck led e)
    let ?n = "m\<lparr>bm_ledger := led, bm_reserved := AList.delete (br_identifier r) (bm_reserved m)\<rparr>"
    note fr = release_scoped_frame [OF stuck(1)]
    have sf: "settled_fields m r m'" using sh by (auto simp: settled_fields_def fr manager_shape_def)
    have "manager_totals m \<Longrightarrow> False"
      using release_scoped_settles [OF sh _ cf assms(3) ck(1), of ?n] stuck(1) by auto
    then have "manager_overrun m'" using assms(1) by (auto simp: manager_overrun_def fr manager_ok_def)
    with settle_shape [OF sh assms(3) sf] settle_config [OF cf sf] show ?thesis by (simp add: manager_ok_def)
  next
    case (settled ov led m1)
    note fr = release_scoped_frame [OF settled(2)]
    let ?n = "reconciliation_of r u (accounted_of u c) (overrun_of u c ov)"
    have rc: "bm_reconciled m' = AList.update (br_identifier r) ?n (bm_reconciled m)"
      by (simp add: settled(3) fr)
    have sf: "settled_fields m r m'"
      using sh by (auto simp: settled_fields_def settled(3) fr manager_shape_def dict_simps)
    have "manager_overrun m' \<or> manager_totals m'"
    proof (cases "manager_overrun m \<or> overrun_of u c ov \<or> token_overrun_of r u")
      case True
      then show ?thesis
        using overrun_monotone [OF _ assms(4) rc] overrun_new [OF rc] by (auto simp: reconciliation_of_def)
    next
      case False
      then have "manager_totals m" using assms(1) by (simp add: manager_ok_def)
      then have "manager_totals m'"
        using False accounted_of_bounds [OF assms(6) c] tokens_settle [OF _ assms(5)]
        by (intro reconcile_totals [OF sh cf _ assms(3) sf ck(1) settled(2) refl _ _ _ _ _ settled(3)]) auto
      then show ?thesis by blast
    qed
    with settle_shape [OF sh assms(3) sf] settle_config [OF cf sf] show ?thesis by (simp add: manager_ok_def)
  qed
qed

lemma reconcile_keeps_ok:
  assumes "manager_ok m" "manager_reconcile env r cost prompt completion reasoning m = (res, m')"
  shows "manager_ok m'"
  using assms(2)
proof (cases rule: manager_reconcile_cases)
  case (finish u c)
  then show ?thesis using finish_keeps_ok [OF assms(1)] by blast
qed (use assms(1) in simp_all)

end
