(* ===== verification/Budget_Guard.thy ===== *)
theory Budget_Guard
  imports Budget_Settle Ledger_Guard
begin

text \<open>
  The budget manager as a spending guard: the sequences of its operations, what they never
  change, and the caps they keep, in all and for each model and role.
\<close>

section \<open>What no operation changes\<close>

definition same_limits :: "budget_manager \<Rightarrow> budget_manager \<Rightarrow> bool" where
  "same_limits m m' \<longleftrightarrow>
     bm_total_usd m' = bm_total_usd m \<and> bm_require_bound m' = bm_require_bound m
     \<and> bm_model_caps m' = bm_model_caps m \<and> bm_role_caps m' = bm_role_caps m
     \<and> bm_input_budget m' = bm_input_budget m \<and> bm_output_budget m' = bm_output_budget m
     \<and> bm_max_requests m' = bm_max_requests m"

lemma same_limits_ledger [simp]: "same_limits m (m\<lparr>bm_ledger := led\<rparr>)"
  by (simp add: same_limits_def)

lemma same_limits_refl [simp]: "same_limits m m"
  by (simp add: same_limits_def)

lemma reserve_same_limits:
  assumes "manager_reserve env rq m = (res, m')"
  shows "same_limits m m'"
proof (cases res)
  case (Inl e)
  with manager_reserve_Inl [of env rq m e m'] assms show ?thesis by auto
next
  case (Inr r)
  from assms [unfolded Inr] show ?thesis
    by (rule manager_reserve_Inr) (simp add: same_limits_def Let_def reserve_scoped_def)
qed

lemma release_same_limits:
  assumes "manager_release env r m = (res, m')"
  shows "same_limits m m' \<and> bm_limit_counts m' = bm_limit_counts m \<and> bm_issued m' = bm_issued m
    \<and> bm_pending m' = bm_pending m"
  using assms
proof (cases rule: manager_release_cases)
  case (settled led c m2)
  note fr = release_scoped_frame [OF settled(6)]
  then show ?thesis
    unfolding settled(7) by (cases res) (simp_all add: same_limits_def)
qed simp_all

lemma reconcile_same_limits:
  assumes "manager_reconcile env r cost prompt completion reasoning m = (res, m')"
  shows "same_limits m m' \<and> bm_limit_counts m' = bm_limit_counts m \<and> bm_issued m' = bm_issued m
    \<and> bm_pending m' = bm_pending m"
  using assms
proof (cases rule: manager_reconcile_cases)
  case (finish u c)
  from finish(5) show ?thesis
  proof (cases rule: finish_reconcile_cases)
    case (stuck led e)
    show ?thesis using release_scoped_frame [OF stuck(1)] by (simp add: same_limits_def)
  next
    case (settled ov led m1)
    show ?thesis using release_scoped_frame [OF settled(2)] by (simp add: same_limits_def settled(3))
  qed simp
qed simp_all

section \<open>Overrun is remembered\<close>

lemma release_reconciled: "manager_release env r m = (res, m') \<Longrightarrow> bm_reconciled m' = bm_reconciled m"
proof (erule manager_release_cases)
  fix led c m2
  assume s: "release_scoped r c (m\<lparr>bm_ledger := led,
      bm_reserved := AList.delete (br_identifier r) (bm_reserved m)\<rparr>) = (res, m2)"
    and m': "m' = (case res of Inl e \<Rightarrow> m2 | Inr _ \<Rightarrow> m2\<lparr>bm_released := br_identifier r # bm_released m2\<rparr>)"
  show ?thesis unfolding m' using release_scoped_frame [OF s] by (cases res) simp_all
qed simp_all

lemma reserve_reconciled: "manager_reserve env rq m = (res, m') \<Longrightarrow> bm_reconciled m' = bm_reconciled m"
proof (cases res)
  case (Inl e)
  then show "manager_reserve env rq m = (res, m') \<Longrightarrow> ?thesis"
    using manager_reserve_Inl [of env rq m e] by auto
next
  case (Inr r)
  assume "manager_reserve env rq m = (res, m')"
  from this [unfolded Inr] show ?thesis by (rule manager_reserve_Inr) (simp add: Let_def reserve_scoped_def)
qed

lemma reconcile_overrun:
  assumes "manager_reconcile env r cost prompt completion reasoning m = (res, m')" "manager_overrun m"
  shows "manager_overrun m'"
  using assms(1)
proof (cases rule: manager_reconcile_cases)
  case (finish u c)
  from finish(5) show ?thesis
  proof (cases rule: finish_reconcile_cases)
    case (stuck led e)
    show ?thesis using release_scoped_frame [OF stuck(1)] assms(2) by (simp add: manager_overrun_def)
  next
    case (settled ov led m1)
    show ?thesis
      by (rule overrun_monotone [OF assms(2) finish(3)])
        (use release_scoped_frame [OF settled(2)] in \<open>simp add: settled(3)\<close>)
  qed (use assms(2) in \<open>simp add: manager_overrun_def\<close>)
qed (use assms(2) in simp_all)

section \<open>Sequences of operations\<close>

text \<open>The operations, each called in an environment a condition allows.\<close>

inductive manager_step :: "(call_env \<Rightarrow> budget_manager \<Rightarrow> bool) \<Rightarrow> budget_manager \<Rightarrow> budget_manager \<Rightarrow> bool"
  for allowed where
  reserve: "manager_reserve env rq m = (res, m') \<Longrightarrow> bound_valid env rq \<Longrightarrow> allowed env m \<Longrightarrow>
     manager_step allowed m m'"
| reconcile: "manager_reconcile env r cost prompt completion reasoning m = (res', m') \<Longrightarrow> allowed env m \<Longrightarrow>
     manager_step allowed m m'"
| release: "manager_release env r m = (res'', m') \<Longrightarrow> allowed env m \<Longrightarrow> manager_step allowed m m'"

lemma manager_step_ok: "manager_ok m \<Longrightarrow> manager_step allowed m m' \<Longrightarrow> manager_ok m'"
proof (erule manager_step.cases)
  fix env rq n res n'
  assume ok: "manager_ok m" and m: "m = n" "m' = n'" and r: "manager_reserve env rq n = (res, n')"
    and b: "bound_valid env rq"
  show "manager_ok m'"
  proof (cases res)
    case (Inl e)
    with manager_reserve_Inl [of env rq n e n'] r ok m show ?thesis by (auto simp: manager_ok_ledger)
  next
    case (Inr x)
    then show ?thesis using reserve_keeps_ok ok b r m by blast
  qed
qed (auto intro: reconcile_keeps_ok release_keeps_ok)

lemma manager_step_limits: "manager_step allowed m m' \<Longrightarrow> same_limits m m'"
  by (erule manager_step.cases) (simp_all add: reserve_same_limits reconcile_same_limits release_same_limits)

lemma manager_step_overrun: "manager_step allowed m m' \<Longrightarrow> manager_overrun m \<Longrightarrow> manager_overrun m'"
proof (erule manager_step.cases)
  fix env rq n res n'
  assume "m = n" "m' = n'" "manager_reserve env rq n = (res, n')" "manager_overrun m"
  then show "manager_overrun m'" using reserve_reconciled by (simp add: manager_overrun_def)
next
  fix env r n res n'
  assume "m = n" "m' = n'" "manager_release env r n = (res, n')" "manager_overrun m"
  then show "manager_overrun m'" using release_reconciled by (simp add: manager_overrun_def)
qed (auto intro: reconcile_overrun)

text \<open>The spending guards: the whole budget, and one model or role within it.\<close>

definition scope_cap :: "(budget_manager \<Rightarrow> usd_counters) \<Rightarrow> string \<Rightarrow> budget_manager \<Rightarrow> rat" where
  "scope_cap caps k m = (case dict_get (caps m) k of None \<Rightarrow> val (total_exact m) | Some c \<Rightarrow> val c)"

lemma scope_within:
  assumes "manager_shape m" "manager_totals m" "scope_totals m (caps m) spent reserved f"
  shows "counter_val spent k + held_under m f k \<le> scope_cap caps k m"
proof (cases "dict_get (caps m) k")
  case None
  have "counter_val spent k \<le> val (bm_spent_exact m)" using assms(3) by (simp add: scope_totals_def)
  moreover have "val (bm_spent_exact m) + held_total m \<le> val (total_exact m)"
    using assms(2) by (simp add: manager_totals_def)
  ultimately show ?thesis using held_under_le [OF assms(1), of f k] None by (simp add: scope_cap_def)
next
  case (Some c)
  then have "counter_val spent k + counter_val reserved k \<le> val c" "counter_val reserved k = held_under m f k"
    using assms(3) unfolding scope_totals_def by blast+
  then show ?thesis by (simp add: scope_cap_def Some)
qed

lemma scopes_within:
  assumes "manager_ok m" "\<not> manager_overrun m"
  shows "counter_val (bm_spent_model m) k + held_under m br_exact_model_id k \<le> scope_cap bm_model_caps k m"
    "counter_val (bm_spent_role m) k + held_under m br_role k \<le> scope_cap bm_role_caps k m"
  using assms by (auto simp: manager_ok_def manager_totals_def intro: scope_within)

lemma scope_cap_limits: "same_limits m m' \<Longrightarrow> scope_cap bm_model_caps k m' = scope_cap bm_model_caps k m"
  "same_limits m m' \<Longrightarrow> scope_cap bm_role_caps k m' = scope_cap bm_role_caps k m"
  by (simp_all add: same_limits_def scope_cap_def total_exact_def split: option.split)

lemma manager_guard:
  assumes "\<And>m m'. same_limits m m' \<Longrightarrow> cap m' = cap m"
    and "\<And>m. manager_ok m \<Longrightarrow> \<not> manager_overrun m \<Longrightarrow> spent m + held m \<le> cap m"
    and "\<And>m. manager_shape m \<Longrightarrow> 0 \<le> held m"
  shows "spend_guard (manager_step allowed) manager_ok manager_overrun cap spent held"
proof
  show "spent t + held t \<le> cap t" if "manager_ok s" "manager_step allowed s t" "\<not> manager_overrun t" for s t
    using assms(2) manager_step_ok that by blast
  show "0 \<le> held s" if "manager_ok s" for s using assms(3) that by (simp add: manager_ok_def)
qed (blast intro: manager_step_ok assms(1) manager_step_limits manager_step_overrun)+

interpretation usd: spend_guard "manager_step allowed" manager_ok manager_overrun
  "\<lambda>m. val (total_exact m)" "\<lambda>m. val (bm_spent_exact m)" held_total for allowed
  by (rule manager_guard)
    (auto simp: same_limits_def total_exact_def manager_ok_def manager_totals_def held_total_nonneg)

interpretation model: spend_guard "manager_step allowed" manager_ok manager_overrun "scope_cap bm_model_caps k"
  "\<lambda>m. counter_val (bm_spent_model m) k" "\<lambda>m. held_under m br_exact_model_id k" for allowed k
  by (rule manager_guard) (rule scope_cap_limits scopes_within held_under_nonneg; assumption)+

interpretation role: spend_guard "manager_step allowed" manager_ok manager_overrun "scope_cap bm_role_caps k"
  "\<lambda>m. counter_val (bm_spent_role m) k" "\<lambda>m. held_under m br_role k" for allowed k
  by (rule manager_guard) (rule scope_cap_limits scopes_within held_under_nonneg; assumption)+

section \<open>A fresh manager\<close>

lemma dquantize_less:
  assumes "dquantize p mode (- int k) d = Some q" "k \<le> p" "0 < p"
  shows "val q < 10 ^ (p - k)"
proof -
  have n: "ndigits (nat \<bar>mant q\<bar>) \<le> p" and e: "dexp q = - int k"
    using assms(1) by (auto simp: dquantize_def Let_def split: if_splits)
  have "nat \<bar>mant q\<bar> < 10 ^ p" using n assms(3) by (simp add: ndigits_le_iff)
  then have "mant q < 10 ^ p" by (simp add: nat_less_iff)
  then have m: "rat_of_int (mant q) < 10 ^ p"
    by (metis (mono_tags, lifting) of_int_less_iff of_int_numeral of_int_power)
  have "(10 :: rat) ^ p = 10 ^ (p - k) * 10 ^ k" using assms(2) by (simp flip: power_add)
  then show ?thesis
    using m by (simp add: val_def e power_int_minus divide_simps flip: power_int_of_nat)
qed

lemma parse_usd_cap_Inr:
  assumes "parse_usd_cap v scope = Inr q"
  shows "on_grid 18 q" "0 \<le> val q" "val q < 10 ^ 10"
proof -
  obtain d where q: "dquantize default_prec HalfEven (- int 18) d = Some q"
    and d: "0 \<le> val d" "val d = val q"
    using assms unfolding parse_usd_cap_def rbind_eq_Inr_iff
    by (elim exE conjE, split pydec.splits) (auto simp: dlt_iff deq_iff not_less split: option.splits if_splits)
  show "on_grid 18 q" by (rule dquantize_grid [OF q])
  show "0 \<le> val q" using d by simp
  show "val q < 10 ^ 10"
    using dquantize_less [OF q default_exact(1,2)] by (simp add: default_exact)
qed

lemma validate_scoped_caps_ok:
  "validate_scoped_caps pattern scope d cs = Inr caps \<Longrightarrow> caps_ok d \<Longrightarrow> caps_ok caps"
proof (induction cs arbitrary: d)
  case (Cons c cs)
  obtain k v where c: "c = (k, v)" by (cases c)
  from Cons(2) obtain cap where p: "parse_usd_cap v scope = Inr cap"
    and r: "validate_scoped_caps pattern scope (AList.update k cap d) cs = Inr caps"
    by (auto simp: result_simps c)
  have "caps_ok (AList.update k cap d)"
    using Cons(3) parse_usd_cap_Inr [OF p] by (auto simp: caps_ok_def dict_simps split: if_splits)
  then show ?case using Cons(1) [OF r] by blast
qed simp

lemma validate_scoped_caps_get:
  "validate_scoped_caps pattern scope d cs = Inr caps \<Longrightarrow>
     (k \<notin> fst ` set cs \<longrightarrow> dict_get caps k = dict_get d k)
     \<and> (distinct (map fst cs) \<longrightarrow> (k, v) \<in> set cs \<longrightarrow>
          (\<exists>cap. parse_usd_cap v scope = Inr cap \<and> dict_get caps k = Some cap))"
proof (induction cs arbitrary: d)
  case (Cons c cs)
  obtain k' v' where c: "c = (k', v')" by (cases c)
  from Cons(2) obtain cap where p: "parse_usd_cap v' scope = Inr cap"
    and r: "validate_scoped_caps pattern scope (AList.update k' cap d) cs = Inr caps"
    by (auto simp: result_simps c)
  from Cons(1) [OF r] p show ?case by (auto simp: c dict_simps)
qed simp

lemma new_manager_caps:
  assumes "new_manager env budget max_tokens rate max_requests ledger bound input output models roles = Inr m"
    and "distinct (map fst cs)" "(k, v) \<in> set cs"
  shows "models = Some cs \<Longrightarrow> \<exists>cap. parse_usd_cap v ''model'' = Inr cap \<and> dict_get (bm_model_caps m) k = Some cap"
    "roles = Some cs \<Longrightarrow> \<exists>cap. parse_usd_cap v ''role'' = Inr cap \<and> dict_get (bm_role_caps m) k = Some cap"
  using assms(1) validate_scoped_caps_get [where k = k and v = v and cs = cs] assms(2,3)
  unfolding new_manager_def rbind_eq_Inr_iff by (elim exE conjE, fastforce)+

text \<open>A manager that has issued nothing, over a ledger that holds nothing.\<close>

definition fresh_manager :: "budget_manager \<Rightarrow> bool" where
  "fresh_manager m \<longleftrightarrow> bm_require_bound m \<and> caps_ok (bm_model_caps m) \<and> caps_ok (bm_role_caps m)
     \<and> 0 \<le> opt_tokens (bm_input_budget m) \<and> 0 \<le> opt_tokens (bm_output_budget m)
     \<and> bm_spent_exact m = dzero \<and> bm_reserved m = [] \<and> bm_issued m = [] \<and> bm_reconciled m = []
     \<and> bm_released m = [] \<and> bm_pending m = [] \<and> bm_limit_counts m = []
     \<and> bm_reserved_input m = 0 \<and> bm_spent_input m = 0 \<and> bm_reserved_output m = 0 \<and> bm_spent_output m = 0
     \<and> bm_reserved_model m = [] \<and> bm_spent_model m = [] \<and> bm_reserved_role m = [] \<and> bm_spent_role m = []
     \<and> \<not> bm_recovery_required m"

lemma new_manager_Inr:
  assumes "new_manager env budget max_tokens rate max_requests (Some led) True input output models roles = Inr m"
    and "load_entries (env_codec env) led = Inr []"
  shows "fresh_manager m" "bm_ledger m = Some led" "bm_total_usd m = budget" "bm_max_requests m = max_requests"
    "bm_input_budget m = input" "bm_output_budget m = output"
proof -
  have nil: "caps_ok []" by (simp add: caps_ok_def)
  have c: "caps_ok caps" if "(case cs of None \<Rightarrow> Inr [] | Some c \<Rightarrow> validate_scoped_caps pat scope [] c) = Inr caps"
    for cs pat scope caps
    using that nil validate_scoped_caps_ok by (auto split: option.splits)
  have s: "ledger_snapshot (env_codec env) led = Inr (snapshot_of (al_cap_usd led) [])"
    using assms(2) by (simp add: ledger_snapshot_def)
  have e: "cs_entries (snapshot_of (al_cap_usd led) []) = []" "cs_spent_usd (snapshot_of (al_cap_usd led) []) = dzero"
    by (simp_all add: snapshot_of_def Let_def dsum_def)
  have "fresh_manager m \<and> bm_ledger m = Some led \<and> bm_total_usd m = budget \<and> bm_max_requests m = max_requests
      \<and> bm_input_budget m = input \<and> bm_output_budget m = output"
    using assms(1) unfolding new_manager_def rbind_eq_Inr_iff
    by (elim exE conjE)
      (auto simp: s lift_ledger_def catch_as_def e fresh_manager_def dest!: c validate_optional_tokens_Inr)
  then show "fresh_manager m" "bm_ledger m = Some led" "bm_total_usd m = budget" "bm_max_requests m = max_requests"
    "bm_input_budget m = input" "bm_output_budget m = output" by blast+
qed

lemma counter_Nil [simp]: "counter_exact []" "counter_val [] k = 0"
  by (simp_all add: counter_exact_def counter_val_def dict_get_default_def on_gridI)

lemma fresh_held:
  assumes "fresh_manager m"
  shows "held_total m = 0" "held_under m f k = 0" "held_tokens m g = 0"
  using assms by (simp_all add: fresh_manager_def held_total_def held_under_def held_tokens_def)

lemma fresh_ok:
  assumes "fresh_manager m" "on_grid 18 (total_exact m)" "0 \<le> val (total_exact m)" "val (total_exact m) < 10 ^ 10"
  shows "manager_ok m" "\<not> manager_overrun m"
proof -
  note f = assms(1) [unfolded fresh_manager_def]
  have "manager_shape m" using f by (simp add: manager_shape_def)
  moreover have "manager_config m" using f assms(2-4) by (simp add: manager_config_def)
  moreover have "scope_totals m (bm_model_caps m) (bm_spent_model m) (bm_reserved_model m) br_exact_model_id"
    "scope_totals m (bm_role_caps m) (bm_spent_role m) (bm_reserved_role m) br_role"
    using f fresh_held [OF assms(1)] by (auto simp: scope_totals_def caps_ok_def)
  moreover have "token_totals m (bm_input_budget m) (bm_spent_input m) (bm_reserved_input m) br_planned_prompt"
    "token_totals m (bm_output_budget m) (bm_spent_output m) (bm_reserved_output m) br_planned_completion"
    using f fresh_held [OF assms(1)] by (auto simp: token_totals_def opt_tokens_def split: option.splits)
  ultimately show "manager_ok m"
    using f assms(3) fresh_held [OF assms(1)] by (simp add: manager_ok_def manager_totals_def on_gridI)
  show "\<not> manager_overrun m" using f by (simp add: manager_overrun_def)
qed


section \<open>Requests per role or scheduled task\<close>

definition reservation_key :: "budget_reservation \<Rightarrow> limit_key option" where
  "reservation_key r =
     (case br_limit_scope r of None \<Rightarrow> map_option RoleKey (br_role r) | Some s \<Rightarrow> Some (ScheduledTaskKey s))"

definition issued_under :: "budget_manager \<Rightarrow> limit_key \<Rightarrow> int" where
  "issued_under m k = wsum (\<lambda>i r. if reservation_key r = Some k then 1 else 0) (bm_issued m)"

definition limits_exact :: "budget_manager \<Rightarrow> bool" where
  "limits_exact m \<longleftrightarrow> (\<forall>k. dict_get_default (bm_limit_counts m) k 0 = issued_under m k
     \<and> issued_under m k \<le> max 0 (bm_max_requests m))"

lemma reserve_plan_key:
  assumes "reserve_plan env rq m = Inr (c, v, n, r)"
  shows "reservation_key (r\<lparr>br_persistent := p\<rparr>) = Some (limit_key_of rq)"
proof -
  have "br_limit_scope r = map_option scope_identifier (rq_limit_scope rq)"
    using assms by (auto simp: reserve_plan_def result_simps Let_def dest!: validate_reservation_Inr)
  then show ?thesis
    using reserve_plan_Inr(11) [OF assms]
    by (simp add: reservation_key_def limit_key_of_def split: option.splits)
qed

lemma reserve_limits:
  assumes "limits_exact m" "manager_reserve env rq m = (Inr r, m')"
  shows "limits_exact m'"
proof -
  from assms(2) obtain c v n planned p led where pl: "reserve_plan env rq m = Inr (c, v, n, planned)"
    and r: "r = planned\<lparr>br_persistent := p\<rparr>"
    and m': "m' = (let m1 = m\<lparr>bm_ledger := led,
             bm_reserved := AList.update (rq_identifier rq) c (bm_reserved m),
             bm_limit_counts := AList.update (limit_key_of rq) (n + 1) (bm_limit_counts m),
             bm_issued := AList.update (rq_identifier rq) r (bm_issued m)\<rparr>;
           m2 = reserve_scoped r c m1
       in m2\<lparr>bm_pending := AList.delete (rq_identifier rq) (bm_pending m2)\<rparr>)"
    by (rule manager_reserve_Inr)
  note rp = reserve_plan_Inr [OF pl]
  have f: "bm_limit_counts m' = AList.update (limit_key_of rq) (n + 1) (bm_limit_counts m)"
    "bm_issued m' = AList.update (rq_identifier rq) r (bm_issued m)" "bm_max_requests m' = bm_max_requests m"
    by (simp_all add: m' Let_def reserve_scoped_def)
  have k: "reservation_key r = Some (limit_key_of rq)" unfolding r by (rule reserve_plan_key [OF pl])
  have "issued_under m' k = issued_under m k + (if k = limit_key_of rq then 1 else 0)" for k
    unfolding issued_under_def f(2) wsum_update_new [OF rp(3)] by (simp add: k)
  then show ?thesis
    using assms(1) rp(5,6) by (auto simp: limits_exact_def f dict_default_update)
qed

lemma manager_step_limits_exact:
  assumes "manager_step allowed m m'" "limits_exact m"
  shows "limits_exact m'"
  using assms(1)
proof cases
  case (reserve env rq res)
  show ?thesis
  proof (cases res)
    case (Inl e)
    then show ?thesis using manager_reserve_Inl reserve(1) assms(2) by blast
  next
    case (Inr r)
    then show ?thesis using reserve_limits [OF assms(2)] reserve(1) by blast
  qed
next
  case (reconcile env r cost prompt completion reasoning res)
  then show ?thesis using reconcile_same_limits assms(2)
    by (simp add: limits_exact_def issued_under_def same_limits_def)
next
  case (release env r res)
  then show ?thesis using release_same_limits assms(2)
    by (simp add: limits_exact_def issued_under_def same_limits_def)
qed

lemma steps_limits_exact:
  "(manager_step allowed)\<^sup>*\<^sup>* m m' \<Longrightarrow> limits_exact m \<Longrightarrow> limits_exact m'"
  by (induction rule: rtranclp_induct) (auto intro: manager_step_limits_exact)

lemma steps_same_limits: "(manager_step allowed)\<^sup>*\<^sup>* m m' \<Longrightarrow> same_limits m m'"
  by (induction rule: rtranclp_induct) (auto dest!: manager_step_limits simp: same_limits_def)

lemma fresh_limits: "fresh_manager m \<Longrightarrow> limits_exact m"
  by (simp add: fresh_manager_def limits_exact_def issued_under_def dict_get_default_def)

end
