(* ===== verification/Budget_Demo.thy ===== *)
theory Budget_Demo
  imports Budget_Guard
begin

text \<open>
  A small concrete manager over the concrete ledger: one certified request is reserved, then
  reconciled or released. The theorems about the manager are evaluated on it.
\<close>

section \<open>The environment and the request\<close>

definition demo_sha :: "string \<Rightarrow> string" where
  "demo_sha s = replicate 64 (CHR ''a'')"

definition demo_env :: call_env where
  "demo_env = \<lparr>env_sha256 = demo_sha, env_codec = digits_codec, env_now = 7, env_fresh_id = demo_id\<rparr>"

definition demo_bound :: endpoint_cost_bound where
  "demo_bound = \<lparr>eb_exact_model_id = ''vendor/model'', eb_provider_endpoint = ''vendor'',
     eb_request_material_sha256 = demo_sha [], eb_pricing_snapshot_sha256 = demo_sha [],
     eb_components = [\<lparr>pc_pricing_field = ''completion'', pc_unit_price_usd = Dec 5 (- 1), pc_maximum_units = 4\<rparr>,
       \<lparr>pc_pricing_field = ''prompt'', pc_unit_price_usd = Dec 25 (- 2), pc_maximum_units = 2\<rparr>]\<rparr>"

definition demo_rq :: reserve_request where
  "demo_rq = \<lparr>rq_identifier = ''r1'', rq_role = ''hunter'', rq_prompt = ''hi'', rq_bound = Some demo_bound,
     rq_exact_model_id = None, rq_planned_prompt = Some 2, rq_planned_visible = Some 3,
     rq_planned_reasoning = Some 1, rq_planned_completion = Some 4, rq_plan_sha256 = None,
     rq_limit_scope = None\<rparr>"

lemmas decimal_eval = dmul_def dsum_def dadd_def dsub_def dquantize_def dscale_def common_exp_def dec_of_int_def
  dzero_def ndigits_le_iff cost_prec_def default_prec_def dlt_def

lemma demo_cost: "bound_maximum_cost demo_bound = Inr (Dec 2500000000000000000 (- 18))"
  by (simp add: bound_maximum_cost_def demo_bound_def component_maximum_cost_def decimal_eval)

lemma demo_ids: "is_model_id ''vendor/model''" "is_endpoint_id ''vendor''" "is_sha256_hex (demo_sha x)"
  "is_role_id ''hunter''"
  unfolding demo_sha_def by code_simp+

lemma demo_sort: "sort [''completion'', ''prompt''] = [''completion'', ''prompt'']"
  by code_simp

lemma demo_bound_valid: "validate_cost_bound demo_sha demo_bound = Inr demo_bound"
  unfolding validate_cost_bound_def demo_cost
  by (simp add: demo_bound_def demo_ids demo_sort pricing_snapshot_hash_def)
    (simp add: demo_sha_def decimal_eval)

lemma fd: "float_decimal 10 = Dec 1 1"
  by code_simp

lemma fod: "float_of_decimal (Dec 2500000000000000000 (- 18)) = 5/2"
  by code_simp


definition demo_manager :: budget_manager where
  "demo_manager = \<lparr>bm_input_budget = Some 100, bm_output_budget = Some 100,
     bm_model_caps = [(''vendor/model'', Dec 5000000000000000000 (- 18))],
     bm_role_caps = [(''hunter'', Dec 4000000000000000000 (- 18))], bm_total_usd = 10,
     bm_max_output_tokens = 4, bm_rate = 1, bm_max_requests = 3, bm_ledger = Some demo_fresh,
     bm_require_bound = True, bm_spent = 0, bm_spent_exact = dzero, bm_reserved = [], bm_issued = [],
     bm_reconciled = [], bm_released = [], bm_pending = [], bm_limit_counts = [], bm_reserved_input = 0,
     bm_spent_input = 0, bm_reserved_output = 0, bm_spent_output = 0, bm_reserved_model = [],
     bm_spent_model = [], bm_reserved_role = [], bm_spent_role = [], bm_recovery_required = False\<rparr>"

lemma demo_caps: "parse_usd_cap (PriceInt 5) s = Inr (Dec 5000000000000000000 (- 18))"
  "parse_usd_cap (PriceInt 4) s = Inr (Dec 4000000000000000000 (- 18))"
  by (simp_all add: parse_usd_cap_def decimal_eval deq_def)

lemma demo_snapshot: "ledger_snapshot digits_codec demo_fresh = Inr (snapshot_of (Dec 10 0) [])"
  using demo_load(1) by (simp add: ledger_snapshot_def) (simp add: demo_fresh_def demo_ledger_def)

lemma demo_new: "new_manager demo_env 10 4 1 3 (Some demo_fresh) True (Some 100) (Some 100)
    (Some [(''vendor/model'', PriceInt 5)]) (Some [(''hunter'', PriceInt 4)]) = Inr demo_manager"
proof -
  have s: "cs_entries (snapshot_of (Dec 10 0) []) = []" "cs_spent_usd (snapshot_of (Dec 10 0) []) = dzero"
    by (simp_all add: snapshot_of_def Let_def dsum_def)
  have o: "\<not> cs_over_cap (snapshot_of (Dec 10 0) [])"
    using snapshot_exact(4) [of "[]" "Dec 10 0"] demo_amounts(1,4)
    by (simp add: entries_wf_def entries_exact_def entries_spent_def entries_held_def)
  have z: "float_of_decimal dzero = 0" by (simp add: float_of_decimal_def fl_def)
  show ?thesis
    by (simp add: new_manager_def demo_env_def demo_snapshot lift_ledger_def catch_as_def s o demo_caps demo_ids
        validate_scope_key_def validate_optional_tokens_def validate_token_count_def z
        demo_manager_def metered_def max_metered_units_def)
qed


lemma demo_utf8: "utf8_length ''hi'' = 2"
  by code_simp

definition demo_cost_usd :: decimal where
  "demo_cost_usd = Dec 2500000000000000000 (- 18)"

text \<open>The same manager over another ledger and with recovered reservations to adopt.\<close>

definition demo_with :: "atomic_cost_ledger \<Rightarrow> (string, recovered_attempt) dict \<Rightarrow> budget_manager" where
  "demo_with led ps = demo_manager\<lparr>bm_ledger := Some led, bm_pending := ps\<rparr>"

lemma demo_manager_with: "demo_manager = demo_with demo_fresh []"
  by (simp add: demo_with_def demo_manager_def)

lemma demo_maximum: "maximum_request_cost demo_env (demo_with led ps) demo_rq = Inr demo_cost_usd"
  unfolding maximum_request_cost_def demo_cost_usd_def
  by (simp add: demo_rq_def demo_cost)
    (simp add: demo_env_def demo_bound_def demo_sha_def maximum_units_for_def demo_utf8 demo_with_def demo_manager_def)

definition demo_scope :: resolved_scope where
  "demo_scope = \<lparr>rv_model = Some ''vendor/model'', rv_prompt = Some 2, rv_visible = Some 3,
     rv_reasoning = Some 1, rv_completion = Some 4, rv_plan = None\<rparr>"

lemma demo_request_scope: "validate_request_scope (demo_with led ps) demo_rq = Inr demo_scope"
  by (simp add: validate_request_scope_def demo_rq_def demo_ids validate_scope_key_def resolve_model_def
      demo_bound_def validate_optional_tokens_def validate_token_count_def metered_def max_metered_units_def Let_def
      check_token_ceilings_def maximum_units_for_def demo_scope_def)

lemma demo_capacity: "require_scoped_capacity (demo_with led ps) ''hunter'' demo_scope demo_cost_usd = Inr ()"
  by (simp add: require_scoped_capacity_def demo_with_def demo_manager_def demo_scope_def exceeds_token_budget_def
      require_usd_scope_capacity_def dict_get_default_def decimal_eval demo_cost_usd_def)

definition demo_planned :: budget_reservation where
  "demo_planned = \<lparr>br_identifier = ''r1'', br_estimated_cost_usd = 5 / 2, br_persistent = None,
     br_endpoint_cost_bound = Some demo_bound, br_exact_model_id = Some ''vendor/model'',
     br_role = Some ''hunter'', br_planned_prompt = Some 2, br_planned_visible_output = Some 3,
     br_planned_reasoning = Some 1, br_planned_completion = Some 4, br_plan_sha256 = None,
     br_token_evidence = None, br_limit_scope = None, br_limit_evidence = None\<rparr>"

lemma demo_plan:
  assumes "check_adoption (demo_with led ps) demo_rq demo_scope demo_cost_usd = Inr ()"
  shows "reserve_plan demo_env demo_rq (demo_with led ps) = Inr (demo_cost_usd, demo_scope, 0, demo_planned)"
proof -
  have f: "float_decimal (bm_total_usd (demo_with led ps)) = Dec 1 1" by (simp add: demo_with_def demo_manager_def fd)
  have v: "validate_reservation demo_planned = Inr demo_planned"
    by (simp add: validate_reservation_def split_error_def demo_planned_def)
  have e: "make_token_evidence demo_env (demo_with led ps) demo_rq demo_scope = Inr None"
    "make_limit_evidence demo_env (demo_with led ps) demo_rq demo_scope 0 = Inr None"
    by (simp_all add: make_token_evidence_def make_limit_evidence_def demo_scope_def demo_rq_def)
  have r: "reserved_usd_exact (demo_with led ps) = dzero" "bm_spent_exact (demo_with led ps) = dzero"
    by (simp_all add: reserved_usd_exact_def demo_with_def demo_manager_def dsum_def)
  have d: "\<not> dlt (dsub default_prec (dsub default_prec (Dec 1 1) dzero) dzero) demo_cost_usd"
    by (simp add: decimal_eval demo_cost_usd_def)
  have p: "demo_planned = \<lparr>br_identifier = rq_identifier demo_rq, br_estimated_cost_usd = float_of_decimal demo_cost_usd,
     br_persistent = None, br_endpoint_cost_bound = rq_bound demo_rq, br_exact_model_id = rv_model demo_scope,
     br_role = Some (rq_role demo_rq), br_planned_prompt = rv_prompt demo_scope,
     br_planned_visible_output = rv_visible demo_scope, br_planned_reasoning = rv_reasoning demo_scope,
     br_planned_completion = rv_completion demo_scope, br_plan_sha256 = rv_plan demo_scope,
     br_token_evidence = None, br_limit_scope = map_option scope_identifier (rq_limit_scope demo_rq),
     br_limit_evidence = None\<rparr>"
    unfolding demo_cost_usd_def fod by (simp add: demo_planned_def demo_rq_def demo_scope_def)
  have k: "\<not> bm_recovery_required (demo_with led ps)" "rq_limit_scope demo_rq = None"
    "dict_get_default (bm_limit_counts (demo_with led ps)) (limit_key_of demo_rq) 0 = 0"
    "bm_issued (demo_with led ps) = []" "bm_max_requests (demo_with led ps) = 3" "rq_role demo_rq = ''hunter''"
    by (simp_all add: demo_with_def demo_manager_def demo_rq_def dict_get_default_def)
  show ?thesis
    unfolding reserve_plan_def demo_maximum f r Let_def
    by (simp add: k demo_request_scope assms d demo_capacity e v p [simplified k, simplified, symmetric])
qed


lemma demo_cost_ok: "money_ok True demo_cost_usd" "on_grid 18 demo_cost_usd" "val demo_cost_usd = 5 / 2"
proof -
  show v: "val demo_cost_usd = 5 / 2" by (simp add: demo_cost_usd_def val_def power_int_def power_one_over)
  show "on_grid 18 demo_cost_usd" by (simp add: demo_cost_usd_def on_gridI)
  show "money_ok True demo_cost_usd"
    using money_ok_cong [of "Dec 25 (- 1)" demo_cost_usd True] demo_amounts(2) v
    by (simp add: val_def power_int_def)
qed

lemma digit_string_power: "0 < n \<Longrightarrow> digit_string (n * 10 ^ k) = digit_string n @ replicate k (CHR ''0'')"
proof (induction k)
  case (Suc k)
  have z: "char_of (48 :: nat) = CHR ''0''" by code_simp
  have "digit_string (n * 10 ^ Suc k) = digit_string (n * 10 ^ k) @ [char_of (48 :: nat)]"
    using Suc.prems by (subst digit_string.simps) (simp add: mult.assoc [symmetric])
  then show ?case using Suc by (simp add: z replicate_append_same)
qed simp

lemma demo_cost_text: "money_text demo_cost_usd = ''2.5''" "money_text (Dec 25 (- 1)) = ''2.5''"
proof -
  show "money_text (Dec 25 (- 1)) = ''2.5''" by code_simp
  have d: "digit_string 2 = ''2''" "digit_string 5 = ''5''" by code_simp+
  have "digit_string 500000000000000000 = ''5'' @ replicate 17 (CHR ''0'')"
    using digit_string_power [of 5 17] d by simp
  then have "format_f demo_cost_usd = ''2.5'' @ replicate 17 (CHR ''0'')"
    by (simp add: demo_cost_usd_def format_f_def d)
  then show "money_text demo_cost_usd = ''2.5''"
    by (simp add: money_text_def rstrip_char_def dropWhile_append)
qed

lemma demo_stored: "demo_held = store_entries digits_codec demo_fresh
    [(''r1'', reserved_entry ''r1'' demo_id demo_cost_usd 7)]"
  by (simp add: demo_held_def store_entries_def write_state_def serialize_state_def serialize_entry_def
      demo_entry_def reserved_entry_def demo_cost_text)

definition demo_persistent :: cost_reservation where
  "demo_persistent = \<lparr>cr_request_id = ''r1'', cr_reservation_id = demo_id, cr_reserved_usd = demo_cost_usd\<rparr>"

lemma demo_ledger_reserve:
  "ledger_reserve digits_codec 7 demo_id ''r1'' (DFin demo_cost_usd) demo_fresh = (Inr demo_persistent, demo_held)"
proof -
  have m: "matches_ident ident_char 127 ''r1''" by code_simp
  have a: "validate_money (DFin demo_cost_usd) ''maximum_cost_usd'' True = Inr demo_cost_usd"
    using demo_cost_ok(1) by (simp add: validate_money_iff money_ok_def)
  have cap: "al_cap_usd demo_fresh = Dec 10 0" by (simp add: demo_fresh_def demo_ledger_def)
  note snap = snapshot_exact [of "[]" "Dec 10 0", unfolded entries_spent_def entries_held_def
      entries_overrun_def entries_wf_def entries_exact_def, simplified]
  show ?thesis
    using m a snap demo_amounts demo_cost_ok(3)
    by (simp add: ledger_reserve_def reserve_checks_def demo_load(1) cap validate_request_id_def
        demo_persistent_def dcmp_iff demo_stored [symmetric] result_simps)
qed

definition demo_reservation :: budget_reservation where
  "demo_reservation = demo_planned\<lparr>br_persistent := Some demo_persistent\<rparr>"

definition demo_reserved :: budget_manager where
  "demo_reserved = demo_manager\<lparr>bm_ledger := Some demo_held, bm_reserved := [(''r1'', demo_cost_usd)],
     bm_limit_counts := [(RoleKey ''hunter'', 1)], bm_issued := [(''r1'', demo_reservation)],
     bm_reserved_input := 2, bm_reserved_output := 4,
     bm_reserved_model := [(''vendor/model'', demo_cost_usd)], bm_reserved_role := [(''hunter'', demo_cost_usd)]\<rparr>"

lemma demo_manager_reserve: "manager_reserve demo_env demo_rq demo_manager = (Inr demo_reservation, demo_reserved)"
proof -
  have d: "reserve_durable demo_env demo_rq demo_cost_usd demo_manager = (Inr (Some demo_persistent), Some demo_held)"
    using demo_ledger_reserve by (simp add: reserve_durable_def demo_manager_def demo_env_def demo_rq_def)
  have z: "dadd default_prec dzero demo_cost_usd = demo_cost_usd" by (simp add: decimal_eval demo_cost_usd_def)
  have "check_adoption demo_manager demo_rq demo_scope demo_cost_usd = Inr ()"
    by (simp add: check_adoption_def demo_manager_def)
  note pl = demo_plan [OF this [unfolded demo_manager_with], folded demo_manager_with]
  show ?thesis
    unfolding manager_reserve_def pl
    by (simp add: d) (simp add: demo_reserved_def demo_reservation_def demo_planned_def demo_manager_def demo_rq_def
        reserve_scoped_def opt_increment_def increment_decimal_def opt_tokens_def limit_key_of_def
        dict_get_default_def z Let_def)
qed


definition demo_env_later :: call_env where
  "demo_env_later = demo_env\<lparr>env_now := 9\<rparr>"

definition demo_paid_usd :: decimal where
  "demo_paid_usd = Dec 2000000000000000000 (- 18)"

lemma demo_paid_ok: "money_ok False demo_paid_usd" "on_grid 18 demo_paid_usd" "val demo_paid_usd = 2"
proof -
  show v: "val demo_paid_usd = 2" by (simp add: demo_paid_usd_def val_def power_int_def power_one_over)
  show "on_grid 18 demo_paid_usd" by (simp add: demo_paid_usd_def on_gridI)
  show "money_ok False demo_paid_usd"
    using money_ok_cong [of "Dec 20 (- 1)" demo_paid_usd False] demo_amounts(3) v
    by (simp add: val_def power_int_def)
qed

lemma demo_matching: "matching_entry [(''r1'', demo_entry)] demo_persistent = Inr demo_entry"
proof -
  have "matches_ident ident_char 127 ''r1''" by code_simp
  then show ?thesis
    using demo_cost_ok(1,3)
    by (intro matching_entry_ok)
      (simp_all add: demo_persistent_def demo_entry_def reserved_entry_def val_def power_int_def)
qed

definition demo_ledger_paid :: atomic_cost_ledger where
  "demo_ledger_paid = store_entries digits_codec demo_held
     [(''r1'', reconciled_entry demo_entry demo_persistent (Some demo_paid_usd) 9)]"

lemma demo_ledger_reconcile:
  "ledger_reconcile digits_codec 9 demo_persistent (Some (DFin demo_paid_usd)) demo_held
     = (Inr (reconciled_entry demo_entry demo_persistent (Some demo_paid_usd) 9), demo_ledger_paid)"
proof -
  have v: "validate_actual (Some (DFin demo_paid_usd)) = Inr (Some demo_paid_usd)"
    using demo_paid_ok by (simp add: validate_actual_def validate_money_iff money_ok_def result_simps)
  have s: "settle_status demo_persistent (Some demo_paid_usd) = RECONCILED"
    using demo_paid_ok(3) demo_cost_ok(3) by (simp add: settle_status_def dlt_iff demo_persistent_def)
  have e: "ce_status demo_entry = RESERVED" "ce_request_id demo_entry = ''r1''"
    by (simp_all add: demo_entry_def reserved_entry_def)
  show ?thesis
    using reconcile_settles [OF demo_load(2) [unfolded demo_canon] demo_matching e(1) v, of 9]
    by (simp add: s e demo_ledger_paid_def)
qed

definition demo_usage :: actual_usage where
  "demo_usage = \<lparr>au_cost = Some demo_paid_usd, au_prompt = Some 2, au_completion = Some 4, au_reasoning = Some 1\<rparr>"

definition demo_paid :: budget_manager where
  "demo_paid = demo_reserved\<lparr>bm_ledger := Some demo_ledger_paid, bm_reserved := [], bm_reserved_input := 0,
     bm_reserved_output := 0, bm_reserved_model := [], bm_reserved_role := [], bm_spent_input := 2,
     bm_spent_output := 4, bm_spent_model := [(''vendor/model'', demo_paid_usd)],
     bm_spent_role := [(''hunter'', demo_paid_usd)], bm_spent := 2, bm_spent_exact := demo_paid_usd,
     bm_reconciled := [(''r1'', reconciliation_of demo_reservation demo_usage demo_paid_usd False)]\<rparr>"

lemma demo_normalize: "normalize_usage (Some (CostInt 2)) (Some 2) (Some 4) (Some 1) = Inr demo_usage"
  by (simp add: normalize_usage_def normalize_actual_cost_def decimal_eval validate_optional_tokens_def
      validate_token_count_def metered_def max_metered_units_def demo_usage_def demo_paid_usd_def)

lemma demo_issued: "issued_matches demo_reserved demo_reservation"
  by (auto simp: issued_matches_def demo_reserved_def demo_reservation_def demo_planned_def eq_reservation_def
      eq_cost_reservation_def eq_cost_bound_def deq_iff eq_component_def eq_option_def
      intro: list_all2_refl)


lemma demo_checks: "reconcile_checks demo_reserved demo_reservation demo_usage = Inr demo_cost_usd"
  by (simp add: reconcile_checks_def demo_reserved_def demo_reservation_def demo_planned_def demo_usage_def
      demo_manager_def)

lemma demo_no_overrun: "\<not> token_overrun_of demo_reservation demo_usage"
  by (simp add: token_overrun_of_def demo_reservation_def demo_planned_def demo_usage_def or_else_def
      accounted_reasoning_def reasoning_observation_missing_def opt_greater_def)

lemma demo_floats: "float_of_decimal demo_paid_usd = 2" "fadd 0 2 = 2"
  unfolding demo_paid_usd_def by code_simp+

lemma demo_release_scoped:
  "release_scoped demo_reservation demo_cost_usd (demo_reserved\<lparr>bm_ledger := l, bm_reserved := []\<rparr>)
     = (Inr (), demo_reserved\<lparr>bm_ledger := l, bm_reserved := [], bm_reserved_input := 0, bm_reserved_output := 0,
          bm_reserved_model := [], bm_reserved_role := []\<rparr>)"
  by (simp add: release_scoped_def demo_reservation_def demo_planned_def demo_reserved_def opt_decrement_def
      decrement_decimal_def opt_tokens_def demo_cost_usd_def decimal_eval deq_def AList.delete_simps)

lemma demo_manager_reconcile:
  "manager_reconcile demo_env_later demo_reservation (Some (CostInt 2)) (Some 2) (Some 4) (Some 1) demo_reserved
     = (Inr 2, demo_paid)"
proof -
  have f: "dict_get (bm_reconciled demo_reserved) x = None" "br_identifier demo_reservation = ''r1''"
    "AList.delete ''r1'' (bm_reserved demo_reserved) = []" for x
    by (simp_all add: demo_reserved_def demo_manager_def demo_reservation_def demo_planned_def AList.delete_simps)
  have d: "reconcile_durable demo_env_later demo_reservation (au_cost demo_usage) demo_reserved
      = (Inr None, Some demo_ledger_paid)"
    using demo_ledger_reconcile
    by (simp add: reconcile_durable_def demo_env_later_def demo_env_def demo_usage_def demo_reserved_def
        demo_reservation_def)
  have o: "\<not> dlt demo_cost_usd demo_paid_usd" using demo_cost_ok(3) demo_paid_ok(3) by (simp add: dlt_iff)
  have z: "dadd default_prec dzero demo_paid_usd = demo_paid_usd" by (simp add: decimal_eval demo_paid_usd_def)
  have u: "au_cost demo_usage = Some demo_paid_usd" "or_else (au_prompt demo_usage) (br_planned_prompt demo_reservation) = Some 2"
    "or_else (au_completion demo_usage) (br_planned_completion demo_reservation) = Some 4"
    "br_exact_model_id demo_reservation = Some ''vendor/model''" "br_role demo_reservation = Some ''hunter''"
    by (simp_all add: demo_usage_def or_else_def demo_reservation_def demo_planned_def)
  have "finish_reconcile demo_env_later demo_reservation demo_usage demo_cost_usd demo_reserved = (Inr 2, demo_paid)"
    unfolding finish_reconcile_def d close_scoped_reservation_def
    by (simp add: f demo_release_scoped u o demo_no_overrun demo_floats Let_def)
      (simp add: demo_paid_def demo_reserved_def demo_manager_def z demo_floats opt_tokens_def opt_increment_def
        increment_decimal_def dict_get_default_def)
  then show ?thesis
    by (simp add: manager_reconcile_def demo_normalize demo_issued f demo_checks)
qed

definition demo_ledger_released :: atomic_cost_ledger where
  "demo_ledger_released = store_entries digits_codec demo_held
     [(''r1'', released_entry demo_entry FAILED_BEFORE_SEND 9)]"

definition demo_released :: budget_manager where
  "demo_released = demo_reserved\<lparr>bm_ledger := Some demo_ledger_released, bm_reserved := [], bm_reserved_input := 0,
     bm_reserved_output := 0, bm_reserved_model := [], bm_reserved_role := [], bm_released := [''r1'']\<rparr>"

lemma demo_manager_release:
  "manager_release demo_env_later demo_reservation demo_reserved = (Inr (), demo_released)"
proof -
  have e: "ce_status demo_entry = RESERVED" "ce_request_id demo_entry = ''r1''"
    by (simp_all add: demo_entry_def reserved_entry_def)
  have "ledger_release digits_codec 9 demo_persistent FAILED_BEFORE_SEND demo_held
     = (Inr (released_entry demo_entry FAILED_BEFORE_SEND 9), demo_ledger_released)"
    using release_settles [OF demo_load(2) [unfolded demo_canon] demo_matching e(1)]
    by (simp add: e demo_ledger_released_def)
  then have d: "release_durable demo_env_later demo_reservation demo_reserved = (Inr (), Some demo_ledger_released)"
    by (simp add: release_durable_def demo_env_later_def demo_env_def demo_reserved_def demo_reservation_def)
  have f: "bm_reconciled demo_reserved = []" "br_identifier demo_reservation = ''r1''"
    "bm_reserved demo_reserved = [(''r1'', demo_cost_usd)]" "bm_released demo_reserved = []"
    by (simp_all add: demo_reserved_def demo_manager_def demo_reservation_def demo_planned_def)
  show ?thesis
    by (simp add: manager_release_def demo_issued d f AList.delete_simps demo_release_scoped)
      (simp add: demo_released_def f)
qed


section \<open>Adopting a recovered reservation\<close>

definition demo_attempt :: recovered_attempt where
  "demo_attempt = \<lparr>ra_request_id = ''r1'', ra_logical_request_id = ''t1'', ra_task_id = ''t1'',
     ra_requested_model = ''vendor/model'', ra_role = ''hunter'', ra_status = ''adopted_proven_pre_send'',
     ra_reserved_cost = DFin (Dec 25 (- 1)), ra_accounted_cost = DFin dzero\<rparr>"

definition demo_recovered :: budget_manager where
  "demo_recovered = demo_with demo_held [(''r1'', demo_attempt)]"

lemma demo_adopts: "\<exists>r m. manager_reserve demo_env demo_rq demo_recovered = (Inr r, m)"
proof -
  have m: "matches_ident ident_char 127 ''r1''" by code_simp
  have c: "check_adoption (demo_with demo_held [(''r1'', demo_attempt)]) demo_rq demo_scope demo_cost_usd = Inr ()"
    using demo_cost_ok(3) by (simp add: check_adoption_def demo_with_def demo_manager_def demo_rq_def demo_attempt_def
        demo_scope_def deq_iff val_def power_int_def)
  have a: "active_reservation digits_codec ''r1'' demo_held = Inr (Some demo_handle)"
    using m demo_load(2) [unfolded demo_canon]
    by (simp add: active_reservation_def as_reservation_def validate_request_id_def demo_entry_def reserved_entry_def demo_handle_def)
  have "reserve_durable demo_env demo_rq demo_cost_usd demo_recovered = (Inr (Some demo_handle), Some demo_held)"
    by (simp add: reserve_durable_def demo_recovered_def demo_with_def demo_manager_def demo_rq_def demo_env_def
        a lift_ledger_def catch_as_def demo_handle_def demo_attempt_def deq_iff)
  then show ?thesis
    using demo_plan [OF c] by (simp add: manager_reserve_def demo_recovered_def Let_def)
qed

end
