(* ===== verification/Budget_Sync.thy ===== *)
theory Budget_Sync
  imports Budget_Guard
begin

text \<open>
  The budget manager and the durable ledger: in a run from a fresh manager the totals in memory
  are the totals of the ledger file.
\<close>

section \<open>Agreement with the durable ledger\<close>

text \<open>The environment of a call the ledger can follow.\<close>

definition durable_env :: "iso_codec \<Rightarrow> call_env \<Rightarrow> budget_manager \<Rightarrow> bool" where
  "durable_env tc env m \<longleftrightarrow> env_codec env = tc \<and> fresh_id_ok (env_fresh_id env)
     \<and> (case bm_ledger m of None \<Rightarrow> False | Some led \<Rightarrow> clock_ok tc (env_now env) led)"

definition backed :: "iso_codec \<Rightarrow> budget_manager \<Rightarrow> atomic_cost_ledger \<Rightarrow> string \<Rightarrow> decimal \<Rightarrow> bool" where
  "backed tc m led i c \<longleftrightarrow> ledger_book tc led i = Some (reserved_account (val c))
     \<and> (\<exists>r p. dict_get (bm_issued m) i = Some r \<and> br_persistent r = Some p \<and> cr_request_id p = i)"

definition ledger_synced :: "iso_codec \<Rightarrow> budget_manager \<Rightarrow> bool" where
  "ledger_synced tc m \<longleftrightarrow> bm_pending m = [] \<and>
     (case bm_ledger m of None \<Rightarrow> False
      | Some led \<Rightarrow> ledger_ready tc led
          \<and> (\<forall>i. dict_has (bm_issued m) i \<longrightarrow> dict_has (bm_reserved m) i
               \<or> dict_has (bm_reconciled m) i \<or> i \<in> set (bm_released m))
          \<and> (\<forall>i c. dict_get (bm_reserved m) i = Some c \<longrightarrow> backed tc m led i c)
          \<and> ledger_spent tc led = val (bm_spent_exact m) \<and> ledger_held tc led = held_total m)"

lemma ledger_synced_Some:
  assumes "ledger_synced tc m"
  obtains led where "bm_ledger m = Some led" "ledger_ready tc led" "bm_pending m = []"
    "\<And>i c. dict_get (bm_reserved m) i = Some c \<Longrightarrow> backed tc m led i c"
    "ledger_spent tc led = val (bm_spent_exact m)" "ledger_held tc led = held_total m"
    "\<And>i. dict_has (bm_issued m) i \<Longrightarrow> dict_has (bm_reserved m) i \<or> dict_has (bm_reconciled m) i
       \<or> i \<in> set (bm_released m)"
proof -
  from assms obtain led where "bm_ledger m = Some led" by (auto simp: ledger_synced_def split: option.splits)
  with assms that show thesis by (simp add: ledger_synced_def)
qed

lemma reserve_synced:
  assumes "manager_ok m" "ledger_synced tc m" "durable_env tc env m" "bound_valid env rq"
    and "manager_reserve env rq m = (Inr r, m')"
  shows "ledger_synced tc m'"
proof -
  from assms(5) obtain c v n planned p led' where pl: "reserve_plan env rq m = Inr (c, v, n, planned)"
    and d: "reserve_durable env rq c m = (Inr p, led')" and r: "r = planned\<lparr>br_persistent := p\<rparr>"
    and m': "m' = (let m1 = m\<lparr>bm_ledger := led',
             bm_reserved := AList.update (rq_identifier rq) c (bm_reserved m),
             bm_limit_counts := AList.update (limit_key_of rq) (n + 1) (bm_limit_counts m),
             bm_issued := AList.update (rq_identifier rq) r (bm_issued m)\<rparr>;
           m2 = reserve_scoped r c m1
       in m2\<lparr>bm_pending := AList.delete (rq_identifier rq) (bm_pending m2)\<rparr>)"
    by (rule manager_reserve_Inr)
  obtain led where led: "bm_ledger m = Some led" and rd: "ledger_ready tc led" and pe: "bm_pending m = []"
    and bk: "\<And>i c. dict_get (bm_reserved m) i = Some c \<Longrightarrow> backed tc m led i c"
    and sp: "ledger_spent tc led = val (bm_spent_exact m)" and hd: "ledger_held tc led = held_total m"
    and cv: "\<And>i. dict_has (bm_issued m) i \<Longrightarrow> dict_has (bm_reserved m) i \<or> dict_has (bm_reconciled m) i
       \<or> i \<in> set (bm_released m)"
    by (rule ledger_synced_Some [OF assms(2)]) blast
  note rp = reserve_plan_Inr [OF pl]
  let ?i = "rq_identifier rq"
  have cost: "on_grid 18 c" using certified_cost(1) [OF rp(1) _ assms(4)] assms(1)
    by (simp add: manager_ok_def manager_config_def)
  from d obtain q l where lr: "ledger_reserve tc (env_now env) (env_fresh_id env) ?i (DFin c) led = (Inr q, l)"
    and q: "p = Some q" "led' = Some l"
    using assms(3) pe led by (auto simp: reserve_durable_def Let_def durable_env_def split: sum.splits prod.splits
        cost_error.splits)
  have env: "fresh_id_ok (env_fresh_id env)" "valid_instant (env_now env)"
    using assms(3) led by (simp_all add: durable_env_def clock_ok_def)
  have am: "amount_exact (DFin c)" using cost by (simp add: amount_exact_def)
  note ef = reserve_effect [OF rd am env lr]
  have vq: "val (cr_reserved_usd q) = val c" using ef(9) by simp
  have qi: "cr_request_id q = ?i" using lr by (auto simp: ledger_reserve_def split: sum.splits)
  have fl: "bm_reserved m' = AList.update ?i c (bm_reserved m)" "bm_issued m' = AList.update ?i r (bm_issued m)"
    "bm_ledger m' = Some l" "bm_pending m' = []" "bm_spent_exact m' = bm_spent_exact m"
    using pe q by (simp_all add: m' Let_def reserve_scoped_def)
  have fresh: "\<not> dict_has (bm_reserved m) ?i"
    using assms(1) rp(3) unfolding manager_ok_def manager_shape_def by blast
  have "backed tc m' l j x" if "dict_get (bm_reserved m') j = Some x" for j x
    using that bk [of j x] fl(2) ef(3) vq qi r q
    by (auto simp: fl(1) dict_get_update backed_def simp del: map_of_eq_Some_iff split: if_splits)
  moreover have "dict_has (bm_reserved m') j \<or> dict_has (bm_reconciled m') j \<or> j \<in> set (bm_released m')"
    if "dict_has (bm_issued m') j" for j
  proof -
    have "bm_reconciled m' = bm_reconciled m" "bm_released m' = bm_released m"
      by (simp_all add: m' Let_def reserve_scoped_def)
    then show ?thesis using that cv [of j] by (auto simp: fl(1,2) set_keys_update simp del: set_map)
  qed
  ultimately show ?thesis
    using fl ef(1,5,6) sp hd vq held_reserve(1) [OF fl(1,2) fresh] unfolding ledger_synced_def by simp
qed

lemma book_reserved:
  assumes "ledger_ready tc led" "ledger_book tc led i = Some (reserved_account x)"
  obtains e where "dict_get (view_entries tc led) i = Some e" "ce_status e = RESERVED"
    "val (ce_reserved_usd e) = x"
  using assms ready_view(1) [OF assms(1)]
  by (auto simp: ledger_book_def book_of_def abs_account_def reserved_account_def)

lemma issued_persistent:
  assumes "issued_matches m r" "backed tc m led (br_identifier r) c"
  obtains p where "br_persistent r = Some p" "cr_request_id p = br_identifier r"
  using assms
  by (cases "br_persistent r")
    (auto simp: issued_matches_def backed_def eq_reservation_def eq_option_def eq_cost_reservation_def
      split: option.splits)

text \<open>What a settlement of an active reservation does to the ledger's totals.\<close>

lemma reconcile_durable_effect:
  assumes "ledger_ready tc led" "bm_ledger m = Some led" "durable_env tc env m" "br_persistent r = Some p"
    and "ledger_book tc led (cr_request_id p) = Some (reserved_account x)"
    and "\<And>a. act = Some a \<Longrightarrow> on_grid 18 a" "reconcile_durable env r act m = (Inr None, l)"
  obtains led' a where "l = Some led'" "ledger_ready tc led'"
    "ledger_book tc led' = (ledger_book tc led)(cr_request_id p \<mapsto> a)"
    "ledger_held tc led' = ledger_held tc led - x"
    "ledger_spent tc led' = ledger_spent tc led + (case act of None \<Rightarrow> x | Some d \<Rightarrow> val d)"
proof -
  obtain e led' where lr: "ledger_reconcile tc (env_now env) p (map_option DFin act) led = (Inr e, led')"
    and l: "l = Some led'"
    using assms(2-4,7) by (auto simp: reconcile_durable_def durable_env_def Let_def
        split: sum.splits prod.splits cost_error.splits)
  have ae: "actual_exact (map_option DFin act)"
    using assms(6) by (cases act) (auto simp: actual_exact_def amount_exact_def)
  have ck: "clock_ok tc (env_now env) led" using assms(2,3) by (simp add: durable_env_def)
  obtain c0 where c0: "dict_get (view_entries tc led) (cr_request_id p) = Some c0" "ce_status c0 = RESERVED"
    "val (ce_reserved_usd c0) = x"
    by (rule book_reserved [OF assms(1,5)])
  from assms(1) ae ck lr show thesis
  proof (cases rule: reconcile_cases)
    case unchanged
    then show thesis using c0 by blast
  next
    case (settled c actual)
    let ?u = "reconciled_entry c p actual (env_now env)"
    have nr: "ce_status ?u \<noteq> RESERVED" "ce_request_id ?u = ce_request_id c"
      by (auto simp: reconciled_entry_def settle_status_def split: option.splits)
    note ef = settle_effect [OF assms(1) settled(1,2,5,6) nr(2,1) settled(8)]
    have "c = c0" using settled(1) c0(1) by simp
    moreover have "val (ce_accounted_cost_usd ?u) = ac_accounted (abs_account ?u)" by (simp add: abs_account_def)
    moreover have "actual_value (map_option DFin act) = map_option val act"
      by (cases act) (simp_all add: actual_value_def)
    ultimately show thesis
      using that [OF l ef(1,3)] ef(4,5) settled(7) c0(3)
      by (cases act) (simp_all add: settled_account_def)
  qed
qed

lemma release_durable_effect:
  assumes "ledger_ready tc led" "bm_ledger m = Some led" "durable_env tc env m" "br_persistent r = Some p"
    and "ledger_book tc led (cr_request_id p) = Some (reserved_account x)"
    and "release_durable env r m = (Inr (), l)"
  obtains led' a where "l = Some led'" "ledger_ready tc led'"
    "ledger_book tc led' = (ledger_book tc led)(cr_request_id p \<mapsto> a)"
    "ledger_held tc led' = ledger_held tc led - x" "ledger_spent tc led' = ledger_spent tc led"
proof -
  obtain e led' where lr: "ledger_release tc (env_now env) p FAILED_BEFORE_SEND led = (Inr e, led')"
    and l: "l = Some led'"
    using assms(2-4,6) by (auto simp: release_durable_def durable_env_def Let_def
        split: sum.splits prod.splits)
  have ck: "clock_ok tc (env_now env) led" using assms(2,3) by (simp add: durable_env_def)
  obtain c0 where c0: "dict_get (view_entries tc led) (cr_request_id p) = Some c0" "ce_status c0 = RESERVED"
    "val (ce_reserved_usd c0) = x"
    by (rule book_reserved [OF assms(1,5)])
  from assms(1) ck lr show thesis
  proof (cases rule: release_cases)
    case unchanged
    then show thesis using c0 by blast
  next
    case (settled c)
    let ?u = "released_entry c FAILED_BEFORE_SEND (env_now env)"
    have nr: "ce_status ?u \<noteq> RESERVED" "ce_request_id ?u = ce_request_id c"
      "ce_accounted_cost_usd ?u = dzero" by (simp_all add: released_entry_def)
    note ef = settle_effect [OF assms(1) settled(1,2,4,5) nr(2,1) settled(6)]
    show thesis using that [OF l ef(1,3)] ef(4,5) nr(3) c0 settled(1) by simp
  qed
qed

text \<open>One reservation settled on both sides by the same amount.\<close>

lemma settle_synced:
  assumes "manager_shape m" "ledger_synced tc m" "settled_fields m r m'" "bm_ledger m = Some led"
    and "dict_get (bm_reserved m) (br_identifier r) = Some c"
    and "dict_has (bm_reconciled m') (br_identifier r) \<or> br_identifier r \<in> set (bm_released m')"
    and "bm_ledger m' = Some led'" "bm_pending m' = bm_pending m" "ledger_ready tc led'"
    and "ledger_book tc led' = (ledger_book tc led)(br_identifier r \<mapsto> a)"
    and "ledger_held tc led' = ledger_held tc led - val c" "ledger_spent tc led' = val (bm_spent_exact m')"
  shows "ledger_synced tc m'"
proof -
  note f = assms(3) [unfolded settled_fields_def]
  have fr: "bm_reserved m' = AList.delete (br_identifier r) (bm_reserved m)" "bm_issued m' = bm_issued m"
    using f by blast+
  have d: "distinct (dict_keys (bm_reserved m))" using assms(1) by (simp add: manager_shape_def)
  have sy: "bm_pending m = []" "\<And>i c. dict_get (bm_reserved m) i = Some c \<Longrightarrow> backed tc m led i c"
    "ledger_held tc led = held_total m" "\<And>i. dict_has (bm_issued m) i \<Longrightarrow> dict_has (bm_reserved m) i
      \<or> dict_has (bm_reconciled m) i \<or> i \<in> set (bm_released m)"
    using assms(2,4) unfolding ledger_synced_def by auto
  have "backed tc m' led' j x" if "dict_get (bm_reserved m') j = Some x" for j x
  proof -
    have j: "j \<noteq> br_identifier r" "dict_get (bm_reserved m) j = Some x"
      using that unfolding fr dict_get_delete by (auto split: if_splits)
    show ?thesis using sy(2) [OF j(2)] j(1) assms(10) by (simp add: backed_def fr)
  qed
  moreover have "dict_has (bm_reserved m') j \<or> dict_has (bm_reconciled m') j \<or> j \<in> set (bm_released m')"
    if "dict_has (bm_issued m') j" for j
  proof (cases "j = br_identifier r")
    case False
    then show ?thesis using that sy(4) [of j] f unfolding fr dict_has_iff dict_get_delete by auto
  qed (use assms(6) in blast)
  ultimately show ?thesis
    using sy(1,3) assms(7-9,11,12) held_settle(1) [OF fr d assms(5)] unfolding ledger_synced_def by simp
qed


lemma synced_reservation:
  assumes "ledger_synced tc m" "issued_matches m r" "dict_get (bm_reserved m) (br_identifier r) = Some c"
  obtains led p where "bm_ledger m = Some led" "ledger_ready tc led" "br_persistent r = Some p"
    "cr_request_id p = br_identifier r" "ledger_book tc led (br_identifier r) = Some (reserved_account (val c))"
    "ledger_spent tc led = val (bm_spent_exact m)"
proof -
  obtain led where led: "bm_ledger m = Some led" "ledger_ready tc led"
    "ledger_spent tc led = val (bm_spent_exact m)" "backed tc m led (br_identifier r) c"
    using assms(3) by (rule_tac ledger_synced_Some [OF assms(1)]) blast
  then show thesis
    by (rule_tac issued_persistent [OF assms(2) led(4)]) (use that led in \<open>auto simp: backed_def\<close>)
qed

lemma reconcile_synced:
  assumes "manager_ok m" "ledger_synced tc m" "durable_env tc env m"
    and "manager_reconcile env r cost prompt completion reasoning m = (res, m')" "\<not> manager_overrun m'"
  shows "ledger_synced tc m'"
  using assms(4)
proof (cases rule: manager_reconcile_cases)
  case (finish u c)
  have sh: "manager_shape m" using assms(1) by (simp add: manager_ok_def)
  note ck = reconcile_checks_Inr [OF finish(4)]
  have nov: "\<not> manager_overrun m" using reconcile_overrun [OF assms(4)] assms(5) by blast
  then have tt: "manager_totals m" "manager_config m" using assms(1) by (simp_all add: manager_ok_def)
  obtain led p where s: "bm_ledger m = Some led" "ledger_ready tc led" "br_persistent r = Some p"
    "cr_request_id p = br_identifier r" "ledger_book tc led (br_identifier r) = Some (reserved_account (val c))"
    "ledger_spent tc led = val (bm_spent_exact m)"
    by (rule synced_reservation [OF assms(2) finish(2) ck(1)])
  from finish(5) show ?thesis
  proof (cases rule: finish_reconcile_cases)
    case (kept e)
    then show ?thesis using assms(2) by simp
  next
    case (stuck l e)
    then show ?thesis
      using release_scoped_settles [OF sh tt finish(2) ck(1), of "m\<lparr>bm_ledger := l,
        bm_reserved := AList.delete (br_identifier r) (bm_reserved m)\<rparr>"] by auto
  next
    case (settled ov l m1)
    note fr = release_scoped_frame [OF settled(2)]
    let ?n = "reconciliation_of r u (accounted_of u c) (overrun_of u c ov)"
    have rc: "bm_reconciled m' = AList.update (br_identifier r) ?n (bm_reconciled m)"
      by (simp add: settled(3) fr)
    have "\<not> overrun_of u c ov" using overrun_new [OF rc] assms(5) by (auto simp: reconciliation_of_def)
    then have ov: "ov = None" "\<not> overrun_of u c None" by (auto simp: overrun_of_def)
    have c: "on_grid 18 c" "0 < val c" using sh ck(1) by (auto simp: manager_shape_def)
    have g: "on_grid 18 a" if "au_cost u = Some a" for a
      using normalize_usage_Inr [OF finish(1)] normalize_actual_cost_Inr(1) [of cost a] that by simp
    obtain led' a where ef: "l = Some led'" "ledger_ready tc led'"
      "ledger_book tc led' = (ledger_book tc led)(cr_request_id p \<mapsto> a)"
      "ledger_held tc led' = ledger_held tc led - val c"
      "ledger_spent tc led' = ledger_spent tc led + (case au_cost u of None \<Rightarrow> val c | Some d \<Rightarrow> val d)"
      using reconcile_durable_effect [OF s(2,1) assms(3) s(3) _ g settled(1) [unfolded ov(1)]] s(4,5) by metis
    have acc: "(case au_cost u of None \<Rightarrow> val c | Some d \<Rightarrow> val d) = val (accounted_of u c)"
      by (simp add: accounted_of_def split: option.splits)
    have sf: "settled_fields m r m'"
      using sh by (auto simp: settled_fields_def settled(3) fr manager_shape_def dict_simps)
    note ab = accounted_of_bounds [OF finish(1) c]
    have sp: "val (bm_spent_exact m') = val (bm_spent_exact m) + val (accounted_of u c)"
      using spent_room(2) [OF sh tt(2,1) ck(1) ab(1,2) ab(3) [OF ov(2)]] by (simp add: settled(3) fr)
    have hr: "dict_has (bm_reconciled m') (br_identifier r)" unfolding rc set_keys_update by simp
    show ?thesis
      by (rule settle_synced [OF sh assms(2) sf s(1) ck(1) disjI1 [OF hr]])
        (use ef acc sp s(4,6) fr in \<open>simp_all add: settled(3)\<close>)
  qed
qed (use assms(2) in simp_all)


lemma release_synced:
  assumes "manager_ok m" "ledger_synced tc m" "durable_env tc env m"
    and "manager_release env r m = (res, m')" "\<not> manager_overrun m'"
  shows "ledger_synced tc m'"
  using assms(4)
proof (cases rule: manager_release_cases)
  case (lost l e)
  then show ?thesis
    using ledger_synced_Some [OF assms(2)] issued_matches_fields(5) [OF lost(1)] by metis
next
  case (settled l c m2)
  have sh: "manager_shape m" using assms(1) by (simp add: manager_ok_def)
  have nov: "\<not> manager_overrun m"
    using release_reconciled [OF assms(4)] assms(5) by (simp add: manager_overrun_def)
  then have tt: "manager_totals m" "manager_config m" using assms(1) by (simp_all add: manager_ok_def)
  obtain led p where s: "bm_ledger m = Some led" "ledger_ready tc led" "br_persistent r = Some p"
    "cr_request_id p = br_identifier r" "ledger_book tc led (br_identifier r) = Some (reserved_account (val c))"
    "ledger_spent tc led = val (bm_spent_exact m)"
    by (rule synced_reservation [OF assms(2) settled(1,5)])
  obtain led' a where ef: "l = Some led'" "ledger_ready tc led'"
    "ledger_book tc led' = (ledger_book tc led)(cr_request_id p \<mapsto> a)"
    "ledger_held tc led' = ledger_held tc led - val c" "ledger_spent tc led' = ledger_spent tc led"
    using release_durable_effect [OF s(2,1) assms(3) s(3) _ settled(4)] s(4,5) by metis
  have res: "res = Inr ()"
    using release_scoped_settles [OF sh tt settled(1,5), of "m\<lparr>bm_ledger := l,
      bm_reserved := AList.delete (br_identifier r) (bm_reserved m)\<rparr>"] settled(6) by auto
  note fr = release_scoped_frame [OF settled(6)]
  have m': "m' = m2\<lparr>bm_released := br_identifier r # bm_released m2\<rparr>" using settled(7) res by simp
  have sf: "settled_fields m r m'" using sh by (auto simp: settled_fields_def m' fr manager_shape_def)
  show ?thesis
    by (rule settle_synced [OF sh assms(2) sf s(1) settled(5)]) (use ef s(4,6) fr in \<open>simp_all add: m'\<close>)
qed (use assms(2) in simp)

text \<open>
  In a run from a fresh manager, until a settlement exceeds its reservation, the in-memory totals
  are the totals of the ledger file.
\<close>

lemma manager_step_synced:
  assumes "manager_step (durable_env tc) m m'" "manager_ok m" "\<not> manager_overrun m'" "ledger_synced tc m"
  shows "ledger_synced tc m'"
  using assms(1)
proof cases
  case (reserve env rq res)
  show ?thesis
  proof (cases res)
    case (Inl e)
    then show ?thesis using manager_reserve_Inl reserve(1) assms(4) by blast
  next
    case (Inr r)
    then show ?thesis using reserve_synced [OF assms(2,4) reserve(3,2)] reserve(1) by blast
  qed
next
  case (reconcile env r cost prompt completion reasoning res)
  then show ?thesis using reconcile_synced [OF assms(2,4)] assms(3) by blast
next
  case (release env r res)
  then show ?thesis using release_synced [OF assms(2,4)] assms(3) by blast
qed

lemma steps_synced:
  assumes "(manager_step (durable_env tc))\<^sup>*\<^sup>* m m'" "manager_ok m" "ledger_synced tc m" "\<not> manager_overrun m'"
  shows "ledger_synced tc m'"
  using assms(1,4)
proof (induction rule: rtranclp_induct)
  case base
  then show ?case using assms(3) by simp
next
  case (step x y)
  then have "manager_ok x" "\<not> manager_overrun x"
    using usd.steps_usable [OF step(1) assms(2)] usd.step_blocked by blast+
  then show ?case using step manager_step_synced by blast
qed

lemma fresh_synced:
  assumes "fresh_manager m" "bm_ledger m = Some led" "ledger_ready tc led" "ledger_spent tc led = 0" "ledger_held tc led = 0"
  shows "ledger_synced tc m"
  using assms fresh_held(1) [OF assms(1)] by (simp add: ledger_synced_def fresh_manager_def)

end
