(* ===== verification/Budget_Theorems.thy ===== *)
theory Budget_Theorems
  imports Budget_Demo Budget_Sync
begin

text \<open>
  The properties of the budget manager: the caps it keeps over every sequence of operations, what
  a refusal, a settlement and an overrun do, and what a certified bound and the token evidence
  guarantee. Each is evaluated on the concrete manager.
\<close>

section \<open>The concrete run\<close>

lemma demo_bound_ok: "bound_valid demo_env demo_rq"
proof -
  have "list_all price_component_ok (eb_components demo_bound)"
    by (simp add: demo_bound_def price_component_ok_def on_gridI max_metered_units_def metered_def ndigits_le_iff)
  moreover have "length (eb_components demo_bound) \<le> 10 ^ 20" by (simp add: demo_bound_def)
  ultimately show ?thesis using demo_bound_valid by (simp add: bound_valid_def demo_rq_def demo_env_def)
qed

lemma demo_durable_env: "durable_env digits_codec demo_env demo_manager"
  "durable_env digits_codec demo_env_later demo_reserved"
proof -
  have f: "fresh_id_ok demo_id" by code_simp
  have "clock_ok digits_codec 7 demo_fresh"
    using load_ready(1) [OF demo_load(1)] by (simp add: clock_ok_def valid_instant_def)
  then show "durable_env digits_codec demo_env demo_manager"
    using f by (simp add: durable_env_def demo_env_def demo_manager_def)
  show "durable_env digits_codec demo_env_later demo_reserved"
    using f demo_held_ready(3) by (simp add: durable_env_def demo_env_later_def demo_env_def demo_reserved_def)
qed

lemma demo_steps:
  "(manager_step (durable_env digits_codec))\<^sup>*\<^sup>* demo_manager demo_reserved"
  "(manager_step (durable_env digits_codec))\<^sup>*\<^sup>* demo_manager demo_paid"
proof -
  have s: "manager_step (durable_env digits_codec) demo_manager demo_reserved"
    by (rule manager_step.reserve [where allowed = "durable_env digits_codec", OF demo_manager_reserve demo_bound_ok demo_durable_env(1)])
  have t: "manager_step (durable_env digits_codec) demo_reserved demo_paid"
    by (rule manager_step.reconcile [where allowed = "durable_env digits_codec", OF demo_manager_reconcile demo_durable_env(2)])
  from s show "(manager_step (durable_env digits_codec))\<^sup>*\<^sup>* demo_manager demo_reserved" by simp
  from s t show "(manager_step (durable_env digits_codec))\<^sup>*\<^sup>* demo_manager demo_paid" by simp
qed

lemma demo_total: "float_decimal 10 = Dec 1 1" "on_grid 18 (Dec 1 1)" "val (Dec 1 1) = 10"
  using fd by (simp_all add: on_gridI val_def)

lemma demo_not_overrun: "\<not> manager_overrun demo_reserved" "\<not> manager_overrun demo_paid"
  using demo_no_overrun by (simp_all add: manager_overrun_def demo_reserved_def demo_paid_def demo_manager_def
      reconciliation_of_def split: if_splits)

lemma demo_codec: "env_codec demo_env = digits_codec"
  by (simp add: demo_env_def)

section \<open>Caps\<close>

text \<open>
  C6: A certification manager that starts on an empty ledger never commits more than its budget:
  over every sequence of reservations, reconciliations and releases, as long as no settlement was
  above its reservation, the recorded spending plus everything still reserved is at most the
  configured total, computed without any rounding error.
\<close>

theorem manager_never_overspends:
  assumes "new_manager env budget max_tokens rate max_requests (Some led) True input output models roles = Inr m"
    and "load_entries (env_codec env) led = Inr []"
    and "on_grid 18 (float_decimal budget)" "0 \<le> val (float_decimal budget)" "val (float_decimal budget) < 10 ^ 10"
    and "(manager_step allowed)\<^sup>*\<^sup>* m m'" "\<not> manager_overrun m'"
  shows "val (bm_spent_exact m') + held_total m' \<le> val (float_decimal budget)"
proof -
  note n = new_manager_Inr [OF assms(1,2)]
  have te: "total_exact m = float_decimal budget" using n(3) by (simp add: total_exact_def)
  have ok: "manager_ok m" using fresh_ok(1) [OF n(1)] assms(3-5) te by simp
  have "val (bm_spent_exact m) + held_total m \<le> val (total_exact m)"
    using n(1) fresh_held(1) [OF n(1)] assms(4) te by (simp add: fresh_manager_def)
  then show ?thesis
    using usd.steps_within_cap [OF assms(6) ok _ assms(7)] usd.steps_cap [OF assms(6) ok] te by simp
qed

theorem manager_never_overspends_witness:
  "val (bm_spent_exact demo_reserved) + held_total demo_reserved \<le> 10 \<and> held_total demo_reserved = 5 / 2"
proof -
  have "held_total demo_reserved = 5 / 2"
    using demo_cost_ok(3) by (simp add: held_total_def demo_reserved_def)
  moreover have "load_entries (env_codec demo_env) demo_fresh = Inr []" using demo_load(1) demo_codec by simp
  ultimately show ?thesis
    using manager_never_overspends [OF demo_new _ _ _ _ demo_steps(1) demo_not_overrun(1)] demo_total by simp
qed

lemma scope_cap_Some: "dict_get (caps m) k = Some c \<Longrightarrow> scope_cap caps k m = val c"
  by (simp add: scope_cap_def)

text \<open>
  C8: Caps for one model or one role hold as well, as long as no settlement was above its
  reservation. For a certification manager that starts on an empty ledger, every configured cap is
  kept under its model (or role), and over every sequence of reservations, reconciliations and
  releases in which no overrun was recorded, what was spent under it plus what is reserved under it
  stays within that cap. (A cost above its reservation is recorded in full, and then the spending of
  its model and role may pass their caps.)
\<close>

theorem scoped_caps_hold:
  assumes "new_manager env budget max_tokens rate max_requests (Some led) True input output models roles = Inr m"
    and "load_entries (env_codec env) led = Inr []"
    and "on_grid 18 (float_decimal budget)" "0 \<le> val (float_decimal budget)" "val (float_decimal budget) < 10 ^ 10"
    and "(manager_step allowed)\<^sup>*\<^sup>* m m'" "\<not> manager_overrun m'"
  shows "(\<forall>k cap. dict_get (bm_model_caps m) k = Some cap \<longrightarrow>
      counter_val (bm_spent_model m') k + held_under m' br_exact_model_id k \<le> val cap)
    \<and> (\<forall>k cap. dict_get (bm_role_caps m) k = Some cap \<longrightarrow>
      counter_val (bm_spent_role m') k + held_under m' br_role k \<le> val cap)
    \<and> (\<forall>cs k v. models = Some cs \<longrightarrow> distinct (map fst cs) \<longrightarrow> (k, v) \<in> set cs \<longrightarrow>
      (\<exists>cap. parse_usd_cap v ''model'' = Inr cap \<and> dict_get (bm_model_caps m) k = Some cap))
    \<and> (\<forall>cs k v. roles = Some cs \<longrightarrow> distinct (map fst cs) \<longrightarrow> (k, v) \<in> set cs \<longrightarrow>
      (\<exists>cap. parse_usd_cap v ''role'' = Inr cap \<and> dict_get (bm_role_caps m) k = Some cap))"
proof -
  note n = new_manager_Inr [OF assms(1,2)]
  have "total_exact m = float_decimal budget" using n(3) by (simp add: total_exact_def)
  then have ok: "manager_ok m" "\<not> manager_overrun m" using fresh_ok [OF n(1)] assms(3-5) by simp_all
  note w = model.steps_within_cap [OF assms(6) ok(1) scopes_within(1) [OF ok] assms(7)]
    role.steps_within_cap [OF assms(6) ok(1) scopes_within(2) [OF ok] assms(7)]
  note c = model.steps_cap [OF assms(6) ok(1)] role.steps_cap [OF assms(6) ok(1)]
  have "counter_val (bm_spent_model m') k + held_under m' br_exact_model_id k \<le> val cap"
    if "dict_get (bm_model_caps m) k = Some cap" for k cap
    using w(1) c(1) scope_cap_Some [of bm_model_caps m, OF that] by metis
  moreover have "counter_val (bm_spent_role m') k + held_under m' br_role k \<le> val cap"
    if "dict_get (bm_role_caps m) k = Some cap" for k cap
    using w(2) c(2) scope_cap_Some [of bm_role_caps m, OF that] by metis
  ultimately show ?thesis using new_manager_caps [OF assms(1)] by blast
qed

theorem scoped_caps_hold_witness:
  "counter_val (bm_spent_model demo_paid) ''vendor/model'' + held_under demo_paid br_exact_model_id ''vendor/model'' \<le> 5
   \<and> counter_val (bm_spent_role demo_paid) ''hunter'' = 2"
proof -
  have l: "load_entries (env_codec demo_env) demo_fresh = Inr []" using demo_load(1) demo_codec by simp
  have c: "dict_get (bm_model_caps demo_manager) ''vendor/model'' = Some (Dec 5000000000000000000 (- 18))"
    by (simp add: demo_manager_def)
  have v: "val (Dec 5000000000000000000 (- 18)) = 5" by (simp add: val_def power_int_def power_one_over)
  have "counter_val (bm_spent_role demo_paid) ''hunter'' = 2"
    using demo_paid_ok(3) by (simp add: counter_val_def dict_get_default_def demo_paid_def)
  then show ?thesis
    using scoped_caps_hold [OF demo_new l _ _ _ demo_steps(2) demo_not_overrun(2)] demo_total c v by fastforce
qed


text \<open>
  C9: The global token budgets hold under the same condition. For a certification manager that starts
  on an empty ledger, over every sequence of reservations, reconciliations and releases in which no
  settlement reported more cost or tokens than were reserved: spent plus reserved prompt tokens are
  within the input budget, spent plus reserved completion tokens are within the output budget, and
  the reserved counters are exactly the sums over the active reservations. (Reported tokens above the
  plan are recorded in full, as an overrun, and may pass the budgets.)
\<close>

theorem token_budgets_hold:
  assumes "new_manager env budget max_tokens rate max_requests (Some led) True input output models roles = Inr m"
    and "load_entries (env_codec env) led = Inr []"
    and "on_grid 18 (float_decimal budget)" "0 \<le> val (float_decimal budget)" "val (float_decimal budget) < 10 ^ 10"
    and "(manager_step allowed)\<^sup>*\<^sup>* m m'" "\<not> manager_overrun m'"
  shows "bm_reserved_input m' = held_tokens m' br_planned_prompt
    \<and> bm_reserved_output m' = held_tokens m' br_planned_completion
    \<and> (\<forall>b. input = Some b \<longrightarrow> bm_spent_input m' + bm_reserved_input m' \<le> b)
    \<and> (\<forall>b. output = Some b \<longrightarrow> bm_spent_output m' + bm_reserved_output m' \<le> b)"
proof -
  note n = new_manager_Inr [OF assms(1,2)]
  have "total_exact m = float_decimal budget" using n(3) by (simp add: total_exact_def)
  then have "manager_ok m" using fresh_ok(1) [OF n(1)] assms(3-5) by simp
  then have "manager_totals m'" using usd.steps_usable [OF assms(6)] assms(7) by (simp add: manager_ok_def)
  moreover have "bm_input_budget m' = input" "bm_output_budget m' = output"
    using steps_same_limits [OF assms(6)] n(5,6) by (simp_all add: same_limits_def)
  ultimately show ?thesis by (auto simp: manager_totals_def token_totals_def)
qed

theorem token_budgets_hold_witness:
  "bm_spent_input demo_reserved + bm_reserved_input demo_reserved \<le> 100 \<and> bm_reserved_input demo_reserved = 2"
proof -
  have "load_entries (env_codec demo_env) demo_fresh = Inr []" using demo_load(1) demo_codec by simp
  then show ?thesis
    using token_budgets_hold [OF demo_new _ _ _ _ demo_steps(1) demo_not_overrun(1)] demo_total
    by (simp add: demo_reserved_def)
qed

text \<open>
  Requests are counted per role or per scheduled task: the counter of a key is the number of
  reservations ever issued under it, released ones included, and it never passes the configured
  maximum, whatever sequence of operations is run.
\<close>

theorem request_limit_holds:
  assumes "new_manager env budget max_tokens rate max_requests (Some led) True input output models roles = Inr m"
    and "load_entries (env_codec env) led = Inr []"
    and "(manager_step allowed)\<^sup>*\<^sup>* m m'"
  shows "dict_get_default (bm_limit_counts m') k 0 = issued_under m' k
    \<and> issued_under m' k \<le> max 0 max_requests"
proof -
  note n = new_manager_Inr [OF assms(1,2)]
  have "bm_max_requests m' = max_requests"
    using steps_same_limits [OF assms(3)] n(4) by (simp add: same_limits_def)
  then show ?thesis
    using steps_limits_exact [OF assms(3) fresh_limits [OF n(1)]] by (simp add: limits_exact_def)
qed

theorem request_limit_holds_witness:
  "issued_under demo_paid (RoleKey ''hunter'') \<le> 3 \<and> dict_get_default (bm_limit_counts demo_paid) (RoleKey ''hunter'') 0 = 1"
proof -
  have "load_entries (env_codec demo_env) demo_fresh = Inr []" using demo_load(1) demo_codec by simp
  then have "issued_under demo_paid (RoleKey ''hunter'') \<le> max 0 3"
    using request_limit_holds [OF demo_new _ demo_steps(2)] by blast
  then show ?thesis by (simp add: dict_get_default_def demo_paid_def demo_reserved_def)
qed

section \<open>Refusals\<close>

text \<open>
  C10: A refused reservation has no effect: when \<open>reserve\<close> raises, for whatever reason, the manager
  is exactly as before, its counters and its ledger file included.
\<close>

theorem refused_reserve_unchanged:
  assumes "manager_reserve env rq m = (Inl e, m')"
  shows "m' = m"
  by (rule manager_reserve_Inl [OF assms])

theorem refused_reserve_unchanged_witness:
  "\<exists>e. manager_reserve demo_env demo_rq (demo_manager\<lparr>bm_recovery_required := True\<rparr>)
     = (Inl e, demo_manager\<lparr>bm_recovery_required := True\<rparr>)"
proof -
  obtain e m' where "manager_reserve demo_env demo_rq (demo_manager\<lparr>bm_recovery_required := True\<rparr>) = (Inl e, m')"
    by (simp add: manager_reserve_def reserve_plan_def refuse_if_def)
  then show ?thesis using refused_reserve_unchanged by blast
qed

lemma reserve_durable_adopts:
  assumes "reserve_durable env rq c m = (Inr p, led')" "dict_get (bm_pending m) (rq_identifier rq) = Some a"
  obtains led p' where "bm_ledger m = Some led" "led' = Some led" "p = Some p'"
    "active_reservation (env_codec env) (rq_identifier rq) led = Inr (Some p')"
    "pydec_eq (DFin (cr_reserved_usd p')) (ra_reserved_cost a)"
proof -
  obtain led where led: "bm_ledger m = Some led" "led' = Some led"
    using assms by (cases "bm_ledger m") (auto simp: reserve_durable_def state_error_def)
  moreover obtain x where "active_reservation (env_codec env) (rq_identifier rq) led = Inr x"
    using assms led by (cases "active_reservation (env_codec env) (rq_identifier rq) led")
      (auto simp: reserve_durable_def lift_ledger_def catch_as_def)
  moreover from this obtain p' where "x = Some p'"
    using assms led by (cases x) (auto simp: reserve_durable_def lift_ledger_def catch_as_def state_error_def)
  ultimately show thesis
    using that assms by (auto simp: reserve_durable_def lift_ledger_def catch_as_def state_error_def split: if_splits)
qed

text \<open>
  Recovery comes first. If \<open>reserve\<close> succeeds, the manager did not require recovery, the
  identifier was never issued before, and when recovered pre-send reservations are pending the
  request is one of them, with the same role, model and maximum cost, and its durable reservation
  was still active in the ledger under the same amount.
\<close>

theorem reserve_respects_recovery:
  assumes "manager_reserve env rq m = (Inr r, m')"
  shows "\<not> bm_recovery_required m \<and> \<not> dict_has (bm_issued m) (rq_identifier rq)
    \<and> (bm_pending m \<noteq> [] \<longrightarrow>
        (\<exists>a c led p. dict_get (bm_pending m) (rq_identifier rq) = Some a \<and> ra_role a = rq_role rq
           \<and> br_exact_model_id r = Some (ra_requested_model a)
           \<and> maximum_request_cost env m rq = Inr c \<and> pydec_eq (ra_reserved_cost a) (DFin c)
           \<and> bm_ledger m = Some led
           \<and> active_reservation (env_codec env) (rq_identifier rq) led = Inr (Some p)
           \<and> pydec_eq (DFin (cr_reserved_usd p)) (ra_reserved_cost a) \<and> br_persistent r = Some p
           \<and> bm_ledger m' = bm_ledger m))"
proof -
  from assms obtain c v n planned p led' where pl: "reserve_plan env rq m = Inr (c, v, n, planned)"
    and d: "reserve_durable env rq c m = (Inr p, led')" and r: "r = planned\<lparr>br_persistent := p\<rparr>"
    and m': "m' = (let m1 = m\<lparr>bm_ledger := led',
             bm_reserved := AList.update (rq_identifier rq) c (bm_reserved m),
             bm_limit_counts := AList.update (limit_key_of rq) (n + 1) (bm_limit_counts m),
             bm_issued := AList.update (rq_identifier rq) r (bm_issued m)\<rparr>;
           m2 = reserve_scoped r c m1
       in m2\<lparr>bm_pending := AList.delete (rq_identifier rq) (bm_pending m2)\<rparr>)"
    by (rule manager_reserve_Inr)
  note rp = reserve_plan_Inr [OF pl]
  have led: "bm_ledger m' = led'" by (simp add: m' Let_def reserve_scoped_def)
  have "\<exists>a led p'. dict_get (bm_pending m) (rq_identifier rq) = Some a \<and> ra_role a = rq_role rq
      \<and> rv_model v = Some (ra_requested_model a) \<and> pydec_eq (ra_reserved_cost a) (DFin c)
      \<and> bm_ledger m = Some led \<and> led' = Some led \<and> p = Some p'
      \<and> active_reservation (env_codec env) (rq_identifier rq) led = Inr (Some p')
      \<and> pydec_eq (DFin (cr_reserved_usd p')) (ra_reserved_cost a)" if ne: "bm_pending m \<noteq> []"
  proof -
    obtain a where a: "dict_get (bm_pending m) (rq_identifier rq) = Some a" "ra_role a = rq_role rq"
      "rv_model v = Some (ra_requested_model a)" "pydec_eq (ra_reserved_cost a) (DFin c)"
      using rp(14) ne by (auto simp: check_adoption_def result_simps split: option.splits)
    show ?thesis by (rule reserve_durable_adopts [OF d a(1)]) (use a in blast)
  qed
  then show ?thesis using rp(1,3,4,10) led r by fastforce
qed

theorem reserve_respects_recovery_witness:
  "\<exists>led p. bm_ledger demo_recovered = Some led
     \<and> active_reservation digits_codec ''r1'' led = Inr (Some p) \<and> \<not> bm_recovery_required demo_recovered"
proof -
  obtain r m where r: "manager_reserve demo_env demo_rq demo_recovered = (Inr r, m)" using demo_adopts by blast
  have "bm_pending demo_recovered \<noteq> []" "rq_identifier demo_rq = ''r1''"
    by (simp_all add: demo_recovered_def demo_with_def demo_rq_def)
  then show ?thesis using reserve_respects_recovery [OF r] demo_codec by auto
qed

section \<open>Settling\<close>

lemma reserve_fields:
  assumes "manager_reserve env rq m = (Inr r, m')"
  obtains c where "bm_reserved m' = AList.update (rq_identifier rq) c (bm_reserved m)"
    "bm_issued m' = AList.update (rq_identifier rq) r (bm_issued m)" "br_identifier r = rq_identifier rq"
    "\<not> dict_has (bm_issued m) (rq_identifier rq)" "bm_spent_exact m' = bm_spent_exact m"
    "bm_reconciled m' = bm_reconciled m" "bm_released m' = bm_released m"
proof -
  from assms obtain c v n planned p led where pl: "reserve_plan env rq m = Inr (c, v, n, planned)"
    and r: "r = planned\<lparr>br_persistent := p\<rparr>"
    and m': "m' = (let m1 = m\<lparr>bm_ledger := led,
             bm_reserved := AList.update (rq_identifier rq) c (bm_reserved m),
             bm_limit_counts := AList.update (limit_key_of rq) (n + 1) (bm_limit_counts m),
             bm_issued := AList.update (rq_identifier rq) r (bm_issued m)\<rparr>;
           m2 = reserve_scoped r c m1
       in m2\<lparr>bm_pending := AList.delete (rq_identifier rq) (bm_pending m2)\<rparr>)"
    by (rule manager_reserve_Inr)
  note rp = reserve_plan_Inr [OF pl]
  show thesis by (rule that [of c]) (use rp(3,9) r in \<open>simp_all add: m' Let_def reserve_scoped_def\<close>)
qed

text \<open>
  Releasing gives back exactly what was reserved: after a reservation followed by its release
  no amount is held any more than before, in all, for any model, for any role, and in tokens, and
  nothing was recorded as spent.
\<close>

theorem reserve_release_roundtrip:
  assumes "manager_ok m" "\<not> manager_overrun m" "bound_valid env rq"
    and "manager_reserve env rq m = (Inr r, m1)" "manager_release env' r m1 = (Inr (), m2)"
  shows "held_total m2 = held_total m \<and> bm_spent_exact m2 = bm_spent_exact m
    \<and> (\<forall>k. counter_val (bm_reserved_model m2) k = counter_val (bm_reserved_model m) k)
    \<and> (\<forall>k. counter_val (bm_reserved_role m2) k = counter_val (bm_reserved_role m) k)
    \<and> bm_reserved_input m2 = bm_reserved_input m \<and> bm_reserved_output m2 = bm_reserved_output m"
proof -
  obtain c where f: "bm_reserved m1 = AList.update (rq_identifier rq) c (bm_reserved m)"
    "bm_issued m1 = AList.update (rq_identifier rq) r (bm_issued m)" "br_identifier r = rq_identifier rq"
    "\<not> dict_has (bm_issued m) (rq_identifier rq)" "bm_spent_exact m1 = bm_spent_exact m"
    "bm_reconciled m1 = bm_reconciled m" "bm_released m1 = bm_released m"
    by (rule reserve_fields [OF assms(4)])
  have ok1: "manager_ok m1" by (rule reserve_keeps_ok [OF assms(1,3,4)])
  have ok2: "manager_ok m2" by (rule release_keeps_ok [OF ok1 assms(5)])
  have "\<not> manager_overrun m2"
    using assms(2) f(6) release_reconciled [OF assms(5)] by (simp add: manager_overrun_def)
  then have tt: "manager_totals m2" "manager_totals m" using ok2 assms(1,2) by (simp_all add: manager_ok_def)
  have fresh: "\<not> dict_has (bm_reserved m) (rq_identifier rq)" "rq_identifier rq \<notin> set (bm_released m)"
    using assms(1) f(4) unfolding manager_ok_def manager_shape_def by blast+
  note h1 = held_reserve [OF f(1,2) fresh(1)]
  have iss: "issued_field m1 g (br_identifier r) = g r" for g :: "budget_reservation \<Rightarrow> string option"
    by (simp add: issued_field_def f(2,3) dict_simps)
  have iss': "issued_field m1 g (br_identifier r) = g r" for g :: "budget_reservation \<Rightarrow> int option"
    by (simp add: issued_field_def f(2,3) dict_simps)
  from assms(5) show ?thesis
  proof (cases rule: manager_release_cases)
    case kept
    then show ?thesis using fresh(2) f(3,7) by simp
  next
    case (settled led c' n)
    note fr = release_scoped_frame [OF settled(6)]
    have "c' = c" using settled(5) f(1,3) by (simp add: dict_simps)
    have d: "distinct (dict_keys (bm_reserved m1))" using ok1 by (simp add: manager_ok_def manager_shape_def)
    have m2: "m2 = n\<lparr>bm_released := br_identifier r # bm_released n\<rparr>" using settled(7) by simp
    have f2: "bm_reserved m2 = AList.delete (br_identifier r) (bm_reserved m1)" "bm_issued m2 = bm_issued m1"
      "bm_spent_exact m2 = bm_spent_exact m" using fr f(5) by (simp_all add: m2)
    note h2 = held_settle [OF f2(1,2) d settled(5)]
    have "held_total m2 = held_total m" using h1(1) h2(1) \<open>c' = c\<close> by simp
    moreover have "held_under m2 g k = held_under m g k" for g k
      using h1(2) [of g k] h2(2) [of g k] iss \<open>c' = c\<close> by simp
    moreover have "held_tokens m2 g = held_tokens m g" for g
      using h1(3) [of g] h2(3) [of g] iss' by simp
    ultimately show ?thesis
      using tt f2(3) by (simp add: manager_totals_def scope_totals_def token_totals_def)
  qed simp
qed

lemma demo_ok: "manager_ok demo_manager" "\<not> manager_overrun demo_manager"
proof -
  have l: "load_entries (env_codec demo_env) demo_fresh = Inr []" using demo_load(1) demo_codec by simp
  have "fresh_manager demo_manager" "total_exact demo_manager = Dec 1 1"
    using new_manager_Inr [OF demo_new l] demo_total by (simp_all add: total_exact_def)
  then show "manager_ok demo_manager" "\<not> manager_overrun demo_manager"
    using fresh_ok [of demo_manager] demo_total by simp_all
qed

theorem reserve_release_roundtrip_witness:
  "held_total demo_released = held_total demo_manager \<and> held_total demo_reserved = 5 / 2"
proof -
  have "held_total demo_reserved = 5 / 2"
    using demo_cost_ok(3) by (simp add: held_total_def demo_reserved_def)
  then show ?thesis
    using reserve_release_roundtrip [OF demo_ok demo_bound_ok demo_manager_reserve demo_manager_release] by simp
qed

lemma reconciled_again:
  assumes "normalize_usage cost prompt completion reasoning = Inr u" "issued_matches m r"
    and "dict_get (bm_reconciled m) (br_identifier r) = Some n"
  shows "manager_reconcile env r cost prompt completion reasoning m = (repeated_reconcile n u, m)"
  using assms by (simp add: manager_reconcile_def)

text \<open>
  Reconciling is idempotent: repeating a settlement with the same reported usage, at whatever
  later time, returns the same amount and changes nothing.
\<close>

theorem reconcile_idempotent:
  assumes "manager_reconcile env r cost prompt completion reasoning m = (Inr x, m')"
  shows "manager_reconcile env' r cost prompt completion reasoning m' = (Inr x, m')"
  using assms
proof (cases rule: manager_reconcile_cases)
  case (repeated u n)
  then show ?thesis using reconciled_again by simp
next
  case (finish u c)
  from finish(5) show ?thesis
  proof (cases rule: finish_reconcile_cases)
    case (settled ov led m1)
    let ?n = "reconciliation_of r u (accounted_of u c) (overrun_of u c ov)"
    note fr = release_scoped_frame [OF settled(2)]
    have no: "\<not> overrun_of u c ov" "\<not> token_overrun_of r u" "x = float_of_decimal (accounted_of u c)"
      using settled(4) by (auto split: if_splits)
    have "issued_matches m' r" using finish(2) fr(2) by (simp add: issued_matches_def settled(3))
    moreover have "dict_get (bm_reconciled m') (br_identifier r) = Some ?n"
      by (simp add: settled(3) dict_simps)
    moreover have "repeated_reconcile ?n u = Inr x"
      using no by (simp add: repeated_reconcile_def reconciliation_of_def eq_option_def deq_iff split: option.splits)
    ultimately show ?thesis using reconciled_again [OF finish(1)] by simp
  qed simp_all
qed simp

theorem reconcile_idempotent_witness:
  "manager_reconcile demo_env demo_reservation (Some (CostInt 2)) (Some 2) (Some 4) (Some 1) demo_paid = (Inr 2, demo_paid)
   \<and> demo_paid \<noteq> demo_reserved"
proof -
  have "bm_reserved_input demo_paid \<noteq> bm_reserved_input demo_reserved"
    by (simp add: demo_paid_def demo_reserved_def)
  then show ?thesis using reconcile_idempotent [OF demo_manager_reconcile] by auto
qed

text \<open>
  What a successful reconciliation does: the reservation stops being held, the amount moved to
  the spending counters is the reported cost rounded up to 18 places, or the whole reservation when
  the provider reported none, and it is at most what was reserved.
\<close>

theorem reconcile_accounts:
  assumes "manager_ok m" "\<not> manager_overrun m"
    and "manager_reconcile env r cost prompt completion reasoning m = (Inr x, m')"
    and "dict_get (bm_reconciled m) (br_identifier r) = None"
  shows "\<exists>c a. dict_get (bm_reserved m) (br_identifier r) = Some c
    \<and> normalize_actual_cost cost = Inr a \<and> \<not> dict_has (bm_reserved m') (br_identifier r)
    \<and> held_total m' = held_total m - val c
    \<and> val (bm_spent_exact m') = val (bm_spent_exact m) + (case a of None \<Rightarrow> val c | Some d \<Rightarrow> val d)
    \<and> val (bm_spent_exact m') - val (bm_spent_exact m) \<le> val c
    \<and> bm_reserved_input m' = bm_reserved_input m - opt_tokens (br_planned_prompt r)
    \<and> bm_spent_input m' = bm_spent_input m + opt_tokens (or_else prompt (br_planned_prompt r))"
  using assms(3)
proof (cases rule: manager_reconcile_cases)
  case (finish u c)
  have sh: "manager_shape m" and tt: "manager_totals m" "manager_config m"
    using assms(1,2) by (simp_all add: manager_ok_def)
  note ck = reconcile_checks_Inr [OF finish(4)]
  have c: "on_grid 18 c" "0 < val c" using sh ck(1) by (auto simp: manager_shape_def)
  have p: "au_prompt u = prompt"
    using finish(1) unfolding normalize_usage_def rbind_eq_Inr_iff
    by (elim exE conjE) (auto dest: validate_optional_tokens_Inr)
  from finish(5) show ?thesis
  proof (cases rule: finish_reconcile_cases)
    case (settled ov led m1)
    let ?n = "m\<lparr>bm_ledger := led, bm_reserved := AList.delete (br_identifier r) (bm_reserved m)\<rparr>"
    note fr = release_scoped_frame [OF settled(2)]
    have no: "\<not> overrun_of u c ov" using settled(4) by (auto split: if_splits)
    note ab = accounted_of_bounds [OF finish(1) c]
    note room = spent_room [OF sh tt(2,1) ck(1) ab(1,2) ab(3) [OF no]]
    have d: "distinct (dict_keys (bm_reserved m))" using sh by (simp add: manager_shape_def)
    have f: "bm_reserved m' = AList.delete (br_identifier r) (bm_reserved m)" "bm_issued m' = bm_issued m"
      "val (bm_spent_exact m') = val (bm_spent_exact m) + val (accounted_of u c)"
      using fr room(2) by (simp_all add: settled(3))
    have "bm_reserved_input m1 = bm_reserved_input m - opt_tokens (br_planned_prompt r)"
      "bm_spent_input m1 = bm_spent_input m"
      using settled(2) by (auto simp: release_scoped_def Let_def split: sum.splits)
    then have t: "bm_reserved_input m' = bm_reserved_input m - opt_tokens (br_planned_prompt r)"
      "bm_spent_input m' = bm_spent_input m + opt_tokens (or_else prompt (br_planned_prompt r))"
      using p by (simp_all add: settled(3))
    have g: "\<not> dict_has (bm_reserved m') (br_identifier r)"
      unfolding f(1) dict_has_iff dict_get_delete by simp
    have a: "val (accounted_of u c) = (case au_cost u of None \<Rightarrow> val c | Some d \<Rightarrow> val d)"
      by (simp add: accounted_of_def split: option.splits)
    show ?thesis
      using ck(1) normalize_usage_Inr [OF finish(1)] g f(3) held_settle(1) [OF f(1,2) d ck(1)] ab(3) [OF no] t a
      by (intro exI [of _ c] exI [of _ "au_cost u"]) simp
  qed simp_all
qed (use assms(4) in simp_all)


theorem reconcile_accounts_witness:
  "(\<exists>c a. dict_get (bm_reserved demo_reserved) ''r1'' = Some c \<and> normalize_actual_cost (Some (CostInt 2)) = Inr a
     \<and> val (bm_spent_exact demo_paid) = val (bm_spent_exact demo_reserved) + (case a of None \<Rightarrow> val c | Some d \<Rightarrow> val d))
   \<and> val (bm_spent_exact demo_paid) = 2"
proof -
  have r: "manager_ok demo_reserved"
    using reserve_keeps_ok [OF demo_ok(1) demo_bound_ok demo_manager_reserve] .
  have i: "br_identifier demo_reservation = ''r1''" "bm_reconciled demo_reserved = []"
    by (simp_all add: demo_reservation_def demo_planned_def demo_reserved_def demo_manager_def)
  have "val (bm_spent_exact demo_paid) = 2" using demo_paid_ok(3) by (simp add: demo_paid_def)
  then show ?thesis
    using reconcile_accounts [OF r demo_not_overrun(1) demo_manager_reconcile] i by auto
qed

text \<open>
  C11: A cost above the reservation never passes silently: if the reported cost, rounded up, exceeds
  what was reserved, \<open>reconcile\<close> raises, and when it settles at all it still accounts the whole
  reported cost and remembers the overrun.
\<close>

theorem overrun_is_reported:
  assumes "manager_reconcile env r cost prompt completion reasoning m = (res, m')"
    and "dict_get (bm_reserved m) (br_identifier r) = Some c"
    and "normalize_actual_cost cost = Inr (Some a)" "val c < val a"
    and "dict_get (bm_reconciled m) (br_identifier r) = None"
  shows "\<exists>e. res = Inl e \<and> (\<forall>n. dict_get (bm_reconciled m') (br_identifier r) = Some n \<longrightarrow>
      rn_cost_overrun n \<and> rn_accounted_cost_exact n = a \<and> manager_overrun m')"
  using assms(1)
proof (cases rule: manager_reconcile_cases)
  case (finish u c')
  have u: "au_cost u = Some a" using normalize_usage_Inr [OF finish(1)] assms(3) by simp
  have c: "c' = c" using reconcile_checks_Inr(1) [OF finish(4)] assms(2) by simp
  from finish(5) show ?thesis
  proof (cases rule: finish_reconcile_cases)
    case (kept e)
    then show ?thesis using assms(5) by simp
  next
    case (stuck l e)
    then show ?thesis using release_scoped_frame(9) [OF stuck(1)] assms(5) by simp
  next
    case (settled ov l m1)
    let ?n = "reconciliation_of r u a True"
    have o: "overrun_of u c' ov" "accounted_of u c' = a"
      using u c assms(4) by (simp_all add: overrun_of_def accounted_of_def dlt_iff)
    have rc: "bm_reconciled m' = AList.update (br_identifier r) ?n (bm_reconciled m1)"
      using o by (simp add: settled(3))
    have "manager_overrun m'" using overrun_new [OF rc] by (simp add: reconciliation_of_def)
    then show ?thesis using settled(4) o(1) by (auto simp: rc dict_simps reconciliation_of_def)
  qed
qed (use assms(5) in simp_all)

theorem overrun_is_reported_witness:
  "\<exists>e. fst (manager_reconcile demo_env_later demo_reservation (Some (CostInt 3)) (Some 2) (Some 4) (Some 1)
     demo_reserved) = Inl e"
proof -
  have i: "br_identifier demo_reservation = ''r1''" "bm_reconciled demo_reserved = []"
    "dict_get (bm_reserved demo_reserved) ''r1'' = Some demo_cost_usd"
    by (simp_all add: demo_reservation_def demo_planned_def demo_reserved_def demo_manager_def)
  have n: "normalize_actual_cost (Some (CostInt 3)) = Inr (Some (Dec 3000000000000000000 (- 18)))"
    by (simp add: normalize_actual_cost_def decimal_eval)
  have v: "val demo_cost_usd < val (Dec 3000000000000000000 (- 18))"
    using demo_cost_ok(3) by (simp add: val_def power_int_def power_one_over)
  show ?thesis
    using overrun_is_reported [OF prod.collapse [symmetric] _ n v] i by fastforce
qed

section \<open>Estimates and certified bounds\<close>

text \<open>
  The token estimate of a text is exact: although it divides as a float and rounds up, for every
  text of fewer than \<open>2 ^ 52\<close> UTF-8 bytes the result is the number of bytes over three, rounded
  up, and never zero.
\<close>

theorem estimate_tokens_exact:
  assumes "utf8_length text < 2 ^ 52"
  shows "estimate_tokens text = max 1 (int ((utf8_length text + 2) div 3))"
  using ceil_fl_third [OF assms] by (simp add: estimate_tokens_def fdiv_def)

theorem estimate_tokens_exact_witness: "estimate_tokens ''hello'' = 2"
proof -
  have "utf8_length ''hello'' = 5" by code_simp
  then show ?thesis using estimate_tokens_exact [of "''hello''"] by simp
qed

text \<open>
  A certified bound covers the request: if the maximum cost of a request is taken from a valid
  endpoint bound, then no use of up to one prompt token per UTF-8 byte of the serialized request and
  up to the configured number of completion tokens costs more than that maximum, at the prices of
  the bound.
\<close>

theorem certified_cost_covers_request:
  assumes "maximum_request_cost env m rq = Inr c" "rq_bound rq = Some b"
    and "validate_cost_bound (env_sha256 env) b = Inr b" "list_all price_component_ok (eb_components b)"
    and "length (eb_components b) \<le> 10 ^ 20"
    and "pp \<in> set (eb_components b)" "pc_pricing_field pp = ''prompt''"
    and "pq \<in> set (eb_components b)" "pc_pricing_field pq = ''completion''"
    and "0 \<le> used_prompt" "used_prompt \<le> int (utf8_length (rq_prompt rq))"
    and "0 \<le> used_completion" "used_completion \<le> bm_max_output_tokens m"
  shows "val (pc_unit_price_usd pp) * of_int used_prompt
    + val (pc_unit_price_usd pq) * of_int used_completion \<le> val c"
proof -
  from assms(1,2) obtain pu qu where pu: "maximum_units_for b ''prompt'' = Inr pu"
      "int (utf8_length (rq_prompt rq)) \<le> pu"
    and qu: "maximum_units_for b ''completion'' = Inr qu" "bm_max_output_tokens m \<le> qu"
    and c: "bound_maximum_cost b = Inr c"
    by (auto simp: maximum_request_cost_def result_simps)
  note d = validate_cost_bound_Inr(3) [OF assms(3)]
  have uniq: "x = y" if "x \<in> set (eb_components b)" "y \<in> set (eb_components b)"
    "pc_pricing_field x = pc_pricing_field y" for x y
    using that d by (auto simp: distinct_map inj_on_def)
  have u: "pc_maximum_units pp = pu" "pc_maximum_units pq = qu"
    using maximum_units_member [OF pu(1)] maximum_units_member [OF qu(1)] assms(6-9) uniq by metis+
  have ok: "price_component_ok x" if "x \<in> set (eb_components b)" for x
    using assms(4) that by (simp add: list_all_iff)
  have "component_cost pp + component_cost pq \<le> sum_list (map component_cost (eb_components b))"
    using assms(6-9) ok component_cost_bounds(1) by (intro two_members_le_sum) auto
  also have "\<dots> \<le> val c" using bound_cost_covers(1) [OF c assms(4,5)] .
  finally have le: "component_cost pp + component_cost pq \<le> val c" .
  have "val (pc_unit_price_usd pp) * of_int used_prompt \<le> component_cost pp"
    unfolding component_cost_def u using ok [OF assms(6)] assms(11) pu(2)
    by (intro mult_left_mono) (auto simp: price_component_ok_def)
  moreover have "val (pc_unit_price_usd pq) * of_int used_completion \<le> component_cost pq"
    unfolding component_cost_def u using ok [OF assms(8)] assms(13) qu(2)
    by (intro mult_left_mono) (auto simp: price_component_ok_def)
  ultimately show ?thesis using le by linarith
qed

theorem certified_cost_covers_request_witness:
  "val (Dec 25 (- 2)) * 2 + val (Dec 5 (- 1)) * 4 \<le> val demo_cost_usd"
proof -
  let ?p = "\<lparr>pc_pricing_field = ''prompt'', pc_unit_price_usd = Dec 25 (- 2), pc_maximum_units = 2\<rparr>"
  let ?c = "\<lparr>pc_pricing_field = ''completion'', pc_unit_price_usd = Dec 5 (- 1), pc_maximum_units = 4\<rparr>"
  have m: "maximum_request_cost demo_env demo_manager demo_rq = Inr demo_cost_usd"
    using demo_maximum [of demo_fresh "[]"] by (simp add: demo_manager_with)
  have b: "rq_bound demo_rq = Some demo_bound" by (simp add: demo_rq_def)
  have v: "validate_cost_bound (env_sha256 demo_env) demo_bound = Inr demo_bound"
    "list_all price_component_ok (eb_components demo_bound)" "length (eb_components demo_bound) \<le> 10 ^ 20"
    using demo_bound_ok b by (simp_all add: bound_valid_def)
  have c: "?p \<in> set (eb_components demo_bound)" "?c \<in> set (eb_components demo_bound)"
    by (simp_all add: demo_bound_def)
  have n: "2 \<le> int (utf8_length (rq_prompt demo_rq))" "4 \<le> bm_max_output_tokens demo_manager"
    using demo_utf8 by (simp_all add: demo_rq_def demo_manager_def)
  show ?thesis
    using certified_cost_covers_request [OF m b v c(1) _ c(2) _ _ n(1) _ n(2)] by simp
qed

text \<open>
  Token reservation evidence is consistent: whenever it can be built it passes its own
  validation, self-hash included, splits the completion tokens without remainder, moves exactly the
  planned tokens into the reserved counters and stays within the configured budgets.
\<close>

theorem token_evidence_sound:
  assumes "build_token_evidence sha rid model role plan prompt visible reasoning completion
      limit_in limit_out spent_in reserved_in spent_out reserved_out = Inr e"
  shows "validate_token_evidence sha e = Inr e
    \<and> visible + reasoning = completion
    \<and> ts_reserved_input (te_after e) = reserved_in + prompt
    \<and> ts_reserved_output (te_after e) = reserved_out + completion
    \<and> (case limit_in of None \<Rightarrow> True | Some l \<Rightarrow> spent_in + reserved_in + prompt \<le> l)
    \<and> (case limit_out of None \<Rightarrow> True | Some l \<Rightarrow> spent_out + reserved_out + completion \<le> l)"
proof -
  note b = build_token_evidence_Inr [OF assms]
  note v = validate_token_evidence_Inr [OF b(1)]
  show ?thesis
    using b v(2-6) v(7,8) by (auto simp: add.assoc split: option.splits)
qed

theorem token_evidence_sound_witness:
  "\<exists>e. build_token_evidence demo_sha ''r1'' ''vendor/model'' ''hunter'' (demo_sha []) 2 3 1 4 (Some 100) None 7 5 0 0
       = Inr e \<and> ts_reserved_input (te_after e) = 7"
proof -
  have m: "evidence_request_id_ok ''r1'' = Inr ()" by code_simp
  obtain e where "build_token_evidence demo_sha ''r1'' ''vendor/model'' ''hunter'' (demo_sha []) 2 3 1 4 (Some 100) None 7 5 0 0
       = Inr e"
    using m demo_ids
    by (auto simp: build_token_evidence_def token_budget_state_of_def validate_token_evidence_def
        token_evidence_fields_ok_def validate_token_state_def metered_def max_metered_units_def
        canonical_evidence_sha256_def demo_sha_def remaining_token_capacity_def token_state_fields_ok_def opt_metered_def Let_def)
  then show ?thesis using token_evidence_sound by fastforce
qed

section \<open>Limits of the numeric checks\<close>

text \<open>
  USD caps are limited to ten integer digits. The code allows twelve, but quantizing to 18 places
  at the default precision of 28 digits fails first: an accepted cap is exact and below \<open>10 ^ 10\<close>,
  and a cap of exactly \<open>10 ^ 10\<close> dollars is refused as too precise.
\<close>

theorem usd_cap_limit:
  "(\<forall>v q. parse_usd_cap v scope = Inr q \<longrightarrow> on_grid 18 q \<and> 0 \<le> val q \<and> val q < 10 ^ 10)
   \<and> parse_usd_cap (PriceInt 10000000000) scope
       = Inl (ValueError (scope @ '' USD cap exceeds supported precision''))"
proof -
  have "\<not> ndigits 10000000000000000000000000000 \<le> 28" by (simp add: ndigits_le_iff)
  then have "dquantize default_prec HalfEven (- 18) (Dec 10000000000 0) = None"
    by (simp add: dquantize_def dscale_def default_prec_def)
  then have "parse_usd_cap (PriceInt 10000000000) scope
       = Inl (ValueError (scope @ '' USD cap exceeds supported precision''))"
    by (simp add: parse_usd_cap_def dec_of_int_def dlt_iff)
  then show ?thesis using parse_usd_cap_Inr by blast
qed

theorem usd_cap_limit_witness:
  "parse_usd_cap (PriceInt 5) ''role'' = Inr (Dec 5000000000000000000 (- 18)) \<and> val (Dec 5000000000000000000 (- 18)) < 10 ^ 10"
  using usd_cap_limit [of "''role''"] demo_caps(1) [of "''role''"] by blast

text \<open>
  An endpoint price with more than 28 significant digits is silently rounded, and can be rounded
  down: the price 1.000000000000000000000000000001 is within the allowed 36 decimal places, is
  accepted, and becomes 1, so the certified maximum cost is below the cost at the advertised price.
\<close>

theorem validate_price_rounds_down:
  "validate_price (DFin (Dec 1000000000000000000000000000001 (- 30))) = Inr (Dec 1 0)
   \<and> val (Dec 1 0) < val (Dec 1000000000000000000000000000001 (- 30))"
proof -
  let ?m = "1000000000000000000000000000001 :: int"
  have n: "ndigits 1000000000000000000000000000001 = 31" by (simp add: ndigits.simps)
  have q: "(1000000000000000000000000000 :: nat) = div_half_even 1000000000000000000000000000001 (10 ^ 3)"
    by (simp add: div_half_even_def)
  have r: "dround default_prec (Dec ?m (- 30)) = Dec 1000000000000000000000000000 (- 27)"
    using dround_big [of 1000000000000000000000000000001 ?m 3 default_prec, OF _ _ _ q]
    by (simp add: n default_prec_def)
  have "dstrip 1000000000000000000000000000 (- 27) = Dec 1 0" by (simp add: dstrip.simps)
  then have d: "dnormalize default_prec (Dec ?m (- 30)) = Dec 1 0"
    unfolding dnormalize_def r Let_def decimal.sel .
  have o: "ndigits (Suc 0) = 1" by (simp add: ndigits.simps)
  have lt: "val (Dec 1 0) < val (Dec ?m (- 30))"
    by (simp add: val_def power_int_def power_one_over)
  then have "\<not> val (Dec ?m (- 30)) < val dzero" by (simp add: val_def dzero_def)
  then have "validate_price (DFin (Dec ?m (- 30))) = Inr (Dec 1 0)"
    unfolding validate_price_def pydec.case dlt_iff d Let_def by (simp add: o)
  with lt show ?thesis by blast
qed

end
