(* ===== verification/Budget_Restore.thy ===== *)
theory Budget_Restore
  imports Budget_Theorems
begin

text \<open>
  Recovery of a restarted manager from the durable ledger: which identifiers it binds, what the
  manager then counts as spent, and that it runs once.
\<close>

section \<open>What recovery binds\<close>

definition record_ids :: "recovered_usage \<Rightarrow> string list" where
  "record_ids u = map te_request_id (ru_token_evidence u)"

lemma restore_baseline_entries_ids:
  "restore_baseline_entries env entries bs st = Inr st' \<Longrightarrow>
     set (rt_expected_ids st') = set (map fst bs) \<union> set (rt_expected_ids st) \<and> rt_pending st' = rt_pending st"
  by (induction env entries bs st rule: restore_baseline_entries.induct)
    (auto simp: state_error_def split: option.splits if_splits)

definition baseline_ids :: "recovery_claims \<Rightarrow> string set" where
  "baseline_ids claims = (case rc_baseline claims of None \<Rightarrow> {} | Some b \<Rightarrow> set (map fst (rb_entry_sha256s b)))"

lemma restore_baseline_ids:
  assumes "restore_baseline env cap entries (rc_baseline claims) st = Inr st'"
  shows "set (rt_expected_ids st') = baseline_ids claims \<union> set (rt_expected_ids st) \<and> rt_pending st' = rt_pending st"
proof (cases "rc_baseline claims")
  case None
  with assms show ?thesis by (simp add: restore_baseline_def baseline_ids_def)
next
  case (Some b)
  with assms obtain s where "restore_baseline_entries env entries (rb_entry_sha256s b) st = Inr s"
    and s: "(case rb_spent_usd b of DFin d \<Rightarrow> Inr (s\<lparr>rt_expected_spent := d\<rparr>)
      | _ \<Rightarrow> state_error ''persistent model-cost ledger contains unbound recovery entries'') = Inr st'"
    by (auto simp: restore_baseline_def result_simps state_error_def split: if_splits)
  moreover from s obtain d where "st' = s\<lparr>rt_expected_spent := d\<rparr>"
    by (cases "rb_spent_usd b") (auto simp: state_error_def)
  ultimately show ?thesis
    using restore_baseline_entries_ids [of env entries "rb_entry_sha256s b" st s] Some
    by (simp add: baseline_ids_def)
qed

lemma restore_record_ids:
  assumes "restore_record entries u st = Inr st'"
  shows "set (rt_expected_ids st') = set (record_ids u) \<union> set (rt_expected_ids st)
    \<and> set (record_ids u) \<inter> set (rt_expected_ids st) = {} \<and> rt_pending st' = rt_pending st"
  using assms unfolding restore_record_def Let_def rbind_eq_Inr_iff
  by (elim exE conjE) (auto simp: record_ids_def)

lemma restore_records_ids:
  "restore_records entries us st = Inr st' \<Longrightarrow>
     set (rt_expected_ids st') = (\<Union>u \<in> set us. set (record_ids u)) \<union> set (rt_expected_ids st)
     \<and> rt_pending st' = rt_pending st"
proof (induction us arbitrary: st)
  case (Cons u us)
  then obtain s where "restore_record entries u st = Inr s" "restore_records entries us s = Inr st'"
    by (auto simp: result_simps)
  then show ?case using Cons.IH restore_record_ids by fastforce
qed simp

lemma restore_attempt_ids:
  assumes "restore_attempt entries a st = Inr st'"
  shows "set (rt_expected_ids st') = insert (ra_request_id a) (set (rt_expected_ids st))"
    "set (dict_keys (rt_pending st')) = (if ra_status a = ''adopted_proven_pre_send''
       then insert (ra_request_id a) (set (dict_keys (rt_pending st))) else set (dict_keys (rt_pending st)))"
  using assms unfolding restore_attempt_def Let_def
  by (auto simp: state_error_def set_keys_update simp del: set_map split: if_splits option.splits)

lemma restore_attempts_ids:
  "restore_attempts entries as st = Inr st' \<Longrightarrow>
     set (rt_expected_ids st') = set (map ra_request_id as) \<union> set (rt_expected_ids st)
     \<and> set (dict_keys (rt_pending st')) = set (map ra_request_id (filter (\<lambda>a. ra_status a = ''adopted_proven_pre_send'') as))
         \<union> set (dict_keys (rt_pending st))"
proof (induction as arbitrary: st)
  case (Cons a as)
  then obtain s where s: "restore_attempt entries a st = Inr s" "restore_attempts entries as s = Inr st'"
    by (auto simp: result_simps)
  then show ?case using Cons.IH [OF s(2)] restore_attempt_ids [OF s(1)] by auto
qed simp


lemma restore_plan_Inr:
  assumes "restore_plan env records claims snapshot m = Inr st"
  shows "set (map ce_request_id (cs_entries snapshot)) = baseline_ids claims
      \<union> (\<Union>u \<in> set records. set (record_ids u)) \<union> set (map ra_request_id (rc_attempts claims))"
    "set (dict_keys (rt_pending st))
      = set (map ra_request_id (filter (\<lambda>a. ra_status a = ''adopted_proven_pre_send'') (rc_attempts claims)))"
    "case bm_input_budget m of None \<Rightarrow> True | Some b \<Rightarrow> rt_input st \<le> b"
    "case bm_output_budget m of None \<Rightarrow> True | Some b \<Rightarrow> rt_output st \<le> b"
    "deq (cs_spent_usd snapshot) (rt_expected_spent st)"
proof -
  let ?entries = "map (\<lambda>e. (ce_request_id e, e)) (cs_entries snapshot)"
  from assms obtain s0 s1 s2 where
    s0: "restore_baseline env (cs_cap_usd snapshot) ?entries (rc_baseline claims) start_restore = Inr s0"
    and s1: "restore_records ?entries records s0 = Inr s1"
    and s2: "restore_attempts ?entries (rc_attempts claims) s1 = Inr s2" and st: "st = saturate_uncertain m s2"
    and ids: "set (dict_keys ?entries) = set (rt_expected_ids st)"
    and "deq (cs_spent_usd snapshot) (rt_expected_spent st)"
      "\<not> (case bm_input_budget m of None \<Rightarrow> False | Some b \<Rightarrow> b < rt_input st)"
      "\<not> (case bm_output_budget m of None \<Rightarrow> False | Some b \<Rightarrow> b < rt_output st)"
    unfolding restore_plan_def Let_def rbind_eq_Inr_iff by (elim exE conjE) (auto simp del: set_map)
  then show "deq (cs_spent_usd snapshot) (rt_expected_spent st)"
    "case bm_input_budget m of None \<Rightarrow> True | Some b \<Rightarrow> rt_input st \<le> b"
    "case bm_output_budget m of None \<Rightarrow> True | Some b \<Rightarrow> rt_output st \<le> b"
    by (auto split: option.splits)
  have e: "rt_expected_ids st = rt_expected_ids s2" "rt_pending st = rt_pending s2"
    by (simp_all add: st saturate_uncertain_def)
  have z: "rt_expected_ids start_restore = []" "rt_pending start_restore = []" by (simp_all add: start_restore_def)
  note i = restore_baseline_ids [OF s0] restore_records_ids [OF s1] restore_attempts_ids [OF s2]
  have k: "dict_keys ?entries = map ce_request_id (cs_entries snapshot)" by (simp add: comp_def)
  show "set (map ce_request_id (cs_entries snapshot)) = baseline_ids claims
      \<union> (\<Union>u \<in> set records. set (record_ids u)) \<union> set (map ra_request_id (rc_attempts claims))"
    using ids i z e unfolding k by (simp add: ac_simps)
  show "set (dict_keys (rt_pending st))
      = set (map ra_request_id (filter (\<lambda>a. ra_status a = ''adopted_proven_pre_send'') (rc_attempts claims)))"
    using i z e by simp
qed

lemma restore_Inr:
  assumes "restore_recovered_usage env records scope registry m = (Inr (), registry', m')"
  obtains led snapshot claims st where "bm_ledger m = Some led"
    "ledger_snapshot (env_codec env) led = Inr snapshot"
    "preview_recovery_scope (env_sha256 env) records scope registry = Inr claims"
    "restore_plan env records claims snapshot m = Inr st" "bm_recovery_required m"
    "registry' = AList.delete scope registry" "bm_issued m = []" "bm_reserved m = []"
    "m' = m\<lparr>bm_spent_input := rt_input st, bm_spent_output := rt_output st,
       bm_spent_model := rt_model st, bm_spent_role := rt_role st,
       bm_limit_counts := rt_counts st, bm_pending := rt_pending st,
       bm_spent_exact := cs_spent_usd snapshot,
       bm_spent := float_of_decimal (cs_spent_usd snapshot), bm_recovery_required := False\<rparr>"
proof -
  obtain led where led: "bm_ledger m = Some led"
    using assms by (cases "bm_ledger m") (auto simp: restore_recovered_usage_def state_error_def)
  let ?c = "rbind (refuse_if (\<not> bm_recovery_required m)
        (BudgetReservationStateError ''budget recovery is not required or already ran'')) (\<lambda>_.
      rbind (refuse_if (bm_issued m \<noteq> [] \<or> bm_reserved m \<noteq> [] \<or> bm_reconciled m \<noteq> [] \<or> bm_released m \<noteq> [])
        (BudgetReservationStateError ''budget recovery requires a fresh manager before any request'')) (\<lambda>_.
      rbind (lift_ledger (ledger_snapshot (env_codec env) led)) (\<lambda>snapshot.
      rbind (preview_recovery_scope (env_sha256 env) records scope registry) (\<lambda>claims.
      rbind (restore_plan env records claims snapshot m) (\<lambda>st. Inr (snapshot, st))))))"
  obtain snapshot st where c: "?c = Inr (snapshot, st)"
    using assms led by (cases ?c) (auto simp: restore_recovered_usage_def)
  then obtain claims where cl: "ledger_snapshot (env_codec env) led = Inr snapshot"
    "preview_recovery_scope (env_sha256 env) records scope registry = Inr claims"
    "restore_plan env records claims snapshot m = Inr st" "bm_recovery_required m" "bm_issued m = []"
    "bm_reserved m = []"
    by (auto simp: result_simps lift_ledger_def catch_as_def split: sum.splits)
  show thesis
    by (rule that [OF led cl(1-4) _ cl(5,6)])
      (use assms led c cl(2) in \<open>auto simp: restore_recovered_usage_def consume_recovery_scope_def\<close>)
qed

text \<open>
  C12: Recovery accounts for the whole ledger. If it succeeds, the identifiers in the durable ledger
  are exactly those the campaign baseline, the recovered usage records and the recovered scheduler
  attempts name; the manager's spending is the ledger's, the recovered token counters are within
  the budgets, exactly the proven pre-send attempts wait for adoption, and nothing was reserved yet.
\<close>

theorem restore_binds_ledger:
  assumes "restore_recovered_usage env records scope registry m = (Inr (), registry', m')"
  shows "\<exists>led snapshot claims. bm_ledger m = Some led \<and> ledger_snapshot (env_codec env) led = Inr snapshot
    \<and> preview_recovery_scope (env_sha256 env) records scope registry = Inr claims
    \<and> set (map ce_request_id (cs_entries snapshot)) = baseline_ids claims
        \<union> (\<Union>u \<in> set records. set (record_ids u)) \<union> set (map ra_request_id (rc_attempts claims))
    \<and> bm_spent_exact m' = cs_spent_usd snapshot
    \<and> (case bm_input_budget m of None \<Rightarrow> True | Some b \<Rightarrow> bm_spent_input m' \<le> b)
    \<and> (case bm_output_budget m of None \<Rightarrow> True | Some b \<Rightarrow> bm_spent_output m' \<le> b)
    \<and> set (dict_keys (bm_pending m')) = set (map ra_request_id
        (filter (\<lambda>a. ra_status a = ''adopted_proven_pre_send'') (rc_attempts claims)))
    \<and> bm_reserved m' = [] \<and> bm_issued m' = []"
  using assms
proof (rule restore_Inr)
  fix led snapshot claims st
  assume a: "bm_ledger m = Some led" "ledger_snapshot (env_codec env) led = Inr snapshot"
    "preview_recovery_scope (env_sha256 env) records scope registry = Inr claims"
    "restore_plan env records claims snapshot m = Inr st" "bm_reserved m = []" "bm_issued m = []"
    and m': "m' = m\<lparr>bm_spent_input := rt_input st, bm_spent_output := rt_output st,
       bm_spent_model := rt_model st, bm_spent_role := rt_role st,
       bm_limit_counts := rt_counts st, bm_pending := rt_pending st,
       bm_spent_exact := cs_spent_usd snapshot,
       bm_spent := float_of_decimal (cs_spent_usd snapshot), bm_recovery_required := False\<rparr>"
  note r = restore_plan_Inr [OF a(4)]
  show ?thesis
    using a r by (intro exI [of _ led] exI [of _ snapshot] exI [of _ claims])
      (simp add: m' del: set_map split: option.splits)
qed

text \<open>
  Recovery runs once. After a success the capability is spent: the same manager refuses any
  further recovery, and no manager, with any records, can use that capability again.
\<close>

theorem restore_runs_once:
  assumes "restore_recovered_usage env records scope registry m = (Inr (), registry', m')"
  shows "(\<exists>e. restore_recovered_usage env' records' scope' registry'' m' = (Inl e, registry'', m'))
    \<and> (\<exists>e. restore_recovered_usage env' records' scope registry' n = (Inl e, registry', n))"
  using assms
proof (rule restore_Inr)
  fix led st snapshot
  assume l: "bm_ledger m = Some led" and rg: "registry' = AList.delete scope registry"
    and m': "m' = m\<lparr>bm_spent_input := rt_input st, bm_spent_output := rt_output st,
       bm_spent_model := rt_model st, bm_spent_role := rt_role st,
       bm_limit_counts := rt_counts st, bm_pending := rt_pending st,
       bm_spent_exact := cs_spent_usd snapshot,
       bm_spent := float_of_decimal (cs_spent_usd snapshot), bm_recovery_required := False\<rparr>"
  have "\<exists>e. restore_recovered_usage env' records' scope' registry'' m' = (Inl e, registry'', m')"
    using l by (simp add: restore_recovered_usage_def m' refuse_if_def)
  moreover have "preview_recovery_scope (env_sha256 env') records' scope registry'
      = state_error ''budget recovery capability is invalid, mismatched, or consumed''"
    by (simp add: preview_recovery_scope_def rg dict_simps)
  then have "\<exists>e. restore_recovered_usage env' records' scope registry' n = (Inl e, registry', n)"
    by (auto simp: restore_recovered_usage_def state_error_def result_simps refuse_if_def lift_ledger_def
        catch_as_def split: option.splits sum.splits)
  ultimately show ?thesis by blast
qed

section \<open>A concrete recovery\<close>

definition demo_registry :: recovery_registry where
  "demo_registry = [(0, \<lparr>rs_usage_hashes = [], rs_attempt_hashes = [], rs_claims =
     \<lparr>rc_attempts = [demo_attempt], rc_baseline = None\<rparr>\<rparr>)]"

definition demo_restart :: budget_manager where
  "demo_restart = demo_with demo_held []\<lparr>bm_recovery_required := True\<rparr>"

lemma demo_restores: "\<exists>m'. restore_recovered_usage demo_env [] 0 demo_registry demo_restart = (Inr (), [], m')"
proof -
  have c: "al_cap_usd demo_held = Dec 10 0" by (simp add: demo_held_def demo_fresh_def demo_ledger_def)
  have s: "ledger_snapshot digits_codec demo_held = Inr (snapshot_of (Dec 10 0) [(''r1'', demo_entry)])"
    using demo_load(2) [unfolded demo_canon] by (simp add: ledger_snapshot_def c)
  have e: "cs_entries (snapshot_of (Dec 10 0) [(''r1'', demo_entry)]) = [demo_entry]"
    "deq (cs_spent_usd (snapshot_of (Dec 10 0) [(''r1'', demo_entry)])) dzero"
  proof -
    show "cs_entries (snapshot_of (Dec 10 0) [(''r1'', demo_entry)]) = [demo_entry]"
      by (simp add: snapshot_of_def Let_def)
    have "entries_wf [(''r1'', demo_entry)]" "entries_exact [(''r1'', demo_entry)]"
      using demo_entry_wf by (simp_all add: entries_wf_def entries_exact_def)
    then have "val (cs_spent_usd (snapshot_of (Dec 10 0) [(''r1'', demo_entry)])) = 0"
      using snapshot_exact(1) [of "[(''r1'', demo_entry)]" "Dec 10 0"] demo_amounts(1,4)
      by (simp add: entries_spent_def max_state_bytes_def) (simp add: demo_entry_def reserved_entry_def)
    then show "deq (cs_spent_usd (snapshot_of (Dec 10 0) [(''r1'', demo_entry)])) dzero" by (simp add: deq_iff)
  qed
  have at: "restore_attempt [(''r1'', demo_entry)] demo_attempt start_restore = Inr (start_restore
      \<lparr>rt_expected_ids := [''r1''], rt_pending := [(''r1'', demo_attempt)]\<rparr>)"
    by (simp add: restore_attempt_def start_restore_def)
      (simp add: demo_attempt_def demo_entry_def reserved_entry_def deq_iff)
  have z: "\<not> rt_uncertain start_restore" "rt_expected_spent start_restore = dzero" "rt_input start_restore = 0"
    "rt_output start_restore = 0" "bm_input_budget demo_restart = Some 100" "bm_output_budget demo_restart = Some 100"
    by (simp_all add: start_restore_def demo_restart_def demo_with_def demo_manager_def)
  have "restore_plan demo_env [] \<lparr>rc_attempts = [demo_attempt], rc_baseline = None\<rparr>
      (snapshot_of (Dec 10 0) [(''r1'', demo_entry)]) demo_restart \<in> range Inr"
    unfolding restore_plan_def e(1) Let_def
    by (simp add: restore_baseline_def at demo_entry_wf(3) saturate_uncertain_def e(2) z image_iff)
  then obtain st where p: "restore_plan demo_env [] \<lparr>rc_attempts = [demo_attempt], rc_baseline = None\<rparr>
      (snapshot_of (Dec 10 0) [(''r1'', demo_entry)]) demo_restart = Inr st" by blast
  have f: "bm_ledger demo_restart = Some demo_held" "bm_recovery_required demo_restart" "bm_issued demo_restart = []"
    "bm_reserved demo_restart = []" "bm_reconciled demo_restart = []" "bm_released demo_restart = []"
    "env_codec demo_env = digits_codec"
    by (simp_all add: demo_restart_def demo_with_def demo_manager_def demo_env_def)
  show ?thesis
    by (simp add: restore_recovered_usage_def f s lift_ledger_def catch_as_def preview_recovery_scope_def
        demo_registry_def p consume_recovery_scope_def AList.delete_simps)
qed

theorem restore_binds_ledger_witness:
  "\<exists>m'. set (dict_keys (bm_pending m')) = {''r1''} \<and> bm_reserved m' = []
     \<and> restore_recovered_usage demo_env [] 0 demo_registry demo_restart = (Inr (), [], m')"
proof -
  obtain m' where m': "restore_recovered_usage demo_env [] 0 demo_registry demo_restart = (Inr (), [], m')"
    using demo_restores by blast
  obtain claims where c: "preview_recovery_scope (env_sha256 demo_env) [] 0 demo_registry = Inr claims"
    "set (dict_keys (bm_pending m')) = set (map ra_request_id
        (filter (\<lambda>a. ra_status a = ''adopted_proven_pre_send'') (rc_attempts claims)))" "bm_reserved m' = []"
    using restore_binds_ledger [OF m'] by blast
  have "rc_attempts claims = [demo_attempt]" using c(1) by (auto simp: preview_recovery_scope_def demo_registry_def)
  then have "set (dict_keys (bm_pending m')) = {''r1''}" using c(2) by (simp add: demo_attempt_def)
  with m' c(3) show ?thesis by blast
qed

theorem restore_runs_once_witness:
  "\<exists>m' e. restore_recovered_usage demo_env [] 0 demo_registry m' = (Inl e, demo_registry, m')
     \<and> restore_recovered_usage demo_env [] 0 demo_registry demo_restart = (Inr (), [], m')"
proof -
  obtain m' where m': "restore_recovered_usage demo_env [] 0 demo_registry demo_restart = (Inr (), [], m')"
    using demo_restores by blast
  show ?thesis using restore_runs_once [OF m', of demo_env "[]" 0 demo_registry] m' by blast
qed

end
