(* ===== verification/Source_Text.thy ===== *)
theory Source_Text
  imports Py_Json
begin

text \<open>
  The Python text operations the program uses on source files and paths, over the code points
  below 256: slices, line splitting, newline translation on reading, letter case and POSIX path
  components.
\<close>

section \<open>Slices\<close>

text \<open>\<open>xs[i:j]\<close>: a negative bound counts from the end, and bounds are clamped to the list.\<close>

definition slice_bound :: "nat \<Rightarrow> int \<Rightarrow> nat" where
  "slice_bound n i = nat (if i < 0 then max 0 (i + int n) else min i (int n))"

definition py_slice :: "'a list \<Rightarrow> int \<Rightarrow> int \<Rightarrow> 'a list" where
  "py_slice xs i j = drop (slice_bound (length xs) i) (take (slice_bound (length xs) j) xs)"

lemma py_slice_nonneg: "0 \<le> i \<Longrightarrow> 0 \<le> j \<Longrightarrow> py_slice xs i j = drop (nat i) (take (nat j) xs)"
proof -
  assume b: "0 \<le> i" "0 \<le> j"
  have t: "take (nat (min j (int (length xs)))) xs = take (nat j) xs"
    by (cases "j \<le> int (length xs)") (simp_all add: min_def)
  have d: "drop (nat (min i (int (length xs)))) ys = drop (nat i) ys" if "length ys \<le> length xs" for ys :: "'a list"
    using that by (cases "i \<le> int (length xs)") (simp_all add: min_def)
  show ?thesis using b by (simp add: py_slice_def slice_bound_def t d)
qed

section \<open>Lines\<close>

text \<open>\<open>str.splitlines(keepends=True)\<close>: the line boundaries below code point 256, with CR LF as one.\<close>

definition CR :: char where "CR = CHR 0x0D"
definition LF :: char where "LF = CHR 0x0A"

definition is_line_break :: "char \<Rightarrow> bool" where
  "is_line_break c \<longleftrightarrow> (10 \<le> code c \<and> code c \<le> 13) \<or> (28 \<le> code c \<and> code c \<le> 30) \<or> code c = 133"

fun split_keep :: "string \<Rightarrow> string \<Rightarrow> string list" where
  "split_keep cur [] = (if cur = [] then [] else [rev cur])"
| "split_keep cur (c # cs) =
     (if c = CR \<and> cs \<noteq> [] \<and> hd cs = LF then rev (LF # CR # cur) # split_keep [] (tl cs)
      else if is_line_break c then rev (c # cur) # split_keep [] cs
      else split_keep (c # cur) cs)"

definition splitlines :: "string \<Rightarrow> string list" where
  "splitlines s = split_keep [] s"

text \<open>Reading a text file translates CR LF and CR to LF.\<close>

fun universal_newlines :: "string \<Rightarrow> string" where
  "universal_newlines [] = []"
| "universal_newlines (c # cs) =
     (if c = CR then LF # universal_newlines (if cs \<noteq> [] \<and> hd cs = LF then tl cs else cs)
      else c # universal_newlines cs)"

lemma CR_break: "is_line_break CR" by (simp add: is_line_break_def CR_def code_def)

lemma concat_split_keep: "concat (split_keep cur s) = rev cur @ s"
  by (induction cur s rule: split_keep.induct) (auto simp: neq_Nil_conv)

lemma concat_splitlines [simp]: "concat (splitlines s) = s"
  by (simp add: splitlines_def concat_split_keep)

lemma splitlines_Nil [simp]: "splitlines [] = []"
  by (simp add: splitlines_def)

lemma splitlines_eq_Nil [simp]: "splitlines s = [] \<longleftrightarrow> s = []"
  by (metis concat.simps(1) concat_splitlines splitlines_Nil)

lemma split_keep_nonempty: "[] \<notin> set (split_keep cur s)"
  by (induction cur s rule: split_keep.induct) auto

text \<open>
  The first line is cut off independently of what follows it, as long as the rest begins with the
  same character.
\<close>

lemma split_keep_first:
  "cur \<noteq> [] \<or> s \<noteq> [] \<Longrightarrow> \<exists>u r. s = u @ r \<and> split_keep cur s = (rev cur @ u) # splitlines r
     \<and> (r \<noteq> [] \<longrightarrow> (\<forall>t. t = [] \<or> hd t = hd r \<longrightarrow> split_keep cur (u @ t) = (rev cur @ u) # splitlines t))"
proof (induction cur s rule: split_keep.induct)
  case (1 cur)
  then show ?case by simp
next
  case (2 cur c cs)
  consider (crlf) "c = CR" "cs \<noteq> []" "hd cs = LF" | (break) "\<not> (c = CR \<and> cs \<noteq> [] \<and> hd cs = LF)" "is_line_break c"
    | (other) "\<not> (c = CR \<and> cs \<noteq> [] \<and> hd cs = LF)" "\<not> is_line_break c" by blast
  then show ?case
  proof cases
    case crlf
    then show ?thesis
      by (intro exI [of _ "[CR, LF]"] exI [of _ "tl cs"]) (auto simp: splitlines_def neq_Nil_conv)
  next
    case break
    have "split_keep cur ([c] @ t) = (rev cur @ [c]) # splitlines t" if "cs \<noteq> []" "t = [] \<or> hd t = hd cs" for t
      using break that by (auto simp: splitlines_def)
    then show ?thesis
      using break by (intro exI [of _ "[c]"] exI [of _ cs]) (auto simp: splitlines_def)
  next
    case other
    from "2.IH"(3) [OF other] obtain u r where ur: "cs = u @ r" "split_keep (c # cur) cs = (rev (c # cur) @ u) # splitlines r"
      "r \<noteq> [] \<Longrightarrow> (\<forall>t. t = [] \<or> hd t = hd r \<longrightarrow> split_keep (c # cur) (u @ t) = (rev (c # cur) @ u) # splitlines t)"
      by auto
    have nc: "c \<noteq> CR" using other(2) CR_break by auto
    show ?thesis
      using ur other nc by (intro exI [of _ "c # u"] exI [of _ r]) auto
  qed
qed

lemma splitlines_Cons:
  assumes "splitlines s = l # ls"
  shows "s = l @ concat ls" "splitlines (concat ls) = ls"
    and "ls \<noteq> [] \<Longrightarrow> t = [] \<or> hd t = hd (concat ls) \<Longrightarrow> splitlines (l @ t) = l # splitlines t"
proof -
  have "s \<noteq> []" using assms by auto
  then obtain u r where ur: "s = u @ r" "split_keep [] s = u # splitlines r"
    "r \<noteq> [] \<Longrightarrow> (\<forall>t. t = [] \<or> hd t = hd r \<longrightarrow> split_keep [] (u @ t) = u # splitlines t)"
    using split_keep_first [of "[]" s] by auto
  then have l: "u = l" "splitlines r = ls" using assms by (simp_all add: splitlines_def)
  then have r: "concat ls = r" by (metis concat_splitlines)
  show "s = l @ concat ls" "splitlines (concat ls) = ls" using ur(1) l r by simp_all
  show "splitlines (l @ t) = l # splitlines t" if "ls \<noteq> []" "t = [] \<or> hd t = hd (concat ls)"
    using ur(3) that l r by (auto simp: splitlines_def [of "_ @ _"])
qed

text \<open>A block of consecutive lines splits into the same lines again.\<close>

lemma splitlines_drop: "splitlines (concat (drop n (splitlines s))) = drop n (splitlines s)"
proof (induction n)
  case (Suc n)
  show ?case
  proof (cases "drop n (splitlines s)")
    case (Cons l ls)
    then have "drop (Suc n) (splitlines s) = ls" by (metis drop_Suc tl_drop list.sel(3))
    then show ?thesis using splitlines_Cons(2) [of "concat (drop n (splitlines s))" l ls] Suc Cons by simp
  qed (simp add: drop_Suc flip: drop_drop)
qed simp

lemma splitlines_take: "splitlines (concat (take n (splitlines s))) = take n (splitlines s)"
proof (induction n arbitrary: s)
  case (Suc n)
  show ?case
  proof (cases "splitlines s")
    case (Cons l ls)
    note split = splitlines_Cons [OF Cons]
    have IH: "splitlines (concat (take n ls)) = take n ls" using Suc.IH [of "concat ls"] split(2) by simp
    show ?thesis
    proof (cases "ls = []")
      case True
      then show ?thesis using Cons split(1) by (metis append.right_neutral concat.simps take_Nil take_Suc_Cons)
    next
      case False
      have "concat (take n ls) = [] \<or> hd (concat (take n ls)) = hd (concat ls)"
      proof (cases n)
        case (Suc m)
        obtain k ks where ls: "ls = k # ks" using False by (cases ls) auto
        have "k \<noteq> []" using split_keep_nonempty [of "[]" s] Cons ls by (auto simp: splitlines_def)
        then show ?thesis using Suc ls by simp
      qed simp
      from split(3) [OF False this] show ?thesis using IH Cons by simp
    qed
  qed simp
qed simp

lemma splitlines_slice: "0 \<le> i \<Longrightarrow> 0 \<le> j \<Longrightarrow>
  splitlines (concat (py_slice (splitlines s) i j)) = py_slice (splitlines s) i j"
  using splitlines_drop [of "nat i" "concat (take (nat j) (splitlines s))"]
  by (simp add: py_slice_nonneg splitlines_take)

text \<open>A text with a carriage return is changed by reading it.\<close>

lemma universal_newlines_CR: "CR \<notin> set (universal_newlines s)"
  by (induction s rule: universal_newlines.induct) (auto simp: CR_def LF_def)

lemma universal_newlines_id: "CR \<notin> set s \<Longrightarrow> universal_newlines s = s"
  by (induction s) auto

section \<open>Letter case\<close>

text \<open>
  \<open>str.lower\<close> and \<open>str.upper\<close> on the code points below 256. The capitals of code points 181 and
  255 lie outside and are left unchanged; no other letter has them as its capital.
\<close>

definition lower_char :: "char \<Rightarrow> char" where
  "lower_char c = (if is_upper c \<or> (192 \<le> code c \<and> code c \<le> 222 \<and> code c \<noteq> 215)
     then char_of (code c + 32) else c)"

definition upper_char :: "char \<Rightarrow> string" where
  "upper_char c = (if code c = 223 then ''SS''
     else if is_lower c \<or> (224 \<le> code c \<and> code c \<le> 254 \<and> code c \<noteq> 247)
     then [char_of (code c - 32)] else [c])"

definition upper :: "string \<Rightarrow> string" where
  "upper s = concat (map upper_char s)"

text \<open>A character of the class \<open>\w\<close> below code point 256.\<close>

definition is_word_char :: "char \<Rightarrow> bool" where
  "is_word_char c \<longleftrightarrow> is_alnum c \<or> code c = 95 \<or> code c \<in> {170, 178, 179, 181, 185, 186, 188, 189, 190}
     \<or> (192 \<le> code c \<and> code c \<notin> {215, 247})"

text \<open>\<open>sorted(set(values))\<close>.\<close>

definition sorted_set :: "string list \<Rightarrow> string list" where
  "sorted_set values = sort (remdups values)"

lemma sorted_set_facts [simp]:
  "set (sorted_set xs) = set xs" "sorted (sorted_set xs)" "distinct (sorted_set xs)"
  "length (sorted_set xs) \<le> length xs"
  by (simp_all add: sorted_set_def length_remdups_leq)

lemma sorted_set_Nil [simp]: "sorted_set xs = [] \<longleftrightarrow> xs = []"
  using sorted_set_facts(1) [of xs] by (metis set_empty)

lemma sorted_set_id: "sorted xs \<Longrightarrow> distinct xs \<Longrightarrow> sorted_set xs = xs"
  by (simp add: sorted_set_def distinct_remdups_id sorted_sort_id)

lemma sorted_set_cong: "set xs = set ys \<Longrightarrow> sorted_set xs = sorted_set ys"
  by (rule sorted_distinct_set_unique) simp_all

section \<open>Paths\<close>

text \<open>The components of a \<open>PurePosixPath\<close>, its last one and the suffix of a name.\<close>

definition starts_with :: "string \<Rightarrow> string \<Rightarrow> bool" where
  "starts_with prefix s \<longleftrightarrow> take (length prefix) s = prefix"

fun split_on :: "char \<Rightarrow> string \<Rightarrow> string \<Rightarrow> string list" where
  "split_on sep cur [] = [rev cur]"
| "split_on sep cur (c # cs) = (if c = sep then rev cur # split_on sep [] cs else split_on sep (c # cur) cs)"

definition posix_parts :: "string \<Rightarrow> string list" where
  "posix_parts path = filter (\<lambda>p. p \<noteq> [] \<and> p \<noteq> ''.'') (split_on (CHR ''/'') [] path)"

definition posix_name :: "string \<Rightarrow> string" where
  "posix_name path = (let parts = posix_parts path in if parts = [] then [] else last parts)"

definition name_suffix :: "string \<Rightarrow> string" where
  "name_suffix name =
     (let tail = takeWhile (\<lambda>c. c \<noteq> CHR ''.'') (rev name); i = length name - length tail
      in if i \<le> 1 \<or> tail = [] then [] else CHR ''.'' # rev tail)"

end
