(* ===== verification/Finding_Schema.thy ===== *)
theory Finding_Schema
  imports Source_Text
begin

text \<open>
  The findings of \<open>models/schemas.py\<close> that consensus reads and writes: enumerations, locations,
  evidence, execution provenance with its self-hash, candidates, decisions, scanner findings and
  the final finding, with the validators their classes run. A validator returns the message of the
  \<open>ValueError\<close> it raises, or nothing. Strings are over the code points below 256.
\<close>

section \<open>Enumerations\<close>

datatype severity = SevInformational | SevLow | SevMedium | SevHigh | SevCritical

datatype finding_status =
    CONFIRMED | STRONGLY_SUPPORTED | HIGH_CONFIDENCE | PLAUSIBLE | NEEDS_REVIEW | INFORMATIONAL
  | INSUFFICIENT_CONTEXT | UNSUPPORTED | REJECTED

datatype candidate_origin = MODEL_REVIEW | DETERMINISTIC_EXECUTION

datatype finding_origin = OriginModelReview | OriginExecution | OriginStaticAnalyzer

datatype evidence_strength =
    StrengthNone | MODEL_INFERENCE | INDEPENDENT_MODEL_SUPPORT | VALIDATED_ATTACK_PATH
  | DETERMINISTIC_ANALYZER | DETERMINISTIC_EXECUTION_COUNTEREXAMPLE | LOCAL_FORK_REPRODUCTION
  | MINIMIZED_LOCAL_FORK_REPRODUCTION | FORMAL_COUNTEREXAMPLE

datatype reproduction_state =
    NOT_ATTEMPTED | GENERATION_FAILED | COMPILE_FAILED | ENVIRONMENT_BLOCKED | NOT_REPRODUCED
  | PARTIALLY_REPRODUCED | REPRODUCED | REPRODUCED_AND_MINIMIZED | FORMALLY_PROVEN | DISPROVEN

datatype verification_verdict =
    VerdictVerified | VerdictPlausible | VerdictRejected | VerdictInsufficientContext

datatype evidence_type =
    EvModel | EvScanner | EvExecution | EvReproduction | EvFormal | EvRepository

fun reproduction_value :: "reproduction_state \<Rightarrow> string" where
  "reproduction_value NOT_ATTEMPTED = ''not_attempted''"
| "reproduction_value GENERATION_FAILED = ''generation_failed''"
| "reproduction_value COMPILE_FAILED = ''compile_failed''"
| "reproduction_value ENVIRONMENT_BLOCKED = ''environment_blocked''"
| "reproduction_value NOT_REPRODUCED = ''not_reproduced''"
| "reproduction_value PARTIALLY_REPRODUCED = ''partially_reproduced''"
| "reproduction_value REPRODUCED = ''reproduced''"
| "reproduction_value REPRODUCED_AND_MINIMIZED = ''reproduced_and_minimized''"
| "reproduction_value FORMALLY_PROVEN = ''formally_proven''"
| "reproduction_value DISPROVEN = ''disproven''"

text \<open>\<open>SEVERITY_ORDER\<close> of \<open>constants.py\<close>.\<close>

fun severity_order :: "severity \<Rightarrow> int" where
  "severity_order SevInformational = 0"
| "severity_order SevLow = 1"
| "severity_order SevMedium = 2"
| "severity_order SevHigh = 3"
| "severity_order SevCritical = 4"

section \<open>Locations, evidence and votes\<close>

type_synonym 'a checked = "(string, 'a) result"

record location =
  lo_path :: string
  lo_start_line :: int
  lo_end_line :: int
  lo_symbol :: "string option"
  lo_content_hash :: "string option"

definition or_empty :: "string option \<Rightarrow> string" where
  "or_empty s = (case s of None \<Rightarrow> [] | Some t \<Rightarrow> t)"

text \<open>Python's truth value of an optional string.\<close>

definition truthy :: "string option \<Rightarrow> bool" where
  "truthy s \<longleftrightarrow> (case s of None \<Rightarrow> False | Some t \<Rightarrow> t \<noteq> [])"

definition validate_location :: "location \<Rightarrow> unit checked" where
  "validate_location l =
     rbind (require (1 \<le> lo_start_line l \<and> 1 \<le> lo_end_line l)
       ''Input should be greater than or equal to 1'') (\<lambda>_.
     require (\<not> lo_end_line l < lo_start_line l) ''end_line must not precede start_line'')"

record source_sink =
  ss_description :: string
  ss_path :: string
  ss_line :: int

record evidence_item =
  ev_type :: evidence_type
  ev_source :: string
  ev_description :: string
  ev_rule_id :: "string option"
  ev_fingerprint :: "string option"

record verification_test =
  vt_description :: string
  vt_safe :: bool

record model_vote =
  mv_role :: string
  mv_requested_model :: string
  mv_returned_model :: "string option"
  mv_family :: string
  mv_verdict :: string
  mv_rationale :: string

record location_validation =
  lv_valid :: bool
  lv_content_hash :: "string option"
  lv_errors :: "string list"

section \<open>Execution provenance\<close>

text \<open>\<open>validated_public_tool_version\<close>: every code point below 256 is its own NFC form.\<close>

definition is_control_category :: "char \<Rightarrow> bool" where
  "is_control_category c \<longleftrightarrow> code c < 32 \<or> (127 \<le> code c \<and> code c < 160) \<or> code c = 173"

definition public_tool_version :: "string \<Rightarrow> bool" where
  "public_tool_version s \<longleftrightarrow> s \<noteq> [] \<and> s = strip_spaces s \<and> length s \<le> 256
     \<and> \<not> list_ex is_control_category s \<and> \<not> list_ex (\<lambda>c. c \<in> {CHR ''/'', CHR 0x5C, CHR ''=''}) s"

record execution_provenance =
  xp_invariant_id :: string
  xp_invariant_evidence_sha256 :: string
  xp_harness_name :: string
  xp_harness_spec_sha256 :: string
  xp_property_corpus_sha256 :: string
  xp_property_ids :: "string list"
  xp_property_hashes :: "string list"
  xp_execution_result_sha256 :: string
  xp_execution_observation_sha256 :: string
  xp_executable_sha256 :: string
  xp_source_sha256 :: string
  xp_compiler_version :: string
  xp_compiler_sha256 :: string
  xp_isolation_backend :: string
  xp_isolation_attestation_sha256 :: string
  xp_attempts :: int
  xp_successful_attempts :: int
  xp_minimized :: bool
  xp_source_locations :: "location list"
  xp_provenance_sha256 :: string

definition location_json :: "location \<Rightarrow> json" where
  "location_json l = JObj
     [(''path'', JStr (lo_path l)), (''start_line'', JInt (lo_start_line l)),
      (''end_line'', JInt (lo_end_line l)), (''symbol'', opt_json JStr (lo_symbol l)),
      (''content_hash'', opt_json JStr (lo_content_hash l))]"

text \<open>\<open>model_dump(mode="json", exclude={"provenance_sha256"})\<close>.\<close>

definition provenance_payload :: "execution_provenance \<Rightarrow> json" where
  "provenance_payload p = JObj
     [(''schema_version'', JStr ''1.0''), (''producer'', JStr ''foundry_invariant''),
      (''execution_evidence'', JStr ''real''), (''invariant_id'', JStr (xp_invariant_id p)),
      (''invariant_evidence_sha256'', JStr (xp_invariant_evidence_sha256 p)),
      (''harness_name'', JStr (xp_harness_name p)),
      (''harness_spec_sha256'', JStr (xp_harness_spec_sha256 p)),
      (''property_corpus_sha256'', JStr (xp_property_corpus_sha256 p)),
      (''property_ids'', JArr (map JStr (xp_property_ids p))),
      (''property_hashes'', JArr (map JStr (xp_property_hashes p))),
      (''execution_result_sha256'', JStr (xp_execution_result_sha256 p)),
      (''execution_observation_sha256'', JStr (xp_execution_observation_sha256 p)),
      (''executable_sha256'', JStr (xp_executable_sha256 p)),
      (''source_sha256'', JStr (xp_source_sha256 p)),
      (''compiler_version'', JStr (xp_compiler_version p)),
      (''compiler_sha256'', JStr (xp_compiler_sha256 p)),
      (''isolation_backend'', JStr (xp_isolation_backend p)),
      (''isolation_attestation_sha256'', JStr (xp_isolation_attestation_sha256 p)),
      (''replay_confirmed'', JBool True), (''attempts'', JInt (xp_attempts p)),
      (''successful_attempts'', JInt (xp_successful_attempts p)),
      (''minimized'', JBool (xp_minimized p)),
      (''source_locations'', JArr (map location_json (xp_source_locations p)))]"

definition canonical_model_sha256 :: "(string \<Rightarrow> string) \<Rightarrow> json \<Rightarrow> string" where
  "canonical_model_sha256 sha256 v = sha256 (dumps v)"

definition expected_provenance_sha256 :: "(string \<Rightarrow> string) \<Rightarrow> execution_provenance \<Rightarrow> string" where
  "expected_provenance_sha256 sha256 p = canonical_model_sha256 sha256 (provenance_payload p)"

definition bounded :: "nat \<Rightarrow> string \<Rightarrow> bool" where
  "bounded n s \<longleftrightarrow> s \<noteq> [] \<and> length s \<le> n"

definition provenance_fields_ok :: "execution_provenance \<Rightarrow> bool" where
  "provenance_fields_ok p \<longleftrightarrow>
     bounded 160 (xp_invariant_id p) \<and> bounded 240 (xp_harness_name p)
     \<and> list_all is_sha256_hex
         [xp_invariant_evidence_sha256 p, xp_harness_spec_sha256 p, xp_property_corpus_sha256 p,
          xp_execution_result_sha256 p, xp_execution_observation_sha256 p, xp_executable_sha256 p,
          xp_source_sha256 p, xp_compiler_sha256 p, xp_isolation_attestation_sha256 p,
          xp_provenance_sha256 p]
     \<and> xp_property_ids p \<noteq> [] \<and> length (xp_property_ids p) \<le> 10000
     \<and> xp_property_hashes p \<noteq> [] \<and> length (xp_property_hashes p) \<le> 10000
     \<and> bounded 1000 (xp_compiler_version p) \<and> public_tool_version (xp_compiler_version p)
     \<and> bounded 160 (xp_isolation_backend p)
     \<and> 2 \<le> xp_attempts p \<and> xp_attempts p \<le> 10
     \<and> 2 \<le> xp_successful_attempts p \<and> xp_successful_attempts p \<le> 10
     \<and> xp_source_locations p \<noteq> [] \<and> length (xp_source_locations p) \<le> 100
     \<and> list_all (\<lambda>l. validate_location l = Inr ()) (xp_source_locations p)"

type_synonym location_tuple = "string \<times> int \<times> int \<times> string \<times> string"

definition location_key :: "location \<Rightarrow> location_tuple" where
  "location_key l = (lo_path l, lo_start_line l, lo_end_line l, or_empty (lo_symbol l),
     or_empty (lo_content_hash l))"

definition validate_provenance :: "(string \<Rightarrow> string) \<Rightarrow> execution_provenance \<Rightarrow> unit checked" where
  "validate_provenance sha256 p =
     rbind (require (provenance_fields_ok p) ''execution provenance field is invalid'') (\<lambda>_.
     rbind (require (xp_property_ids p = sort (remdups (xp_property_ids p)))
       ''execution provenance property IDs must be unique and sorted'') (\<lambda>_.
     rbind (require (xp_property_hashes p = sort (remdups (xp_property_hashes p))
         \<and> list_all is_sha256_hex (xp_property_hashes p))
       ''execution provenance property hashes must be unique and sorted'') (\<lambda>_.
     rbind (require (length (xp_property_ids p) = length (xp_property_hashes p))
       ''execution provenance property IDs and hashes must have equal length'') (\<lambda>_.
     rbind (require (list_all2 (\<lambda>i h. i = ''prop-'' @ take 24 h) (xp_property_ids p) (xp_property_hashes p))
       ''execution provenance property IDs must derive from their hashes'') (\<lambda>_.
     rbind (require (xp_attempts p = xp_successful_attempts p)
       ''execution provenance requires every replay attempt to succeed'') (\<lambda>_.
     rbind (require (let keys = map location_key (xp_source_locations p) in keys = sort (remdups keys)
         \<and> list_all (\<lambda>l. case lo_content_hash l of None \<Rightarrow> False | Some h \<Rightarrow> is_sha256_hex h)
             (xp_source_locations p))
       ''execution provenance source locations must be unique, sorted, and content-hashed'') (\<lambda>_.
     require (xp_provenance_sha256 p = expected_provenance_sha256 sha256 p)
       ''execution provenance hash does not match its typed contents'')))))))"

text \<open>The last location with a key wins, as in a dictionary comprehension.\<close>

definition locations_by_key :: "execution_provenance list \<Rightarrow> (location_tuple, location) dict" where
  "locations_by_key ps =
     fold (\<lambda>l d. AList.update (location_key l) l d) (concat (map xp_source_locations ps)) []"

definition execution_origin_location_validation_sha256 ::
    "(string \<Rightarrow> string) \<Rightarrow> execution_provenance list \<Rightarrow> string checked" where
  "execution_origin_location_validation_sha256 sha256 ps =
     (let by_key = locations_by_key ps;
          hashes = List.map_filter lo_content_hash (dict_values by_key)
      in rbind (require (by_key \<noteq> [])
           ''execution-origin location validation requires source evidence'') (\<lambda>_.
         rbind (require (length hashes = length by_key)
           ''execution-origin location validation requires content hashes'') (\<lambda>_.
         Inr (sha256 (concat (sort hashes))))))"

section \<open>Candidates, decisions and scanner findings\<close>

record candidate_finding =
  cf_candidate_id :: string
  cf_origin_kind :: candidate_origin
  cf_execution_provenance :: "execution_provenance option"
  cf_title :: string
  cf_severity :: severity
  cf_confidence :: pyfloat
  cf_cwe :: "string list"
  cf_owasp :: "string list"
  cf_summary :: string
  cf_impact :: string
  cf_preconditions :: "string list"
  cf_locations :: "location list"
  cf_source :: "source_sink option"
  cf_sink :: "source_sink option"
  cf_attack_path :: "string list"
  cf_evidence :: "evidence_item list"
  cf_compensating_controls :: "string list"
  cf_false_positive_conditions :: "string list"
  cf_recommendation :: string
  cf_verification_test :: verification_test
  cf_role :: "string option"
  cf_model_family :: "string option"
  cf_model_votes :: "model_vote list"

definition source_sink_ok :: "source_sink option \<Rightarrow> bool" where
  "source_sink_ok s \<longleftrightarrow>
     (case s of None \<Rightarrow> True | Some x \<Rightarrow> ss_description x \<noteq> [] \<and> 1 \<le> ss_line x)"

definition verification_test_ok :: "verification_test \<Rightarrow> bool" where
  "verification_test_ok t \<longleftrightarrow> vt_description t \<noteq> [] \<and> vt_safe t"

definition candidate_fields_ok :: "candidate_finding \<Rightarrow> bool" where
  "candidate_fields_ok c \<longleftrightarrow>
     cf_candidate_id c \<noteq> [] \<and> cf_title c \<noteq> [] \<and> 0 \<le> cf_confidence c \<and> cf_confidence c \<le> 1
     \<and> cf_summary c \<noteq> [] \<and> cf_impact c \<noteq> [] \<and> cf_preconditions c \<noteq> [] \<and> cf_locations c \<noteq> []
     \<and> list_all (\<lambda>l. validate_location l = Inr ()) (cf_locations c)
     \<and> source_sink_ok (cf_source c) \<and> source_sink_ok (cf_sink c) \<and> cf_attack_path c \<noteq> []
     \<and> cf_evidence c \<noteq> [] \<and> list_all (\<lambda>e. ev_description e \<noteq> []) (cf_evidence c)
     \<and> cf_false_positive_conditions c \<noteq> [] \<and> cf_recommendation c \<noteq> []
     \<and> verification_test_ok (cf_verification_test c)"

definition exec_candidate_id :: "execution_provenance \<Rightarrow> string" where
  "exec_candidate_id p = ''exec-'' @ take 24 (xp_provenance_sha256 p)"

definition binds_provenance :: "execution_provenance \<Rightarrow> evidence_item \<Rightarrow> bool" where
  "binds_provenance p e \<longleftrightarrow> ev_source e = ''mmaudit-foundry-invariant''
     \<and> ev_rule_id e = Some (xp_invariant_id p) \<and> ev_fingerprint e = Some (xp_provenance_sha256 p)"

definition blank :: "string \<Rightarrow> bool" where
  "blank s \<longleftrightarrow> strip_spaces s = []"

definition origin_fields_are_exact :: "(string \<Rightarrow> string) \<Rightarrow> candidate_finding \<Rightarrow> unit checked" where
  "origin_fields_are_exact sha256 c =
     (case cf_origin_kind c of
        MODEL_REVIEW \<Rightarrow>
          rbind (require (cf_execution_provenance c = None)
            ''model-review candidates cannot claim execution provenance'') (\<lambda>_.
          require (\<not> blank (or_empty (cf_role c)) \<and> \<not> blank (or_empty (cf_model_family c)))
            ''model-review candidates require a non-empty role and family'')
      | DETERMINISTIC_EXECUTION \<Rightarrow>
          (case cf_execution_provenance c of
             None \<Rightarrow> Inl ''execution-origin candidates require typed provenance''
           | Some p \<Rightarrow>
               rbind (validate_provenance sha256 p) (\<lambda>_.
               rbind (require (cf_role c = None \<and> cf_model_family c = None)
                 ''execution-origin candidates cannot claim a model role or family'') (\<lambda>_.
               rbind (require (cf_candidate_id c = exec_candidate_id p)
                 ''execution-origin candidate ID must derive from provenance'') (\<lambda>_.
               rbind (require (cf_locations c = xp_source_locations p)
                 ''execution-origin candidate locations must exactly match provenance'') (\<lambda>_.
               let bound = filter (\<lambda>e. ev_type e = EvExecution) (cf_evidence c)
               in rbind (require (length bound = 1)
                    ''execution-origin candidates require exactly one execution evidence'') (\<lambda>_.
                  rbind (require (binds_provenance p (hd bound))
                    ''execution evidence must bind the exact provenance record'') (\<lambda>_.
                  require (\<not> list_ex (\<lambda>e. ev_type e = EvModel) (cf_evidence c))
                    ''execution-origin candidates cannot contain model evidence''))))))))"

definition validate_candidate :: "(string \<Rightarrow> string) \<Rightarrow> candidate_finding \<Rightarrow> candidate_finding checked" where
  "validate_candidate sha256 c =
     rbind (require (candidate_fields_ok c) ''candidate finding field is invalid'') (\<lambda>_.
     rbind (origin_fields_are_exact sha256 c) (\<lambda>_. Inr c))"

record verification_decision =
  vd_candidate_id :: string
  vd_verdict :: verification_verdict
  vd_rationale :: string
  vd_source_to_sink :: string
  vd_reachability :: string
  vd_authentication :: string
  vd_privilege_requirements :: string
  vd_environmental_assumptions :: "string list"
  vd_guards_and_controls :: "string list"
  vd_false_positive_conditions :: "string list"
  vd_safe_verification_test :: verification_test
  vd_confidence :: pyfloat

record judge_decision =
  jd_group_id :: string
  jd_status :: finding_status
  jd_severity :: severity
  jd_confidence :: pyfloat
  jd_cwe :: "string list"
  jd_owasp :: "string list"
  jd_rationale :: string

record scanner_finding =
  sf_scanner :: string
  sf_rule_id :: string
  sf_title :: string
  sf_severity :: severity
  sf_message :: string
  sf_locations :: "location list"
  sf_cwe :: "string list"
  sf_evidence_strength :: evidence_strength
  sf_fingerprint :: string

section \<open>The final finding\<close>

record finding =
  fi_id :: string
  fi_group_id :: "string option"
  fi_origin_kind :: finding_origin
  fi_execution_provenance :: "execution_provenance list"
  fi_title :: string
  fi_status :: finding_status
  fi_severity :: severity
  fi_confidence :: pyfloat
  fi_cwe :: "string list"
  fi_owasp :: "string list"
  fi_summary :: string
  fi_impact :: string
  fi_preconditions :: "string list"
  fi_locations :: "location list"
  fi_source :: "source_sink option"
  fi_sink :: "source_sink option"
  fi_attack_path :: "string list"
  fi_evidence :: "evidence_item list"
  fi_compensating_controls :: "string list"
  fi_false_positive_conditions :: "string list"
  fi_recommendation :: string
  fi_verification_test :: "verification_test option"
  fi_model_votes :: "model_vote list"
  fi_location_validation :: location_validation
  fi_disagreement :: string
  fi_contributing_candidate_ids :: "string list"
  fi_evidence_strength :: evidence_strength
  fi_reproduction_state :: reproduction_state

definition executed_strengths :: "evidence_strength list" where
  "executed_strengths = [DETERMINISTIC_EXECUTION_COUNTEREXAMPLE, LOCAL_FORK_REPRODUCTION,
     MINIMIZED_LOCAL_FORK_REPRODUCTION, FORMAL_COUNTEREXAMPLE]"

definition expected_locations :: "execution_provenance list \<Rightarrow> location list" where
  "expected_locations ps = dict_values (sort_key fst (locations_by_key ps))"

definition execution_evidence_exact :: "finding \<Rightarrow> bool" where
  "execution_evidence_exact f \<longleftrightarrow>
     (let expected = remdups (map (\<lambda>p. (Some (xp_invariant_id p), Some (xp_provenance_sha256 p)))
            (fi_execution_provenance f));
          execution = filter (\<lambda>e. ev_type e = EvExecution) (fi_evidence f);
          observed = map (\<lambda>e. (ev_rule_id e, ev_fingerprint e))
            (filter (\<lambda>e. ev_source e = ''mmaudit-foundry-invariant'') execution)
      in length execution = length expected \<and> set observed = set expected)"

definition validate_origin_fields :: "(string \<Rightarrow> string) \<Rightarrow> finding \<Rightarrow> unit checked" where
  "validate_origin_fields sha256 f =
     (let ps = fi_execution_provenance f; hashes = map xp_provenance_sha256 ps
      in if fi_origin_kind f \<noteq> OriginExecution
         then require (ps = []) ''non-execution findings cannot claim execution provenance''
         else
           rbind (require (\<not> blank (or_empty (fi_group_id f)))
             ''execution-origin findings require a non-empty group ID'') (\<lambda>_.
           rbind (require (ps \<noteq> []) ''execution-origin findings require typed provenance'') (\<lambda>_.
           rbind (traverse (validate_provenance sha256) ps) (\<lambda>_.
           rbind (require (hashes = sort (remdups hashes))
             ''execution finding provenance must be unique and sorted'') (\<lambda>_.
           rbind (require (distinct (fi_contributing_candidate_ids f))
             ''execution finding contributing candidate IDs must be unique'') (\<lambda>_.
           rbind (require (set (map exec_candidate_id ps) \<subseteq> set (fi_contributing_candidate_ids f))
             ''execution finding must retain every provenance-derived candidate ID'') (\<lambda>_.
           rbind (require (fi_locations f = expected_locations ps)
             ''execution finding locations must exactly match its provenance'') (\<lambda>_.
           rbind (require (execution_evidence_exact f)
             ''execution finding evidence must exactly bind every provenance record'') (\<lambda>_.
           if fi_status f = REJECTED then Inr ()
           else
             rbind (require (lv_valid (fi_location_validation f))
               ''active execution-origin findings require valid source locations'') (\<lambda>_.
             rbind (execution_origin_location_validation_sha256 sha256 ps) (\<lambda>expected.
             rbind (require (lv_content_hash (fi_location_validation f) = Some expected)
               ''execution finding location-validation hash differs from its provenance'') (\<lambda>_.
             require (fi_evidence_strength f \<in> set executed_strengths)
               ''active execution-origin finding requires deterministic execution strength''))))))))))))"

definition finding_fields_ok :: "finding \<Rightarrow> bool" where
  "finding_fields_ok f \<longleftrightarrow>
     fi_id f \<noteq> [] \<and> length (fi_execution_provenance f) \<le> 100 \<and> fi_title f \<noteq> []
     \<and> 0 \<le> fi_confidence f \<and> fi_confidence f \<le> 1 \<and> fi_summary f \<noteq> [] \<and> fi_impact f \<noteq> []"

definition validate_finding :: "(string \<Rightarrow> string) \<Rightarrow> finding \<Rightarrow> finding checked" where
  "validate_finding sha256 f =
     rbind (require (finding_fields_ok f) ''finding field is invalid'') (\<lambda>_.
     rbind (validate_origin_fields sha256 f) (\<lambda>_.
     if fi_status f = REJECTED then Inr f
     else
       rbind (require (fi_preconditions f \<noteq> [] \<and> fi_locations f \<noteq> [] \<and> fi_attack_path f \<noteq> []
           \<and> fi_evidence f \<noteq> [] \<and> fi_false_positive_conditions f \<noteq> [])
         ''non-rejected findings require complete evidence fields'') (\<lambda>_.
       rbind (require (fi_impact f \<noteq> [] \<and> fi_recommendation f \<noteq> [] \<and> fi_verification_test f \<noteq> None)
         ''non-rejected findings require impact, remediation, and a test'') (\<lambda>_. Inr f))))"

end
