(* ===== verification/Consensus.thy ===== *)
theory Consensus
  imports Finding_Schema "HOL-Library.Monad_Syntax"
begin

text \<open>
  \<open>orchestration/consensus.py\<close>: how similar two candidates are, which candidates form a group
  (a union-find with path halving, as the code runs it), the stable identifier of a finding, the
  status consensus allows, and the merge of a group into one finding. \<open>sha256\<close> is the hexadecimal
  digest of a UTF-8 text. A \<open>ValueError\<close> is its message.
\<close>

section \<open>Tokens\<close>

definition stopwords :: "string list" where
  "stopwords = [''a'', ''an'', ''and'', ''in'', ''of'', ''the'', ''to'', ''via'', ''with'', ''without'',
     ''unsafe'', ''possible'']"

text \<open>\<open>re.findall("[a-z0-9]+", s)\<close>: the maximal runs, in order; \<open>cur\<close> is the run read so far, reversed.\<close>

fun find_words :: "string \<Rightarrow> string \<Rightarrow> string list" where
  "find_words cur [] = (if cur = [] then [] else [rev cur])"
| "find_words cur (c # cs) =
     (if is_lower c \<or> is_digit c then find_words (c # cur) cs
      else if cur = [] then find_words [] cs else rev cur # find_words [] cs)"

definition tokens :: "string \<Rightarrow> string list" where
  "tokens s = filter (\<lambda>t. t \<notin> set stopwords \<and> 1 < length t) (remdups (find_words [] (map lower_char s)))"

definition jaccard :: "string list \<Rightarrow> string list \<Rightarrow> pyfloat" where
  "jaccard left right =
     (if left = [] \<or> right = [] then 0
      else fdiv (of_nat (length (filter (\<lambda>t. t \<in> set right) left))) (of_nat (length (remdups (left @ right)))))"

section \<open>Similarity\<close>

definition cwe_overlap :: "string list \<Rightarrow> string list \<Rightarrow> bool" where
  "cwe_overlap left right \<longleftrightarrow> list_ex (\<lambda>v. v \<in> set (map upper right)) (map upper left)"

text \<open>For each left location only the first right location on the same path counts.\<close>

fun score_locations :: "pyfloat \<Rightarrow> location list \<Rightarrow> location list \<Rightarrow> pyfloat" where
  "score_locations score [] rights = score"
| "score_locations score (l # ls) rights =
     (case find (\<lambda>r. lo_path l = lo_path r) rights of
        None \<Rightarrow> score_locations score ls rights
      | Some r \<Rightarrow>
          let s1 = fadd score (fl (1 / 4));
              s2 = (if \<bar>lo_start_line l - lo_start_line r\<bar> \<le> 12 then fadd s1 (fl (1 / 5)) else s1);
              s3 = (if truthy (lo_symbol l) \<and> lo_symbol l = lo_symbol r then fadd s2 (fl (1 / 10)) else s2)
          in score_locations s3 ls rights)"

definition same_path :: "source_sink option \<Rightarrow> source_sink option \<Rightarrow> bool" where
  "same_path a b \<longleftrightarrow> (case (a, b) of (Some x, Some y) \<Rightarrow> ss_path x = ss_path y | _ \<Rightarrow> False)"

definition candidate_similarity :: "candidate_finding \<Rightarrow> candidate_finding \<Rightarrow> pyfloat" where
  "candidate_similarity left right =
     (let s0 = (if cwe_overlap (cf_cwe left) (cf_cwe right) then fadd 0 (fl (3 / 10)) else 0);
          s1 = score_locations s0 (cf_locations left) (cf_locations right);
          s2 = fadd s1 (fmul (fl (1 / 10)) (jaccard (tokens (cf_title left)) (tokens (cf_title right))));
          s3 = fadd s2 (fmul (fl (1 / 20)) (jaccard (tokens (join '' '' (cf_attack_path left)))
                 (tokens (join '' '' (cf_attack_path right)))));
          s4 = (if same_path (cf_source left) (cf_source right) then fadd s3 (fl (1 / 20)) else s3);
          s5 = (if same_path (cf_sink left) (cf_sink right) then fadd s4 (fl (1 / 20)) else s4)
      in min 1 s5)"

definition similarity_threshold :: pyfloat where
  "similarity_threshold = fl (11 / 20)"

section \<open>Execution anchors\<close>

definition is_execution :: "candidate_finding \<Rightarrow> bool" where
  "is_execution c \<longleftrightarrow> cf_origin_kind c = DETERMINISTIC_EXECUTION"

definition locations_relate :: "location \<Rightarrow> location \<Rightarrow> bool" where
  "locations_relate e c \<longleftrightarrow> lo_path e = lo_path c
     \<and> (\<not> (lo_end_line e < lo_start_line c \<or> lo_end_line c < lo_start_line e)
        \<or> (truthy (lo_symbol e) \<and> truthy (lo_symbol c) \<and> lo_symbol e = lo_symbol c))"

definition execution_location_compatible :: "candidate_finding \<Rightarrow> candidate_finding \<Rightarrow> bool" where
  "execution_location_compatible e c \<longleftrightarrow>
     list_ex (\<lambda>le. list_ex (locations_relate le) (cf_locations c)) (cf_locations e)"

definition link_source :: string where
  "link_source = ''mmaudit-host-execution-link''"

text \<open>Two different candidate objects; the code's identity test comes before this one.\<close>

definition execution_semantic_compatible :: "candidate_finding \<Rightarrow> candidate_finding \<Rightarrow> bool" where
  "execution_semantic_compatible e c =
     (case cf_execution_provenance e of
        None \<Rightarrow> False
      | Some p \<Rightarrow>
          if is_execution c then cf_execution_provenance c = Some p
          else list_ex (\<lambda>ev. ev_type ev = EvRepository \<and> ev_source ev = link_source
                 \<and> ev_rule_id ev = Some (xp_invariant_id p)
                 \<and> ev_fingerprint ev = Some (xp_provenance_sha256 p)) (cf_evidence c))"

definition link_evidence :: "execution_provenance \<Rightarrow> evidence_item" where
  "link_evidence p = \<lparr>ev_type = EvRepository, ev_source = link_source,
     ev_description = ''Host validation linked this model analysis to the exact deterministic execution provenance.'',
     ev_rule_id = Some (xp_invariant_id p), ev_fingerprint = Some (xp_provenance_sha256 p)\<rparr>"

definition bind_model_analysis_to_execution_origin ::
    "(string \<Rightarrow> string) \<Rightarrow> candidate_finding \<Rightarrow> candidate_finding \<Rightarrow> candidate_finding checked" where
  "bind_model_analysis_to_execution_origin sha256 e c =
     (case (cf_origin_kind e, cf_execution_provenance e) of
        (DETERMINISTIC_EXECUTION, Some p) \<Rightarrow>
          rbind (require (cf_origin_kind c = MODEL_REVIEW)
            ''execution analysis links may annotate only model-review candidates'') (\<lambda>_.
          rbind (require (\<not> list_ex (\<lambda>ev. ev_source ev = link_source) (cf_evidence c))
            ''model candidate already carries a host execution analysis link'') (\<lambda>_.
          rbind (require (execution_location_compatible e c)
            ''execution analysis links require an exact source relationship'') (\<lambda>_.
          rbind (require (\<not> candidate_similarity e c < similarity_threshold)
            ''execution analysis links retain the candidate similarity threshold'') (\<lambda>_.
          validate_candidate sha256 (c\<lparr>cf_evidence := cf_evidence c @ [link_evidence p]\<rparr>)))))
      | _ \<Rightarrow> Inl ''execution analysis links require a typed execution-origin candidate'')"

section \<open>Grouping\<close>

text \<open>
  The union-find of \<open>group_candidates\<close>: the parent list is updated by every \<open>find\<close> (path
  halving). A loop that would not end is \<open>None\<close>.
\<close>

partial_function (option) uf_find :: "nat list \<Rightarrow> nat \<Rightarrow> (nat \<times> nat list) option" where
  "uf_find parent index =
     (if parent ! index = index then Some (index, parent)
      else let parent' = parent[index := parent ! (parent ! index)]
           in uf_find parent' (parent' ! index))"

definition uf_union :: "nat list \<Rightarrow> nat \<Rightarrow> nat \<Rightarrow> nat list option" where
  "uf_union parent left right =
     do {
       (left_root, p1) \<leftarrow> uf_find parent left;
       (right_root, p2) \<leftarrow> uf_find p1 right;
       Some (if left_root \<noteq> right_root
             then p2[max left_root right_root := min left_root right_root] else p2)
     }"

fun component_indices :: "nat list \<Rightarrow> nat \<Rightarrow> nat list \<Rightarrow> (nat list \<times> nat list) option" where
  "component_indices parent target [] = Some ([], parent)"
| "component_indices parent target (i # is) =
     do {
       (r, p1) \<leftarrow> uf_find parent i;
       (js, p2) \<leftarrow> component_indices p1 target is;
       Some (if r = target then i # js else js, p2)
     }"

text \<open>
  The code skips a member that is the anchor itself by object identity. The candidates of a run are
  distinct objects, so that this is equality of their indices.
\<close>

definition anchors_compatible :: "candidate_finding list \<Rightarrow> nat list \<Rightarrow> bool" where
  "anchors_compatible cs members \<longleftrightarrow>
     list_all (\<lambda>a. is_execution (cs ! a) \<longrightarrow> list_all (\<lambda>m. a = m
       \<or> (execution_location_compatible (cs ! a) (cs ! m) \<and> execution_semantic_compatible (cs ! a) (cs ! m)))
       members) members"

definition can_union :: "candidate_finding list \<Rightarrow> nat list \<Rightarrow> nat \<Rightarrow> nat \<Rightarrow> (bool \<times> nat list) option" where
  "can_union cs parent left right =
     do {
       (left_root, p1) \<leftarrow> uf_find parent left;
       (lefts, p2) \<leftarrow> component_indices p1 left_root [0..<length cs];
       (right_root, p3) \<leftarrow> uf_find p2 right;
       (rights, p4) \<leftarrow> component_indices p3 right_root [0..<length cs];
       Some (anchors_compatible cs (sort (remdups (lefts @ rights))), p4)
     }"

definition merge_pair :: "candidate_finding list \<Rightarrow> nat \<times> nat \<Rightarrow> nat list \<Rightarrow> nat list option" where
  "merge_pair cs pair parent =
     (case pair of (left, right) \<Rightarrow>
        if similarity_threshold \<le> candidate_similarity (cs ! left) (cs ! right)
        then do {
          (allowed, p1) \<leftarrow> can_union cs parent left right;
          (if allowed then uf_union p1 left right else Some p1)
        }
        else Some parent)"

fun merge_pairs :: "candidate_finding list \<Rightarrow> (nat \<times> nat) list \<Rightarrow> nat list \<Rightarrow> nat list option" where
  "merge_pairs cs [] parent = Some parent"
| "merge_pairs cs (pair # pairs) parent =
     do { p1 \<leftarrow> merge_pair cs pair parent; merge_pairs cs pairs p1 }"

definition index_pairs :: "nat \<Rightarrow> (nat \<times> nat) list" where
  "index_pairs n = concat (map (\<lambda>i. map (\<lambda>j. (i, j)) [i + 1..<n]) [0..<n])"

fun collect_groups ::
    "candidate_finding list \<Rightarrow> nat list \<Rightarrow> nat list \<Rightarrow> (nat, candidate_finding list) dict
       \<Rightarrow> (nat, candidate_finding list) dict option" where
  "collect_groups cs parent [] grouped = Some grouped"
| "collect_groups cs parent (i # is) grouped =
     do {
       (r, p1) \<leftarrow> uf_find parent i;
       collect_groups cs p1 is (AList.update r (dict_get_default grouped r [] @ [cs ! i]) grouped)
     }"

record candidate_group =
  cg_group_id :: string
  cg_candidates :: "candidate_finding list"

definition execution_candidates :: "candidate_group \<Rightarrow> candidate_finding list" where
  "execution_candidates g = filter is_execution (cg_candidates g)"

definition make_group :: "(string \<Rightarrow> string) \<Rightarrow> candidate_finding list \<Rightarrow> candidate_group" where
  "make_group sha256 members =
     (let ordered = sort_key cf_candidate_id members;
          executed = filter is_execution ordered;
          identity = (if executed = [] then ordered else executed);
          digest = take 16 (sha256 (join [CHR 0x00] (map cf_candidate_id identity)))
      in \<lparr>cg_group_id = ''group-'' @ digest, cg_candidates = ordered\<rparr>)"

definition group_candidates ::
    "(string \<Rightarrow> string) \<Rightarrow> candidate_finding list \<Rightarrow> candidate_group list option" where
  "group_candidates sha256 cs =
     (if cs = [] then Some []
      else do {
        parent \<leftarrow> merge_pairs cs (index_pairs (length cs)) [0..<length cs];
        grouped \<leftarrow> collect_groups cs parent [0..<length cs] [];
        Some (sort_key cg_group_id (map (make_group sha256) (dict_values grouped)))
      })"

end
