(* ===== verification/Consensus_Merge.thy ===== *)
theory Consensus_Merge
  imports Consensus
begin

text \<open>
  The second half of \<open>orchestration/consensus.py\<close>: the stable identifier, scanner support, the
  status the evidence of a group allows, the merge of a group under an optional judge, and the cap
  on critical findings.
\<close>

section \<open>Python helpers\<close>

text \<open>\<open>max(values, key=...)\<close>: the first of the greatest; the list is not empty.\<close>

definition max_by :: "('a \<Rightarrow> 'k::linorder) \<Rightarrow> 'a list \<Rightarrow> 'a" where
  "max_by key xs = foldl (\<lambda>best x. if key best < key x then x else best) (hd xs) (tl xs)"

text \<open>\<open>list(dict.fromkeys(values))\<close>: the first occurrences, in order.\<close>

definition first_occurrences :: "'a list \<Rightarrow> 'a list" where
  "first_occurrences xs = rev (remdups (rev xs))"

definition unique_strings :: "string list \<Rightarrow> string list" where
  "unique_strings values = first_occurrences (filter (\<lambda>v. v \<noteq> []) values)"

definition unique_locations :: "location list \<Rightarrow> location list" where
  "unique_locations values =
     sort_key location_key (dict_values (fold (\<lambda>l d.
       AList.update (lo_path l, lo_start_line l, lo_end_line l, lo_symbol l) l d) values []))"

definition unique_evidence :: "evidence_item list \<Rightarrow> evidence_item list" where
  "unique_evidence values =
     dict_values (fold (\<lambda>e d.
       AList.update (ev_type e, ev_source e, ev_rule_id e, ev_fingerprint e, ev_description e) e d) values [])"

section \<open>Identity\<close>

definition stable_finding_id :: "(string \<Rightarrow> string) \<Rightarrow> candidate_finding \<Rightarrow> string" where
  "stable_finding_id sha256 c =
     (let primary = hd (sort_key (\<lambda>l. (lo_path l, lo_start_line l, lo_end_line l)) (cf_locations c));
          classes = sort (map upper (cf_cwe c));
          class_value = (if classes = [] then join '' '' (sort (tokens (cf_title c))) else hd classes);
          stable = join [CHR 0x00]
            [class_value, lo_path primary, int_string (lo_start_line primary), or_empty (lo_symbol primary)]
      in ''MMA-'' @ upper (take 12 (sha256 stable)))"

section \<open>Status\<close>

definition scanner_fingerprint_matches :: "candidate_finding \<Rightarrow> scanner_finding \<Rightarrow> bool" where
  "scanner_fingerprint_matches c s \<longleftrightarrow>
     list_ex (\<lambda>e. ev_type e = EvScanner \<and> truthy (ev_fingerprint e)
       \<and> ev_fingerprint e = Some (sf_fingerprint s)) (cf_evidence c)"

definition scanner_location_matches :: "candidate_finding \<Rightarrow> scanner_finding \<Rightarrow> bool" where
  "scanner_location_matches c s \<longleftrightarrow>
     list_ex (\<lambda>l. list_ex (\<lambda>m. lo_path l = lo_path m \<and> \<bar>lo_start_line l - lo_start_line m\<bar> \<le> 12
       \<and> (cf_cwe c = [] \<or> sf_cwe s = [] \<or> cwe_overlap (cf_cwe c) (sf_cwe s))) (sf_locations s))
       (cf_locations c)"

definition scanner_matches :: "candidate_finding \<Rightarrow> scanner_finding list \<Rightarrow> bool" where
  "scanner_matches c scanners \<longleftrightarrow>
     list_ex (\<lambda>s. scanner_fingerprint_matches c s \<or> scanner_location_matches c s) scanners"

type_synonym decisions = "(string, verification_decision) dict"
type_synonym validations = "(string, location_validation) dict"

definition location_valid :: "validations \<Rightarrow> candidate_finding \<Rightarrow> bool" where
  "location_valid validations c \<longleftrightarrow>
     (case dict_get validations (cf_candidate_id c) of None \<Rightarrow> False | Some v \<Rightarrow> lv_valid v)"

definition verdict_is :: "decisions \<Rightarrow> verification_verdict list \<Rightarrow> candidate_finding \<Rightarrow> bool" where
  "verdict_is decisions verdicts c \<longleftrightarrow>
     (case dict_get decisions (cf_candidate_id c) of None \<Rightarrow> False | Some d \<Rightarrow> vd_verdict d \<in> set verdicts)"

definition accepted_by :: "decisions \<Rightarrow> candidate_finding \<Rightarrow> bool" where
  "accepted_by decisions = verdict_is decisions [VerdictVerified, VerdictPlausible]"

definition no_guards :: "decisions \<Rightarrow> candidate_finding \<Rightarrow> bool" where
  "no_guards decisions c \<longleftrightarrow>
     (case dict_get decisions (cf_candidate_id c) of None \<Rightarrow> False | Some d \<Rightarrow> vd_guards_and_controls d = [])"

definition unguarded_path :: "decisions \<Rightarrow> candidate_finding \<Rightarrow> bool" where
  "unguarded_path decisions c \<longleftrightarrow> cf_source c \<noteq> None \<and> cf_sink c \<noteq> None
     \<and> cf_compensating_controls c = [] \<and> no_guards decisions c"

definition reproduction_evidence :: "evidence_item \<Rightarrow> bool" where
  "reproduction_evidence e \<longleftrightarrow> ev_type e = EvReproduction
     \<and> ev_source e = ''mmaudit-local-fork-reproduction'' \<and> truthy (ev_fingerprint e)"

definition formal_evidence :: "evidence_item \<Rightarrow> bool" where
  "formal_evidence e \<longleftrightarrow> ev_type e = EvFormal \<and> ev_rule_id e = Some ''counterexample''
     \<and> truthy (ev_fingerprint e)"

definition independent_families :: "candidate_finding list \<Rightarrow> string list" where
  "independent_families cs =
     remdups (List.map_filter cf_model_family (filter (\<lambda>c. cf_origin_kind c = MODEL_REVIEW) cs))"

definition preliminary_status ::
    "candidate_group \<Rightarrow> decisions \<Rightarrow> validations \<Rightarrow> scanner_finding list \<Rightarrow> finding_status" where
  "preliminary_status g decisions validations scanners =
     (let executions = execution_candidates g
      in if executions \<noteq> [] then
           (if length (filter (location_valid validations) executions) \<noteq> length executions
            then REJECTED else CONFIRMED)
         else let accepted = filter (accepted_by decisions) (cg_candidates g)
         in if accepted = [] then REJECTED
         else let valid = filter (location_valid validations) accepted
         in if valid = [] then REJECTED
         else let verifier_accepts = list_ex (verdict_is decisions [VerdictVerified]) valid;
                  scanner_support = list_ex (\<lambda>c. scanner_matches c scanners) valid;
                  families = independent_families valid;
                  reproduction = list_ex (\<lambda>c. list_ex reproduction_evidence (cf_evidence c)) valid;
                  formal_counterexample = list_ex (\<lambda>c. list_ex formal_evidence (cf_evidence c)) valid;
                  complete_attack_path = list_ex (unguarded_path decisions) valid
         in if verifier_accepts \<and> reproduction then CONFIRMED
            else if verifier_accepts \<and> formal_counterexample \<and> complete_attack_path then CONFIRMED
            else if verifier_accepts \<and> scanner_support \<and> complete_attack_path then CONFIRMED
            else if verifier_accepts \<and> 2 \<le> length families \<and> complete_attack_path then STRONGLY_SUPPORTED
            else if verifier_accepts \<and> unguarded_path decisions (max_by cf_confidence valid)
            then HIGH_CONFIDENCE
            else NEEDS_REVIEW)"

fun status_rank :: "finding_status \<Rightarrow> int" where
  "status_rank REJECTED = 0"
| "status_rank UNSUPPORTED = 1"
| "status_rank INSUFFICIENT_CONTEXT = 2"
| "status_rank INFORMATIONAL = 3"
| "status_rank NEEDS_REVIEW = 4"
| "status_rank PLAUSIBLE = 5"
| "status_rank HIGH_CONFIDENCE = 6"
| "status_rank STRONGLY_SUPPORTED = 7"
| "status_rank CONFIRMED = 8"

section \<open>Evidence strength\<close>

fun reproduction_state :: "evidence_item list \<Rightarrow> reproduction_state" where
  "reproduction_state [] = NOT_ATTEMPTED"
| "reproduction_state (e # es) =
     (if ev_type e \<noteq> EvReproduction \<or> ev_source e \<noteq> ''mmaudit-local-fork-reproduction''
      then reproduction_state es
      else if ev_rule_id e = Some (reproduction_value REPRODUCED_AND_MINIMIZED) then REPRODUCED_AND_MINIMIZED
      else if ev_rule_id e = Some (reproduction_value REPRODUCED) then REPRODUCED
      else reproduction_state es)"

definition strength_of :: "evidence_item list \<Rightarrow> string list \<Rightarrow> bool \<Rightarrow> bool \<Rightarrow> evidence_strength" where
  "strength_of evidence families complete_path execution_counterexample =
     (if list_ex (\<lambda>e. ev_type e = EvFormal \<and> ev_rule_id e = Some ''counterexample'') evidence
      then FORMAL_COUNTEREXAMPLE
      else if reproduction_state evidence = REPRODUCED_AND_MINIMIZED then MINIMIZED_LOCAL_FORK_REPRODUCTION
      else if reproduction_state evidence = REPRODUCED then LOCAL_FORK_REPRODUCTION
      else if execution_counterexample then DETERMINISTIC_EXECUTION_COUNTEREXAMPLE
      else if list_ex (\<lambda>e. ev_type e = EvScanner) evidence then DETERMINISTIC_ANALYZER
      else if complete_path then VALIDATED_ATTACK_PATH
      else if 2 \<le> length families then INDEPENDENT_MODEL_SUPPORT
      else if list_ex (\<lambda>e. ev_type e = EvModel) evidence then MODEL_INFERENCE
      else StrengthNone)"

section \<open>Merging a group\<close>

definition or_list :: "'a list \<Rightarrow> 'a list \<Rightarrow> 'a list" where
  "or_list a b = (if a = [] then b else a)"

definition group_provenance :: "candidate_group \<Rightarrow> execution_provenance list" where
  "group_provenance g =
     sort_key xp_provenance_sha256 (dict_values (fold (\<lambda>p d. AList.update (xp_provenance_sha256 p) p d)
       (List.map_filter cf_execution_provenance (execution_candidates g)) []))"

definition candidate_rank :: "candidate_finding \<Rightarrow> pyfloat \<times> int \<times> string" where
  "candidate_rank c = (cf_confidence c, severity_order (cf_severity c), cf_candidate_id c)"

definition scanner_evidence :: "scanner_finding \<Rightarrow> evidence_item" where
  "scanner_evidence s = \<lparr>ev_type = EvScanner, ev_source = sf_scanner s, ev_description = sf_message s,
     ev_rule_id = Some (sf_rule_id s), ev_fingerprint = Some (sf_fingerprint s)\<rparr>"

definition merged_status ::
    "finding_status \<Rightarrow> candidate_finding list \<Rightarrow> judge_decision option \<Rightarrow> finding_status" where
  "merged_status cap valid_executions judge =
     (case judge of None \<Rightarrow> cap
      | Some j \<Rightarrow> if valid_executions = [] \<and> status_rank (jd_status j) < status_rank cap
          then jd_status j else cap)"

text \<open>The confidence before it is capped for candidates that failed validation.\<close>

definition merged_confidence ::
    "candidate_finding list \<Rightarrow> candidate_finding list \<Rightarrow> judge_decision option \<Rightarrow> pyfloat" where
  "merged_confidence valid_executions members judge =
     (if valid_executions \<noteq> [] then Max (set (map cf_confidence valid_executions))
      else min (Max (set (map cf_confidence members)))
             (case judge of None \<Rightarrow> 1 | Some j \<Rightarrow> jd_confidence j))"

definition not_validated :: location_validation where
  "not_validated = \<lparr>lv_valid = False, lv_content_hash = None, lv_errors = [''not validated'']\<rparr>"

text \<open>The local values of \<open>merge_group\<close>, in the order of the code.\<close>

definition valid_candidates :: "validations \<Rightarrow> candidate_group \<Rightarrow> candidate_finding list" where
  "valid_candidates validations g = filter (location_valid validations) (cg_candidates g)"

definition valid_execution_candidates :: "validations \<Rightarrow> candidate_group \<Rightarrow> candidate_finding list" where
  "valid_execution_candidates validations g =
     filter (\<lambda>c. c \<in> set (valid_candidates validations g)) (execution_candidates g)"

definition execution_origin_valid :: "validations \<Rightarrow> candidate_group \<Rightarrow> bool" where
  "execution_origin_valid validations g \<longleftrightarrow> execution_candidates g \<noteq> []
     \<and> length (valid_execution_candidates validations g) = length (execution_candidates g)"

definition primary_pool :: "decisions \<Rightarrow> validations \<Rightarrow> candidate_group \<Rightarrow> candidate_finding list" where
  "primary_pool decisions validations g =
     or_list (valid_execution_candidates validations g) (or_list (execution_candidates g)
       (or_list (filter (accepted_by decisions) (valid_candidates validations g))
         (or_list (valid_candidates validations g) (cg_candidates g))))"

definition validation_scope :: "candidate_group \<Rightarrow> candidate_finding list" where
  "validation_scope g = (if execution_candidates g \<noteq> [] then execution_candidates g else cg_candidates g)"

definition validation_errors :: "validations \<Rightarrow> candidate_group \<Rightarrow> string list" where
  "validation_errors validations g =
     concat (map (\<lambda>c. lv_errors (dict_get_default validations (cf_candidate_id c) not_validated)) (validation_scope g))"

definition valid_hashes :: "validations \<Rightarrow> candidate_group \<Rightarrow> string list" where
  "valid_hashes validations g =
     List.map_filter (\<lambda>c. case dict_get validations (cf_candidate_id c) of None \<Rightarrow> None
       | Some v \<Rightarrow> if lv_valid v \<and> truthy (lv_content_hash v) then lv_content_hash v else None) (validation_scope g)"

definition aggregate_hash ::
    "(string \<Rightarrow> string) \<Rightarrow> validations \<Rightarrow> candidate_group \<Rightarrow> string option checked" where
  "aggregate_hash sha256 validations g =
     (if execution_origin_valid validations g
      then rbind (execution_origin_location_validation_sha256 sha256 (group_provenance g)) (\<lambda>h. Inr (Some h))
      else Inr (if valid_hashes validations g = [] then None
                else Some (sha256 (concat (sort (valid_hashes validations g))))))"

definition capped_confidence :: "validations \<Rightarrow> candidate_group \<Rightarrow> judge_decision option \<Rightarrow> pyfloat" where
  "capped_confidence validations g judge =
     (let confidence = merged_confidence (valid_execution_candidates validations g) (cg_candidates g) judge
      in if execution_candidates g \<noteq> [] \<and> \<not> execution_origin_valid validations g then 0
         else if validation_errors validations g \<noteq> [] \<and> valid_candidates validations g = []
         then min confidence (fl (59 / 100)) else confidence)"

definition location_candidates ::
    "finding_status \<Rightarrow> validations \<Rightarrow> candidate_group \<Rightarrow> candidate_finding list" where
  "location_candidates status validations g =
     (if execution_candidates g \<noteq> []
      then (if status \<noteq> REJECTED \<and> valid_execution_candidates validations g \<noteq> []
            then valid_execution_candidates validations g else execution_candidates g)
      else (if status \<noteq> REJECTED \<and> valid_candidates validations g \<noteq> []
            then valid_candidates validations g else cg_candidates g))"

definition matched_scanners ::
    "validations \<Rightarrow> candidate_group \<Rightarrow> scanner_finding list \<Rightarrow> scanner_finding list" where
  "matched_scanners validations g scanners =
     filter (\<lambda>s. list_ex (\<lambda>c. scanner_matches c [s]) (valid_candidates validations g)) scanners"

definition merged_evidence ::
    "validations \<Rightarrow> candidate_group \<Rightarrow> scanner_finding list \<Rightarrow> evidence_item list" where
  "merged_evidence validations g scanners =
     unique_evidence (concat (map cf_evidence (cg_candidates g))
       @ map scanner_evidence (matched_scanners validations g scanners))"

definition merged_labels :: "string list option \<Rightarrow> string list \<Rightarrow> string list" where
  "merged_labels judged values = or_list (case judged of None \<Rightarrow> [] | Some vs \<Rightarrow> vs) (unique_strings values)"

definition merged_finding ::
    "(string \<Rightarrow> string) \<Rightarrow> candidate_group \<Rightarrow> decisions \<Rightarrow> validations \<Rightarrow> scanner_finding list
       \<Rightarrow> judge_decision option \<Rightarrow> string option \<Rightarrow> finding" where
  "merged_finding sha256 g decisions validations scanners judge content_hash =
     (let members = cg_candidates g;
          executions = execution_candidates g;
          valid = valid_candidates validations g;
          primary = max_by candidate_rank (primary_pool decisions validations g);
          status = merged_status (preliminary_status g decisions validations scanners)
            (valid_execution_candidates validations g) judge;
          evidence = merged_evidence validations g scanners
      in \<lparr>fi_id = stable_finding_id sha256 primary, fi_group_id = Some (cg_group_id g),
          fi_origin_kind = (if executions \<noteq> [] then OriginExecution else OriginModelReview),
          fi_execution_provenance = group_provenance g, fi_title = cf_title primary, fi_status = status,
          fi_severity = (case judge of None \<Rightarrow> cf_severity primary | Some j \<Rightarrow> jd_severity j),
          fi_confidence = capped_confidence validations g judge,
          fi_cwe = merged_labels (map_option jd_cwe judge) (concat (map cf_cwe members)),
          fi_owasp = merged_labels (map_option jd_owasp judge) (concat (map cf_owasp members)),
          fi_summary = cf_summary primary, fi_impact = cf_impact primary,
          fi_preconditions = unique_strings (concat (map cf_preconditions members)),
          fi_locations = unique_locations (concat (map cf_locations (location_candidates status validations g))),
          fi_source = cf_source primary, fi_sink = cf_sink primary,
          fi_attack_path = cf_attack_path primary, fi_evidence = evidence,
          fi_compensating_controls = unique_strings (concat (map cf_compensating_controls members)),
          fi_false_positive_conditions = unique_strings (concat (map cf_false_positive_conditions members)),
          fi_recommendation = cf_recommendation primary,
          fi_verification_test = Some (cf_verification_test primary),
          fi_model_votes = concat (map cf_model_votes members),
          fi_location_validation = \<lparr>lv_valid = (if executions \<noteq> [] then execution_origin_valid validations g else valid \<noteq> []),
            lv_content_hash = content_hash, lv_errors = validation_errors validations g\<rparr>,
          fi_disagreement = (case judge of Some j \<Rightarrow> jd_rationale j
            | None \<Rightarrow> join ''; '' (List.map_filter (\<lambda>c. map_option vd_rationale
                (dict_get decisions (cf_candidate_id c))) members)),
          fi_contributing_candidate_ids = map cf_candidate_id members,
          fi_evidence_strength = strength_of evidence (independent_families valid)
            (list_ex (\<lambda>c. cf_source c \<noteq> None \<and> cf_sink c \<noteq> None) valid)
            (execution_origin_valid validations g),
          fi_reproduction_state = reproduction_state evidence\<rparr>)"

text \<open>
  The maximum of no candidate and the empty description of scanner evidence raise; the finding is
  validated when it is built.
\<close>

definition merge_group ::
    "(string \<Rightarrow> string) \<Rightarrow> candidate_group \<Rightarrow> decisions \<Rightarrow> validations \<Rightarrow> scanner_finding list
       \<Rightarrow> judge_decision option \<Rightarrow> finding checked" where
  "merge_group sha256 g decisions validations scanners judge =
     rbind (require (primary_pool decisions validations g \<noteq> []) ''max() iterable argument is empty'') (\<lambda>_.
     rbind (aggregate_hash sha256 validations g) (\<lambda>content_hash.
     rbind (require (list_all (\<lambda>s. sf_message s \<noteq> []) (matched_scanners validations g scanners))
       ''String should have at least 1 character'') (\<lambda>_.
     validate_finding sha256 (merged_finding sha256 g decisions validations scanners judge content_hash))))"

section \<open>The cap on critical findings\<close>

definition cap_reason :: string where
  "cap_reason = ''Critical confirmation was capped at strongly supported because no accepted local reproduction or matching formal counterexample was available.''"

definition enforce_critical_evidence_cap :: "bool \<Rightarrow> finding \<Rightarrow> finding" where
  "enforce_critical_evidence_cap require_formal_or_reproduction f =
     (if \<not> require_formal_or_reproduction \<or> fi_severity f \<noteq> SevCritical \<or> fi_status f \<noteq> CONFIRMED
         \<or> fi_evidence_strength f \<in> set executed_strengths
      then f
      else f\<lparr>fi_status := STRONGLY_SUPPORTED,
             fi_disagreement := (if fi_disagreement f \<noteq> [] then fi_disagreement f @ ''; '' @ cap_reason
                                 else cap_reason)\<rparr>)"

end
