(* ===== verification/Guarded_Merging.thy ===== *)
theory Guarded_Merging
  imports Audit_Prelude
begin

text \<open>
  The specification of grouping: a partition of the positions is the function from a position to
  the representative of its class, a merging policy says which pairs should be joined and which
  classes are admissible, and pairs are joined in order whenever the joined class is admissible.
\<close>

section \<open>Partitions as representative functions\<close>

definition class_of :: "(nat \<Rightarrow> nat) \<Rightarrow> nat \<Rightarrow> nat set" where
  "class_of f i = {j. f j = f i}"

definition join_classes :: "(nat \<Rightarrow> nat) \<Rightarrow> nat \<Rightarrow> nat \<Rightarrow> nat \<Rightarrow> nat" where
  "join_classes f l r j = (if f j = f l \<or> f j = f r then min (f l) (f r) else f j)"

definition join_step ::
    "(nat \<Rightarrow> nat \<Rightarrow> bool) \<Rightarrow> (nat set \<Rightarrow> bool) \<Rightarrow> nat \<times> nat \<Rightarrow> (nat \<Rightarrow> nat) \<Rightarrow> nat \<Rightarrow> nat" where
  "join_step related ok lr f =
     (case lr of (l, r) \<Rightarrow>
        if related l r \<and> ok (class_of f l \<union> class_of f r) then join_classes f l r else f)"

section \<open>Guarded merging\<close>

lemma class_of_self [simp]: "i \<in> class_of f i"
  by (simp add: class_of_def)

lemma class_of_eq: "f i = f j \<Longrightarrow> class_of f i = class_of f j"
  by (simp add: class_of_def)

lemma join_step_coarser: "f i = f j \<Longrightarrow> join_step related ok lr f i = join_step related ok lr f j"
  by (simp add: join_step_def join_classes_def split: prod.splits)

lemma fold_join_coarser: "f i = f j \<Longrightarrow> fold (join_step related ok) ps f i = fold (join_step related ok) ps f j"
proof (induction ps arbitrary: f)
  case (Cons lr ps)
  have "join_step related ok lr f i = join_step related ok lr f j" using Cons.prems by (rule join_step_coarser)
  then show ?case using Cons.IH by simp
qed simp


definition rep_idem :: "(nat \<Rightarrow> nat) \<Rightarrow> bool" where
  "rep_idem f \<longleftrightarrow> (\<forall>i. f (f i) = f i)"

lemma join_step_idem: "rep_idem f \<Longrightarrow> rep_idem (join_step related ok lr f)"
  by (auto simp: rep_idem_def join_step_def join_classes_def min_def split: prod.splits)

lemma class_of_join_classes:
  assumes "rep_idem f"
  shows "class_of (join_classes f l r) i =
    (if f i = f l \<or> f i = f r then class_of f l \<union> class_of f r else class_of f i)"
  by (auto simp: class_of_def join_classes_def min_def split: if_splits)

text \<open>
  A merging policy: which pairs should be joined, and which classes are admissible. Single
  elements are admissible, and so is every part of an admissible class.
\<close>

locale merge_policy =
  fixes related :: "nat \<Rightarrow> nat \<Rightarrow> bool" and ok :: "nat set \<Rightarrow> bool"
  assumes ok_single: "ok {i}"
    and ok_antimono: "ok S \<Longrightarrow> T \<subseteq> S \<Longrightarrow> ok T"
begin

abbreviation merged :: "(nat \<times> nat) list \<Rightarrow> nat \<Rightarrow> nat" where
  "merged ps \<equiv> fold (join_step related ok) ps id"

lemma step_classes_ok:
  assumes "rep_idem f" "\<And>i. ok (class_of f i)"
  shows "ok (class_of (join_step related ok lr f) i)"
  using assms by (auto simp: join_step_def class_of_join_classes split: prod.splits)

lemma fold_classes_ok:
  "rep_idem f \<Longrightarrow> (\<And>i. ok (class_of f i)) \<Longrightarrow> ok (class_of (fold (join_step related ok) ps f) i)"
  by (induction ps arbitrary: f) (simp_all add: step_classes_ok join_step_idem)

lemma id_idem: "rep_idem id"
  by (simp add: rep_idem_def)

theorem merged_classes_ok: "ok (class_of (merged ps) i)"
  by (rule fold_classes_ok [OF id_idem]) (simp add: class_of_def ok_single)

text \<open>A related pair left in two classes was kept apart by the policy.\<close>

lemma fold_maximal:
  "(l, r) \<in> set ps \<Longrightarrow> related l r \<Longrightarrow> fold (join_step related ok) ps f l \<noteq> fold (join_step related ok) ps f r
    \<Longrightarrow> \<not> ok (class_of (fold (join_step related ok) ps f) l \<union> class_of (fold (join_step related ok) ps f) r)"
proof (induction ps arbitrary: f)
  case (Cons lr ps)
  let ?g = "fold (join_step related ok) (lr # ps) f" and ?f' = "join_step related ok lr f"
  show ?case
  proof (cases "lr = (l, r)")
    case True
    have "?f' l \<noteq> ?f' r" using Cons.prems(3) fold_join_coarser [of ?f' l r] by auto
    then have "\<not> ok (class_of f l \<union> class_of f r)"
      using True Cons.prems(2) by (auto simp: join_step_def join_classes_def split: if_splits)
    moreover have "class_of f l \<union> class_of f r \<subseteq> class_of ?g l \<union> class_of ?g r"
      unfolding class_of_def using fold_join_coarser [where f = f and ps = "lr # ps" and related = related and ok = ok]
      by blast
    ultimately show ?thesis using ok_antimono by blast
  next
    case False
    then show ?thesis using Cons.IH [of ?f'] Cons.prems by simp
  qed
qed simp

lemmas merged_maximal = fold_maximal [where f = id]

text \<open>Two elements of one class are connected by related pairs.\<close>

lemma join_step_within:
  assumes "join_step related ok lr f i = join_step related ok lr f j"
    and "\<And>i j. f i = f j \<Longrightarrow> equivclp E i j"
    and "\<And>l r. lr = (l, r) \<Longrightarrow> related l r \<Longrightarrow> E l r"
    and "rep_idem f"
  shows "equivclp E i j"
proof (cases "f i = f j")
  case False
  obtain l r where lr: "lr = (l, r)" by (cases lr)
  from False assms(1) have "join_step related ok lr f = join_classes f l r"
    and rel: "related l r"
    by (auto simp: join_step_def lr split: if_splits)
  then have "j \<in> class_of (join_classes f l r) i"
    using assms(1) by (simp add: class_of_def)
  then have "f i = f l \<and> f j = f r \<or> f i = f r \<and> f j = f l"
    using False by (auto simp: class_of_join_classes [OF assms(4)] split: if_splits) (simp_all add: class_of_def)
  moreover have "equivclp E l r" using assms(3) [OF lr rel] by (rule r_into_equivclp)
  ultimately show ?thesis
    by (metis assms(2) equivclp_sym equivclp_trans)
qed (rule assms(2))

lemma fold_within:
  assumes "fold (join_step related ok) ps f i = fold (join_step related ok) ps f j"
    and "\<And>i j. f i = f j \<Longrightarrow> equivclp E i j"
    and "\<And>l r. (l, r) \<in> set ps \<Longrightarrow> related l r \<Longrightarrow> E l r"
    and "rep_idem f"
  shows "equivclp E i j"
  using assms
proof (induction ps arbitrary: f)
  case (Cons lr ps)
  have w: "equivclp E a b" if "join_step related ok lr f a = join_step related ok lr f b" for a b
    using that Cons.prems(2,3,4) by (rule join_step_within) auto
  show ?case
    by (rule Cons.IH [of "join_step related ok lr f"])
       (use Cons.prems w in \<open>auto intro: join_step_idem\<close>)
qed simp

lemma merged_within:
  "merged ps i = merged ps j \<Longrightarrow> equivclp (\<lambda>l r. (l, r) \<in> set ps \<and> related l r) i j"
  by (rule fold_within [of ps id i j]) (auto simp: id_idem)

end

text \<open>A policy that admits every class computes the connected components.\<close>

locale free_policy = merge_policy +
  assumes ok_all: "ok S"
begin

lemma merged_components:
  "merged ps i = merged ps j \<longleftrightarrow> equivclp (\<lambda>l r. (l, r) \<in> set ps \<and> related l r) i j"
proof
  assume "equivclp (\<lambda>l r. (l, r) \<in> set ps \<and> related l r) i j"
  then show "merged ps i = merged ps j"
  proof (induction rule: equivclp_induct)
    case (step y z)
    have "merged ps y = merged ps z"
      using step.hyps(2) merged_maximal [of y z ps] merged_maximal [of z y ps] ok_all by metis
    with step.IH show ?case by (rule trans)
  qed (rule refl)
qed (rule merged_within)

end

end
