(* ===== verification/Consensus_Groups.thy ===== *)
theory Consensus_Groups
  imports Consensus Guarded_Merging
begin

text \<open>
  The grouping of \<open>group_candidates\<close> computes the partition of the specification: path halving
  keeps every representative, a link joins two classes, every loop ends, and collecting by
  representative lists each class once.
\<close>

section \<open>The union-find\<close>

definition uf_ok :: "nat list \<Rightarrow> bool" where
  "uf_ok p \<longleftrightarrow> (\<forall>i < length p. p ! i \<le> i)"

function uf_rep :: "nat list \<Rightarrow> nat \<Rightarrow> nat" where
  "uf_rep p i = (if i < length p \<and> p ! i < i then uf_rep p (p ! i) else i)"
  by pat_completeness auto
termination
  by (relation "measure snd") auto

declare uf_rep.simps [simp del]

definition uf_keeps :: "nat list \<Rightarrow> nat list \<Rightarrow> bool" where
  "uf_keeps p p' \<longleftrightarrow> uf_ok p' \<and> length p' = length p \<and> uf_rep p' = uf_rep p"

lemma uf_keeps_refl: "uf_ok p \<Longrightarrow> uf_keeps p p"
  by (simp add: uf_keeps_def)

lemma uf_keeps_trans: "uf_keeps p q \<Longrightarrow> uf_keeps q r \<Longrightarrow> uf_keeps p r"
  by (simp add: uf_keeps_def)

lemma uf_rep_le: "uf_rep p i \<le> i"
proof (induction p i rule: uf_rep.induct)
  case (1 p i)
  show ?case using 1 by (subst uf_rep.simps) auto
qed

lemma uf_rep_fix: "p ! i = i \<Longrightarrow> uf_rep p i = i"
  by (subst uf_rep.simps) simp

lemma uf_rep_beyond: "length p \<le> i \<Longrightarrow> uf_rep p i = i"
  by (subst uf_rep.simps) simp

lemma uf_rep_step: "uf_ok p \<Longrightarrow> i < length p \<Longrightarrow> uf_rep p (p ! i) = uf_rep p i"
  by (cases "p ! i = i") (auto simp: uf_ok_def uf_rep.simps [of p i] dest!: spec [of _ i])

lemma uf_rep_is_root: "uf_ok p \<Longrightarrow> i < length p \<Longrightarrow> p ! (uf_rep p i) = uf_rep p i"
proof (induction p i rule: uf_rep.induct)
  case (1 p i)
  show ?case
  proof (cases "p ! i < i")
    case True
    then show ?thesis using 1 by (simp add: uf_rep.simps [of p i])
  next
    case False
    then have "p ! i = i" using 1(2,3) by (auto simp: uf_ok_def dest!: spec [of _ i])
    then show ?thesis by (simp add: uf_rep_fix)
  qed
qed

lemma uf_rep_idem: "uf_ok p \<Longrightarrow> uf_rep p (uf_rep p i) = uf_rep p i"
  by (cases "i < length p") (simp_all add: uf_rep_is_root uf_rep_fix uf_rep_beyond)

text \<open>Path halving moves an index to its grandparent: no representative changes.\<close>

lemma uf_halve:
  assumes "uf_ok p" "i < length p"
  shows "uf_keeps p (p[i := p ! (p ! i)])"
proof -
  let ?q = "p[i := p ! (p ! i)]"
  have le: "p ! j \<le> j" if "j < length p" for j using assms(1) that by (simp add: uf_ok_def)
  have pi: "p ! i < length p" using le [OF assms(2)] assms(2) by linarith
  have gp: "p ! (p ! i) \<le> p ! i" using le [OF pi] .
  have ok: "uf_ok ?q"
    unfolding uf_ok_def using assms(2) le gp le_trans [OF gp le [OF assms(2)]] by (auto simp: nth_list_update)
  moreover have "uf_rep ?q j = uf_rep p j" for j
  proof (induction j rule: less_induct)
    case (less j)
    show ?case
    proof (cases "j < length p")
      case True
      have q: "uf_rep ?q j = uf_rep ?q (?q ! j)" using uf_rep_step [OF ok, of j] True by simp
      have same: "uf_rep p (?q ! j) = uf_rep p j"
        using True pi assms uf_rep_step [OF assms(1)] by (auto simp: nth_list_update)
      show ?thesis
      proof (cases "?q ! j < j")
        case True
        then show ?thesis using less [OF True] q same by simp
      next
        case False
        then have "?q ! j = j" using ok True by (auto simp: uf_ok_def dest!: spec [of _ j])
        then have "uf_rep ?q j = j" by (rule uf_rep_fix)
        moreover have "uf_rep p j = j"
        proof (cases "j = i")
          case True
          then have "p ! (p ! i) = i" using \<open>?q ! j = j\<close> assms(2) by simp
          then have "p ! i = i" using gp le [OF assms(2)] by simp
          then show ?thesis using True by (simp add: uf_rep_fix)
        next
          case False
          then show ?thesis using \<open>?q ! j = j\<close> by (simp add: uf_rep_fix)
        qed
        ultimately show ?thesis by simp
      qed
    qed (simp add: uf_rep_beyond)
  qed
  ultimately show ?thesis by (auto simp: uf_keeps_def)
qed

lemma uf_find_total:
  "uf_ok p \<Longrightarrow> i < length p \<Longrightarrow> \<exists>p'. uf_find p i = Some (uf_rep p i, p') \<and> uf_keeps p p'"
proof (induction i arbitrary: p rule: less_induct)
  case (less i)
  show ?case
  proof (cases "p ! i = i")
    case True
    then show ?thesis
      using less.prems by (auto simp: uf_find.simps [of p i] uf_rep_fix intro: uf_keeps_refl)
  next
    case False
    let ?q = "p[i := p ! (p ! i)]"
    have lt: "p ! i < i" using less.prems False by (auto simp: uf_ok_def dest!: spec [of _ i])
    then have pl: "p ! i < length p" using less.prems by simp
    then have "p ! (p ! i) \<le> p ! i" using less.prems(1) by (simp add: uf_ok_def)
    then have g: "?q ! i < i" using lt less.prems(2) by simp
    have k: "uf_keeps p ?q" using less.prems by (rule uf_halve)
    then have "uf_ok ?q" "?q ! i < length ?q" using g less.prems(2) by (simp_all add: uf_keeps_def)
    from less.IH [OF g this] obtain p' where
      p': "uf_find ?q (?q ! i) = Some (uf_rep ?q (?q ! i), p')" "uf_keeps ?q p'" by blast
    have "uf_rep ?q (?q ! i) = uf_rep p i"
      using uf_rep_step [of ?q i] k less.prems(2) by (simp add: uf_keeps_def)
    then show ?thesis
      using p' False uf_keeps_trans [OF k] by (simp add: uf_find.simps [of p i] Let_def)
  qed
qed

lemma uf_link:
  assumes "uf_ok p" "hi < length p" "lo < hi" "p ! hi = hi" "p ! lo = lo"
  shows "uf_ok (p[hi := lo])"
    and "uf_rep (p[hi := lo]) j = (if uf_rep p j = hi then lo else uf_rep p j)"
proof -
  let ?q = "p[hi := lo]"
  show ok: "uf_ok ?q" using assms by (auto simp: uf_ok_def nth_list_update)
  show "uf_rep ?q j = (if uf_rep p j = hi then lo else uf_rep p j)"
  proof (induction j rule: less_induct)
    case (less j)
    consider "length p \<le> j" | "j = hi" | "j < length p" "j \<noteq> hi" by linarith
    then show ?case
    proof cases
      case 1
      then show ?thesis using assms(2) by (simp add: uf_rep_beyond)
    next
      case 2
      have "uf_rep ?q hi = uf_rep ?q lo" using uf_rep_step [OF ok, of hi] assms(2) by simp
      also have "\<dots> = lo" using assms by (intro uf_rep_fix) simp
      finally show ?thesis using 2 assms(4) by (simp add: uf_rep_fix)
    next
      case 3
      show ?thesis
      proof (cases "p ! j < j")
        case True
        have "uf_rep ?q j = uf_rep ?q (p ! j)" using uf_rep_step [OF ok, of j] 3 by simp
        then show ?thesis using less [OF True] uf_rep_step [OF assms(1) 3(1)] by simp
      next
        case False
        then have "p ! j = j" using assms(1) 3(1) by (auto simp: uf_ok_def dest!: spec [of _ j])
        then show ?thesis using 3 by (simp add: uf_rep_fix)
      qed
    qed
  qed
qed

lemma uf_union_total:
  assumes "uf_ok p" "l < length p" "r < length p"
  shows "\<exists>p'. uf_union p l r = Some p' \<and> uf_ok p' \<and> length p' = length p
    \<and> uf_rep p' = join_classes (uf_rep p) l r"
proof -
  obtain p1 where p1: "uf_find p l = Some (uf_rep p l, p1)" "uf_keeps p p1"
    using uf_find_total [OF assms(1,2)] by blast
  then obtain p2 where p2: "uf_find p1 r = Some (uf_rep p r, p2)" "uf_keeps p1 p2"
    using uf_find_total [of p1 r] assms(3) by (auto simp: uf_keeps_def)
  have k: "uf_ok p2" "length p2 = length p" "uf_rep p2 = uf_rep p"
    using uf_keeps_trans [OF p1(2) p2(2)] by (simp_all add: uf_keeps_def)
  let ?a = "uf_rep p l" and ?b = "uf_rep p r"
  have roots: "p2 ! ?a = ?a" "p2 ! ?b = ?b"
    using uf_rep_is_root [OF k(1)] assms k by metis+
  have bounds: "max ?a ?b < length p2"
    using uf_rep_le [of p l] uf_rep_le [of p r] assms k(2) by linarith
  show ?thesis
  proof (cases "?a = ?b")
    case True
    then have "join_classes (uf_rep p) l r = uf_rep p" by (auto simp: join_classes_def)
    then show ?thesis using p1 p2 k True by (simp add: uf_union_def)
  next
    case False
    then have lt: "min ?a ?b < max ?a ?b" by linarith
    have r: "p2 ! max ?a ?b = max ?a ?b" "p2 ! min ?a ?b = min ?a ?b"
      using roots by (simp_all add: max_def min_def)
    note link = uf_link [OF k(1) bounds lt r]
    have "uf_rep (p2[max ?a ?b := min ?a ?b]) = join_classes (uf_rep p) l r"
      unfolding fun_eq_iff link(2) k(3) join_classes_def by (auto simp: max_def min_def)
    then show ?thesis using p1 p2 k(2) link(1) False by (simp add: uf_union_def)
  qed
qed

section \<open>The code refines guarded merging\<close>

definition anchors_ok :: "candidate_finding list \<Rightarrow> nat set \<Rightarrow> bool" where
  "anchors_ok cs S \<longleftrightarrow> (\<forall>a \<in> S \<inter> {..<length cs}. is_execution (cs ! a) \<longrightarrow> (\<forall>m \<in> S \<inter> {..<length cs}. a = m
     \<or> (execution_location_compatible (cs ! a) (cs ! m) \<and> execution_semantic_compatible (cs ! a) (cs ! m))))"

definition similar :: "candidate_finding list \<Rightarrow> nat \<Rightarrow> nat \<Rightarrow> bool" where
  "similar cs l r \<longleftrightarrow> similarity_threshold \<le> candidate_similarity (cs ! l) (cs ! r)"

interpretation anchored: merge_policy "similar cs" "anchors_ok cs" for cs
  by unfold_locales (auto simp: anchors_ok_def)

interpretation review: free_policy "similar cs" "\<lambda>S. True" for cs
  by unfold_locales simp_all

lemma anchors_compatible_set:
  "set ms \<subseteq> {..<length cs} \<Longrightarrow> anchors_compatible cs ms \<longleftrightarrow> anchors_ok cs (set ms)"
  by (auto simp: anchors_compatible_def anchors_ok_def list_all_iff subset_iff)

lemma anchors_ok_review: "\<not> list_ex is_execution cs \<Longrightarrow> anchors_ok cs = (\<lambda>S. True)"
  by (auto simp: anchors_ok_def list_ex_length)

lemma component_indices_total:
  "uf_ok p \<Longrightarrow> set is \<subseteq> {..<length p} \<Longrightarrow>
    \<exists>p'. component_indices p t is = Some (filter (\<lambda>i. uf_rep p i = t) is, p') \<and> uf_keeps p p'"
proof (induction "is" arbitrary: p)
  case (Cons i "is")
  then obtain p1 where p1: "uf_find p i = Some (uf_rep p i, p1)" "uf_keeps p p1"
    using uf_find_total [of p i] by auto
  then have "uf_ok p1" "set is \<subseteq> {..<length p1}" "uf_rep p1 = uf_rep p"
    using Cons.prems by (auto simp: uf_keeps_def)
  with Cons.IH [of p1] obtain p2 where
    "component_indices p1 t is = Some (filter (\<lambda>i. uf_rep p i = t) is, p2)" "uf_keeps p1 p2" by auto
  then show ?case using p1 uf_keeps_trans [OF p1(2)] by auto
qed (simp add: uf_keeps_refl)

lemma class_indices:
  assumes "uf_ok p" "l < length p"
  shows "set (filter (\<lambda>i. uf_rep p i = uf_rep p l) [0..<length p]) = class_of (uf_rep p) l"
proof -
  have "i < length p" if "uf_rep p i = uf_rep p l" for i
    using that uf_rep_le [of p l] assms(2) uf_rep_beyond [of p i] by fastforce
  then show ?thesis by (auto simp: class_of_def)
qed

lemma can_union_total:
  assumes "uf_ok p" "length p = length cs" "l < length p" "r < length p"
  shows "\<exists>p'. can_union cs p l r = Some (anchors_ok cs (class_of (uf_rep p) l \<union> class_of (uf_rep p) r), p')
    \<and> uf_keeps p p'"
proof -
  have keep: "uf_ok q" "length q = length p" "uf_rep q = uf_rep p" if "uf_keeps p q" for q
    using that by (simp_all add: uf_keeps_def)
  have upt: "set [0..<length cs] \<subseteq> {..<length q}" if "uf_keeps p q" for q
    using assms(2) keep [OF that] by auto
  obtain p1 where p1: "uf_find p l = Some (uf_rep p l, p1)" "uf_keeps p p1"
    using uf_find_total [OF assms(1,3)] by blast
  obtain p2 where p2: "component_indices p1 (uf_rep p l) [0..<length cs]
      = Some (filter (\<lambda>i. uf_rep p i = uf_rep p l) [0..<length cs], p2)" "uf_keeps p p2"
    using component_indices_total [OF keep(1) upt, OF p1(2) p1(2), of "uf_rep p l"]
      keep [OF p1(2)] uf_keeps_trans [OF p1(2)] by auto
  obtain p3 where p3: "uf_find p2 r = Some (uf_rep p r, p3)" "uf_keeps p p3"
    using uf_find_total [of p2 r] keep [OF p2(2)] assms(4) uf_keeps_trans [OF p2(2)] by auto
  obtain p4 where p4: "component_indices p3 (uf_rep p r) [0..<length cs]
      = Some (filter (\<lambda>i. uf_rep p i = uf_rep p r) [0..<length cs], p4)" "uf_keeps p p4"
    using component_indices_total [OF keep(1) upt, OF p3(2) p3(2), of "uf_rep p r"]
      keep [OF p3(2)] uf_keeps_trans [OF p3(2)] by auto
  let ?ms = "sort (remdups (filter (\<lambda>i. uf_rep p i = uf_rep p l) [0..<length p]
    @ filter (\<lambda>i. uf_rep p i = uf_rep p r) [0..<length p]))"
  have "can_union cs p l r = Some (anchors_compatible cs ?ms, p4)"
    using p1(1) p2(1) p3(1) p4(1) by (simp add: can_union_def assms(2))
  moreover have "anchors_compatible cs ?ms = anchors_ok cs (set ?ms)"
    by (rule anchors_compatible_set) (use assms(2) in auto)
  moreover have "set ?ms = class_of (uf_rep p) l \<union> class_of (uf_rep p) r"
    unfolding set_sort set_remdups set_append class_indices [OF assms(1,3)] class_indices [OF assms(1,4)] ..
  ultimately show ?thesis using p4(2) by simp
qed

lemma merge_pair_total:
  assumes "uf_ok p" "length p = length cs" "fst lr < length p" "snd lr < length p"
  shows "\<exists>p'. merge_pair cs lr p = Some p' \<and> uf_ok p' \<and> length p' = length cs
    \<and> uf_rep p' = join_step (similar cs) (anchors_ok cs) lr (uf_rep p)"
proof -
  obtain l r where lr: "lr = (l, r)" by (cases lr)
  show ?thesis
  proof (cases "similar cs l r")
    case False
    then show ?thesis using assms by (simp add: merge_pair_def join_step_def similar_def lr)
  next
    case True
    from assms lr obtain p1 where p1: "can_union cs p l r
        = Some (anchors_ok cs (class_of (uf_rep p) l \<union> class_of (uf_rep p) r), p1)" "uf_keeps p p1"
      using can_union_total [of p cs l r] by auto
    then obtain p2 where "uf_union p1 l r = Some p2" "uf_ok p2" "length p2 = length p"
      "uf_rep p2 = join_classes (uf_rep p) l r"
      using uf_union_total [of p1 l r] assms lr by (auto simp: uf_keeps_def)
    then show ?thesis
      using True p1 assms(2) by (auto simp: merge_pair_def join_step_def similar_def lr uf_keeps_def)
  qed
qed

lemma merge_pairs_total:
  assumes "uf_ok p" "length p = length cs" "\<And>l r. (l, r) \<in> set ps \<Longrightarrow> l < length cs \<and> r < length cs"
  shows "\<exists>p'. merge_pairs cs ps p = Some p' \<and> uf_ok p' \<and> length p' = length cs
    \<and> uf_rep p' = fold (join_step (similar cs) (anchors_ok cs)) ps (uf_rep p)"
  using assms
proof (induction ps arbitrary: p)
  case (Cons lr ps)
  have "fst lr < length p" "snd lr < length p" using Cons.prems(2) Cons.prems(3) [of "fst lr" "snd lr"] by simp_all
  from merge_pair_total [OF Cons.prems(1,2) this] obtain p1 where p1: "merge_pair cs lr p = Some p1" "uf_ok p1"
    "length p1 = length cs" "uf_rep p1 = join_step (similar cs) (anchors_ok cs) lr (uf_rep p)" by blast
  from Cons.IH [OF p1(2,3)] Cons.prems(3) p1(1,4) show ?case by (auto simp: bind_eq_Some_conv)
qed simp

lemma uf_initial: "uf_ok [0..<n]" "uf_rep [0..<n] = id"
proof -
  show "uf_ok [0..<n]" by (simp add: uf_ok_def)
  have "uf_rep [0..<n] i = i" for i
    by (cases "i < n") (simp_all add: uf_rep_fix uf_rep_beyond)
  then show "uf_rep [0..<n] = id" by (simp add: fun_eq_iff)
qed

lemma set_index_pairs: "set (index_pairs n) = {(i, j). i < j \<and> j < n}"
  by (force simp: index_pairs_def)

definition partition_of :: "candidate_finding list \<Rightarrow> nat \<Rightarrow> nat" where
  "partition_of cs = fold (join_step (similar cs) (anchors_ok cs)) (index_pairs (length cs)) id"

section \<open>Collecting the groups\<close>

definition class_members :: "candidate_finding list \<Rightarrow> (nat \<Rightarrow> nat) \<Rightarrow> nat \<Rightarrow> nat \<Rightarrow> candidate_finding list" where
  "class_members cs f n r = map (\<lambda>i. cs ! i) (filter (\<lambda>i. f i = r) [0..<n])"

definition group_dict :: "candidate_finding list \<Rightarrow> (nat \<Rightarrow> nat) \<Rightarrow> nat \<Rightarrow> (nat, candidate_finding list) dict" where
  "group_dict cs f n = map (\<lambda>r. (r, class_members cs f n r)) (filter (\<lambda>r. f r = r) [0..<n])"

lemma update_tabulated:
  "distinct rs \<Longrightarrow> AList.update k v (map (\<lambda>r. (r, g r)) rs) =
    (if k \<in> set rs then map (\<lambda>r. (r, if r = k then v else g r)) rs else map (\<lambda>r. (r, g r)) rs @ [(k, v)])"
  by (induction rs) auto

lemma get_default_tabulated:
  "dict_get_default (map (\<lambda>r. (r, g r)) rs) k v = (if k \<in> set rs then g k else v)"
  by (induction rs) (auto simp: dict_get_default_def)

lemma group_dict_Suc:
  assumes "\<And>i. f i \<le> i" "rep_idem f"
  shows "AList.update (f n) (dict_get_default (group_dict cs f n) (f n) [] @ [cs ! n]) (group_dict cs f n)
    = group_dict cs f (Suc n)"
proof -
  have in_roots: "f n \<in> set (filter (\<lambda>r. f r = r) [0..<n]) \<longleftrightarrow> f n \<noteq> n"
    using assms by (auto simp: rep_idem_def order.strict_iff_order)
  have members_Suc: "class_members cs f (Suc n) r = class_members cs f n r @ (if f n = r then [cs ! n] else [])" for r
    by (simp add: class_members_def)
  have fresh: "class_members cs f n n = []"
  proof -
    have "f i \<noteq> n" if "i < n" for i using assms(1) [of i] that by linarith
    then show ?thesis by (simp add: class_members_def)
  qed
  show ?thesis
  proof (cases "f n = n")
    case True
    then show ?thesis
      using in_roots unfolding group_dict_def update_tabulated [OF distinct_filter [OF distinct_upt]]
        get_default_tabulated
      by (auto simp: members_Suc fresh)
  next
    case False
    then show ?thesis
      using in_roots unfolding group_dict_def update_tabulated [OF distinct_filter [OF distinct_upt]]
        get_default_tabulated
      by (auto simp: members_Suc)
  qed
qed

lemma collect_groups_total:
  assumes "uf_ok p" "uf_rep p = f" "\<And>i. f i \<le> i" "rep_idem f" "k + m = length p"
  shows "collect_groups cs p [k..<k + m] (group_dict cs f k) = Some (group_dict cs f (k + m))"
  using assms
proof (induction m arbitrary: k p)
  case (Suc m)
  from Suc.prems obtain p1 where p1: "uf_find p k = Some (f k, p1)" "uf_keeps p p1"
    using uf_find_total [of p k] by auto
  have "[k..<k + Suc m] = k # [Suc k..<Suc k + m]" using upt_conv_Cons [of k "k + Suc m"] by simp
  moreover have "collect_groups cs p1 [Suc k..<Suc k + m] (group_dict cs f (Suc k)) = Some (group_dict cs f (Suc k + m))"
    by (rule Suc.IH) (use p1 Suc.prems in \<open>simp_all add: uf_keeps_def\<close>)
  ultimately show ?case
    using p1(1) group_dict_Suc [OF Suc.prems(3,4), where cs = cs and n = k] by simp
qed simp

lemma partition_of_le: "partition_of cs i \<le> i" and partition_of_idem: "rep_idem (partition_of cs)"
proof -
  obtain p where p: "uf_ok p" "uf_rep p = partition_of cs"
    using merge_pairs_total [of "[0..<length cs]" cs "index_pairs (length cs)"]
    by (auto simp: uf_initial set_index_pairs partition_of_def)
  show "partition_of cs i \<le> i" using uf_rep_le [of p i] p by simp
  show "rep_idem (partition_of cs)" using uf_rep_idem [OF p(1)] p by (simp add: rep_idem_def)
qed

text \<open>What the code computes, over the partition of the specification.\<close>

definition class_roots :: "candidate_finding list \<Rightarrow> nat list" where
  "class_roots cs = filter (\<lambda>r. partition_of cs r = r) [0..<length cs]"

definition group_at :: "candidate_finding list \<Rightarrow> nat \<Rightarrow> candidate_finding list" where
  "group_at cs r = class_members cs (partition_of cs) (length cs) r"

theorem group_candidates_eq:
  "group_candidates sha256 cs =
     Some (sort_key cg_group_id (map (\<lambda>r. make_group sha256 (group_at cs r)) (class_roots cs)))"
proof (cases "cs = []")
  case True
  then show ?thesis by (simp add: group_candidates_def class_roots_def)
next
  case False
  obtain p where p: "merge_pairs cs (index_pairs (length cs)) [0..<length cs] = Some p" "uf_ok p"
    "length p = length cs" "uf_rep p = partition_of cs"
    using merge_pairs_total [of "[0..<length cs]" cs "index_pairs (length cs)"]
    by (auto simp: uf_initial set_index_pairs partition_of_def)
  have "collect_groups cs p [0..<length cs] [] = Some (group_dict cs (partition_of cs) (length cs))"
    using collect_groups_total [OF p(2,4) partition_of_le partition_of_idem, of 0 "length cs" cs] p(3)
    by (simp add: group_dict_def)
  then show ?thesis
    using False p(1)
    by (simp add: group_candidates_def group_dict_def group_at_def class_roots_def comp_def)
qed

lemma mset_setdefault_append:
  "distinct (dict_keys d) \<Longrightarrow>
    mset (concat (dict_values (AList.update k (dict_get_default d k [] @ [x]) d)))
      = add_mset x (mset (concat (dict_values d)))"
  by (induction d) (auto simp: dict_get_default_def split: option.splits dest: map_of_SomeD intro: rev_image_eqI)

lemma mset_group_dict:
  assumes "\<And>i. f i \<le> i" "rep_idem f"
  shows "mset (concat (dict_values (group_dict cs f n))) = mset (map (\<lambda>i. cs ! i) [0..<n])"
proof (induction n)
  case (Suc n)
  have "distinct (dict_keys (group_dict cs f n))" by (simp add: group_dict_def comp_def)
  from mset_setdefault_append [OF this] show ?case
    unfolding group_dict_Suc [OF assms, symmetric] by (simp add: Suc)
qed (simp add: group_dict_def)

lemma groups_of:
  assumes "group_candidates sha256 cs = Some gs"
  shows "g \<in> set gs \<longleftrightarrow> (\<exists>r < length cs. partition_of cs r = r \<and> g = make_group sha256 (group_at cs r))"
  using assms by (auto simp: group_candidates_eq class_roots_def)

lemma set_make_group [simp]: "set (cg_candidates (make_group sha256 ms)) = set ms"
  by (simp add: make_group_def Let_def)

lemma set_group_at: "c \<in> set (group_at cs r) \<longleftrightarrow> (\<exists>i < length cs. partition_of cs i = r \<and> cs ! i = c)"
  by (auto simp: group_at_def class_members_def)

lemma partition_of_root: "i < length cs \<Longrightarrow> partition_of cs i < length cs \<and> partition_of cs (partition_of cs i) = partition_of cs i"
  using partition_of_le [of cs i] partition_of_idem [of cs] by (simp add: rep_idem_def)

text \<open>Two members of one group, by their positions.\<close>

lemma same_group_iff:
  assumes "group_candidates sha256 cs = Some gs" "distinct cs" "i < length cs" "j < length cs"
  shows "(\<exists>g \<in> set gs. {cs ! i, cs ! j} \<subseteq> set (cg_candidates g)) \<longleftrightarrow> partition_of cs i = partition_of cs j"
proof -
  have mem: "cs ! k \<in> set (group_at cs r) \<longleftrightarrow> partition_of cs k = r" if "k < length cs" for k r
    using that assms(2) by (auto simp: set_group_at nth_eq_iff_index_eq)
  show ?thesis
  proof
    assume "partition_of cs i = partition_of cs j"
    then have "{cs ! i, cs ! j} \<subseteq> set (cg_candidates (make_group sha256 (group_at cs (partition_of cs i))))"
      using assms(3,4) mem by simp
    moreover have "make_group sha256 (group_at cs (partition_of cs i)) \<in> set gs"
      using partition_of_root [OF assms(3)] groups_of [OF assms(1)] by blast
    ultimately show "\<exists>g \<in> set gs. {cs ! i, cs ! j} \<subseteq> set (cg_candidates g)" by blast
  qed (use assms(3,4) in \<open>auto simp: groups_of [OF assms(1)] mem\<close>)
qed

lemma mset_concat_cong: "mset xs = mset ys \<Longrightarrow> mset (concat xs) = mset (concat ys)"
  by (metis mset_concat mset_map sum_mset_sum_list)

lemma mset_concat_map: "mset (concat (map f xs)) = (\<Sum>x\<leftarrow>xs. mset (f x))"
  by (induction xs) simp_all

definition earlier_similar :: "candidate_finding list \<Rightarrow> candidate_finding \<Rightarrow> candidate_finding \<Rightarrow> bool" where
  "earlier_similar cs a b \<longleftrightarrow> (\<exists>j < length cs. \<exists>i < j. cs ! i = a \<and> cs ! j = b
     \<and> similarity_threshold \<le> candidate_similarity a b)"

lemma equivclp_positions:
  assumes "distinct cs" "i < length cs" "j < length cs"
  shows "equivclp (\<lambda>l r. (l, r) \<in> set (index_pairs (length cs)) \<and> similar cs l r) i j
    \<longleftrightarrow> equivclp (earlier_similar cs) (cs ! i) (cs ! j)"
proof
  assume "equivclp (\<lambda>l r. (l, r) \<in> set (index_pairs (length cs)) \<and> similar cs l r) i j"
  then show "equivclp (earlier_similar cs) (cs ! i) (cs ! j)"
  proof (induction rule: equivclp_induct)
    case (step y z)
    then have "earlier_similar cs (cs ! y) (cs ! z) \<or> earlier_similar cs (cs ! z) (cs ! y)"
      by (auto simp: earlier_similar_def set_index_pairs similar_def)
    with step.IH show ?case by (metis equivclp_into_equivclp)
  qed simp
next
  have "equivclp (earlier_similar cs) (cs ! i) b \<Longrightarrow> \<exists>k < length cs. cs ! k = b
    \<and> equivclp (\<lambda>l r. (l, r) \<in> set (index_pairs (length cs)) \<and> similar cs l r) i k" for b
  proof (induction rule: equivclp_induct)
    case base
    then show ?case using assms(2) by auto
  next
    case (step y z)
    then obtain k where k: "k < length cs" "cs ! k = y"
      "equivclp (\<lambda>l r. (l, r) \<in> set (index_pairs (length cs)) \<and> similar cs l r) i k" by blast
    from step.hyps(2) obtain m where m: "m < length cs" "cs ! m = z" "(k < m \<and> similar cs k m) \<or> (m < k \<and> similar cs m k)"
      using k(1,2) assms(1) by (auto simp: earlier_similar_def similar_def nth_eq_iff_index_eq)
    then show ?case using k equivclp_into_equivclp [OF k(3), of m] by (auto simp: set_index_pairs)
  qed
  moreover assume "equivclp (earlier_similar cs) (cs ! i) (cs ! j)"
  ultimately obtain k where "k < length cs" "cs ! k = cs ! j"
    "equivclp (\<lambda>l r. (l, r) \<in> set (index_pairs (length cs)) \<and> similar cs l r) i k" by blast
  then show "equivclp (\<lambda>l r. (l, r) \<in> set (index_pairs (length cs)) \<and> similar cs l r) i j"
    using nth_eq_iff_index_eq [OF assms(1), of k j] assms(3) by simp
qed

end
