(* ===== verification/Consensus_Findings.thy ===== *)
theory Consensus_Findings
  imports Consensus_Merge Consensus_Groups
begin

text \<open>
  Lemmas on merging a group: the fields of the finding a merge returns, the ranks of statuses,
  deduplication by key, the bounds of the merged confidence, groups of two candidates and the link
  between a model analysis and an execution.
\<close>

section \<open>What a merge returns\<close>

lemma validate_finding_same: "validate_finding sha256 f = Inr f' \<Longrightarrow> f' = f"
  by (auto simp: validate_finding_def result_simps split: if_splits)

lemma merge_group_Inr:
  assumes "merge_group sha256 g decisions validations scanners judge = Inr f"
  obtains h where "f = merged_finding sha256 g decisions validations scanners judge h"
    and "aggregate_hash sha256 validations g = Inr h"
    and "validate_finding sha256 f = Inr f"
proof -
  from assms obtain h where "aggregate_hash sha256 validations g = Inr h"
    "validate_finding sha256 (merged_finding sha256 g decisions validations scanners judge h) = Inr f"
    by (auto simp: merge_group_def rbind_eq_Inr_iff)
  moreover from this(2) have "f = merged_finding sha256 g decisions validations scanners judge h"
    by (rule validate_finding_same)
  ultimately show ?thesis using that by simp
qed

lemma valid_execution_candidates_eq:
  "valid_execution_candidates validations g = filter (location_valid validations) (execution_candidates g)"
  unfolding valid_execution_candidates_def valid_candidates_def
  by (rule filter_cong) (auto simp: execution_candidates_def)

lemma length_filter_all: "length (filter P xs) = length xs \<longleftrightarrow> list_all P xs"
  unfolding list_all_iff by (metis filter_True length_filter_less less_irrefl)

lemma execution_origin_valid_iff:
  "execution_origin_valid validations g \<longleftrightarrow> execution_candidates g \<noteq> []
     \<and> list_all (location_valid validations) (execution_candidates g)"
  by (simp add: execution_origin_valid_def valid_execution_candidates_eq length_filter_all)

lemma status_rank_inj: "status_rank a = status_rank b \<Longrightarrow> a = b"
  by (cases a; cases b) simp_all

lemma status_rank_nonneg [simp]: "\<not> status_rank a < 0"
  by (cases a) simp_all

lemma merged_status_rank:
  "status_rank (merged_status cap execs judge) =
     (case judge of None \<Rightarrow> status_rank cap
      | Some j \<Rightarrow> if execs = [] then min (status_rank (jd_status j)) (status_rank cap) else status_rank cap)"
  by (auto simp: merged_status_def split: option.splits)

lemma merged_status_rejected [simp]: "merged_status REJECTED execs j = REJECTED"
  by (auto simp: merged_status_def split: option.splits)

lemma preliminary_execution:
  assumes "execution_candidates g \<noteq> []"
  shows "preliminary_status g decisions validations scanners =
    (if list_all (location_valid validations) (execution_candidates g) then CONFIRMED else REJECTED)"
  using assms by (simp add: preliminary_status_def length_filter_all)

section \<open>Deduplication\<close>

definition keyed :: "('a \<Rightarrow> 'k) \<Rightarrow> ('k, 'a) dict \<Rightarrow> bool" where
  "keyed key d \<longleftrightarrow> distinct (dict_keys d) \<and> (\<forall>(k, x) \<in> set d. k = key x)"

lemma keyed_update: "keyed key d \<Longrightarrow> keyed key (AList.update (key x) x d)"
proof -
  assume k: "keyed key d"
  have "set (AList.update (key x) x d) \<subseteq> insert (key x, x) (set d)" by (induction d) auto
  then show ?thesis using k by (auto simp: keyed_def)
qed

lemma values_update_keyed:
  assumes "keyed key d" "inj key"
  shows "set (dict_values (AList.update (key x) x d)) = insert x (set (dict_values d))"
  using assms(1)
proof (induction d)
  case (Cons p d)
  have "keyed key d" using Cons.prems by (auto simp: keyed_def)
  then show ?case
    using Cons assms(2) by (cases p) (auto simp: keyed_def dest: injD)
qed simp

lemma fold_keyed: "keyed key d \<Longrightarrow> keyed key (fold (\<lambda>x. AList.update (key x) x) xs d)"
  by (induction xs arbitrary: d) (simp_all add: keyed_update)

lemma values_fold_keyed:
  "keyed key d \<Longrightarrow> inj key \<Longrightarrow>
    set (dict_values (fold (\<lambda>x. AList.update (key x) x) xs d)) = set (dict_values d) \<union> set xs"
  by (induction xs arbitrary: d) (simp_all only: fold_simps comp_def id_apply keyed_update values_update_keyed, auto)

lemma keys_fold_keyed:
  "set (dict_keys (fold (\<lambda>x. AList.update (key x) x) xs d)) = set (dict_keys d) \<union> key ` set xs"
  by (induction xs arbitrary: d) (simp_all add: set_keys_update del: set_map)

lemma values_fold_subset:
  "set (dict_values (fold (\<lambda>x. AList.update (key x) x) xs d)) \<subseteq> set (dict_values d) \<union> set xs"
proof (induction xs arbitrary: d)
  case (Cons x xs)
  have "set (dict_values (fold (\<lambda>x. AList.update (key x) x) xs (AList.update (key x) x d)))
     \<subseteq> set (dict_values (AList.update (key x) x d)) \<union> set xs" by (rule Cons.IH)
  also have "\<dots> \<subseteq> set (dict_values d) \<union> set (x # xs)"
    using dict_values_update_subset [of "key x" x d] by auto
  finally show ?case by simp
qed simp

lemma distinct_keyed_values: "keyed key d \<Longrightarrow> distinct (dict_values d)"
proof (induction d)
  case (Cons p d)
  then show ?case by (cases p) (force simp: keyed_def)
qed simp

lemma keyed_keys:
  assumes "keyed key d"
  shows "key ` set (dict_values d) = set (dict_keys d)"
proof -
  have "map key (dict_values d) = dict_keys d" using assms by (auto simp: keyed_def)
  then show ?thesis by (metis set_map)
qed

lemma unique_evidence_exact:
  "set (unique_evidence xs) = set xs" "distinct (unique_evidence xs)"
proof -
  let ?k = "\<lambda>e :: evidence_item. (ev_type e, ev_source e, ev_rule_id e, ev_fingerprint e, ev_description e)"
  have k: "keyed ?k []" by (simp add: keyed_def)
  have "inj ?k" by (rule injI, rule evidence_item.equality) simp_all
  from values_fold_keyed [OF k this, of xs] show "set (unique_evidence xs) = set xs"
    by (simp add: unique_evidence_def del: set_map)
  from distinct_keyed_values [OF fold_keyed [OF k]] show "distinct (unique_evidence xs)"
    by (simp add: unique_evidence_def)
qed

definition dedup_key :: "location \<Rightarrow> string \<times> int \<times> int \<times> string option" where
  "dedup_key l = (lo_path l, lo_start_line l, lo_end_line l, lo_symbol l)"

lemma set_unique_locations:
  "set (unique_locations xs) = set (dict_values (fold (\<lambda>x. AList.update (dedup_key x) x) xs []))"
  unfolding unique_locations_def set_sort dedup_key_def by (rule refl)

lemma unique_locations_subset: "set (unique_locations xs) \<subseteq> set xs"
  using values_fold_subset [of dedup_key xs "[]"] by (simp add: set_unique_locations del: set_map)

lemma unique_locations_keys: "dedup_key ` set (unique_locations xs) = dedup_key ` set xs"
proof -
  have "keyed dedup_key (fold (\<lambda>x. AList.update (dedup_key x) x) xs [])"
    by (rule fold_keyed) (simp add: keyed_def)
  from keyed_keys [OF this] show ?thesis
    unfolding set_unique_locations keys_fold_keyed by simp
qed

lemma unique_locations_Nil: "unique_locations xs = [] \<longleftrightarrow> xs = []"
  using unique_locations_keys [of xs] by (metis image_is_empty set_empty)

lemma unique_strings_Nil: "unique_strings xs = [] \<longleftrightarrow> \<not> list_ex (\<lambda>s. s \<noteq> []) xs"
  by (auto simp: unique_strings_def first_occurrences_def filter_empty_conv list_ex_iff)

lemma max_by_mem: "xs \<noteq> [] \<Longrightarrow> max_by key xs \<in> set xs"
proof -
  have fold_mem: "foldl (\<lambda>best x. if key best < key x then x else best) b ys \<in> insert b (set ys)" for b ys
  proof (induction ys arbitrary: b)
    case (Cons y ys)
    show ?case using Cons.IH [of b] Cons.IH [of y] by auto
  qed simp
  show "xs \<noteq> [] \<Longrightarrow> max_by key xs \<in> set xs"
    using fold_mem [of "hd xs" "tl xs"] by (cases xs) (simp_all add: max_by_def)
qed

lemma fl_nonneg: "0 \<le> x \<Longrightarrow> 0 \<le> fl x"
proof -
  have "0 \<le> round_even y" if "0 \<le> y" for y
    using that by (simp add: round_even_def Let_def)
  then show "0 \<le> x \<Longrightarrow> 0 \<le> fl x" by (simp add: fl_def Let_def)
qed

lemma primary_pool_subset: "set (primary_pool decisions validations g) \<subseteq> set (cg_candidates g)"
  by (auto simp: primary_pool_def or_list_def valid_candidates_def valid_execution_candidates_def execution_candidates_def)

lemma primary_pool_Nil: "primary_pool decisions validations g = [] \<longleftrightarrow> cg_candidates g = []"
  by (auto simp: primary_pool_def or_list_def valid_candidates_def valid_execution_candidates_def execution_candidates_def)

lemma preliminary_rejected:
  assumes "execution_candidates g = []" "valid_candidates validations g = []"
  shows "preliminary_status g decisions validations scanners = REJECTED"
proof -
  have "filter (location_valid validations) (filter P (cg_candidates g)) = []" for P
    using assms(2) by (auto simp: valid_candidates_def filter_empty_conv)
  then show ?thesis using assms(1) by (simp add: preliminary_status_def Let_def)
qed

lemma active_locations_valid:
  assumes "status = merged_status (preliminary_status g decisions validations scanners)
      (valid_execution_candidates validations g) judge" "status \<noteq> REJECTED"
  shows "set (location_candidates status validations g) \<subseteq> {c \<in> set (cg_candidates g). location_valid validations c}"
    and "location_candidates status validations g \<noteq> []"
proof -
  have p: "preliminary_status g decisions validations scanners \<noteq> REJECTED" using assms by auto
  then have "execution_candidates g \<noteq> [] \<Longrightarrow> list_all (location_valid validations) (execution_candidates g)"
    by (auto simp: preliminary_execution split: if_splits)
  moreover have "execution_candidates g = [] \<Longrightarrow> valid_candidates validations g \<noteq> []"
    using p preliminary_rejected by blast
  ultimately show "location_candidates status validations g \<noteq> []"
    and "set (location_candidates status validations g) \<subseteq> {c \<in> set (cg_candidates g). location_valid validations c}"
    using assms(2) by (auto simp: location_candidates_def valid_candidates_def valid_execution_candidates_eq execution_candidates_def
        list_all_iff filter_empty_conv)
qed

lemma location_candidates_subset: "set (location_candidates status validations g) \<subseteq> set (cg_candidates g)"
  by (auto simp: location_candidates_def valid_candidates_def valid_execution_candidates_eq execution_candidates_def)

lemma review_confidence_bounds:
  assumes "\<And>c. c \<in> set (cg_candidates g) \<Longrightarrow> 0 \<le> cf_confidence c \<and> cf_confidence c \<le> 1"
    and "cg_candidates g \<noteq> []" "execution_candidates g = []"
    and "\<And>j. judge = Some j \<Longrightarrow> 0 \<le> jd_confidence j \<and> jd_confidence j \<le> 1"
  shows "0 \<le> capped_confidence validations g judge \<and> capped_confidence validations g judge \<le> 1"
proof -
  have "Max (set (map cf_confidence (cg_candidates g))) \<in> cf_confidence ` set (cg_candidates g)"
    using Max_in [of "set (map cf_confidence (cg_candidates g))"] assms(2) by simp
  then have "0 \<le> Max (set (map cf_confidence (cg_candidates g)))" "Max (set (map cf_confidence (cg_candidates g))) \<le> 1"
    using assms(1) by auto
  moreover have "valid_execution_candidates validations g = []" using assms(3) by (simp add: valid_execution_candidates_eq)
  ultimately have "0 \<le> merged_confidence (valid_execution_candidates validations g) (cg_candidates g) judge"
    "merged_confidence (valid_execution_candidates validations g) (cg_candidates g) judge \<le> 1"
    using assms(4) by (auto simp: merged_confidence_def min_le_iff_disj split: option.split)
  then show ?thesis
    using assms(3) fl_nonneg [of "59 / 100"] by (simp add: capped_confidence_def Let_def min_le_iff_disj)
qed

lemma review_provenance: "execution_candidates g = [] \<Longrightarrow> group_provenance g = []"
  by (simp add: group_provenance_def List.map_filter_def)

section \<open>Groups of two\<close>

lemma index_pairs_2: "index_pairs 2 = [(0, 1)]"
  by (simp add: index_pairs_def upt_rec numeral_2_eq_2)

lemma anchors_ok_pair:
  "anchors_ok [a, b] {0, Suc 0} \<longleftrightarrow>
     (is_execution a \<longrightarrow> execution_location_compatible a b \<and> execution_semantic_compatible a b)
     \<and> (is_execution b \<longrightarrow> execution_location_compatible b a \<and> execution_semantic_compatible b a)"
  by (auto simp: anchors_ok_def)

lemma pair_partition:
  "partition_of [a, b] = (if similarity_threshold \<le> candidate_similarity a b \<and> anchors_ok [a, b] {0, Suc 0}
     then join_classes id 0 1 else id)"
proof -
  have "class_of id 0 \<union> class_of id (Suc 0) = {0, Suc 0}" by (auto simp: class_of_def)
  then show ?thesis
    by (simp add: partition_of_def index_pairs_2 [unfolded numeral_2_eq_2] join_step_def similar_def)
qed

lemma pair_groups:
  "group_candidates sha256 [a, b] = Some
    (if similarity_threshold \<le> candidate_similarity a b \<and> anchors_ok [a, b] {0, Suc 0}
     then [make_group sha256 [a, b]]
     else sort_key cg_group_id [make_group sha256 [a], make_group sha256 [b]])"
  by (simp add: group_candidates_eq class_roots_def group_at_def class_members_def pair_partition
      join_classes_def upt_rec)

lemma bind_Inr:
  assumes "bind_model_analysis_to_execution_origin sha256 e c = Inr c'"
  obtains p where "is_execution e" "cf_execution_provenance e = Some p" "cf_origin_kind c = MODEL_REVIEW"
    "\<not> list_ex (\<lambda>ev. ev_source ev = link_source) (cf_evidence c)" "execution_location_compatible e c"
    "similarity_threshold \<le> candidate_similarity e c"
    "c' = c\<lparr>cf_evidence := cf_evidence c @ [link_evidence p]\<rparr>"
  using assms that
  by (auto simp: bind_model_analysis_to_execution_origin_def is_execution_def validate_candidate_def not_less
      result_simps split: candidate_origin.splits option.splits)

definition executed_proof :: "evidence_item \<Rightarrow> bool" where
  "executed_proof e \<longleftrightarrow> (ev_type e = EvFormal \<and> ev_rule_id e = Some ''counterexample'')
     \<or> (ev_type e = EvReproduction \<and> ev_source e = ''mmaudit-local-fork-reproduction''
        \<and> ev_rule_id e \<in> {Some ''reproduced'', Some ''reproduced_and_minimized''})"

lemma reproduction_state_found:
  "reproduction_state es \<noteq> NOT_ATTEMPTED \<Longrightarrow> \<exists>e \<in> set es. executed_proof e"
  by (induction es) (auto simp: executed_proof_def split: if_splits)

lemma strength_executed:
  "strength_of es families path x \<in> set executed_strengths \<Longrightarrow> x \<or> (\<exists>e \<in> set es. executed_proof e)"
  using reproduction_state_found [of es]
  by (auto simp: strength_of_def executed_strengths_def executed_proof_def list_ex_iff split: if_splits)

end
