(* ===== verification/Consensus_Demo.thy ===== *)
theory Consensus_Demo
  imports Consensus_Findings
begin

text \<open>
  Concrete candidates: two reviews of one file, an execution counterexample with its provenance, a
  review before and after it is linked to that execution, and the finding the linked group merges
  into. \<open>sha0\<close> stands for the digest.
\<close>

definition at_lines :: "string \<Rightarrow> int \<Rightarrow> int \<Rightarrow> location" where
  "at_lines path l0 l1 = \<lparr>lo_path = path, lo_start_line = l0, lo_end_line = l1, lo_symbol = None, lo_content_hash = None\<rparr>"

definition review_candidate :: "string \<Rightarrow> location list \<Rightarrow> candidate_finding" where
  "review_candidate i ls = \<lparr>cf_candidate_id = i, cf_origin_kind = MODEL_REVIEW, cf_execution_provenance = None,
     cf_title = ''overflow'', cf_severity = SevHigh, cf_confidence = 1 / 2, cf_cwe = [], cf_owasp = [],
     cf_summary = ''s'', cf_impact = ''i'', cf_preconditions = [''p''], cf_locations = ls,
     cf_source = None, cf_sink = None, cf_attack_path = [''x''],
     cf_evidence = [\<lparr>ev_type = EvModel, ev_source = ''m'', ev_description = ''d'', ev_rule_id = None, ev_fingerprint = None\<rparr>],
     cf_compensating_controls = [], cf_false_positive_conditions = [''f''], cf_recommendation = ''r'',
     cf_verification_test = \<lparr>vt_description = ''t'', vt_safe = True\<rparr>, cf_role = Some ''auditor'',
     cf_model_family = Some i, cf_model_votes = []\<rparr>"

definition wide :: candidate_finding where
  "wide = review_candidate ''a'' [at_lines ''A.sol'' 1 2, at_lines ''A.sol'' 100 101]"

definition narrow :: candidate_finding where
  "narrow = review_candidate ''b'' [at_lines ''A.sol'' 50 51]"

definition zeros :: string where
  "zeros = replicate 64 (CHR ''0'')"

definition sha0 :: "string \<Rightarrow> string" where
  "sha0 s = zeros"

definition run_location :: location where
  "run_location = \<lparr>lo_path = ''A.sol'', lo_start_line = 1, lo_end_line = 2, lo_symbol = None, lo_content_hash = Some zeros\<rparr>"

definition run_provenance :: execution_provenance where
  "run_provenance = \<lparr>xp_invariant_id = ''inv'', xp_invariant_evidence_sha256 = zeros, xp_harness_name = ''H'',
     xp_harness_spec_sha256 = zeros, xp_property_corpus_sha256 = zeros,
     xp_property_ids = [''prop-'' @ take 24 zeros], xp_property_hashes = [zeros],
     xp_execution_result_sha256 = zeros, xp_execution_observation_sha256 = zeros, xp_executable_sha256 = zeros,
     xp_source_sha256 = zeros, xp_compiler_version = ''0.8.20'', xp_compiler_sha256 = zeros,
     xp_isolation_backend = ''docker'', xp_isolation_attestation_sha256 = zeros, xp_attempts = 2,
     xp_successful_attempts = 2, xp_minimized = False, xp_source_locations = [run_location],
     xp_provenance_sha256 = zeros\<rparr>"

definition executed :: candidate_finding where
  "executed = (review_candidate (exec_candidate_id run_provenance) [run_location])
     \<lparr>cf_origin_kind := DETERMINISTIC_EXECUTION, cf_execution_provenance := Some run_provenance,
      cf_cwe := [''CWE-190''], cf_severity := SevCritical,
      cf_evidence := [\<lparr>ev_type = EvExecution, ev_source = ''mmaudit-foundry-invariant'', ev_description = ''d'',
        ev_rule_id = Some ''inv'', ev_fingerprint = Some zeros\<rparr>],
      cf_role := None, cf_model_family := None\<rparr>"

definition reviewed :: candidate_finding where
  "reviewed = (review_candidate ''r'' [at_lines ''A.sol'' 1 1])\<lparr>cf_cwe := [''cwe-190'']\<rparr>"

definition linked :: candidate_finding where
  "linked = reviewed\<lparr>cf_evidence := cf_evidence reviewed @ [link_evidence run_provenance]\<rparr>"

lemma wide_narrow: "similarity_threshold \<le> candidate_similarity wide narrow"
  by code_simp

lemma narrow_wide: "\<not> similarity_threshold \<le> candidate_similarity narrow wide"
  by code_simp

lemma executed_reviewed: "similarity_threshold \<le> candidate_similarity executed reviewed"
  by code_simp

lemma run_provenance_fields: "provenance_fields_ok run_provenance"
  by code_simp

lemma run_provenance_valid: "validate_provenance sha0 run_provenance = Inr ()"
  using run_provenance_fields
  by (simp add: validate_provenance_def expected_provenance_sha256_def canonical_model_sha256_def sha0_def) (code_simp)

lemma reviewed_binds: "bind_model_analysis_to_execution_origin sha0 executed reviewed = Inr linked"
proof -
  have "validate_candidate sha0 linked = Inr linked" by code_simp
  moreover have "execution_location_compatible executed reviewed" "cf_origin_kind reviewed = MODEL_REVIEW"
    "\<not> list_ex (\<lambda>ev. ev_source ev = link_source) (cf_evidence reviewed)" by code_simp+
  moreover have "cf_origin_kind executed = DETERMINISTIC_EXECUTION" "cf_execution_provenance executed = Some run_provenance"
    by (simp_all add: executed_def)
  ultimately show ?thesis
    using executed_reviewed by (simp add: bind_model_analysis_to_execution_origin_def not_less linked_def)
qed

definition verified :: "verification_verdict \<Rightarrow> string list \<Rightarrow> verification_decision" where
  "verified v guards = \<lparr>vd_candidate_id = [], vd_verdict = v, vd_rationale = ''ok'', vd_source_to_sink = [],
     vd_reachability = [], vd_authentication = [], vd_privilege_requirements = [],
     vd_environmental_assumptions = [], vd_guards_and_controls = guards, vd_false_positive_conditions = [],
     vd_safe_verification_test = \<lparr>vt_description = ''t'', vt_safe = True\<rparr>, vd_confidence = 1\<rparr>"

definition valid_at :: "string \<Rightarrow> location_validation" where
  "valid_at h = \<lparr>lv_valid = True, lv_content_hash = Some h, lv_errors = []\<rparr>"

definition proved_candidate :: candidate_finding where
  "proved_candidate = narrow\<lparr>cf_severity := SevCritical, cf_evidence := cf_evidence narrow @
     [\<lparr>ev_type = EvReproduction, ev_source = ''mmaudit-local-fork-reproduction'', ev_description = ''d'',
       ev_rule_id = Some ''reproduced'', ev_fingerprint = Some ''f''\<rparr>]\<rparr>"

definition proved_group :: candidate_group where
  "proved_group = \<lparr>cg_group_id = ''group-1'', cg_candidates = [proved_candidate]\<rparr>"

definition run_group :: candidate_group where
  "run_group = \<lparr>cg_group_id = ''group-2'', cg_candidates = [executed, linked]\<rparr>"

definition plain_judge :: judge_decision where
  "plain_judge = \<lparr>jd_group_id = ''group-1'', jd_status = NEEDS_REVIEW, jd_severity = SevCritical, jd_confidence = 1 / 4,
     jd_cwe = [], jd_owasp = [], jd_rationale = ''unclear''\<rparr>"

definition run_decisions :: decisions where
  "run_decisions = [(''b'', verified VerdictVerified [])]"

definition run_validations :: validations where
  "run_validations = [(''b'', valid_at ''h''), (exec_candidate_id run_provenance, valid_at ''h'')]"

definition run_finding :: finding where
  "run_finding = merged_finding sha0 run_group run_decisions run_validations [] (Some plain_judge) (Some zeros)"

lemma run_finding_provenance: "fi_execution_provenance run_finding = [run_provenance]"
  unfolding run_finding_def merged_finding_def Let_def finding.select_convs by code_simp

lemmas run_field = run_finding_def merged_finding_def Let_def finding.select_convs location_validation.select_convs

lemma run_status: "fi_status run_finding = CONFIRMED"
  unfolding run_field by code_simp

lemma run_finding_origin: "validate_origin_fields sha0 run_finding = Inr ()"
proof -
  have "\<not> blank (or_empty (fi_group_id run_finding))"
    unfolding run_field by code_simp
  moreover have "distinct (fi_contributing_candidate_ids run_finding)"
    "set (map exec_candidate_id [run_provenance]) \<subseteq> set (fi_contributing_candidate_ids run_finding)"
    unfolding run_field by code_simp+
  moreover have "fi_locations run_finding = expected_locations [run_provenance]"
    unfolding run_field by code_simp
  moreover have "execution_evidence_exact run_finding" 
    unfolding execution_evidence_exact_def run_finding_provenance unfolding run_field by code_simp
  moreover have "fi_origin_kind run_finding = OriginExecution"
    "lv_valid (fi_location_validation run_finding)"
    "lv_content_hash (fi_location_validation run_finding) = Some zeros"
    unfolding run_field by code_simp+
  moreover have "execution_origin_location_validation_sha256 sha0 [run_provenance] = Inr zeros" by code_simp
  moreover have "fi_evidence_strength run_finding \<in> set executed_strengths"
    unfolding run_field by code_simp+
  ultimately show ?thesis
    using run_provenance_valid by (simp add: validate_origin_fields_def run_finding_provenance)
qed

lemma run_merges: "merge_group sha0 run_group run_decisions run_validations [] (Some plain_judge) = Inr run_finding"
proof -
  have "primary_pool run_decisions run_validations run_group \<noteq> []"
    "aggregate_hash sha0 run_validations run_group = Inr (Some zeros)" by code_simp+
  moreover have "finding_fields_ok run_finding"
    unfolding finding_fields_ok_def run_field by code_simp
  moreover have "fi_preconditions run_finding \<noteq> []" "fi_locations run_finding \<noteq> []" "fi_attack_path run_finding \<noteq> []"
    "fi_evidence run_finding \<noteq> []" "fi_false_positive_conditions run_finding \<noteq> []" "fi_impact run_finding \<noteq> []"
    "fi_recommendation run_finding \<noteq> []" "fi_verification_test run_finding \<noteq> None"
    unfolding run_field by code_simp+
  ultimately show ?thesis
    using run_finding_origin
    by (simp add: merge_group_def matched_scanners_def validate_finding_def flip: run_finding_def)
qed

definition blank_candidate :: candidate_finding where
  "blank_candidate = narrow\<lparr>cf_preconditions := ['''']\<rparr>"

section \<open>Facts on the examples\<close>

lemma plain_reviews: "\<not> is_execution wide" "\<not> is_execution narrow" "wide \<noteq> narrow"
  by (simp_all add: wide_def narrow_def review_candidate_def is_execution_def)

lemma wide_narrow_grouped: "group_candidates sha256 [wide, narrow] = Some [make_group sha256 [wide, narrow]]"
  using wide_narrow by (simp add: pair_groups anchors_ok_pair plain_reviews)

lemma executed_facts: "is_execution executed" "\<not> is_execution linked" "\<not> is_execution reviewed"
    "linked \<noteq> executed" "executed \<noteq> linked" "executed \<noteq> reviewed" "reviewed \<noteq> executed"
  by (auto simp: executed_def linked_def reviewed_def review_candidate_def is_execution_def
      dest: arg_cong [where f = cf_origin_kind])

lemma executed_linked_grouped: "group_candidates sha0 [executed, linked] = Some [make_group sha0 [executed, linked]]"
proof -
  have "similarity_threshold \<le> candidate_similarity executed linked"
    using executed_reviewed by (simp add: linked_def candidate_similarity_def)
  moreover have "execution_location_compatible executed linked \<and> execution_semantic_compatible executed linked"
    by code_simp
  ultimately show ?thesis by (simp add: pair_groups anchors_ok_pair executed_facts)
qed

lemma executed_reviewed_apart:
  "group_candidates sha0 [executed, reviewed]
     = Some (sort_key cg_group_id [make_group sha0 [executed], make_group sha0 [reviewed]])"
proof -
  have "\<not> execution_semantic_compatible executed reviewed" by code_simp
  then show ?thesis by (simp add: pair_groups anchors_ok_pair executed_facts)
qed

lemma proved_merges: "case merge_group sha0 proved_group run_decisions run_validations [] None of
    Inl e \<Rightarrow> False | Inr f \<Rightarrow> fi_status f = CONFIRMED"
  by code_simp

end
