(* ===== verification/Consensus_Theorems.thy ===== *)
theory Consensus_Theorems
  imports Consensus_Demo
begin

text \<open>
  The properties of \<open>orchestration/consensus.py\<close>: grouping loses no candidate, follows similarity
  and keeps execution anchors apart; the merged status never exceeds the evidence; a merge loses
  and invents no evidence.
\<close>

section \<open>Grouping\<close>

text \<open>
  C13: Grouping always returns, and its groups are a partition of the candidates: together they hold
  every candidate exactly as often as the input does, and no group is empty.
\<close>

theorem groups_partition:
  "\<exists>gs. group_candidates sha256 cs = Some gs \<and> mset (concat (map cg_candidates gs)) = mset cs
     \<and> [] \<notin> set (map cg_candidates gs)"
proof -
  let ?gs = "map (\<lambda>r. make_group sha256 (group_at cs r)) (class_roots cs)"
  have "mset (concat (map cg_candidates (sort_key cg_group_id ?gs))) = mset (concat (map cg_candidates ?gs))"
    by (intro mset_concat_cong) (simp only: mset_map mset_sort)
  also have "\<dots> = mset (concat (map (group_at cs) (class_roots cs)))"
    by (simp add: mset_concat_map make_group_def Let_def comp_def)
  also have "\<dots> = mset (concat (dict_values (group_dict cs (partition_of cs) (length cs))))"
    by (simp add: group_dict_def class_roots_def group_at_def [abs_def] comp_def)
  also have "\<dots> = mset cs" by (simp add: mset_group_dict [OF partition_of_le partition_of_idem] map_nth)
  finally have "mset (concat (map cg_candidates (sort_key cg_group_id ?gs))) = mset cs" .
  moreover have "[] \<notin> set (map cg_candidates (sort_key cg_group_id ?gs))"
  proof
    assume "[] \<in> set (map cg_candidates (sort_key cg_group_id ?gs))"
    then obtain r where r: "r < length cs" "partition_of cs r = r" "[] = cg_candidates (make_group sha256 (group_at cs r))"
      by (auto simp: class_roots_def)
    then have "set (group_at cs r) = {}" by (metis set_make_group list.set(1))
    then show False using r set_group_at [of "cs ! r" cs r] by auto
  qed
  ultimately show ?thesis by (simp add: group_candidates_eq)
qed

text \<open>
  C14: Among model reviews the groups are the connected components of similarity: two candidates share
  a group exactly when a chain of candidates, each at least 0.55 similar to the next (compared in the
  order of the list), connects them. The union-find with path halving changes nothing of this.
\<close>

theorem groups_are_components:
  assumes "group_candidates sha256 cs = Some gs" "distinct cs" "\<not> list_ex is_execution cs"
    and "a \<in> set cs" "b \<in> set cs"
  shows "(\<exists>g \<in> set gs. {a, b} \<subseteq> set (cg_candidates g)) \<longleftrightarrow> equivclp (earlier_similar cs) a b"
proof -
  obtain i j where ij: "i < length cs" "j < length cs" "a = cs ! i" "b = cs ! j"
    using assms(4,5) by (metis in_set_conv_nth)
  show ?thesis
    unfolding ij(3,4) same_group_iff [OF assms(1,2) ij(1,2)] equivclp_positions [OF assms(2) ij(1,2), symmetric]
    unfolding partition_of_def anchors_ok_review [OF assms(3)]
    by (rule review.merged_components)
qed

theorem groups_are_components_witness:
  "group_candidates sha0 [wide, narrow] = Some [make_group sha0 [wide, narrow]]
    \<and> ((\<exists>g \<in> {make_group sha0 [wide, narrow]}. {wide, narrow} \<subseteq> set (cg_candidates g))
       \<longleftrightarrow> equivclp (earlier_similar [wide, narrow]) wide narrow)"
proof -
  have "\<not> list_ex is_execution [wide, narrow]" "wide \<noteq> narrow" by (simp_all add: plain_reviews)
  moreover have "group_candidates sha0 [wide, narrow] = Some [make_group sha0 [wide, narrow]]"
    by (rule wide_narrow_grouped)
  ultimately show ?thesis
    using groups_are_components [of sha0 "[wide, narrow]" "[make_group sha0 [wide, narrow]]" wide narrow] by simp
qed

text \<open>
  C15: In every group, an execution candidate shares a source location with every other member and is
  tied to it by provenance: the other execution has the same provenance, a review carries the host's
  link to it. No chain of reviews joins unrelated executions.
\<close>

theorem groups_keep_anchors_apart:
  assumes "group_candidates sha256 cs = Some gs" "g \<in> set gs"
    and "e \<in> set (cg_candidates g)" "is_execution e" "c \<in> set (cg_candidates g)" "c \<noteq> e"
  shows "execution_location_compatible e c \<and> execution_semantic_compatible e c"
proof -
  obtain r where g: "g = make_group sha256 (group_at cs r)" using assms(2) groups_of [OF assms(1)] by blast
  obtain i j where i: "i < length cs" "partition_of cs i = r" "cs ! i = e"
    and j: "j < length cs" "partition_of cs j = r" "cs ! j = c"
    using assms(3,5) by (auto simp: g set_group_at)
  have "anchors_ok cs (class_of (partition_of cs) i)"
    unfolding partition_of_def by (rule anchored.merged_classes_ok)
  then have "i = j \<or> (execution_location_compatible e c \<and> execution_semantic_compatible e c)"
    using i j assms(4) unfolding anchors_ok_def by (auto simp: class_of_def)
  then show ?thesis using i j assms(6) by auto
qed

theorem groups_keep_anchors_apart_witness:
  "execution_location_compatible executed linked \<and> execution_semantic_compatible executed linked"
proof -
  have "group_candidates sha0 [executed, linked] = Some [make_group sha0 [executed, linked]]"
    by (rule executed_linked_grouped)
  then show ?thesis
    by (rule groups_keep_anchors_apart [where g = "make_group sha0 [executed, linked]"])
       (simp_all add: executed_facts)
qed

text \<open>
  Grouping is maximal: when two similar candidates end in different groups, some execution in
  these two groups is incompatible with some candidate of them, so joining them would break the rule
  on anchors.
\<close>

theorem similar_split_only_by_anchor:
  assumes "group_candidates sha256 cs = Some gs" "distinct cs" "earlier_similar cs a b"
    and "g \<in> set gs" "h \<in> set gs" "a \<in> set (cg_candidates g)" "b \<in> set (cg_candidates h)" "g \<noteq> h"
  shows "\<exists>e m. {e, m} \<subseteq> set (cg_candidates g) \<union> set (cg_candidates h) \<and> is_execution e \<and> e \<noteq> m
    \<and> \<not> (execution_location_compatible e m \<and> execution_semantic_compatible e m)"
proof -
  let ?f = "partition_of cs"
  obtain i j where ij: "i < j" "j < length cs" "cs ! i = a" "cs ! j = b" "similar cs i j"
    using assms(3) by (auto simp: earlier_similar_def similar_def)
  obtain r s where r: "g = make_group sha256 (group_at cs r)" and s: "h = make_group sha256 (group_at cs s)"
    using assms(4,5) groups_of [OF assms(1)] by blast
  have mem: "cs ! k \<in> set (group_at cs q) \<longleftrightarrow> ?f k = q" if "k < length cs" for k q
    using that assms(2) by (auto simp: set_group_at nth_eq_iff_index_eq)
  have f: "?f i = r" "?f j = s" using assms(6,7) ij mem by (auto simp: r s)
  then have "?f i \<noteq> ?f j" using assms(8) r s by auto
  then have "\<not> anchors_ok cs (class_of ?f i \<union> class_of ?f j)"
    unfolding partition_of_def
    by (intro anchored.merged_maximal) (use ij in \<open>auto simp: set_index_pairs\<close>)
  then obtain x y where xy: "{x, y} \<subseteq> class_of ?f i \<union> class_of ?f j" "is_execution (cs ! x)" "x \<noteq> y"
    "x < length cs" "y < length cs"
    "\<not> (execution_location_compatible (cs ! x) (cs ! y) \<and> execution_semantic_compatible (cs ! x) (cs ! y))"
    by (auto simp: anchors_ok_def)
  have "{cs ! x, cs ! y} \<subseteq> set (cg_candidates g) \<union> set (cg_candidates h)"
    using xy(1,4,5) f by (auto simp: r s class_of_def set_group_at)
  moreover have "cs ! x \<noteq> cs ! y" using xy assms(2) by (auto simp: nth_eq_iff_index_eq)
  ultimately show ?thesis using xy(2,6) by blast
qed

theorem similar_split_only_by_anchor_witness:
  "\<exists>e m. {e, m} \<subseteq> {executed, reviewed} \<and> is_execution e \<and> e \<noteq> m
    \<and> \<not> (execution_location_compatible e m \<and> execution_semantic_compatible e m)"
proof -
  let ?g = "make_group sha0 [executed]" and ?h = "make_group sha0 [reviewed]"
  have "earlier_similar [executed, reviewed] executed reviewed"
    unfolding earlier_similar_def
    by (rule exI [of _ 1], rule conjI, simp, rule exI [of _ 0]) (simp add: executed_reviewed)
  moreover have "?g \<noteq> ?h" using executed_facts by (auto simp: make_group_def Let_def)
  ultimately show ?thesis
    using similar_split_only_by_anchor [OF executed_reviewed_apart, of executed reviewed ?g ?h] executed_facts
    unfolding set_sort set_make_group by (simp add: insert_commute)
qed

text \<open>
  Binding a review to an execution adds exactly the link to its evidence and nothing else. With
  the link the two candidates form one group; without it they stay two.
\<close>

theorem link_joins_exactly:
  assumes "bind_model_analysis_to_execution_origin sha256 e c = Inr c'"
  shows "(\<exists>p. cf_execution_provenance e = Some p \<and> c' = c\<lparr>cf_evidence := cf_evidence c @ [link_evidence p]\<rparr>)
    \<and> map_option (map (set \<circ> cg_candidates)) (group_candidates sha256 [e, c']) = Some [{e, c'}]
    \<and> map_option length (group_candidates sha256 [e, c]) = Some 2"
proof -
  obtain p where b: "is_execution e" "cf_execution_provenance e = Some p" "cf_origin_kind c = MODEL_REVIEW"
    "\<not> list_ex (\<lambda>ev. ev_source ev = link_source) (cf_evidence c)" "execution_location_compatible e c"
    "similarity_threshold \<le> candidate_similarity e c"
    "c' = c\<lparr>cf_evidence := cf_evidence c @ [link_evidence p]\<rparr>" using assms by (rule bind_Inr)
  have sim: "candidate_similarity e c' = candidate_similarity e c"
    and loc: "execution_location_compatible e c' = execution_location_compatible e c"
    and kind: "\<not> is_execution c" "\<not> is_execution c'"
    using b(3) by (simp_all add: b(7) candidate_similarity_def execution_location_compatible_def is_execution_def)
  have "execution_semantic_compatible e c'" "\<not> execution_semantic_compatible e c"
    using b(2,3,4) by (auto simp: execution_semantic_compatible_def b(7) link_evidence_def is_execution_def list_ex_iff)
  then have "anchors_ok [e, c'] {0, Suc 0}" "\<not> anchors_ok [e, c] {0, Suc 0}"
    using b(1,5) kind loc by (simp_all add: anchors_ok_pair)
  then show ?thesis using b sim by (auto simp: pair_groups make_group_def Let_def)
qed

theorem link_joins_exactly_witness:
  "map_option (map (set \<circ> cg_candidates)) (group_candidates sha0 [executed, linked]) = Some [{executed, linked}]
    \<and> map_option length (group_candidates sha0 [executed, reviewed]) = Some 2"
  using link_joins_exactly [OF reviewed_binds] by blast

section \<open>Status\<close>

text \<open>
  C16: A judge can lower the status of a finding and never raise it: the merged status is the lower of
  the judge's and the one the evidence allows. Where an execution holds at its location the judge
  has no say.
\<close>

theorem judge_cannot_raise:
  assumes "merge_group sha256 g decisions validations scanners judge = Inr f"
  shows "status_rank (fi_status f) = 
    (case judge of None \<Rightarrow> status_rank (preliminary_status g decisions validations scanners)
     | Some j \<Rightarrow> if list_ex (location_valid validations) (execution_candidates g) 
         then status_rank (preliminary_status g decisions validations scanners)
         else min (status_rank (jd_status j)) (status_rank (preliminary_status g decisions validations scanners)))"
proof -
  obtain h where f: "f = merged_finding sha256 g decisions validations scanners judge h"
    using assms by (rule merge_group_Inr)
  have e: "valid_execution_candidates validations g = [] \<longleftrightarrow> \<not> list_ex (location_valid validations) (execution_candidates g)"
    by (auto simp: valid_execution_candidates_eq filter_empty_conv list_ex_iff)
  show ?thesis
    unfolding f by (simp add: merged_finding_def Let_def merged_status_rank e split: option.split)
qed

theorem judge_cannot_raise_witness:
  "status_rank (fi_status run_finding) = status_rank (preliminary_status run_group run_decisions run_validations [])"
proof -
  have "list_ex (location_valid run_validations) (execution_candidates run_group)" by code_simp
  then show ?thesis using judge_cannot_raise [OF run_merges] by simp
qed

text \<open>
  A group with executions is decided by them: confirmed, with the strength of an execution and the
  highest confidence of its executions, when every execution location is valid; rejected with
  confidence zero otherwise. Verifier and judge change neither.
\<close>

theorem execution_decides:
  assumes "merge_group sha256 g decisions validations scanners judge = Inr f"
    and "execution_candidates g \<noteq> []"
  shows "if list_all (location_valid validations) (execution_candidates g)
    then fi_status f = CONFIRMED \<and> fi_evidence_strength f \<in> set executed_strengths 
      \<and> fi_confidence f = Max (cf_confidence ` set (execution_candidates g))
    else fi_status f = REJECTED \<and> fi_confidence f = 0"
proof -
  obtain h where f: "f = merged_finding sha256 g decisions validations scanners judge h"
    using assms(1) by (rule merge_group_Inr)
  have C: "execs \<noteq> [] \<Longrightarrow> merged_status cap execs j = cap" for execs j cap
    by (auto simp: merged_status_def split: option.splits)
  have S: "strength_of ev fam cp True \<in> set executed_strengths" for ev fam cp
    by (simp add: strength_of_def executed_strengths_def)
  show ?thesis
  proof (cases "list_all (location_valid validations) (execution_candidates g)")
    case True
    then have v: "valid_execution_candidates validations g = execution_candidates g"
      by (simp add: valid_execution_candidates_eq list_all_iff)
    have nonempty: "valid_candidates validations g \<noteq> []"
    proof -
      have "set (execution_candidates g) \<subseteq> set (valid_candidates validations g)"
        using True by (auto simp: execution_candidates_def valid_candidates_def list_all_iff)
      then show ?thesis using assms(2) by auto
    qed
    show ?thesis
      unfolding f using True assms(2)
      by (simp add: merged_finding_def Let_def preliminary_execution v C S execution_origin_valid_iff
          capped_confidence_def merged_confidence_def nonempty)
  next
    case False
    then show ?thesis
      unfolding f using assms(2)
      by (simp add: merged_finding_def Let_def preliminary_execution merged_status_rejected execution_origin_valid_iff capped_confidence_def)
  qed
qed

theorem execution_decides_witness:
  "fi_status run_finding = CONFIRMED \<and> fi_evidence_strength run_finding \<in> set executed_strengths
    \<and> fi_confidence run_finding = Max (cf_confidence ` set (execution_candidates run_group))"
proof -
  have "execution_candidates run_group \<noteq> []"
    "list_all (location_valid run_validations) (execution_candidates run_group)" by code_simp+
  then show ?thesis using execution_decides [OF run_merges] by simp
qed

text \<open>
  C17: A review finding is confirmed only with a verified candidate at a valid location, and only if
  accepted, valid candidates bring a local reproduction, or an unguarded path from source to sink
  together with a formal counterexample or a matching scanner.
\<close>

theorem review_confirmed_needs_evidence:
  assumes "merge_group sha256 g decisions validations scanners judge = Inr f"
    and "execution_candidates g = []" "fi_status f = CONFIRMED"
  shows "list_ex (\<lambda>c. location_valid validations c \<and> verdict_is decisions [VerdictVerified] c) (cg_candidates g)
    \<and> list_ex (\<lambda>c. location_valid validations c \<and> accepted_by decisions c
         \<and> (list_ex reproduction_evidence (cf_evidence c) \<or> unguarded_path decisions c)) (cg_candidates g)
    \<and> list_ex (\<lambda>c. location_valid validations c \<and> accepted_by decisions c
         \<and> (list_ex (\<lambda>e. reproduction_evidence e \<or> formal_evidence e) (cf_evidence c) \<or> scanner_matches c scanners)) (cg_candidates g)"
proof -
  obtain h where f: "f = merged_finding sha256 g decisions validations scanners judge h"
    using assms(1) by (rule merge_group_Inr)
  have "preliminary_status g decisions validations scanners = CONFIRMED"
  proof (rule status_rank_inj)
    have "status_rank (merged_status (preliminary_status g decisions validations scanners)
       (valid_execution_candidates validations g) judge) = 8"
      using assms(3) by (simp add: f merged_finding_def Let_def)
    then have "8 \<le> status_rank (preliminary_status g decisions validations scanners)"
      by (auto simp: merged_status_rank split: option.splits if_splits)
    then show "status_rank (preliminary_status g decisions validations scanners) = status_rank CONFIRMED"
      by (cases "preliminary_status g decisions validations scanners") simp_all
  qed
  then show ?thesis
    using assms(2) unfolding preliminary_status_def Let_def
    by (auto simp: list_ex_iff split: if_splits)
qed

theorem review_confirmed_needs_evidence_witness:
  "list_ex (\<lambda>c. location_valid run_validations c \<and> verdict_is run_decisions [VerdictVerified] c) (cg_candidates proved_group)"
proof -
  obtain f where f: "merge_group sha0 proved_group run_decisions run_validations [] None = Inr f" "fi_status f = CONFIRMED"
    using proved_merges by (auto split: sum.splits)
  have "execution_candidates proved_group = []" by code_simp
  from review_confirmed_needs_evidence [OF f(1) this f(2)] show ?thesis by blast
qed

text \<open>
  C18: After the cap, a critical finding is confirmed only with executable proof: a valid execution in
  the group, or a reproduction or formal counterexample among the evidence of its members.
\<close>

theorem critical_confirmed_is_executed:
  assumes "merge_group sha256 g decisions validations scanners judge = Inr f"
    and "fi_severity (enforce_critical_evidence_cap True f) = SevCritical"
    and "fi_status (enforce_critical_evidence_cap True f) = CONFIRMED"
  shows "execution_origin_valid validations g \<or> list_ex (\<lambda>c. list_ex executed_proof (cf_evidence c)) (cg_candidates g)"
proof -
  obtain h where f: "f = merged_finding sha256 g decisions validations scanners judge h"
    using assms(1) by (rule merge_group_Inr)
  have "fi_evidence_strength f \<in> set executed_strengths"
    using assms(2,3) by (auto simp: enforce_critical_evidence_cap_def split: if_splits)
  then have "execution_origin_valid validations g \<or> (\<exists>e \<in> set (merged_evidence validations g scanners). executed_proof e)"
    by (intro strength_executed) (simp add: f merged_finding_def Let_def)
  then show ?thesis
    by (auto simp: merged_evidence_def unique_evidence_exact scanner_evidence_def executed_proof_def list_ex_iff)
qed

theorem critical_confirmed_is_executed_witness:
  "fi_status (enforce_critical_evidence_cap True run_finding) = CONFIRMED
    \<and> (execution_origin_valid run_validations run_group
       \<or> list_ex (\<lambda>c. list_ex executed_proof (cf_evidence c)) (cg_candidates run_group))"
proof -
  have "fi_evidence_strength run_finding \<in> set executed_strengths" unfolding run_field by code_simp
  then have c: "enforce_critical_evidence_cap True run_finding = run_finding"
    by (simp add: enforce_critical_evidence_cap_def)
  have "fi_severity run_finding = SevCritical" unfolding run_field by code_simp
  then show ?thesis
    using critical_confirmed_is_executed [OF run_merges, unfolded c] run_status c by simp
qed

section \<open>Merging\<close>

text \<open>
  A merge loses and invents nothing: the evidence of the finding is the evidence of the members and
  of the scanners that match a valid member, each item once; the contributing candidates are the
  members in order; and every location of a finding that is not rejected comes from a member whose
  location is valid.
\<close>

theorem finding_evidence_exact:
  assumes "merge_group sha256 g decisions validations scanners judge = Inr f"
  shows "set (fi_evidence f) = (\<Union>c \<in> set (cg_candidates g). set (cf_evidence c))
      \<union> scanner_evidence ` {s \<in> set scanners. list_ex (\<lambda>c. location_valid validations c \<and> scanner_matches c [s]) (cg_candidates g)}
    \<and> distinct (fi_evidence f)
    \<and> fi_contributing_candidate_ids f = map cf_candidate_id (cg_candidates g)
    \<and> set (fi_locations f) \<subseteq> (\<Union>c \<in> {c \<in> set (cg_candidates g). fi_status f = REJECTED \<or> location_valid validations c}. set (cf_locations c))"
proof -
  obtain h where f: "f = merged_finding sha256 g decisions validations scanners judge h"
    using assms by (rule merge_group_Inr)
  have ev: "fi_evidence f = merged_evidence validations g scanners"
    by (simp add: f merged_finding_def Let_def)
  have m: "set (matched_scanners validations g scanners)
    = {s \<in> set scanners. list_ex (\<lambda>c. location_valid validations c \<and> scanner_matches c [s]) (cg_candidates g)}"
    by (auto simp: matched_scanners_def valid_candidates_def list_ex_iff)
  let ?s = "merged_status (preliminary_status g decisions validations scanners)
      (valid_execution_candidates validations g) judge"
  have st: "fi_status f = ?s" "fi_locations f = unique_locations (concat (map cf_locations (location_candidates ?s validations g)))"
    "fi_contributing_candidate_ids f = map cf_candidate_id (cg_candidates g)"
    by (simp_all add: f merged_finding_def Let_def)
  have "set (location_candidates ?s validations g)
      \<subseteq> {c \<in> set (cg_candidates g). ?s = REJECTED \<or> location_valid validations c}"
    using active_locations_valid(1) [OF refl] location_candidates_subset [of ?s validations g]
    by (cases "?s = REJECTED") auto
  then have "set (fi_locations f) \<subseteq> (\<Union>c \<in> {c \<in> set (cg_candidates g). ?s = REJECTED \<or> location_valid validations c}. set (cf_locations c))"
    using unique_locations_subset [of "concat (map cf_locations (location_candidates ?s validations g))"]
    unfolding st(2) by fastforce
  moreover have "set (fi_evidence f) = (\<Union>c \<in> set (cg_candidates g). set (cf_evidence c))
    \<union> scanner_evidence ` set (matched_scanners validations g scanners)" "distinct (fi_evidence f)"
    unfolding ev merged_evidence_def unique_evidence_exact by (auto simp: unique_evidence_exact)
  ultimately show ?thesis using st m by simp
qed

theorem finding_evidence_exact_witness: "distinct (fi_evidence run_finding)"
  using finding_evidence_exact [OF run_merges] by blast

text \<open>
  C19: Merging validated reviews returns a finding whatever the verifier, the judge and the scanners
  say, provided some member has a precondition and some a false-positive condition that is not the
  empty string, and no scanner message is empty.
\<close>

theorem merge_review_succeeds:
  assumes "\<forall>c \<in> set (cg_candidates g). validate_candidate sha256 c = Inr c"
    and "cg_candidates g \<noteq> []" "execution_candidates g = []"
    and "list_ex (\<lambda>c. list_ex (\<lambda>s. s \<noteq> []) (cf_preconditions c)) (cg_candidates g)"
    and "list_ex (\<lambda>c. list_ex (\<lambda>s. s \<noteq> []) (cf_false_positive_conditions c)) (cg_candidates g)"
    and "\<forall>s \<in> set scanners. sf_message s \<noteq> []"
    and "\<forall>j. judge = Some j \<longrightarrow> 0 \<le> jd_confidence j \<and> jd_confidence j \<le> 1"
  shows "\<exists>f. merge_group sha256 g decisions validations scanners judge = Inr f"
proof -
  let ?p = "max_by candidate_rank (primary_pool decisions validations g)"
  have fields: "candidate_fields_ok c" if "c \<in> set (cg_candidates g)" for c
    using assms(1) that by (auto simp: validate_candidate_def result_simps)
  have "?p \<in> set (primary_pool decisions validations g)" using assms(2) by (intro max_by_mem) (simp add: primary_pool_Nil)
  then have p: "?p \<in> set (cg_candidates g)" using primary_pool_subset by fast
  have bounds: "0 \<le> capped_confidence validations g judge \<and> capped_confidence validations g judge \<le> 1"
    using fields assms(2,3,7) by (intro review_confidence_bounds) (auto simp: candidate_fields_ok_def)
  obtain h where h: "aggregate_hash sha256 validations g = Inr h"
    using assms(3) by (simp add: aggregate_hash_def execution_origin_valid_iff)
  let ?f = "merged_finding sha256 g decisions validations scanners judge h"
  have ok: "finding_fields_ok ?f" "validate_origin_fields sha256 ?f = Inr ()"
    using fields [OF p] bounds review_provenance [OF assms(3)] assms(3)
    by (simp_all add: finding_fields_ok_def validate_origin_fields_def merged_finding_def Let_def
        candidate_fields_ok_def stable_finding_id_def)
  have lists: "fi_preconditions ?f \<noteq> []" "fi_false_positive_conditions ?f \<noteq> []"
    using assms(4,5) by (auto simp: merged_finding_def Let_def unique_strings_Nil list_ex_iff)
  have evidence: "fi_evidence ?f \<noteq> []"
  proof -
    have "set (cf_evidence ?p) \<subseteq> set (fi_evidence ?f)" "cf_evidence ?p \<noteq> []"
      using p fields [OF p] by (auto simp: merged_finding_def Let_def merged_evidence_def unique_evidence_exact candidate_fields_ok_def)
    then show ?thesis by auto
  qed
  have locations: "fi_locations ?f \<noteq> []" if active: "fi_status ?f \<noteq> REJECTED"
  proof -
    let ?s = "merged_status (preliminary_status g decisions validations scanners)
      (valid_execution_candidates validations g) judge"
    have "?s \<noteq> REJECTED" using active by (simp add: merged_finding_def Let_def)
    note L = active_locations_valid [OF refl this]
    have "hd (location_candidates ?s validations g) \<in> set (location_candidates ?s validations g)" using L(2) by simp
    then obtain c where "c \<in> set (location_candidates ?s validations g)" "c \<in> set (cg_candidates g)" using L(1) by blast
    then show ?thesis using fields by (auto simp: merged_finding_def Let_def unique_locations_Nil candidate_fields_ok_def)
  qed
  have "validate_finding sha256 ?f = Inr ?f"
    using ok lists evidence locations fields [OF p]
    by (simp add: validate_finding_def) (auto simp: merged_finding_def Let_def candidate_fields_ok_def)
  then show ?thesis
    using h assms(2,6) by (auto simp: merge_group_def primary_pool_Nil matched_scanners_def list_all_iff)
qed

theorem merge_review_succeeds_witness:
  "\<exists>f. merge_group sha0 proved_group run_decisions run_validations [] (Some plain_judge) = Inr f"
proof (rule merge_review_succeeds)
  show "\<forall>c \<in> set (cg_candidates proved_group). validate_candidate sha0 c = Inr c" by code_simp
  show "cg_candidates proved_group \<noteq> []" "execution_candidates proved_group = []" by code_simp+
  show "list_ex (\<lambda>c. list_ex (\<lambda>s. s \<noteq> []) (cf_preconditions c)) (cg_candidates proved_group)"
    "list_ex (\<lambda>c. list_ex (\<lambda>s. s \<noteq> []) (cf_false_positive_conditions c)) (cg_candidates proved_group)" by code_simp+
qed (simp_all add: plain_judge_def)

section \<open>Two deviations\<close>

text \<open>
  Similarity is not symmetric: a candidate with two locations on one path counts that path twice
  when it comes first. The same two candidates are one group in one order and two in the other.
\<close>

theorem grouping_depends_on_order:
  "map_option length (group_candidates sha0 [wide, narrow]) = Some 1
    \<and> map_option length (group_candidates sha0 [narrow, wide]) = Some 2"
  using narrow_wide unfolding wide_narrow_grouped pair_groups [of _ narrow wide] by simp

text \<open>
  A validated candidate whose only precondition is the empty string makes the merge raise, because
  deduplication drops empty strings.
\<close>

theorem blank_precondition_raises:
  "validate_candidate sha0 blank_candidate = Inr blank_candidate
    \<and> merge_group sha0 \<lparr>cg_group_id = ''group-1'', cg_candidates = [blank_candidate]\<rparr> run_decisions run_validations [] None
        = Inl ''non-rejected findings require complete evidence fields''"
  by code_simp

end
