(* ===== verification/Chunking.thy ===== *)
theory Chunking
  imports Finding_Schema
begin

text \<open>
  \<open>repository/chunking.py\<close>: line-range hashes, excerpts, and the ranges a large file is cut into.
\<close>

record context_excerpt =
  ex_path :: string
  ex_start_line :: int
  ex_end_line :: int
  ex_content_hash :: string
  ex_content :: string
  ex_categories :: "string list"
  ex_omitted_before :: bool
  ex_omitted_after :: bool

record chunking_result =
  cr_excerpts :: "context_excerpt list"
  cr_omissions :: "string list"

definition line_range_hash :: "(string \<Rightarrow> string) \<Rightarrow> string \<Rightarrow> int \<Rightarrow> int \<Rightarrow> string" where
  "line_range_hash sha256 content start_line end_line =
     sha256 (concat (py_slice (splitlines content) (start_line - 1) end_line))"

definition excerpt_proves_location :: "(string \<Rightarrow> string) \<Rightarrow> context_excerpt \<Rightarrow> location \<Rightarrow> bool" where
  "excerpt_proves_location sha256 excerpt l =
     (if ex_path excerpt \<noteq> lo_path l \<or> lo_start_line l < ex_start_line excerpt
         \<or> ex_end_line excerpt < lo_end_line l \<or> sha256 (ex_content excerpt) \<noteq> ex_content_hash excerpt
      then False
      else let relative_start = lo_start_line l - ex_start_line excerpt;
               relative_end = lo_end_line l - ex_start_line excerpt + 1;
               lines = splitlines (ex_content excerpt)
           in if int (length lines) < relative_end then False
              else Some (sha256 (concat (py_slice lines relative_start relative_end))) = lo_content_hash l)"

definition make_excerpt ::
    "(string \<Rightarrow> string) \<Rightarrow> string \<Rightarrow> string list \<Rightarrow> int \<Rightarrow> int \<Rightarrow> string list \<Rightarrow> int \<Rightarrow> context_excerpt" where
  "make_excerpt sha256 path lines start stop categories total_lines =
     (let content = concat (py_slice lines (start - 1) stop)
      in \<lparr>ex_path = path, ex_start_line = start, ex_end_line = stop, ex_content_hash = sha256 content,
          ex_content = content, ex_categories = categories, ex_omitted_before = 1 < start,
          ex_omitted_after = stop < total_lines\<rparr>)"

text \<open>
  \<open>ast.parse\<close> is a parameter: the top-level statements of the text, or \<open>None\<close> for a syntax error.
\<close>

record py_stmt =
  st_is_import :: bool
  st_lineno :: int
  st_end_lineno :: "int option"

definition stmt_end :: "py_stmt \<Rightarrow> int" where
  "stmt_end s = (case st_end_lineno s of None \<Rightarrow> st_lineno s | Some e \<Rightarrow> if e = 0 then st_lineno s else e)"

definition python_ranges :: "(string \<Rightarrow> py_stmt list option) \<Rightarrow> string \<Rightarrow> (int \<times> int) list" where
  "python_ranges parse content =
     (case parse content of None \<Rightarrow> []
      | Some body \<Rightarrow>
          let imports = filter st_is_import body
          in (if imports = [] then [] else [(st_lineno (hd imports), stmt_end (last imports))])
             @ map (\<lambda>s. (st_lineno s, stmt_end s)) (filter (\<lambda>s. \<not> st_is_import s) body))"

text \<open>\<open>line.strip()\<close> is empty.\<close>

fun block_scan :: "int \<Rightarrow> int option \<Rightarrow> string list \<Rightarrow> (int \<times> int) list" where
  "block_scan index start [] = (case start of None \<Rightarrow> [] | Some s \<Rightarrow> [(s, index - 1)])"
| "block_scan index start (line # lines) =
     (if \<not> blank line then block_scan (index + 1) (case start of None \<Rightarrow> Some index | Some s \<Rightarrow> Some s) lines
      else case start of None \<Rightarrow> block_scan (index + 1) None lines
           | Some s \<Rightarrow> (s, index - 1) # block_scan (index + 1) None lines)"

definition block_ranges :: "string \<Rightarrow> (int \<times> int) list" where
  "block_ranges content = block_scan 1 None (splitlines content)"

definition is_header_line :: "string \<Rightarrow> bool" where
  "is_header_line line \<longleftrightarrow> (let s = strip_spaces line
     in starts_with ''pragma '' s \<or> starts_with ''import '' s \<or> starts_with ''// SPDX-'' s)"

definition declaration_keywords :: "string list" where
  "declaration_keywords = [''contract'', ''interface'', ''library'', ''function'', ''modifier'',
     ''constructor'', ''fallback'', ''receive'']"

definition is_declaration :: "string \<Rightarrow> bool" where
  "is_declaration line \<longleftrightarrow> (let s = dropWhile is_space line
     in list_ex (\<lambda>k. starts_with k s
          \<and> (case drop (length k) s of [] \<Rightarrow> True | c # cs \<Rightarrow> \<not> is_word_char c)) declaration_keywords)"

fun strip_solidity_comments :: "string \<Rightarrow> string" where
  "strip_solidity_comments [] = []"
| "strip_solidity_comments (c # cs) =
     (if c = CHR ''/'' \<and> cs \<noteq> [] \<and> hd cs = CHR ''/'' then [] else c # strip_solidity_comments cs)"

definition count_char :: "char \<Rightarrow> string \<Rightarrow> int" where
  "count_char c s = int (length (filter (\<lambda>d. d = c) s))"

definition ends_semicolon :: "string \<Rightarrow> bool" where
  "ends_semicolon s \<longleftrightarrow> (let r = rev (dropWhile is_space (rev s)) in r \<noteq> [] \<and> last r = CHR '';'')"

fun brace_scan :: "int \<Rightarrow> bool \<Rightarrow> int \<Rightarrow> int \<Rightarrow> string list \<Rightarrow> int" where
  "brace_scan depth seen_open index start_line [] = start_line"
| "brace_scan depth seen_open index start_line (line # lines) =
     (let stripped = strip_solidity_comments line;
          seen = (seen_open \<or> 0 < count_char (CHR 0x7B) stripped);
          depth' = depth + count_char (CHR 0x7B) stripped - count_char (CHR 0x7D) stripped
      in if seen \<and> depth' \<le> 0 then index
         else if \<not> seen \<and> ends_semicolon stripped then index
         else brace_scan depth' seen (index + 1) start_line lines)"

definition brace_range_end :: "string list \<Rightarrow> int \<Rightarrow> int" where
  "brace_range_end lines start_line = brace_scan 0 False start_line start_line (drop (nat (start_line - 1)) lines)"

fun add_declarations :: "string list \<Rightarrow> int list \<Rightarrow> (int \<times> int) list \<Rightarrow> (int \<times> int) list" where
  "add_declarations lines [] ranges = ranges"
| "add_declarations lines (index # indices) ranges =
     (let current = (index, brace_range_end lines index)
      in add_declarations lines indices
           (if is_declaration (lines ! nat (index - 1)) \<and> current \<notin> set ranges then ranges @ [current] else ranges))"

definition solidity_ranges :: "string \<Rightarrow> (int \<times> int) list" where
  "solidity_ranges content =
     (let lines = splitlines content;
          indices = map int [1..<Suc (length lines)];
          headers = filter (\<lambda>i. is_header_line (lines ! nat (i - 1))) indices
      in sort (add_declarations lines indices
           (if headers = [] then [] else [(hd headers, last headers)])))"

definition chunk_ranges :: "(string \<Rightarrow> py_stmt list option) \<Rightarrow> string \<Rightarrow> string \<Rightarrow> (int \<times> int) list" where
  "chunk_ranges parse path content =
     (let suffix = map lower_char (name_suffix (posix_name path))
      in if suffix = ''.py'' then python_ranges parse content
         else if suffix = ''.sol'' then solidity_ranges content
         else block_ranges content)"

definition omission_notice :: "string \<Rightarrow> int \<times> int \<Rightarrow> string" where
  "omission_notice path r = path @ '':'' @ int_string (fst r) @ ''-'' @ int_string (snd r)
     @ '' omitted because the logical construct exceeds chunk limit''"

definition chunk_text ::
    "(string \<Rightarrow> string) \<Rightarrow> (string \<Rightarrow> py_stmt list option) \<Rightarrow> string \<Rightarrow> string \<Rightarrow> string list \<Rightarrow> int \<Rightarrow> chunking_result" where
  "chunk_text sha256 parse path content categories max_chunk_bytes =
     (let lines = splitlines content; n = int (length lines)
      in if lines = []
         then \<lparr>cr_excerpts = [\<lparr>ex_path = path, ex_start_line = 1, ex_end_line = 1, ex_content_hash = sha256 [],
                 ex_content = [], ex_categories = categories, ex_omitted_before = False, ex_omitted_after = False\<rparr>],
               cr_omissions = []\<rparr>
         else if int (utf8_length content) \<le> max_chunk_bytes
         then \<lparr>cr_excerpts = [make_excerpt sha256 path lines 1 n categories n], cr_omissions = []\<rparr>
         else let ranges = chunk_ranges parse path content;
                  too_big = (\<lambda>r. max_chunk_bytes < int (utf8_length (concat (py_slice lines (fst r - 1) (snd r)))));
                  excerpts = map (\<lambda>r. make_excerpt sha256 path lines (fst r) (snd r) categories n)
                    (filter (\<lambda>r. \<not> too_big r) ranges);
                  omissions = map (omission_notice path) (filter too_big ranges)
              in \<lparr>cr_excerpts = excerpts,
                  cr_omissions = (if excerpts = [] \<and> omissions = []
                    then [path @ '': no complete logical block fit the chunk limit''] else omissions)\<rparr>)"

end
