(* ===== verification/Location_Check.thy ===== *)
theory Location_Check
  imports Consensus_Merge Chunking
begin

text \<open>
  \<open>repository/locations.py\<close> with the path rules of \<open>repository/ignore.py\<close> and
  \<open>repository/secrets.py\<close>: which repository path a model may quote, and whether the quoted lines
  are those the model was shown. The file tree is an argument.
\<close>

section \<open>Repository paths\<close>

definition backslashes_to_slashes :: "string \<Rightarrow> string" where
  "backslashes_to_slashes s = map (\<lambda>c. if c = CHR 0x5C then CHR ''/'' else c) s"

definition has_drive :: "string \<Rightarrow> bool" where
  "has_drive s \<longleftrightarrow> (case s of c # d # e # r \<Rightarrow> (is_lower c \<or> is_upper c) \<and> d = CHR '':'' \<and> e = CHR ''/'' | _ \<Rightarrow> False)"

fun strip_dot_slash :: "string \<Rightarrow> string" where
  "strip_dot_slash (c # d # cs) =
     (if c = CHR ''.'' \<and> d = CHR ''/'' then strip_dot_slash cs else c # d # cs)"
| "strip_dot_slash s = s"

definition as_posix :: "string list \<Rightarrow> string" where
  "as_posix parts = (if parts = [] then ''.'' else join ''/'' parts)"

definition normalize_relative_path :: "string \<Rightarrow> string checked" where
  "normalize_relative_path path =
     (let value = backslashes_to_slashes path; parts = posix_parts value
      in if 4096 < utf8_length value \<or> list_ex is_control_category value
         then Inl ''repository paths containing control characters are not supported''
         else if has_drive value then Inl (''absolute drive path rejected: '' @ value)
         else if starts_with ''/'' value \<or> ''..'' \<in> set parts then Inl (''unsafe repository-relative path: '' @ value)
         else if list_ex (\<lambda>p. 255 < utf8_length p) parts
         then Inl ''repository path component exceeds the supported byte length''
         else Inr (strip_dot_slash (as_posix parts)))"

definition ends_with :: "string \<Rightarrow> string \<Rightarrow> bool" where
  "ends_with suffix s \<longleftrightarrow> starts_with (rev suffix) (rev s)"

definition sensitive_file_names :: "string list" where
  "sensitive_file_names = [''credential'', ''credentials'', ''credentials.json'', ''id_ed25519'', ''id_rsa'', ''key'',
     ''key.json'', ''keys'', ''keystore'', ''keystore.json'', ''mnemonic'', ''mnemonic.txt'', ''mnemonics'', ''seed'',
     ''seed.txt'', ''seeds'', ''secrets.json'', ''wallet'', ''wallet.json'', ''wallets'']"

definition sensitive_prefixes :: "string list" where
  "sensitive_prefixes = [''credential.'', ''credentials.'', ''key.'', ''keys.'', ''keystore.'', ''mnemonic.'',
     ''mnemonics.'', ''seed.'', ''seeds.'', ''wallet.'', ''wallets.'']"

definition sensitive_suffixes :: "string list" where
  "sensitive_suffixes = [''.key'', ''.keystore'', ''.pem'', ''.wallet'']"

definition auditable_source_suffixes :: "string list" where
  "auditable_source_suffixes = [''.c'', ''.cc'', ''.cpp'', ''.go'', ''.h'', ''.hpp'', ''.java'', ''.js'', ''.jsx'', ''.kt'',
     ''.php'', ''.py'', ''.rb'', ''.rs'', ''.sol'', ''.ts'', ''.tsx'', ''.vy'', ''.yul'']"

definition control_plane_directory_names :: "string list" where
  "control_plane_directory_names = [''.aws'', ''.azure'', ''.docker'', ''.git'', ''.gnupg'', ''.kube'', ''.ssh'']"

definition control_plane_file_names :: "string list" where
  "control_plane_file_names = [''.netrc'', ''.npmrc'', ''.pypirc'']"

definition env_name :: "string \<Rightarrow> bool" where
  "env_name part \<longleftrightarrow> part = ''.env'' \<or> starts_with ''.env.'' part"

definition is_sensitive_workspace_name :: "string \<Rightarrow> bool" where
  "is_sensitive_workspace_name name =
     (let normalized = map lower_char name
      in if env_name normalized then True
         else if name_suffix (posix_name normalized) \<in> set auditable_source_suffixes then False
         else list_ex (\<lambda>p. starts_with p normalized) sensitive_prefixes
           \<or> list_ex (\<lambda>p. ends_with p normalized) sensitive_suffixes
           \<or> normalized \<in> set sensitive_file_names)"

fun has_gcloud :: "string list \<Rightarrow> bool" where
  "has_gcloud (p # q # ps) = ((p = ''.config'' \<and> q = ''gcloud'') \<or> has_gcloud (q # ps))"
| "has_gcloud _ = False"

definition is_sensitive_workspace_path :: "string \<Rightarrow> bool \<Rightarrow> bool" where
  "is_sensitive_workspace_path path is_dir =
     (let parts = map (map lower_char) (posix_parts (backslashes_to_slashes path))
      in if parts = [] then False
         else if list_ex (\<lambda>p. p \<in> set control_plane_directory_names \<or> env_name p) parts then True
         else if has_gcloud parts then True
         else if is_dir then False
         else last parts \<in> set control_plane_file_names \<or> is_sensitive_workspace_name (last parts))"

section \<open>Location validation\<close>

text \<open>
  The repository tree below its resolved root: what the path of a list of components is. A file has
  its number of links, if \<open>stat\<close> succeeds, and its decoded text, if it can be read.
\<close>

datatype fs_node = FileNode "nat option" "string option" | DirNode | LinkNode

type_synonym repo_tree = "string list \<Rightarrow> fs_node option"

definition resolve_location :: "repo_tree \<Rightarrow> string \<Rightarrow> string option checked" where
  "resolve_location tree relative =
     (case normalize_relative_path relative of
        Inl e \<Rightarrow> Inl ''path traversal or absolute path rejected''
      | Inr normalized \<Rightarrow>
          let parts = posix_parts normalized
          in if is_sensitive_workspace_path normalized False then Inl ''sensitive repository path rejected''
             else if list_ex (\<lambda>n. tree (take n parts) = Some LinkNode) [1..<Suc (length parts)]
             then Inl ''linked repository path rejected''
             else case tree parts of
                    None \<Rightarrow> Inl ''path does not exist inside repository''
                  | Some node \<Rightarrow>
                      if is_sensitive_workspace_path (as_posix parts) False
                      then Inl ''sensitive repository path rejected''
                      else case node of
                             FileNode None text \<Rightarrow> Inl ''path is no longer readable''
                           | FileNode (Some links) text \<Rightarrow>
                               if 1 < links
                               then Inl ''hardlinked files are outside the trusted repository boundary''
                               else Inr text
                           | _ \<Rightarrow> Inl ''path is not a regular file'')"

fun occurs_in :: "string \<Rightarrow> string \<Rightarrow> bool" where
  "occurs_in sub [] = (sub = [])"
| "occurs_in sub (c # cs) = (starts_with sub (c # cs) \<or> occurs_in sub cs)"

type_synonym context_hashes = "(string \<times> int \<times> int, string) dict"

definition invalid_location :: "string \<Rightarrow> location_validation" where
  "invalid_location e = \<lparr>lv_valid = False, lv_content_hash = None, lv_errors = [e]\<rparr>"

definition in_file :: "string list \<Rightarrow> location \<Rightarrow> bool" where
  "in_file lines l \<longleftrightarrow> \<not> (int (length lines) < lo_start_line l \<or> int (length lines) < lo_end_line l)"

definition selected_text :: "string list \<Rightarrow> location \<Rightarrow> string" where
  "selected_text lines l =
     (if in_file lines l then concat (py_slice lines (lo_start_line l - 1) (lo_end_line l)) else [])"

definition contained_in_context :: "context_hashes \<Rightarrow> location \<Rightarrow> bool" where
  "contained_in_context ctx l \<longleftrightarrow>
     list_ex (\<lambda>(path, start, stop). path = lo_path l \<and> 0 < start \<and> start \<le> lo_start_line l \<and> lo_end_line l \<le> stop)
       (dict_keys ctx)"

definition or_hash :: "string option \<Rightarrow> string option \<Rightarrow> string option" where
  "or_hash a b = (if truthy a then a else b)"

definition context_errors :: "(string \<Rightarrow> string) \<Rightarrow> context_hashes \<Rightarrow> location \<Rightarrow> string \<Rightarrow> string list" where
  "context_errors sha256 ctx l content =
     (let from_context = dict_get ctx (lo_path l, lo_start_line l, lo_end_line l)
      in (if from_context = None \<and> \<not> contained_in_context ctx l
          then [''location was not present in supplied context'']
          else if from_context \<noteq> None \<and> lo_content_hash l \<noteq> None \<and> lo_content_hash l \<noteq> from_context
          then [''model-supplied hash differs from context hash''] else [])
         @ (case dict_get ctx (lo_path l, 0, 0) of
              None \<Rightarrow> []
            | Some h \<Rightarrow> if h \<noteq> sha256 content then [''file changed since repository discovery''] else []))"

definition expected_hash :: "context_hashes option \<Rightarrow> location \<Rightarrow> string option" where
  "expected_hash ctx l =
     (case ctx of None \<Rightarrow> lo_content_hash l
      | Some c \<Rightarrow> or_hash (dict_get c (lo_path l, lo_start_line l, lo_end_line l)) (lo_content_hash l))"

definition check_location ::
    "(string \<Rightarrow> string) \<Rightarrow> repo_tree \<Rightarrow> location \<Rightarrow> context_hashes option \<Rightarrow> location_validation" where
  "check_location sha256 tree l ctx =
     (case resolve_location tree (lo_path l) of
        Inl e \<Rightarrow> invalid_location e
      | Inr None \<Rightarrow> invalid_location ''file is no longer readable''
      | Inr (Some text) \<Rightarrow>
          let content = universal_newlines text;
              lines = splitlines content;
              selected = selected_text lines l;
              content_hash = (if selected = [] then None else Some (sha256 selected));
              expected = expected_hash ctx l;
              errors =
                (if in_file lines l then []
                 else [''line range exceeds file length ('' @ int_string (int (length lines)) @ '')''])
                @ (case ctx of None \<Rightarrow> [] | Some c \<Rightarrow> context_errors sha256 c l content)
                @ (if expected \<noteq> None \<and> content_hash \<noteq> expected
                   then [''location content changed since context construction''] else [])
                @ (if truthy (lo_symbol l) \<and> \<not> occurs_in (or_empty (lo_symbol l)) selected
                   then [''quoted symbol is absent from the referenced range''] else [])
          in \<lparr>lv_valid = (errors = []), lv_content_hash = content_hash, lv_errors = errors\<rparr>)"

definition check_source_sink ::
    "(string \<Rightarrow> string) \<Rightarrow> repo_tree \<Rightarrow> source_sink \<Rightarrow> context_hashes option \<Rightarrow> string list" where
  "check_source_sink sha256 tree s ctx =
     map (\<lambda>e. ss_path s @ '':'' @ int_string (ss_line s) @ '': '' @ e)
       (lv_errors (check_location sha256 tree \<lparr>lo_path = ss_path s, lo_start_line = ss_line s,
          lo_end_line = ss_line s, lo_symbol = None, lo_content_hash = None\<rparr> ctx))"

definition check_candidate ::
    "(string \<Rightarrow> string) \<Rightarrow> repo_tree \<Rightarrow> candidate_finding \<Rightarrow> context_hashes \<Rightarrow> location_validation" where
  "check_candidate sha256 tree c ctx =
     (let results = map (\<lambda>l. (l, check_location sha256 tree l (Some ctx))) (cf_locations c);
          errors = concat (map (\<lambda>(l, r). map (\<lambda>e. lo_path l @ '':'' @ int_string (lo_start_line l) @ '': '' @ e)
              (lv_errors r)) results)
            @ (case cf_source c of None \<Rightarrow> [] | Some s \<Rightarrow> check_source_sink sha256 tree s (Some ctx))
            @ (case cf_sink c of None \<Rightarrow> [] | Some s \<Rightarrow> check_source_sink sha256 tree s (Some ctx));
          hashes = filter (\<lambda>h. h \<noteq> []) (List.map_filter (\<lambda>(l, r). lv_content_hash r) results)
      in \<lparr>lv_valid = (errors = []),
          lv_content_hash = (if hashes = [] then None else Some (sha256 (concat (sort hashes)))),
          lv_errors = errors\<rparr>)"

text \<open>The validations the pipeline hands to consensus.\<close>

definition candidate_validations ::
    "(string \<Rightarrow> string) \<Rightarrow> repo_tree \<Rightarrow> (candidate_finding \<Rightarrow> context_hashes) \<Rightarrow> candidate_finding list \<Rightarrow> validations" where
  "candidate_validations sha256 tree hashes_of candidates =
     fold (\<lambda>c d. AList.update (cf_candidate_id c) (check_candidate sha256 tree c (hashes_of c)) d) candidates []"

text \<open>The hashes of one context package: its files and its excerpts.\<close>

definition context_hash_index :: "(string \<times> string) list \<Rightarrow> context_excerpt list \<Rightarrow> context_hashes" where
  "context_hash_index files excerpts =
     fold (\<lambda>e d. AList.update (ex_path e, ex_start_line e, ex_end_line e) (ex_content_hash e) d) excerpts
       (fold (\<lambda>(path, h) d. AList.update (path, 0, 0) h d) files [])"

end
