(* ===== verification/Chunk_Ranges.thy ===== *)
theory Chunk_Ranges
  imports Chunking
begin

text \<open>
  The ranges of every chunker lie within the text, blank-separated blocks cover each nonblank line
  once, and an excerpt proves exactly the hashes of its own lines.
\<close>

section \<open>Ranges\<close>

definition in_range :: "int \<Rightarrow> int \<times> int \<Rightarrow> bool" where
  "in_range n r \<longleftrightarrow> 1 \<le> fst r \<and> fst r \<le> snd r \<and> snd r \<le> n"

definition covers :: "int \<Rightarrow> int \<times> int \<Rightarrow> bool" where
  "covers i r \<longleftrightarrow> fst r \<le> i \<and> i \<le> snd r"

lemma covers_pair: "covers i (a, b) \<longleftrightarrow> a \<le> i \<and> i \<le> b"
  by (simp add: covers_def)

abbreviation cover_count :: "int \<Rightarrow> (int \<times> int) list \<Rightarrow> nat" where
  "cover_count i rs \<equiv> length (filter (covers i) rs)"

lemma block_scan_in_range:
  "(case start of None \<Rightarrow> True | Some s \<Rightarrow> 1 \<le> s \<and> s < index) \<Longrightarrow> 1 \<le> index
    \<Longrightarrow> r \<in> set (block_scan index start lines) \<Longrightarrow> in_range (index + int (length lines) - 1) r"
proof (induction index start lines rule: block_scan.induct)
  case (2 index start line lines)
  have e: "index + int (length (line # lines)) - 1 = index + 1 + int (length lines) - 1" by simp
  show ?case
  proof (cases "blank line")
    case True
    then show ?thesis
      using 2 by (auto simp: in_range_def split: option.splits)
  next
    case False
    have "in_range (index + 1 + int (length lines) - 1) r"
      by (rule "2.IH"(1) [OF False]) (use 2 False in \<open>auto split: option.splits\<close>)
    then show ?thesis unfolding e .
  qed
qed (auto simp: in_range_def split: option.splits)

lemma block_scan_before:
  "(case start of None \<Rightarrow> True | Some s \<Rightarrow> s < index) \<Longrightarrow> i < index \<Longrightarrow>
    cover_count i (block_scan index start lines) = (case start of Some s \<Rightarrow> if s \<le> i then 1 else 0 | None \<Rightarrow> 0)"
proof (induction index start lines rule: block_scan.induct)
  case (2 index start line lines)
  then show ?case by (cases "blank line") (auto simp: covers_pair split: option.splits)
qed (auto simp: covers_pair split: option.splits)

lemma block_scan_cover:
  "(case start of None \<Rightarrow> True | Some s \<Rightarrow> s < index) \<Longrightarrow> k < length lines \<Longrightarrow>
    cover_count (index + int k) (block_scan index start lines) = (if blank (lines ! k) then 0 else 1)"
proof (induction index start lines arbitrary: k rule: block_scan.induct)
  case (2 index start line lines)
  show ?case
  proof (cases k)
    case 0
    then show ?thesis
      using 2(4) block_scan_before [where start = None and index = "index + 1" and i = index and lines = lines]
        block_scan_before [where start = "Some index" and index = "index + 1" and i = index and lines = lines]
        block_scan_before [where start = start and index = "index + 1" and i = index and lines = lines]
      by (auto simp: covers_pair split: option.splits)
  next
    case (Suc m)
    have i: "index + int k = index + 1 + int m" using Suc by simp
    have m: "m < length lines" using 2(5) Suc by simp
    show ?thesis
    proof (cases "blank line")
      case True
      have "cover_count (index + 1 + int m) (block_scan (index + 1) None lines) = (if blank (lines ! m) then 0 else 1)"
        using "2.IH"(2) [OF _ _ _ m] "2.IH"(3) [OF _ _ _ m] True by (cases start) auto
      then show ?thesis using True Suc 2(4) unfolding i by (auto simp: covers_pair add.assoc split: option.splits)
    next
      case False
      have "cover_count (index + 1 + int m) (block_scan (index + 1) (case start of None \<Rightarrow> Some index | Some s \<Rightarrow> Some s) lines)
          = (if blank (lines ! m) then 0 else 1)"
        using "2.IH"(1) [OF False _ m] 2(4) by (auto split: option.splits)
      then show ?thesis using False Suc unfolding i by (simp add: add.assoc)
    qed
  qed
qed simp

lemma block_ranges_in_range: "r \<in> set (block_ranges content) \<Longrightarrow> in_range (int (length (splitlines content))) r"
  using block_scan_in_range [where start = None and index = 1 and lines = "splitlines content"] by (simp add: block_ranges_def)

lemma brace_scan_bounds:
  "start_line \<le> index \<Longrightarrow> start_line \<le> brace_scan depth seen index start_line lines
    \<and> (brace_scan depth seen index start_line lines = start_line
       \<or> brace_scan depth seen index start_line lines < index + int (length lines))"
proof (induction lines arbitrary: depth seen index)
  case (Cons line lines)
  have IH: "start_line \<le> brace_scan d b (index + 1) start_line lines
    \<and> (brace_scan d b (index + 1) start_line lines = start_line
       \<or> brace_scan d b (index + 1) start_line lines < index + int (length (line # lines)))" for d b
    using Cons.IH [of "index + 1" d b] Cons.prems by (simp add: add.assoc)
  show ?case
    unfolding brace_scan.simps Let_def using IH Cons.prems by (auto split del: if_split split: if_split)
qed simp

lemma brace_range_end_bounds:
  assumes "1 \<le> i" "i \<le> int (length lines)"
  shows "i \<le> brace_range_end lines i \<and> brace_range_end lines i \<le> int (length lines)"
  using brace_scan_bounds [where start_line = i and index = i and lines = "drop (nat (i - 1)) lines" and depth = 0 and seen = False] assms
  by (auto simp: brace_range_end_def Let_def)

lemma add_declarations_in_range:
  "(\<And>i. i \<in> set indices \<Longrightarrow> 1 \<le> i \<and> i \<le> int (length lines)) \<Longrightarrow>
   (\<And>r. r \<in> set ranges \<Longrightarrow> in_range (int (length lines)) r) \<Longrightarrow>
   r \<in> set (add_declarations lines indices ranges) \<Longrightarrow> in_range (int (length lines)) r"
proof (induction lines indices ranges rule: add_declarations.induct)
  case (2 lines index indices ranges)
  have "in_range (int (length lines)) (index, brace_range_end lines index)"
    using 2(2) [of index] brace_range_end_bounds [of index lines] by (simp add: in_range_def)
  with 2 show ?case by (auto simp: Let_def split: if_splits)
qed simp

lemma solidity_ranges_in_range:
  assumes "r \<in> set (solidity_ranges content)"
  shows "in_range (int (length (splitlines content))) r"
proof -
  let ?ls = "splitlines content"
  define idx where "idx = map int [1..<Suc (length ?ls)]"
  define hs where "hs = filter (\<lambda>i. is_header_line (?ls ! nat (i - 1))) idx"
  have sub: "1 \<le> i \<and> i \<le> int (length ?ls)" if "i \<in> set idx" for i
    using that unfolding idx_def set_map set_upt by auto
  have "sorted hs" unfolding hs_def idx_def by (intro sorted_wrt_filter) (simp add: sorted_map del: upt_Suc)
  then have "hs \<noteq> [] \<Longrightarrow> hd hs \<le> last hs" by (cases hs) auto
  moreover have "hs \<noteq> [] \<Longrightarrow> hd hs \<in> set idx \<and> last hs \<in> set idx"
    using hd_in_set [of hs] last_in_set [of hs] by (auto simp: hs_def)
  ultimately have H: "in_range (int (length ?ls)) h" if "h \<in> set (if hs = [] then [] else [(hd hs, last hs)])" for h
    using that sub by (auto simp: in_range_def split: if_splits)
  have "r \<in> set (add_declarations ?ls idx (if hs = [] then [] else [(hd hs, last hs)]))"
    using assms unfolding solidity_ranges_def Let_def set_sort idx_def hs_def .
  from add_declarations_in_range [OF sub H this] show ?thesis .
qed

section \<open>Excerpts\<close>

text \<open>What the chunker relies on of \<open>ast.parse\<close>: line numbers within the text, in order.\<close>

definition parser_bounds :: "(string \<Rightarrow> py_stmt list option) \<Rightarrow> bool" where
  "parser_bounds parse \<longleftrightarrow> (\<forall>content body. parse content = Some body \<longrightarrow> sorted (map st_lineno body)
     \<and> (\<forall>s \<in> set body. in_range (int (length (splitlines content))) (st_lineno s, stmt_end s)))"

lemma python_ranges_in_range:
  assumes "parser_bounds parse" "r \<in> set (python_ranges parse content)"
  shows "in_range (int (length (splitlines content))) r"
proof -
  let ?n = "int (length (splitlines content))"
  obtain body where body: "parse content = Some body"
    using assms(2) by (cases "parse content") (auto simp: python_ranges_def)
  have b: "sorted (map st_lineno body)" "\<And>s. s \<in> set body \<Longrightarrow> in_range ?n (st_lineno s, stmt_end s)"
    using assms(1) body unfolding parser_bounds_def by blast+
  define imps where "imps = filter st_is_import body"
  have "in_range ?n (st_lineno (hd imps), stmt_end (last imps))" if "imps \<noteq> []"
  proof -
    have "sorted (map st_lineno imps)" unfolding imps_def using b(1) by (rule sorted_filter)
    then have "st_lineno (hd imps) \<le> st_lineno (last imps)"
      using that by (cases imps) auto
    moreover have "hd imps \<in> set body" "last imps \<in> set body"
      using hd_in_set [OF that] last_in_set [OF that] by (auto simp: imps_def)
    ultimately show ?thesis using b(2) by (fastforce simp: in_range_def)
  qed
  then show ?thesis
    using assms(2) b(2) by (auto simp: python_ranges_def body Let_def simp flip: imps_def split: if_splits)
qed

lemma chunk_ranges_in_range:
  "parser_bounds parse \<Longrightarrow> r \<in> set (chunk_ranges parse path content) \<Longrightarrow> in_range (int (length (splitlines content))) r"
  by (auto simp: chunk_ranges_def Let_def python_ranges_in_range solidity_ranges_in_range block_ranges_in_range
      split: if_splits)

lemma chunk_text_excerpt:
  assumes "parser_bounds parse" "content \<noteq> []"
    and "ex \<in> set (cr_excerpts (chunk_text sha256 parse path content categories max_chunk_bytes))"
  shows "\<exists>r. in_range (int (length (splitlines content))) r
    \<and> ex = make_excerpt sha256 path (splitlines content) (fst r) (snd r) categories (int (length (splitlines content)))"
proof -
  have "in_range (int (length (splitlines content))) (1, int (length (splitlines content)))"
    using assms(2) by (cases "splitlines content") (auto simp: in_range_def)
  then show ?thesis
    using assms chunk_ranges_in_range [OF assms(1)] unfolding chunk_text_def Let_def
    by (fastforce split: if_splits)
qed

lemma slice_of_slice:
  assumes "1 \<le> s" "s \<le> a" "b \<le> e" "a \<le> b + 1"
  shows "py_slice (py_slice xs (s - 1) e) (a - s) (b - s + 1) = py_slice xs (a - 1) b"
proof -
  have n: "0 \<le> s - 1" "0 \<le> e" "0 \<le> a - s" "0 \<le> b - s + 1" "0 \<le> a - 1" "0 \<le> b" using assms by linarith+
  have k: "nat (b - s + 1) + nat (s - 1) = nat b" "nat (a - s) + nat (s - 1) = nat (a - 1)" "min (nat b) (nat e) = nat b"
    using n assms by linarith+
  show ?thesis
    unfolding py_slice_nonneg [OF n(1,2)] py_slice_nonneg [OF n(3,4)] py_slice_nonneg [OF n(5,6)]
      take_drop drop_drop take_take k ..
qed

lemma make_excerpt_proves:
  assumes "in_range (int (length (splitlines content))) (s, e)" "lo_start_line l \<le> lo_end_line l"
    and ex: "ex = make_excerpt sha256 path (splitlines content) s e categories n"
  shows "excerpt_proves_location sha256 ex l \<longleftrightarrow>
    lo_path l = path \<and> s \<le> lo_start_line l \<and> lo_end_line l \<le> e
    \<and> lo_content_hash l = Some (line_range_hash sha256 content (lo_start_line l) (lo_end_line l))"
proof -
  have c: "ex_content ex = concat (py_slice (splitlines content) (s - 1) e)"
    "ex_content_hash ex = sha256 (ex_content ex)" "ex_path ex = path" "ex_start_line ex = s" "ex_end_line ex = e"
    by (simp_all add: ex make_excerpt_def Let_def)
  have lines: "splitlines (ex_content ex) = py_slice (splitlines content) (s - 1) e"
    unfolding c(1) using assms(1) by (intro splitlines_slice) (auto simp: in_range_def)
  have len: "int (length (py_slice (splitlines content) (s - 1) e)) = e - s + 1"
    using assms(1) by (auto simp: in_range_def py_slice_nonneg)
  show ?thesis
    unfolding excerpt_proves_location_def Let_def lines len c(2-5) line_range_hash_def
    using slice_of_slice [of s "lo_start_line l" "lo_end_line l" e "splitlines content"] assms(1,2)
    by (auto simp: in_range_def)
qed

definition excerpt_span :: "context_excerpt \<Rightarrow> int \<times> int" where
  "excerpt_span e = (ex_start_line e, ex_end_line e)"

lemma cover_count_partition:
  "cover_count i (filter (\<lambda>r. \<not> P r) rs) + cover_count i (filter P rs) = cover_count i rs"
  by (induction rs) auto

end
