(* ===== verification/Location_Facts.thy ===== *)
theory Location_Facts
  imports Location_Check Chunk_Ranges Consensus_Findings
begin

text \<open>
  A resolved path is a plain file inside the repository, a location without errors quotes that
  file, and the context index holds exactly the hashes of its files and excerpts.
\<close>

section \<open>Paths\<close>

lemma split_on_Nil_sep: "sep \<notin> set s \<Longrightarrow> split_on sep cur s = [rev cur @ s]"
  by (induction sep cur s rule: split_on.induct) auto

lemma split_on_append: "sep \<notin> set s \<Longrightarrow> split_on sep cur (s @ sep # rest) = (rev cur @ s) # split_on sep [] rest"
  by (induction sep cur s rule: split_on.induct) auto

lemma split_on_parts: "p \<in> set (split_on sep cur s) \<Longrightarrow> sep \<notin> set cur \<Longrightarrow> sep \<notin> set p"
  by (induction sep cur s rule: split_on.induct) (auto split: if_splits)

definition plain_parts :: "string list \<Rightarrow> bool" where
  "plain_parts parts \<longleftrightarrow> (\<forall>p \<in> set parts. p \<noteq> [] \<and> p \<noteq> ''.'' \<and> CHR ''/'' \<notin> set p)"

lemma plain_posix_parts: "plain_parts (posix_parts path)"
  using split_on_parts [where sep = "CHR ''/''" and cur = "[]" and s = path]
  by (auto simp: plain_parts_def posix_parts_def)

lemma split_join: "plain_parts parts \<Longrightarrow> parts \<noteq> [] \<Longrightarrow> split_on (CHR ''/'') [] (join ''/'' parts) = parts"
proof (induction "''/''" parts rule: join.induct)
  case (3 x y ys)
  then have "CHR ''/'' \<notin> set x" by (simp add: plain_parts_def)
  then have "split_on (CHR ''/'') [] (x @ CHR ''/'' # join ''/'' (y # ys)) = x # split_on (CHR ''/'') [] (join ''/'' (y # ys))"
    by (simp add: split_on_append)
  then show ?case using 3 by (simp add: plain_parts_def)
qed (auto simp: plain_parts_def split_on_Nil_sep)

lemma posix_parts_as_posix: "plain_parts parts \<Longrightarrow> posix_parts (as_posix parts) = parts"
proof (cases "parts = []")
  case False
  assume p: "plain_parts parts"
  then have "filter (\<lambda>p. p \<noteq> [] \<and> p \<noteq> ''.'') parts = parts" by (simp add: plain_parts_def)
  then show ?thesis using False p by (simp add: posix_parts_def as_posix_def split_join)
qed (simp add: posix_parts_def as_posix_def)

lemma strip_dot_as_posix: "plain_parts parts \<Longrightarrow> strip_dot_slash (as_posix parts) = as_posix parts"
proof (cases parts)
  case (Cons p ps)
  assume plain: "plain_parts parts"
  then obtain c cs where p: "p = c # cs" "c # cs \<noteq> ''.''" "CHR ''/'' \<notin> set (c # cs)"
    using Cons by (cases p) (auto simp: plain_parts_def)
  obtain r where j: "join ''/'' parts = p @ r" using Cons by (cases ps) auto
  show ?thesis
  proof (cases cs)
    case Nil
    then have "c \<noteq> CHR ''.''" using p by auto
    then show ?thesis using j p Nil Cons by (cases r) (auto simp: as_posix_def)
  next
    case (Cons d ds)
    then show ?thesis using j p \<open>parts = p # ps\<close> by (auto simp: as_posix_def)
  qed
qed (simp add: as_posix_def)

lemma normalize_Inr:
  assumes "normalize_relative_path path = Inr normalized"
  shows "normalized = as_posix (posix_parts (backslashes_to_slashes path))"
    and "posix_parts normalized = posix_parts (backslashes_to_slashes path)"
    and "''..'' \<notin> set (posix_parts (backslashes_to_slashes path))"
    and "\<not> starts_with ''/'' (backslashes_to_slashes path)" "\<not> has_drive (backslashes_to_slashes path)"
proof -
  show n: "normalized = as_posix (posix_parts (backslashes_to_slashes path))"
    using assms by (auto simp: normalize_relative_path_def Let_def strip_dot_as_posix [OF plain_posix_parts] split: if_splits)
  show "posix_parts normalized = posix_parts (backslashes_to_slashes path)"
    unfolding n by (rule posix_parts_as_posix [OF plain_posix_parts])
qed (use assms in \<open>auto simp: normalize_relative_path_def Let_def split: if_splits\<close>)

text \<open>The path of a file inside the repository that the program may quote.\<close>

definition trusted_file :: "repo_tree \<Rightarrow> string \<Rightarrow> string \<Rightarrow> bool" where
  "trusted_file tree path text \<longleftrightarrow>
     (let value = backslashes_to_slashes path; parts = posix_parts value
      in \<not> starts_with ''/'' value \<and> \<not> has_drive value \<and> ''..'' \<notin> set parts
       \<and> (\<forall>n. 0 < n \<longrightarrow> n \<le> length parts \<longrightarrow> tree (take n parts) \<noteq> Some LinkNode)
       \<and> \<not> is_sensitive_workspace_path (as_posix parts) False
       \<and> (\<exists>links \<le> 1. tree parts = Some (FileNode (Some links) (Some text))))"

lemma resolve_location_trusted:
  "resolve_location tree path = Inr (Some text) \<Longrightarrow> trusted_file tree path text"
proof -
  assume r: "resolve_location tree path = Inr (Some text)"
  then obtain normalized where n: "normalize_relative_path path = Inr normalized"
    by (auto simp: resolve_location_def split: sum.splits)
  note N = normalize_Inr [OF n]
  show ?thesis
    using r n N(1,3,4,5)
    by (auto simp: resolve_location_def trusted_file_def Let_def list_ex_iff not_less Suc_le_eq
        posix_parts_as_posix [OF plain_posix_parts] simp del: upt_Suc split: if_splits option.splits fs_node.splits)
qed

section \<open>Validated locations\<close>

text \<open>
  The lines a location quotes are those of a trusted file, and they agree with what the model was
  shown: the context holds this range, or an excerpt that contains it; the hash the context gives for
  exactly this range and the hash the location carries are that of the lines in the file; and when
  the context holds the hash of the whole file, the file has not changed.
\<close>

definition quotes_repository :: "(string \<Rightarrow> string) \<Rightarrow> repo_tree \<Rightarrow> context_hashes \<Rightarrow> location \<Rightarrow> bool" where
  "quotes_repository sha256 tree shown l \<longleftrightarrow>
     (\<exists>text. trusted_file tree (lo_path l) text
       \<and> (let content = universal_newlines text;
              lines = splitlines content;
              quoted = concat (py_slice lines (lo_start_line l - 1) (lo_end_line l))
          in lo_end_line l \<le> int (length lines)
           \<and> (\<exists>start stop. dict_has shown (lo_path l, start, stop)
                \<and> ((start = lo_start_line l \<and> stop = lo_end_line l)
                   \<or> (0 < start \<and> start \<le> lo_start_line l \<and> lo_end_line l \<le> stop)))
           \<and> (\<forall>h. dict_get shown (lo_path l, lo_start_line l, lo_end_line l) = Some h \<longrightarrow> h \<noteq> [] \<longrightarrow> h = sha256 quoted)
           \<and> (\<forall>h. dict_get shown (lo_path l, 0, 0) = Some h \<longrightarrow> h = sha256 content)
           \<and> (\<forall>h. lo_content_hash l = Some h \<longrightarrow> h = sha256 quoted)
           \<and> (\<forall>s. lo_symbol l = Some s \<longrightarrow> s \<noteq> [] \<longrightarrow> occurs_in s quoted)))"

lemma context_errors_shown:
  assumes "context_errors sha256 ctx l content = []"
  shows "\<exists>start stop. dict_has ctx (lo_path l, start, stop)
      \<and> ((start = lo_start_line l \<and> stop = lo_end_line l)
         \<or> (0 < start \<and> start \<le> lo_start_line l \<and> lo_end_line l \<le> stop))"
    and "dict_get ctx (lo_path l, 0, 0) = Some h \<Longrightarrow> h = sha256 content"
    and "dict_get ctx (lo_path l, lo_start_line l, lo_end_line l) = Some h \<Longrightarrow>
      lo_content_hash l = None \<or> lo_content_hash l = Some h"
proof -
  note e = assms [unfolded context_errors_def Let_def append_is_Nil_conv]
  show "\<exists>start stop. dict_has ctx (lo_path l, start, stop)
      \<and> ((start = lo_start_line l \<and> stop = lo_end_line l)
         \<or> (0 < start \<and> start \<le> lo_start_line l \<and> lo_end_line l \<le> stop))"
  proof (cases "contained_in_context ctx l")
    case True
    then show ?thesis by (auto simp: contained_in_context_def list_ex_iff simp del: set_map)
  next
    case False
    then have "dict_get ctx (lo_path l, lo_start_line l, lo_end_line l) \<noteq> None"
      using e by (simp split: if_splits)
    then show ?thesis unfolding dict_get_None_iff by blast
  qed
  show "dict_get ctx (lo_path l, 0, 0) = Some h \<Longrightarrow> h = sha256 content"
    using e by (simp split: if_splits)
  show "dict_get ctx (lo_path l, lo_start_line l, lo_end_line l) = Some h \<Longrightarrow>
      lo_content_hash l = None \<or> lo_content_hash l = Some h"
    using e by (auto split: if_splits)
qed

lemma check_location_sound:
  assumes "lv_errors (check_location sha256 tree l (Some ctx)) = []"
  shows "quotes_repository sha256 tree ctx l"
proof -
  obtain body where t: "resolve_location tree (lo_path l) = Inr (Some body)"
    using assms by (auto simp: check_location_def invalid_location_def split: sum.splits option.splits)
  let ?c = "universal_newlines body"
  let ?s = "selected_text (splitlines ?c) l"
  let ?h = "if ?s = [] then None else Some (sha256 ?s)"
  let ?shown = "dict_get ctx (lo_path l, lo_start_line l, lo_end_line l)"
  have e: "in_file (splitlines ?c) l" "context_errors sha256 ctx l ?c = []"
    "expected_hash (Some ctx) l = None \<or> ?h = expected_hash (Some ctx) l"
    "truthy (lo_symbol l) \<Longrightarrow> occurs_in (or_empty (lo_symbol l)) ?s"
    using assms by (auto simp: check_location_def t Let_def split: if_splits)
  have s: "?s = concat (py_slice (splitlines ?c) (lo_start_line l - 1) (lo_end_line l))"
    using e(1) by (simp add: selected_text_def)
  note shown = context_errors_shown [OF e(2)]
  have own: "h = sha256 ?s" if h: "lo_content_hash l = Some h" for h
  proof -
    have "expected_hash (Some ctx) l = Some h"
      using shown(3) h by (cases ?shown) (auto simp: expected_hash_def or_hash_def truthy_def)
    then show ?thesis using e(3) by (auto split: if_splits)
  qed
  have given: "h = sha256 ?s" if h: "?shown = Some h" "h \<noteq> []" for h
  proof -
    have "expected_hash (Some ctx) l = Some h" using h by (simp add: expected_hash_def or_hash_def truthy_def)
    then show ?thesis using e(3) by (auto split: if_splits)
  qed
  have "occurs_in s ?s" if "lo_symbol l = Some s" "s \<noteq> []" for s
    using e(4) that by (simp add: truthy_def or_empty_def)
  moreover have "lo_end_line l \<le> int (length (splitlines ?c))" using e(1) by (simp add: in_file_def)
  ultimately show ?thesis
    using own given shown(1,2) resolve_location_trusted [OF t] unfolding quotes_repository_def Let_def s by blast
qed

lemma check_candidate_sound:
  assumes "lv_valid (check_candidate sha256 tree c ctx)" "l \<in> set (cf_locations c)"
  shows "quotes_repository sha256 tree ctx l"
  using assms by (intro check_location_sound) (auto simp: check_candidate_def Let_def)

lemma fold_update_other: "k \<notin> key ` set xs \<Longrightarrow>
  dict_get (fold (\<lambda>x d. AList.update (key x) (v x) d) xs d) k = dict_get d k"
  by (induction xs arbitrary: d) (auto simp: dict_get_update)

lemma fold_update_get: "distinct (map key xs) \<Longrightarrow> x \<in> set xs \<Longrightarrow>
  dict_get (fold (\<lambda>x d. AList.update (key x) (v x) d) xs d) (key x) = Some (v x)"
proof (induction xs arbitrary: d)
  case (Cons y ys)
  show ?case
  proof (cases "x \<in> set ys")
    case True
    then show ?thesis using Cons by simp
  next
    case False
    then have "key x \<notin> key ` set ys" "x = y" using Cons.prems by auto
    then show ?thesis by (simp add: fold_update_other dict_get_update)
  qed
qed simp

lemma active_finding_locations:
  assumes "merge_group sha256 g decisions validations scanners judge = Inr f" "fi_status f \<noteq> REJECTED"
    and "l \<in> set (fi_locations f)"
  obtains c where "c \<in> set (cg_candidates g)" "location_valid validations c" "l \<in> set (cf_locations c)"
proof -
  obtain h where f: "f = merged_finding sha256 g decisions validations scanners judge h"
    using assms(1) by (rule merge_group_Inr)
  let ?s = "merged_status (preliminary_status g decisions validations scanners)
      (valid_execution_candidates validations g) judge"
  have st: "fi_status f = ?s" "fi_locations f = unique_locations (concat (map cf_locations (location_candidates ?s validations g)))"
    by (simp_all add: f merged_finding_def Let_def)
  obtain c where "c \<in> set (location_candidates ?s validations g)" "l \<in> set (cf_locations c)"
    using assms(3) unique_locations_subset unfolding st(2) by fastforce
  then show ?thesis using that active_locations_valid(1) [OF refl, of g decisions validations scanners judge] assms(2) st(1) by auto
qed

section \<open>What excerpts prove is accepted\<close>

lemma fold_update_cases:
  "dict_get (fold (\<lambda>x d. AList.update (key x) (v x) d) xs d) k = Some h \<Longrightarrow>
    (\<exists>x \<in> set xs. k = key x \<and> h = v x) \<or> dict_get d k = Some h"
proof (induction xs arbitrary: d)
  case (Cons x xs)
  then have "(\<exists>y \<in> set xs. k = key y \<and> h = v y) \<or> dict_get (AList.update (key x) (v x) d) k = Some h" by simp
  then show ?case by (auto simp: dict_get_update split: if_splits)
qed simp

lemma fold_update_keys:
  "set (dict_keys (fold (\<lambda>x d. AList.update (key x) (v x) d) xs d)) = key ` set xs \<union> set (dict_keys d)"
  by (induction xs arbitrary: d) (simp_all add: set_keys_update del: set_map)

lemma context_hash_index_cases:
  assumes "dict_get (context_hash_index files excerpts) (p, a, b) = Some h"
  shows "(\<exists>e \<in> set excerpts. ex_path e = p \<and> ex_start_line e = a \<and> ex_end_line e = b \<and> h = ex_content_hash e)
    \<or> (a = 0 \<and> b = 0 \<and> (p, h) \<in> set files)"
proof -
  have files: "(\<lambda>(path, h) d. AList.update (path, 0, 0) h d) = (\<lambda>x d. AList.update (fst x, 0 :: int, 0 :: int) (snd x) d)"
    by (auto simp: fun_eq_iff)
  show ?thesis
    using fold_update_cases [OF assms [unfolded context_hash_index_def files]]
      fold_update_cases [where key = "\<lambda>x. (fst x, 0, 0)" and v = snd and xs = files and d = "[]" and k = "(p, a, b)" and h = h]
    by force
qed

lemma chunk_excerpt_fields:
  assumes "parser_bounds parse" "content \<noteq> []"
    and "e \<in> set (cr_excerpts (chunk_text sha256 parse path content categories max_chunk_bytes))"
  shows "1 \<le> ex_start_line e" "ex_end_line e \<le> int (length (splitlines content))"
    "ex_content_hash e = line_range_hash sha256 content (ex_start_line e) (ex_end_line e)"
    "lo_start_line l \<le> lo_end_line l \<Longrightarrow> excerpt_proves_location sha256 e l \<Longrightarrow>
      ex_start_line e \<le> lo_start_line l \<and> lo_end_line l \<le> ex_end_line e
      \<and> lo_content_hash l = Some (line_range_hash sha256 content (lo_start_line l) (lo_end_line l))"
proof -
  obtain s t where r: "in_range (int (length (splitlines content))) (s, t)"
    and ex: "e = make_excerpt sha256 path (splitlines content) s t categories (int (length (splitlines content)))"
    using chunk_text_excerpt [OF assms] by auto
  then have f: "ex_start_line e = s" "ex_end_line e = t" by (simp_all add: make_excerpt_def Let_def)
  show "1 \<le> ex_start_line e" "ex_end_line e \<le> int (length (splitlines content))"
    "ex_content_hash e = line_range_hash sha256 content (ex_start_line e) (ex_end_line e)"
    using r by (auto simp: ex make_excerpt_def Let_def in_range_def line_range_hash_def)
  show "lo_start_line l \<le> lo_end_line l \<Longrightarrow> excerpt_proves_location sha256 e l \<Longrightarrow>
      ex_start_line e \<le> lo_start_line l \<and> lo_end_line l \<le> ex_end_line e
      \<and> lo_content_hash l = Some (line_range_hash sha256 content (lo_start_line l) (lo_end_line l))"
    using make_excerpt_proves [OF r _ ex] f by blast
qed

lemma slice_nonempty:
  assumes "1 \<le> a" "a \<le> b" "b \<le> int (length (splitlines content))"
  shows "concat (py_slice (splitlines content) (a - 1) b) \<noteq> []"
proof -
  have "length (py_slice (splitlines content) (a - 1) b) = nat (b - a + 1)"
    using assms by (simp add: py_slice_nonneg nat_diff_distrib')
  then have ne: "py_slice (splitlines content) (a - 1) b \<noteq> []" using assms by auto
  moreover have "set (py_slice (splitlines content) (a - 1) b) \<subseteq> set (splitlines content)"
    unfolding py_slice_def by (meson order_trans set_drop_subset set_take_subset)
  moreover have "[] \<notin> set (splitlines content)" unfolding splitlines_def by (rule split_keep_nonempty)
  ultimately show ?thesis by (metis concat_eq_Nil_conv hd_in_set subsetD)
qed

end
