(* ===== verification/Location_Theorems.thy ===== *)
theory Location_Theorems
  imports Location_Facts Consensus_Demo
begin

text \<open>
  The properties of chunking and location validation, and of their composition with consensus: what
  a reported finding quotes is in the repository.
\<close>

section \<open>A small repository\<close>

definition small_text :: string where
  "small_text = ''x'' @ [LF] @ [LF] @ ''y'' @ [LF]"

definition small_tree :: repo_tree where
  "small_tree parts = (if parts = [''A.sol''] then Some (FileNode (Some 1) (Some small_text)) else None)"

definition small_location :: location where
  "small_location = (at_lines ''A.sol'' 1 1)\<lparr>lo_content_hash := Some zeros\<rparr>"

definition small_candidate :: candidate_finding where
  "small_candidate = review_candidate ''b'' [small_location]"

definition small_hashes :: context_hashes where
  "small_hashes = [((''A.sol'', 1, 3), zeros), ((''A.sol'', 0, 0), zeros)]"

text \<open>A parser that reads one statement per line.\<close>

definition line_parser :: "string \<Rightarrow> py_stmt list option" where
  "line_parser content = Some (map (\<lambda>i. \<lparr>st_is_import = False, st_lineno = int i + 1, st_end_lineno = None\<rparr>)
     [0..<length (splitlines content)])"

lemma line_parser_bounds: "parser_bounds line_parser"
  by (auto simp: parser_bounds_def line_parser_def in_range_def stmt_end_def comp_def sorted_map sorted_wrt_map)

definition small_excerpts :: "context_excerpt list" where
  "small_excerpts = cr_excerpts (chunk_text sha0 line_parser ''A.sol'' small_text [] 100)"

lemma single_group: "group_candidates sha256 [c] = Some [make_group sha256 [c]]"
  by (simp add: group_candidates_eq class_roots_def group_at_def class_members_def partition_of_def index_pairs_def)

lemma small_merges: "case merge_group sha0 (make_group sha0 [small_candidate]) run_decisions
    (candidate_validations sha0 small_tree (\<lambda>c. small_hashes) [small_candidate]) [] None of
    Inl e \<Rightarrow> False | Inr f \<Rightarrow> fi_status f = NEEDS_REVIEW \<and> fi_locations f = [small_location]"
  by code_simp

section \<open>Findings quote the repository\<close>

text \<open>
  C20: Every location of a reported finding is real and was shown to the model. From grouping the
  candidates, validating them against the repository and the context of each candidate, and merging a
  group: if the finding is not rejected, each of its locations comes from a candidate of the group. It
  names a regular, unlinked file inside the repository that is not sensitive and lies within that file;
  the context of that candidate holds exactly these lines or an excerpt that contains them; the hash
  the context gives for exactly these lines (unless it is empty) and the hash the location carries, if
  any, are the hash of the lines in the file; if the context holds the hash of the whole file, the file
  is unchanged; and the symbol the location quotes occurs in the lines.
\<close>

theorem finding_quotes_repository:
  assumes "group_candidates sha256 cs = Some gs" "g \<in> set gs" "distinct (map cf_candidate_id cs)"
    and "merge_group sha256 g decisions (candidate_validations sha256 tree hashes_of cs) scanners judge = Inr f"
    and "fi_status f \<noteq> REJECTED" "l \<in> set (fi_locations f)"
  shows "\<exists>c \<in> set (cg_candidates g). l \<in> set (cf_locations c) \<and> quotes_repository sha256 tree (hashes_of c) l"
proof -
  obtain c where c: "c \<in> set (cg_candidates g)" "l \<in> set (cf_locations c)"
    and v: "location_valid (candidate_validations sha256 tree hashes_of cs) c"
    using assms(4-6) by (rule active_finding_locations)
  have "c \<in> set cs" using assms(2) c(1) by (auto simp: groups_of [OF assms(1)] set_group_at)
  then have "dict_get (candidate_validations sha256 tree hashes_of cs) (cf_candidate_id c)
      = Some (check_candidate sha256 tree c (hashes_of c))"
    unfolding candidate_validations_def by (rule fold_update_get [OF assms(3)])
  then show ?thesis using v c check_candidate_sound by (auto simp: location_valid_def)
qed

theorem finding_quotes_repository_witness: "quotes_repository sha0 small_tree small_hashes small_location"
proof -
  obtain f where f: "merge_group sha0 (make_group sha0 [small_candidate]) run_decisions
      (candidate_validations sha0 small_tree (\<lambda>c. small_hashes) [small_candidate]) [] None = Inr f"
    "fi_status f = NEEDS_REVIEW" "fi_locations f = [small_location]"
    using small_merges by (auto split: sum.splits)
  have "\<exists>c \<in> set (cg_candidates (make_group sha0 [small_candidate])). small_location \<in> set (cf_locations c)
      \<and> quotes_repository sha0 small_tree small_hashes small_location"
    by (rule finding_quotes_repository [OF single_group _ _ f(1)]) (simp_all add: f)
  then show ?thesis by blast
qed

text \<open>
  C21: What an excerpt proves, validation accepts. Suppose the path resolves to a trusted file that is
  not empty and has no carriage return, the excerpts of that path in the context were cut from its
  present text, and the context holds no other hash for the whole file. Then a location that an excerpt
  proves (inside the excerpt, with the hash of its lines) and that quotes no symbol or one that occurs
  in those lines is valid, with exactly that hash and no error. (With a carriage return every location
  in the file is refused, see \<open>carriage_return_is_rejected\<close>.)
\<close>

theorem proven_location_is_accepted:
  assumes "parser_bounds parse" "content \<noteq> []" "CR \<notin> set content"
    and "resolve_location tree path = Inr (Some content)"
    and "\<forall>e \<in> set excerpts. ex_path e = path \<longrightarrow>
      e \<in> set (cr_excerpts (chunk_text sha256 parse path content categories max_chunk_bytes))"
    and "\<forall>h. (path, h) \<in> set files \<longrightarrow> h = sha256 content"
    and "e \<in> set excerpts" "lo_start_line l \<le> lo_end_line l" "lo_path l = path"
    and "excerpt_proves_location sha256 e l"
    and "\<forall>s. lo_symbol l = Some s \<longrightarrow> occurs_in s (concat (py_slice (splitlines content) (lo_start_line l - 1) (lo_end_line l)))"
  shows "check_location sha256 tree l (Some (context_hash_index files excerpts))
    = \<lparr>lv_valid = True, lv_content_hash = lo_content_hash l, lv_errors = []\<rparr>"
proof -
  let ?ctx = "context_hash_index files excerpts" and ?h = "line_range_hash sha256 content (lo_start_line l) (lo_end_line l)"
  have ep: "ex_path e = path" using assms(9,10) by (auto simp: excerpt_proves_location_def split: if_splits)
  then have "e \<in> set (cr_excerpts (chunk_text sha256 parse path content categories max_chunk_bytes))"
    using assms(5,7) by blast
  note E = chunk_excerpt_fields [OF assms(1,2) this]
  have b: "ex_start_line e \<le> lo_start_line l" "lo_end_line l \<le> ex_end_line e" "lo_content_hash l = Some ?h"
    using E(4) [OF assms(8,10)] by auto
  have bounds: "1 \<le> lo_start_line l" "lo_end_line l \<le> int (length (splitlines content))" using E(1,2) b by linarith+
  have same: "universal_newlines content = content" using assms(3) by (rule universal_newlines_id)
  have here: "in_file (splitlines content) l" using bounds assms(8) by (simp add: in_file_def)
  then have sel: "selected_text (splitlines content) l = concat (py_slice (splitlines content) (lo_start_line l - 1) (lo_end_line l))"
    by (simp add: selected_text_def)
  have ne: "selected_text (splitlines content) l \<noteq> []"
    unfolding sel using bounds assms(8) by (intro slice_nonempty) auto
  have h: "sha256 (selected_text (splitlines content) l) = ?h" by (simp add: sel line_range_hash_def)
  have exact: "g = ?h" if "dict_get ?ctx (path, lo_start_line l, lo_end_line l) = Some g" for g
    using context_hash_index_cases [OF that] chunk_excerpt_fields(3) [OF assms(1,2)] assms(5) bounds(1) by auto
  have snapshot: "g = sha256 content" if "dict_get ?ctx (path, 0, 0) = Some g" for g
    using context_hash_index_cases [OF that] chunk_excerpt_fields(1) [OF assms(1,2)] assms(5,6) by force
  have "contained_in_context ?ctx l"
  proof -
    have "(ex_path e, ex_start_line e, ex_end_line e) \<in> set (dict_keys ?ctx)"
      unfolding context_hash_index_def fold_update_keys using assms(7) by blast
    then show ?thesis using E(1) b ep assms(9) unfolding contained_in_context_def list_ex_iff by force
  qed
  then have "context_errors sha256 ?ctx l content = []"
    using exact snapshot b(3) assms(9)
    by (cases "dict_get ?ctx (path, lo_start_line l, lo_end_line l)")
       (auto simp: context_errors_def Let_def split: option.splits)
  moreover have "expected_hash (Some ?ctx) l = Some ?h"
    using exact b(3) assms(9)
    by (cases "dict_get ?ctx (path, lo_start_line l, lo_end_line l)")
       (auto simp: expected_hash_def or_hash_def truthy_def split: option.splits)
  moreover have "\<not> (truthy (lo_symbol l) \<and> \<not> occurs_in (or_empty (lo_symbol l)) (selected_text (splitlines content) l))"
    using assms(11) by (auto simp: sel truthy_def or_empty_def split: option.splits)
  ultimately show ?thesis
    using assms(4,9) ne here h b(3) by (simp add: check_location_def same Let_def)
qed

theorem proven_location_is_accepted_witness:
  "lv_valid (check_location sha0 small_tree small_location (Some (context_hash_index [(''A.sol'', zeros)] small_excerpts)))"
proof -
  have ne: "small_text \<noteq> []" and cr: "CR \<notin> set small_text"
    by (simp_all add: small_text_def LF_def CR_def)
  have res: "resolve_location small_tree ''A.sol'' = Inr (Some small_text)" by code_simp
  have proves: "excerpt_proves_location sha0 (hd small_excerpts) small_location" by code_simp
  have mem: "hd small_excerpts \<in> set small_excerpts" by code_simp
  have "check_location sha0 small_tree small_location (Some (context_hash_index [(''A.sol'', zeros)] small_excerpts))
      = \<lparr>lv_valid = True, lv_content_hash = lo_content_hash small_location, lv_errors = []\<rparr>"
    by (rule proven_location_is_accepted [OF line_parser_bounds ne cr res _ _ mem _ _ proves,
          where categories = "[]" and max_chunk_bytes = 100])
       (simp_all add: small_excerpts_def small_location_def at_lines_def sha0_def)
  then show ?thesis by simp
qed

section \<open>Chunks\<close>

text \<open>
  C22: An excerpt of a chunked file proves exactly its own lines: it accepts a location if and only if
  the location is on the same path, inside the excerpt, and its hash is that of the same lines of the
  whole file. Splitting the excerpt into lines again loses nothing, whatever the line endings.
\<close>

theorem chunk_excerpts_prove:
  assumes "parser_bounds parse" "content \<noteq> []"
    and "ex \<in> set (cr_excerpts (chunk_text sha256 parse path content categories max_chunk_bytes))"
    and "lo_start_line l \<le> lo_end_line l"
  shows "excerpt_proves_location sha256 ex l \<longleftrightarrow>
    lo_path l = path \<and> ex_start_line ex \<le> lo_start_line l \<and> lo_end_line l \<le> ex_end_line ex
    \<and> lo_content_hash l = Some (line_range_hash sha256 content (lo_start_line l) (lo_end_line l))"
proof -
  obtain s e where r: "in_range (int (length (splitlines content))) (s, e)"
    and ex: "ex = make_excerpt sha256 path (splitlines content) s e categories (int (length (splitlines content)))"
    using chunk_text_excerpt [OF assms(1-3)] by auto
  then have "ex_start_line ex = s" "ex_end_line ex = e" by (simp_all add: make_excerpt_def Let_def)
  then show ?thesis using make_excerpt_proves [OF r assms(4) ex] by simp
qed

theorem chunk_excerpts_prove_witness:
  "excerpt_proves_location sha0 (hd small_excerpts) small_location
    \<longleftrightarrow> lo_content_hash small_location = Some (line_range_hash sha0 small_text 1 1)"
proof -
  have ne: "small_text \<noteq> []" by (simp add: small_text_def)
  have mem: "hd small_excerpts \<in> set (cr_excerpts (chunk_text sha0 line_parser ''A.sol'' small_text [] 100))"
    unfolding small_excerpts_def by code_simp
  have l: "lo_start_line small_location = 1" "lo_end_line small_location = 1" "lo_path small_location = ''A.sol''"
    by (simp_all add: small_location_def at_lines_def)
  have "ex_start_line (hd small_excerpts) = 1" "1 \<le> ex_end_line (hd small_excerpts)" by code_simp+
  then show ?thesis
    using chunk_excerpts_prove [OF line_parser_bounds ne mem, of small_location] by (simp add: l)
qed

text \<open>
  C23: No text is dropped silently: when a file that is neither Python nor Solidity is too large for one
  excerpt, every line that is not blank lies in exactly one excerpt or in exactly one block that is
  reported as omitted, blank lines lie in none, and every excerpt fits the limit.
\<close>

theorem chunks_cover_text:
  assumes "content \<noteq> []" "map lower_char (name_suffix (posix_name path)) \<notin> {''.py'', ''.sol''}"
    and "max_chunk_bytes < int (utf8_length content)"
    and "result = chunk_text sha256 parse path content categories max_chunk_bytes"
  shows "\<exists>omitted. set (map (omission_notice path) omitted) \<subseteq> set (cr_omissions result)
    \<and> (\<forall>k < length (splitlines content).
         cover_count (int k + 1) (map excerpt_span (cr_excerpts result)) + cover_count (int k + 1) omitted
           = (if blank (splitlines content ! k) then 0 else 1))
    \<and> list_all (\<lambda>e. int (utf8_length (ex_content e)) \<le> max_chunk_bytes) (cr_excerpts result)"
proof -
  let ?big = "\<lambda>r. max_chunk_bytes < int (utf8_length (concat (py_slice (splitlines content) (fst r - 1) (snd r))))"
  let ?rs = "block_ranges content"
  have ranges: "chunk_ranges parse path content = ?rs" using assms(2) by (simp add: chunk_ranges_def Let_def)
  have ex: "cr_excerpts result = map (\<lambda>r. make_excerpt sha256 path (splitlines content) (fst r) (snd r) categories
      (int (length (splitlines content)))) (filter (\<lambda>r. \<not> ?big r) ?rs)"
    using assms(1,3) by (simp add: assms(4) chunk_text_def Let_def ranges)
  have spans: "map excerpt_span (cr_excerpts result) = filter (\<lambda>r. \<not> ?big r) ?rs"
    unfolding ex by (simp add: excerpt_span_def make_excerpt_def Let_def comp_def)
  have "set (map (omission_notice path) (filter ?big ?rs)) \<subseteq> set (cr_omissions result)"
    using assms(1,3) by (auto simp: assms(4) chunk_text_def Let_def ranges filter_empty_conv)
  moreover have "cover_count (int k + 1) ?rs = (if blank (splitlines content ! k) then 0 else 1)"
    if "k < length (splitlines content)" for k
    using block_scan_cover [where start = None and index = 1 and lines = "splitlines content", OF _ that]
    by (simp add: block_ranges_def add.commute)
  moreover have "list_all (\<lambda>e. int (utf8_length (ex_content e)) \<le> max_chunk_bytes) (cr_excerpts result)"
    unfolding ex list_all_iff by (auto simp: make_excerpt_def Let_def)
  ultimately show ?thesis
    unfolding spans using cover_count_partition [of _ ?big ?rs] by (intro exI [of _ "filter ?big ?rs"]) simp
qed

theorem chunks_cover_text_witness:
  "list_all (\<lambda>e. int (utf8_length (ex_content e)) \<le> 2) (cr_excerpts (chunk_text sha0 line_parser ''a.txt'' small_text [] 2))"
proof -
  have s: "map lower_char (name_suffix (posix_name ''a.txt'')) \<notin> {''.py'', ''.sol''}" by code_simp
  have ne: "small_text \<noteq> []" by (simp add: small_text_def)
  have big: "2 < int (utf8_length small_text)" by code_simp
  show ?thesis using chunks_cover_text [OF ne s big refl] by blast
qed

section \<open>Deviations\<close>

text \<open>
  A file with carriage returns can never be quoted: discovery hashes the raw text, validation reads
  the file with its line endings translated, so (unless the digest collides) every location in it fails
  as changed since discovery, and with it every candidate that has such a location.
\<close>

theorem carriage_return_is_rejected:
  assumes "resolve_location tree (lo_path l) = Inr (Some body)" "CR \<in> set body"
    and "inj_on sha256 {body, universal_newlines body}"
    and "dict_get ctx (lo_path l, 0, 0) = Some (sha256 body)"
  shows "''file changed since repository discovery'' \<in> set (lv_errors (check_location sha256 tree l (Some ctx)))
    \<and> (l \<in> set (cf_locations c) \<longrightarrow> \<not> lv_valid (check_candidate sha256 tree c ctx))"
proof -
  have "universal_newlines body \<noteq> body" using assms(2) universal_newlines_CR [of body] by metis
  then have differ: "sha256 body \<noteq> sha256 (universal_newlines body)" using assms(3) by (simp add: inj_on_def)
  have e: "''file changed since repository discovery'' \<in> set (lv_errors (check_location sha256 tree l (Some ctx)))"
    using assms(1,4) differ by (simp add: check_location_def Let_def context_errors_def)
  then have "l \<in> set (cf_locations c) \<Longrightarrow> \<not> lv_valid (check_candidate sha256 tree c ctx)"
    by (auto simp: check_candidate_def Let_def)
  with e show ?thesis by blast
qed

theorem carriage_return_is_rejected_witness:
  "''file changed since repository discovery'' \<in> set (lv_errors (check_location (\<lambda>s. s)
     (\<lambda>parts. if parts = [''A.sol''] then Some (FileNode (Some 1) (Some [CHR ''x'', CR, LF])) else None)
     (at_lines ''A.sol'' 1 1) (Some [((''A.sol'', 0, 0), [CHR ''x'', CR, LF])])))"
proof -
  let ?tree = "\<lambda>parts. if parts = [''A.sol''] then Some (FileNode (Some 1) (Some [CHR ''x'', CR, LF])) else None"
  have "resolve_location ?tree (lo_path (at_lines ''A.sol'' 1 1)) = Inr (Some [CHR ''x'', CR, LF])" by code_simp
  then show ?thesis
    using carriage_return_is_rejected [where tree = ?tree and l = "at_lines ''A.sol'' 1 1" and ?sha256.0 = "\<lambda>s. s"
        and body = "[CHR ''x'', CR, LF]" and ctx = "[((''A.sol'', 0, 0), [CHR ''x'', CR, LF])]"]
    by (simp add: at_lines_def)
qed

text \<open>
  A large Solidity file loses text silently: a line that opens an abstract contract is not recognised
  as a declaration, so its state is in no excerpt and in no omission.
\<close>

theorem abstract_contract_is_dropped:
  "let result = chunk_text sha0 line_parser ''A.sol''
       (''abstract contract A {'' @ [LF] @ ''uint x;'' @ [LF] @ ''}'' @ [LF] @ ''function f() {'' @ [LF] @ ''}'') [] 20
   in map excerpt_span (cr_excerpts result) = [(4, 5)] \<and> cr_omissions result = []"
  by code_simp

end
