(* ===== verification/Run_Status.thy ===== *)
theory Run_Status
  imports Finding_Schema
begin

text \<open>
  The terminal status of an audit: \<open>orchestration/run_status.py\<close>, the validator of
  \<open>MinimumAnalysisFloor\<close> in \<open>models/schemas.py\<close>, and the mapping to the legacy quality status in
  \<open>reporting/status.py\<close>. Whether a scanner run qualifies (\<open>is_qualifying_real_scanner_run\<close>) and
  whether a usage record is creditable (\<open>is_creditable_usage_record\<close>) are decided elsewhere: the
  two predicates are arguments of the assessment, and so are the types they read.
\<close>

section \<open>Messages\<close>

text \<open>\<open>str.split()\<close>; \<open>cur\<close> is the word read so far, reversed.\<close>

fun split_words :: "string \<Rightarrow> string \<Rightarrow> string list" where
  "split_words cur [] = (if cur = [] then [] else [rev cur])"
| "split_words cur (c # cs) =
     (if \<not> is_space c then split_words (c # cur) cs
      else if cur = [] then split_words [] cs else rev cur # split_words [] cs)"

definition is_unprintable :: "char \<Rightarrow> bool" where
  "is_unprintable c \<longleftrightarrow> code c < 32 \<or> code c = 127"

definition rstrip_spaces :: "string \<Rightarrow> string" where
  "rstrip_spaces s = rev (dropWhile is_space (rev s))"

definition bounded_message :: "string \<Rightarrow> string" where
  "bounded_message value =
     rstrip_spaces (take 2000 (join '' '' (split_words [] (map (\<lambda>c. if is_unprintable c then CHR '' '' else c) value))))"

definition canonicalize_runtime_messages :: "string list \<Rightarrow> string list" where
  "canonicalize_runtime_messages values = sorted_set (filter (\<lambda>m. m \<noteq> []) (map bounded_message values))"

section \<open>Evidence\<close>

datatype compilation_status = CompFailed | CompSkipped | CompSuccess | CompTimedOut | CompUnavailable

datatype audit_run_status = RunComplete | RunDegraded | RunIncomplete | RunFailed

datatype analysis_state =
    NotAnalyzed | AttemptedFailed | FallbackParser | ModelOnly | ScannerSupported | Deterministic
  | StateReproduced | FormallyProvenState

datatype audit_quality_status =
    QualityCompleted | QualityCompletedWithLimitations | QualityIncomplete | QualityFailed
  | QualityEnvironmentUnsafe | QualityTargetUnsupported

text \<open>
  What the assessment reads: the arguments of \<open>assess_minimum_analysis_floor\<close>. A file is its path
  and language; a scanner run its name with the rest of the run, a usage record its role with the rest
  of the record.
\<close>

record compilation_evidence =
  ce_comp_status :: compilation_status
  ce_ast_available :: bool
  ce_contracts_compiled :: "string list"

record coverage_evidence =
  cm_denominator :: int
  cm_not_applicable_evidence :: "string list"
  cm_failures :: "string list"

record ('r, 'u) floor_inputs =
  fin_files :: "(string \<times> string) list"
  fin_compilations :: "compilation_evidence list"
  fin_scanner_runs :: "(string \<times> 'r) list"
  fin_usage :: "(string \<times> 'u) list"
  fin_required_roles :: "string list"
  fin_coverage :: "(string, coverage_evidence) dict"
  fin_solidity :: bool
  fin_static :: bool
  fin_static_names :: "string list"
  fin_model_review :: bool
  fin_scanner_only :: bool
  fin_downgrade :: "string option"
  fin_surface_feasible :: bool
  fin_surface_reasons :: "string list"
  fin_failures :: "string list"

record analysis_floor =
  fl_run_status :: audit_run_status
  fl_source_files :: nat
  fl_source_succeeded :: bool
  fl_solidity :: bool
  fl_compilations :: "(compilation_status, nat) dict"
  fl_qualifying_compilations :: nat
  fl_compilation_satisfied :: bool
  fl_static :: bool
  fl_static_scanners :: "string list"
  fl_static_satisfied :: bool
  fl_model_required :: bool
  fl_scanner_only :: bool
  fl_downgrade :: "string option"
  fl_required_roles :: "string list"
  fl_completed_roles :: "string list"
  fl_model_satisfied :: bool
  fl_metric_ids :: "string list"
  fl_denominators_valid :: bool
  fl_surface_feasible :: bool
  fl_failures :: "string list"
  fl_minimum_met :: bool
  fl_limitations :: "string list"

section \<open>The validator of the evidence\<close>

definition printable_text :: "string \<Rightarrow> bool" where
  "printable_text v \<longleftrightarrow> strip_spaces v \<noteq> [] \<and> v = strip_spaces v \<and> \<not> list_ex is_unprintable v"

definition canonical_list :: "string \<Rightarrow> string list \<Rightarrow> unit checked" where
  "canonical_list label values =
     rbind (require (values = sorted_set values) (label @ '' must be unique and sorted'')) (\<lambda>_.
     require (list_all printable_text values) (label @ '' must contain bounded printable text''))"

definition lengths_ok :: "analysis_floor \<Rightarrow> bool" where
  "lengths_ok f \<longleftrightarrow> length (fl_static_scanners f) \<le> 100
     \<and> (case fl_downgrade f of None \<Rightarrow> True | Some r \<Rightarrow> length r \<le> 2000)
     \<and> length (fl_required_roles f) \<le> 1000 \<and> length (fl_completed_roles f) \<le> 1000
     \<and> length (fl_metric_ids f) \<le> 1000 \<and> length (fl_failures f) \<le> 100
     \<and> length (fl_limitations f) \<le> 100"

text \<open>The statuses in the order of their values.\<close>

definition compilation_order :: "compilation_status list" where
  "compilation_order = [CompFailed, CompSkipped, CompSuccess, CompTimedOut, CompUnavailable]"

definition bad_compilation :: "(compilation_status, nat) dict \<Rightarrow> bool" where
  "bad_compilation d \<longleftrightarrow> list_ex (\<lambda>s. s \<in> {CompFailed, CompTimedOut}) (dict_keys d)"

definition real_analysis :: "analysis_floor \<Rightarrow> bool" where
  "real_analysis f \<longleftrightarrow> fl_static_scanners f \<noteq> [] \<or> fl_completed_roles f \<noteq> []"

definition hard_failure :: "analysis_floor \<Rightarrow> bool" where
  "hard_failure f \<longleftrightarrow> \<not> fl_source_succeeded f \<or> (fl_failures f \<noteq> [] \<and> \<not> real_analysis f)
     \<or> bad_compilation (fl_compilations f)"

definition complete_floor :: "analysis_floor \<Rightarrow> bool" where
  "complete_floor f \<longleftrightarrow> real_analysis f \<and> fl_source_succeeded f \<and> fl_compilation_satisfied f
     \<and> fl_static_satisfied f \<and> fl_model_satisfied f \<and> fl_denominators_valid f \<and> fl_metric_ids f \<noteq> []
     \<and> fl_surface_feasible f \<and> fl_failures f = [] \<and> \<not> fl_scanner_only f \<and> fl_downgrade f = None"

definition degraded_floor :: "analysis_floor \<Rightarrow> bool" where
  "degraded_floor f \<longleftrightarrow> fl_downgrade f \<noteq> None \<and> real_analysis f \<and> fl_source_succeeded f
     \<and> fl_compilation_satisfied f \<and> fl_denominators_valid f \<and> fl_metric_ids f \<noteq> []
     \<and> fl_surface_feasible f \<and> fl_failures f = []
     \<and> (\<not> fl_scanner_only f \<or> (fl_static f \<and> fl_static_scanners f \<noteq> []))"

definition floor_status :: "analysis_floor \<Rightarrow> audit_run_status" where
  "floor_status f = (if hard_failure f then RunFailed else if complete_floor f then RunComplete
     else if degraded_floor f then RunDegraded else RunIncomplete)"

definition validate_floor :: "analysis_floor \<Rightarrow> analysis_floor checked" where
  "validate_floor f =
     rbind (require (lengths_ok f) ''too long'') (\<lambda>_.
     rbind (canonical_list ''qualifying real static scanners'' (fl_static_scanners f)) (\<lambda>_.
     rbind (canonical_list ''required model roles'' (fl_required_roles f)) (\<lambda>_.
     rbind (canonical_list ''completed real model roles'' (fl_completed_roles f)) (\<lambda>_.
     rbind (canonical_list ''coverage metric IDs'' (fl_metric_ids f)) (\<lambda>_.
     rbind (canonical_list ''orchestration failures'' (fl_failures f)) (\<lambda>_.
     rbind (canonical_list ''minimum-floor limitations'' (fl_limitations f)) (\<lambda>_.
     rbind (require (dict_keys (fl_compilations f) = filter (\<lambda>s. s \<in> set (dict_keys (fl_compilations f))) compilation_order)
       ''compilation status counts must be canonically ordered'') (\<lambda>_.
     rbind (require (list_all (\<lambda>n. 0 < n) (dict_values (fl_compilations f)))
       ''compilation status counts must be positive'') (\<lambda>_.
     rbind (require (fl_qualifying_compilations f \<le> dict_get_default (fl_compilations f) CompSuccess 0)
       ''qualifying compilation count exceeds successful compilations'') (\<lambda>_.
     rbind (require (fl_source_succeeded f = (0 < fl_source_files f))
       ''source-ingestion state does not match ingested source evidence'') (\<lambda>_.
     let attempts = sum_list (dict_values (fl_compilations f))
     in rbind (require (fl_compilation_satisfied f = (\<not> fl_solidity f
            \<or> (0 < attempts \<and> fl_qualifying_compilations f = attempts)))
          ''compilation state does not match compilation evidence'') (\<lambda>_.
        rbind (require (fl_solidity f \<or> (fl_compilations f = [] \<and> fl_qualifying_compilations f = 0))
          ''non-applicable Solidity compilation cannot retain run evidence'') (\<lambda>_.
        rbind (require (fl_static_satisfied f = (\<not> fl_static f \<or> fl_static_scanners f \<noteq> []))
          ''static-analysis state does not match REAL scanner evidence'') (\<lambda>_.
        rbind (require (fl_static f \<or> fl_static_scanners f = [])
          ''non-applicable static analysis cannot retain scanner credit'') (\<lambda>_.
        rbind (require (case fl_downgrade f of None \<Rightarrow> True | Some r \<Rightarrow> printable_text r)
          ''explicit downgrade reason must be bounded printable text'') (\<lambda>_.
        rbind (require (\<not> (fl_scanner_only f \<and> fl_model_required f))
          ''scanner-only analysis cannot simultaneously require model review'') (\<lambda>_.
        rbind (require (fl_model_satisfied f = (\<not> fl_model_required f \<or> (fl_required_roles f \<noteq> []
            \<and> set (fl_required_roles f) \<subseteq> set (fl_completed_roles f))))
          ''model-review state does not match completed REAL role evidence'') (\<lambda>_.
        rbind (require (fl_run_status f = floor_status f) ''run status does not match minimum-floor evidence'') (\<lambda>_.
        rbind (require (fl_minimum_met f = (floor_status f = RunComplete))
          ''minimum-floor result does not match the run status'') (\<lambda>_.
        rbind (require ((floor_status f = RunComplete) = (fl_limitations f = []))
          ''only non-complete minimum-floor evidence requires limitations'') (\<lambda>_.
        Inr f)))))))))))))))))))))"

section \<open>The assessment\<close>

definition casefold_char :: "char \<Rightarrow> string" where
  "casefold_char c = (if code c = 223 then ''ss'' else [lower_char c])"

definition casefold :: "string \<Rightarrow> string" where
  "casefold s = concat (map casefold_char s)"

definition is_applicable_source_file :: "bool \<Rightarrow> string \<times> string \<Rightarrow> bool" where
  "is_applicable_source_file solidity file =
     (if solidity then casefold (snd file) = ''solidity'' \<or> starts_with (rev ''.sol'') (rev (casefold (fst file)))
      else fst file \<noteq> [] \<and> snd file \<noteq> [])"

definition compilation_counts :: "compilation_evidence list \<Rightarrow> (compilation_status, nat) dict" where
  "compilation_counts cs =
     map (\<lambda>s. (s, length (filter (\<lambda>c. ce_comp_status c = s) cs)))
       (filter (\<lambda>s. list_ex (\<lambda>c. ce_comp_status c = s) cs) compilation_order)"

definition qualifies :: "compilation_evidence \<Rightarrow> bool" where
  "qualifies c \<longleftrightarrow> ce_comp_status c = CompSuccess \<and> ce_ast_available c \<and> ce_contracts_compiled c \<noteq> []"

definition coverage_valid :: "(string, coverage_evidence) dict \<Rightarrow> bool" where
  "coverage_valid d \<longleftrightarrow> d \<noteq> [] \<and> list_all (\<lambda>m. cm_failures m = []
     \<and> (0 < cm_denominator m \<or> cm_not_applicable_evidence m \<noteq> [])) (dict_values d)"

definition with_details :: "string \<Rightarrow> string list \<Rightarrow> string" where
  "with_details message details = message @ (if details = [] then [] else '': '' @ join '', '' details)"

definition floor_limitations :: "('r, 'u) floor_inputs \<Rightarrow> analysis_floor \<Rightarrow> string list" where
  "floor_limitations i f =
     (if real_analysis f then [] else [''no qualifying real scanner or real model analysis completed''])
     @ (if fl_source_succeeded f then [] else [''source ingestion did not retain an applicable source file''])
     @ (if fl_compilation_satisfied f then []
        else if bad_compilation (fl_compilations f) then [''Solidity compilation failed or timed out'']
        else [''Solidity compilation did not produce AST-backed contracts''])
     @ (if fl_static_satisfied f then [] else [''no qualifying REAL applicable static analyzer completed''])
     @ (if fl_model_satisfied f then []
        else [with_details ''required REAL model roles did not complete''
          (sorted_set (filter (\<lambda>r. r \<notin> set (fl_completed_roles f)) (fl_required_roles f)))])
     @ (if fl_denominators_valid f then [] else [''coverage denominators are missing or invalid''])
     @ (if fl_surface_feasible f then []
        else [with_details ''required surface analysis is infeasible''
          (canonicalize_runtime_messages (fin_surface_reasons i))])
     @ map (\<lambda>e. ''orchestration failure: '' @ e) (fl_failures f)
     @ (case fl_downgrade f of
          Some r \<Rightarrow> [''explicit downgrade: '' @ r]
        | None \<Rightarrow> if fl_scanner_only f
            then [''scanner-only analysis lacks an explicit downgrade authorization''] else [])"

definition floor_evidence :: "('r \<Rightarrow> bool) \<Rightarrow> ('u \<Rightarrow> bool) \<Rightarrow> ('r, 'u) floor_inputs \<Rightarrow> analysis_floor" where
  "floor_evidence qualifying creditable i =
     (let names = canonicalize_runtime_messages (fin_static_names i);
          roles = canonicalize_runtime_messages (fin_required_roles i);
          compilations = (if fin_solidity i then fin_compilations i else []);
          files = length (filter (is_applicable_source_file (fin_solidity i)) (fin_files i));
          qualified = length (filter qualifies compilations);
          scanners = sorted_set (map fst (filter (\<lambda>(s, r). fin_static i \<and> s \<in> set names \<and> qualifying r) (fin_scanner_runs i)));
          completed = sorted_set (map fst (filter (\<lambda>(_, u). creditable u) (fin_usage i)));
          required = (fin_model_review i \<and> \<not> fin_scanner_only i)
      in \<lparr>fl_run_status = RunIncomplete, fl_source_files = files, fl_source_succeeded = (0 < files),
          fl_solidity = fin_solidity i, fl_compilations = compilation_counts compilations,
          fl_qualifying_compilations = qualified,
          fl_compilation_satisfied = (\<not> fin_solidity i \<or> (compilations \<noteq> [] \<and> qualified = length compilations)),
          fl_static = fin_static i, fl_static_scanners = scanners,
          fl_static_satisfied = (\<not> fin_static i \<or> scanners \<noteq> []),
          fl_model_required = required, fl_scanner_only = fin_scanner_only i,
          fl_downgrade = map_option strip_spaces (fin_downgrade i), fl_required_roles = roles,
          fl_completed_roles = completed,
          fl_model_satisfied = (\<not> required \<or> (roles \<noteq> [] \<and> set roles \<subseteq> set completed)),
          fl_metric_ids = sort (dict_keys (fin_coverage i)), fl_denominators_valid = coverage_valid (fin_coverage i),
          fl_surface_feasible = fin_surface_feasible i,
          fl_failures = canonicalize_runtime_messages (fin_failures i), fl_minimum_met = False, fl_limitations = []\<rparr>)"

definition assess_minimum_analysis_floor ::
    "('r \<Rightarrow> bool) \<Rightarrow> ('u \<Rightarrow> bool) \<Rightarrow> ('r, 'u) floor_inputs \<Rightarrow> analysis_floor checked" where
  "assess_minimum_analysis_floor qualifying creditable i =
     (let f = floor_evidence qualifying creditable i; status = floor_status f
      in validate_floor (f\<lparr>fl_run_status := status, fl_minimum_met := (status = RunComplete),
           fl_limitations := sorted_set (floor_limitations i f)\<rparr>))"

record quality_gate =
  qg_gate :: string
  qg_required :: bool
  qg_passed :: bool
  qg_detail :: string
  qg_state :: analysis_state
  qg_artifacts :: "string list"

definition minimum_analysis_floor_quality_gate :: "analysis_floor \<Rightarrow> quality_gate" where
  "minimum_analysis_floor_quality_gate f =
     \<lparr>qg_gate = ''minimum_analysis_floor'', qg_required = True, qg_passed = (fl_run_status f = RunComplete),
      qg_detail = (if fl_minimum_met f
        then ''minimum analysis floor satisfied by qualifying REAL execution evidence''
        else join ''; '' (fl_limitations f)),
      qg_state = (if fl_run_status f = RunComplete then Deterministic
        else if fl_run_status f = RunFailed then AttemptedFailed
        else if fl_static_scanners f \<noteq> [] then ScannerSupported
        else if fl_completed_roles f \<noteq> [] then ModelOnly else NotAnalyzed),
      qg_artifacts = []\<rparr>"

fun quality_status_for_run_status :: "audit_run_status \<Rightarrow> audit_quality_status" where
  "quality_status_for_run_status RunComplete = QualityCompleted"
| "quality_status_for_run_status RunDegraded = QualityCompletedWithLimitations"
| "quality_status_for_run_status RunIncomplete = QualityIncomplete"
| "quality_status_for_run_status RunFailed = QualityFailed"

end
