(* ===== verification/Run_Facts.thy ===== *)
theory Run_Facts
  imports Run_Status
begin

text \<open>
  Facts about the terminal status: canonical messages are single-line printable text and
  canonicalizing is idempotent; the counts of compilations; a status is complete exactly when there
  is no limitation; and the assessment passes its own validator.
\<close>

section \<open>Canonical messages\<close>

text \<open>Single-line text with single spaces; \<open>b\<close> says that no space may come next.\<close>

fun single_spaced :: "bool \<Rightarrow> string \<Rightarrow> bool" where
  "single_spaced b [] = True"
| "single_spaced b (c # cs) =
     (if is_space c then c = CHR '' '' \<and> \<not> b \<and> single_spaced True cs
      else \<not> is_unprintable c \<and> single_spaced False cs)"

definition clean_char :: "char \<Rightarrow> bool" where
  "clean_char c \<longleftrightarrow> \<not> is_space c \<and> \<not> is_unprintable c"

definition tidy :: "string \<Rightarrow> bool" where
  "tidy s \<longleftrightarrow> single_spaced True s \<and> (s \<noteq> [] \<longrightarrow> \<not> is_space (last s))"

lemma space_facts:
  "is_space (CHR '' '')" "\<not> is_unprintable (CHR '' '')"
  by (simp_all add: is_space_def is_unprintable_def code_def)

lemma single_spaced_word:
  assumes "list_all clean_char w" "w \<noteq> []"
  shows "single_spaced b (w @ s) = single_spaced False s"
  using assms
proof (induction w arbitrary: b)
  case (Cons a w)
  then show ?case by (cases "w = []") (simp_all add: clean_char_def)
qed simp

lemma split_words_clean:
  assumes "list_all clean_char cur" "list_all (\<lambda>c. \<not> is_unprintable c) s"
  shows "list_all (\<lambda>w. w \<noteq> [] \<and> list_all clean_char w) (split_words cur s)"
  using assms
proof (induction cur s rule: split_words.induct)
  case (2 cur c cs)
  then show ?case by (cases "is_space c"; cases "cur = []") (simp_all add: clean_char_def)
qed simp

lemma single_spaced_join:
  "list_all (\<lambda>w. w \<noteq> [] \<and> list_all clean_char w) ws
   \<Longrightarrow> single_spaced True (join '' '' ws)"
proof (induction "'' ''" ws rule: join.induct)
  case (2 x)
  then show ?case using single_spaced_word [of x True "[]"] by simp
next
  case (3 x y ys)
  then show ?case by (simp add: single_spaced_word space_facts)
qed simp

lemma single_spaced_prefix: "single_spaced b (s @ t) \<Longrightarrow> single_spaced b s"
  by (induction s arbitrary: b) (auto split: if_splits)

lemma rstrip_split: "\<exists>t. s = rstrip_spaces s @ t"
  unfolding rstrip_spaces_def
  by (metis append_self_conv rev_append rev_rev_ident takeWhile_dropWhile_id)

lemma rstrip_last: "rstrip_spaces s \<noteq> [] \<Longrightarrow> \<not> is_space (last (rstrip_spaces s))"
  unfolding rstrip_spaces_def by (simp add: last_rev hd_dropWhile)

lemma rstrip_length: "length (rstrip_spaces s) \<le> length s"
  using rstrip_split [of s] by (metis le_add1 length_append)

lemma tidy_bounded: "tidy (bounded_message v)" "length (bounded_message v) \<le> 2000"
proof -
  let ?p = "map (\<lambda>c. if is_unprintable c then CHR '' '' else c) v"
  let ?j = "join '' '' (split_words [] ?p)"
  have "list_all (\<lambda>c. \<not> is_unprintable c) ?p" by (auto simp: list_all_iff space_facts)
  then have "single_spaced True ?j" by (intro single_spaced_join split_words_clean) simp_all
  then have "single_spaced True (take 2000 ?j)"
    by (metis append_take_drop_id single_spaced_prefix)
  then have "single_spaced True (rstrip_spaces (take 2000 ?j))"
    by (metis rstrip_split single_spaced_prefix)
  then show "tidy (bounded_message v)" by (simp add: tidy_def bounded_message_def rstrip_last)
  show "length (bounded_message v) \<le> 2000"
    unfolding bounded_message_def by (rule order.trans [OF rstrip_length]) simp
qed

lemma join_split_words:
  assumes "single_spaced b s" "b = (cur = [])" "s \<noteq> [] \<longrightarrow> \<not> is_space (last s)"
  shows "join '' '' (split_words cur s) = rev cur @ s"
  using assms
proof (induction cur s arbitrary: b rule: split_words.induct)
  case (2 cur c cs)
  show ?case
  proof (cases "is_space c")
    case True
    with 2(4,5,6) have c: "c = CHR '' ''" "cur \<noteq> []" "cs \<noteq> []" "single_spaced True cs"
      by (auto split: if_splits)
    then have "join '' '' (split_words [] cs) = cs" using 2(3) [of True] 2(6) True by simp
    moreover from this c(3) obtain w ws where "split_words [] cs = w # ws" by (cases "split_words [] cs") auto
    ultimately show ?thesis using c True by simp
  next
    case False
    then show ?thesis using 2(1) [of False] 2(4-6) by (auto split: if_splits)
  qed
qed auto

lemma single_spaced_printable: "single_spaced b s \<Longrightarrow> c \<in> set s \<Longrightarrow> \<not> is_unprintable c"
  by (induction b s rule: single_spaced.induct) (auto simp: space_facts split: if_splits)

lemma rstrip_id: "s \<noteq> [] \<longrightarrow> \<not> is_space (last s) \<Longrightarrow> rstrip_spaces s = s"
  unfolding rstrip_spaces_def by (cases s rule: rev_cases) auto

lemma bounded_tidy:
  assumes "tidy s" "length s \<le> 2000"
  shows "bounded_message s = s"
proof -
  have "map (\<lambda>c. if is_unprintable c then CHR '' '' else c) s = s"
    using assms(1) single_spaced_printable [of True s] by (intro map_idI) (simp add: tidy_def)
  moreover have "join '' '' (split_words [] s) = s"
    using join_split_words [of True s "[]"] assms(1) by (simp add: tidy_def)
  ultimately show ?thesis
    using assms by (simp add: bounded_message_def rstrip_id tidy_def)
qed

lemma tidy_printable: "tidy s \<Longrightarrow> s \<noteq> [] \<Longrightarrow> printable_text s"
proof -
  assume a: "tidy s" "s \<noteq> []"
  have "\<not> is_space (hd s)" using a by (cases s) (auto simp: tidy_def split: if_splits)
  then have "strip_spaces s = s" using a by (simp add: strip_spaces_id tidy_def)
  then show ?thesis
    using a by (auto simp: printable_text_def tidy_def list_ex_iff dest: single_spaced_printable)
qed

lemma canonical_set: "set (canonicalize_runtime_messages vs) = bounded_message ` set vs - {[]}"
  by (auto simp: canonicalize_runtime_messages_def)

lemma canonical_sorted [simp]:
  "sorted (canonicalize_runtime_messages vs)" "distinct (canonicalize_runtime_messages vs)"
  by (simp_all add: canonicalize_runtime_messages_def)

lemma canonical_printable: "list_all printable_text (canonicalize_runtime_messages vs)"
  by (auto simp: list_all_iff canonical_set tidy_bounded intro: tidy_printable)

lemma canonical_idem: "canonicalize_runtime_messages (canonicalize_runtime_messages vs) = canonicalize_runtime_messages vs"
proof (rule sorted_distinct_set_unique)
  have "bounded_message v = v" if "v \<in> set (canonicalize_runtime_messages vs)" for v
    using that bounded_tidy tidy_bounded by (auto simp: canonical_set)
  then have "bounded_message ` set (canonicalize_runtime_messages vs) = set (canonicalize_runtime_messages vs)"
    by simp
  then show "set (canonicalize_runtime_messages (canonicalize_runtime_messages vs)) = set (canonicalize_runtime_messages vs)"
    using canonical_set [of "canonicalize_runtime_messages vs"] canonical_set [of vs] by auto
qed simp_all

section \<open>Compilation counts\<close>

definition seen_statuses :: "compilation_evidence list \<Rightarrow> compilation_status list" where
  "seen_statuses cs = filter (\<lambda>s. list_ex (\<lambda>c. ce_comp_status c = s) cs) compilation_order"

abbreviation with_status :: "compilation_evidence list \<Rightarrow> compilation_status \<Rightarrow> nat" where
  "with_status cs s \<equiv> count_list (map ce_comp_status cs) s"

lemma seen_set: "set (seen_statuses cs) = set (map ce_comp_status cs)"
proof -
  have "s \<in> set compilation_order" for s by (cases s) (simp_all add: compilation_order_def)
  then show ?thesis by (auto simp: seen_statuses_def list_ex_iff)
qed

lemma seen_distinct: "distinct (seen_statuses cs)"
  unfolding seen_statuses_def by (rule distinct_filter) (simp add: compilation_order_def)

lemma counts_seen: "compilation_counts cs = map (\<lambda>s. (s, with_status cs s)) (seen_statuses cs)"
  by (auto simp: compilation_counts_def seen_statuses_def count_list_eq_length_filter filter_map comp_def eq_commute)

lemma counts_parts:
  "dict_keys (compilation_counts cs) = seen_statuses cs"
  "dict_values (compilation_counts cs) = map (with_status cs) (seen_statuses cs)"
  "dict_get_default (compilation_counts cs) s 0 = with_status cs s"
proof -
  show "dict_keys (compilation_counts cs) = seen_statuses cs"
    and "dict_values (compilation_counts cs) = map (with_status cs) (seen_statuses cs)"
    by (simp_all add: counts_seen comp_def)
  show "dict_get_default (compilation_counts cs) s 0 = with_status cs s"
    using count_notin [of s "map ce_comp_status cs"] seen_set [of cs]
    by (simp add: counts_seen dict_get_default_def map_of_map_restrict restrict_map_def)
qed

lemma counts_ordered:
  "dict_keys (compilation_counts cs) = filter (\<lambda>s. s \<in> set (dict_keys (compilation_counts cs))) compilation_order"
  unfolding counts_parts(1) by (simp add: seen_set) (auto simp: seen_statuses_def list_ex_iff image_iff intro!: filter_cong)

lemma counts_positive: "list_all (\<lambda>n. 0 < n) (dict_values (compilation_counts cs))"
  unfolding counts_parts(2) list_all_iff set_map using seen_set [of cs] count_list_0_iff [of "map ce_comp_status cs"]
  by auto

lemma counts_sum: "sum_list (dict_values (compilation_counts cs)) = length cs"
proof -
  have "sum_list (map (with_status cs) (seen_statuses cs)) = (\<Sum>s\<in>set (map ce_comp_status cs). with_status cs s)"
    using seen_distinct [of cs] by (simp add: sum_list_distinct_conv_sum_set seen_set)
  then show ?thesis
    unfolding counts_parts(2) using sum_count_set [of "map ce_comp_status cs" "set (map ce_comp_status cs)"] by simp
qed

lemma qualified_success: "length (filter qualifies cs) \<le> dict_get_default (compilation_counts cs) CompSuccess 0"
  unfolding counts_parts(3) by (induction cs) (auto simp: qualifies_def)

lemma all_qualified: "length (filter qualifies cs) = length cs \<longleftrightarrow> (\<forall>c\<in>set cs. qualifies c)"
  by (metis filter_id_conv length_filter_less nat_less_le)

lemma counts_Nil [simp]: "compilation_counts cs = [] \<longleftrightarrow> cs = []"
  using counts_parts(1) [of cs] seen_set [of cs] by (metis list.map_disc_iff set_empty)

lemma bad_counts: "bad_compilation (compilation_counts cs) \<longleftrightarrow> (\<exists>c\<in>set cs. ce_comp_status c \<in> {CompFailed, CompTimedOut})"
  unfolding bad_compilation_def counts_parts(1) list_ex_iff seen_set by auto

section \<open>The status and the limitations\<close>

lemma evidence_fields [simp]:
  fixes i :: "('r, 'u) floor_inputs"
  defines "cs \<equiv> if fin_solidity i then fin_compilations i else []"
    and "required \<equiv> fin_model_review i \<and> \<not> fin_scanner_only i"
  shows
    "fl_source_files (floor_evidence q c i) = length (filter (is_applicable_source_file (fin_solidity i)) (fin_files i))"
    "fl_source_succeeded (floor_evidence q c i) \<longleftrightarrow> list_ex (is_applicable_source_file (fin_solidity i)) (fin_files i)"
    "fl_solidity (floor_evidence q c i) = fin_solidity i"
    "fl_compilations (floor_evidence q c i) = compilation_counts cs"
    "fl_qualifying_compilations (floor_evidence q c i) = length (filter qualifies cs)"
    "fl_compilation_satisfied (floor_evidence q c i) \<longleftrightarrow>
       \<not> fin_solidity i \<or> (fin_compilations i \<noteq> [] \<and> (\<forall>c\<in>set (fin_compilations i). qualifies c))"
    "fl_static (floor_evidence q c i) = fin_static i"
    "fl_static_scanners (floor_evidence q c i) = sorted_set (map fst (filter (\<lambda>(s, r). fin_static i
       \<and> s \<in> set (canonicalize_runtime_messages (fin_static_names i)) \<and> q r) (fin_scanner_runs i)))"
    "fl_static_satisfied (floor_evidence q c i) \<longleftrightarrow> \<not> fin_static i \<or> fl_static_scanners (floor_evidence q c i) \<noteq> []"
    "fl_model_required (floor_evidence q c i) = required"
    "fl_scanner_only (floor_evidence q c i) = fin_scanner_only i"
    "fl_downgrade (floor_evidence q c i) = map_option strip_spaces (fin_downgrade i)"
    "fl_required_roles (floor_evidence q c i) = canonicalize_runtime_messages (fin_required_roles i)"
    "fl_completed_roles (floor_evidence q c i) = sorted_set (map fst (filter (\<lambda>(_, u). c u) (fin_usage i)))"
    "fl_model_satisfied (floor_evidence q c i) \<longleftrightarrow> \<not> required \<or> (fl_required_roles (floor_evidence q c i) \<noteq> []
       \<and> set (fl_required_roles (floor_evidence q c i)) \<subseteq> set (fl_completed_roles (floor_evidence q c i)))"
    "fl_metric_ids (floor_evidence q c i) = sort (dict_keys (fin_coverage i))"
    "fl_denominators_valid (floor_evidence q c i) = coverage_valid (fin_coverage i)"
    "fl_surface_feasible (floor_evidence q c i) = fin_surface_feasible i"
    "fl_failures (floor_evidence q c i) = canonicalize_runtime_messages (fin_failures i)"
    unfolding assms
  by (simp_all add: floor_evidence_def Let_def all_qualified list_ex_iff filter_empty_conv) blast

lemma status_update [simp]:
  fixes f :: analysis_floor
  defines "g \<equiv> \<lambda>s b ls. f\<lparr>fl_run_status := s, fl_minimum_met := b, fl_limitations := ls\<rparr>"
  shows "floor_status (g s b ls) = floor_status f"
proof -
  have "real_analysis (g s b ls) = real_analysis f" by (simp add: real_analysis_def g_def)
  then have "hard_failure (g s b ls) = hard_failure f" "complete_floor (g s b ls) = complete_floor f"
    "degraded_floor (g s b ls) = degraded_floor f"
    by (simp_all only: hard_failure_def complete_floor_def degraded_floor_def) (simp_all add: g_def)
  then show ?thesis by (simp add: floor_status_def)
qed

lemma limitations_Nil:
  "fl_denominators_valid f \<longrightarrow> fl_metric_ids f \<noteq> [] \<Longrightarrow> floor_limitations i f = [] \<longleftrightarrow> complete_floor f"
  by (cases "fl_downgrade f") (auto simp: floor_limitations_def complete_floor_def with_details_def)

lemma evidence_metrics: "fl_denominators_valid (floor_evidence q c i) \<longrightarrow> fl_metric_ids (floor_evidence q c i) \<noteq> []"
  by (simp add: coverage_valid_def) (metis list.map_disc_iff set_empty set_sort)

lemma complete_not_hard:
  assumes "complete_floor (floor_evidence q c i)"
  shows "\<not> hard_failure (floor_evidence q c i)"
proof -
  have "\<not> bad_compilation (fl_compilations (floor_evidence q c i))"
    using assms by (auto simp: complete_floor_def bad_counts qualifies_def)
  then show ?thesis using assms by (simp add: complete_floor_def hard_failure_def)
qed

lemma status_complete:
  "floor_status (floor_evidence q c i) = RunComplete \<longleftrightarrow> complete_floor (floor_evidence q c i)"
  using complete_not_hard [of q c i] by (simp add: floor_status_def)

section \<open>Printable text\<close>

lemma printable_text_iff:
  "printable_text v \<longleftrightarrow> v \<noteq> [] \<and> \<not> is_space (hd v) \<and> \<not> is_space (last v) \<and> \<not> list_ex is_unprintable v"
proof -
  have "\<not> is_space (hd v) \<and> \<not> is_space (last v)" if v: "v = strip_spaces v" "v \<noteq> []"
  proof
    let ?d = "dropWhile is_space v"
    have "length v \<le> length ?d"
      using arg_cong [OF v(1), of length] length_dropWhile_le [of is_space "rev ?d"] by (simp add: strip_spaces_def)
    then have "?d = v" using length_dropWhile_le [of is_space v] dropWhile_eq_drop [of is_space v]
      by (metis diff_is_0_eq' drop_0 length_drop takeWhile_dropWhile_id append_self_conv2 length_0_conv length_append add_cancel_left_left le_antisym)
    then show "\<not> is_space (hd v)" using v(2) hd_dropWhile [of is_space v] by auto
    have "hd (rev v) = hd (dropWhile is_space (rev ?d))"
      using arg_cong [OF v(1), of rev] by (simp add: strip_spaces_def)
    then show "\<not> is_space (last v)"
      using v hd_dropWhile [of is_space "rev ?d"] by (metis hd_rev rev.simps(1) strip_spaces_def)
  qed
  then show ?thesis by (auto simp: printable_text_def strip_spaces_id)
qed

definition starts_text :: "string \<Rightarrow> bool" where
  "starts_text p \<longleftrightarrow> p \<noteq> [] \<and> \<not> is_space (hd p) \<and> \<not> list_ex is_unprintable p"

lemma printable_append: "starts_text p \<Longrightarrow> printable_text x \<Longrightarrow> printable_text (p @ x)"
  by (auto simp: printable_text_iff starts_text_def)

lemma printable_join:
  "ds \<noteq> [] \<Longrightarrow> list_all printable_text ds \<Longrightarrow> printable_text (join '', '' ds)"
proof (induction "'', ''" ds rule: join.induct)
  case (3 x y ys)
  then have "starts_text (x @ '', '')" "printable_text (join '', '' (y # ys))"
    by (auto simp: starts_text_def printable_text_iff is_unprintable_def code_def)
  then show ?case using printable_append [of "x @ '', ''"] by simp
qed simp_all

lemma printable_details:
  assumes "printable_text m" "list_all printable_text ds"
  shows "printable_text (with_details m ds)"
proof (cases "ds = []")
  case False
  have "starts_text (m @ '': '')"
    using assms(1) by (auto simp: starts_text_def printable_text_iff is_unprintable_def code_def)
  then show ?thesis
    using printable_append [OF _ printable_join [OF False assms(2)], of "m @ '': ''"] False
    by (simp add: with_details_def)
qed (simp add: with_details_def assms)

lemma limitation_texts:
  "printable_text ''no qualifying real scanner or real model analysis completed''"
  "printable_text ''source ingestion did not retain an applicable source file''"
  "printable_text ''Solidity compilation failed or timed out''"
  "printable_text ''Solidity compilation did not produce AST-backed contracts''"
  "printable_text ''no qualifying REAL applicable static analyzer completed''"
  "printable_text ''required REAL model roles did not complete''"
  "printable_text ''coverage denominators are missing or invalid''"
  "printable_text ''required surface analysis is infeasible''"
  "printable_text ''scanner-only analysis lacks an explicit downgrade authorization''"
  "starts_text ''orchestration failure: ''" "starts_text ''explicit downgrade: ''"
  by code_simp+

lemma limitations_printable:
  assumes "list_all printable_text (fl_required_roles f)" "list_all printable_text (fl_failures f)"
    and "case fl_downgrade f of None \<Rightarrow> True | Some r \<Rightarrow> printable_text r"
  shows "list_all printable_text (floor_limitations i f)"
proof -
  have m: "list_all printable_text (sorted_set (filter P (fl_required_roles f)))" for P
    using assms(1) by (auto simp: list_all_iff)
  have o: "list_all printable_text (map ((@) ''orchestration failure: '') (fl_failures f))"
    using assms(2) printable_append [OF limitation_texts(10)] by (simp add: list_all_iff)
  show ?thesis
    using assms(3) printable_append [OF limitation_texts(11)]
    unfolding floor_limitations_def list_all_append
    by (simp add: limitation_texts(1-9) printable_details m o canonical_printable split: option.splits)
qed

lemma limitations_length: "length (floor_limitations i f) \<le> 8 + length (fl_failures f)"
  by (simp add: floor_limitations_def split: option.split)

section \<open>The assessment succeeds\<close>

definition assessed :: "('r \<Rightarrow> bool) \<Rightarrow> ('u \<Rightarrow> bool) \<Rightarrow> ('r, 'u) floor_inputs \<Rightarrow> analysis_floor" where
  "assessed q c i =
     (let f = floor_evidence q c i
      in f\<lparr>fl_run_status := floor_status f, fl_minimum_met := (floor_status f = RunComplete),
           fl_limitations := sorted_set (floor_limitations i f)\<rparr>)"

lemma validate_Inr: "validate_floor f = Inr g \<Longrightarrow> g = f"
  by (auto simp: validate_floor_def result_simps Let_def)

lemma assess_Inr:
  "assess_minimum_analysis_floor q c i = Inr f \<Longrightarrow> f = assessed q c i"
  using validate_Inr by (auto simp: assess_minimum_analysis_floor_def assessed_def Let_def)

lemma canonical_list_ok: "sorted xs \<Longrightarrow> distinct xs \<Longrightarrow> list_all printable_text xs \<Longrightarrow> canonical_list l xs = Inr ()"
  by (simp add: canonical_list_def sorted_set_id)


lemma names_bound: "set xs \<subseteq> set ys \<Longrightarrow> length (sorted_set xs) \<le> length ys"
  by (metis card_length card_mono distinct_card finite_set order.trans sorted_set_facts(1,3))

lemma assessed_fields [simp]:
  "fl_run_status (assessed q c i) = floor_status (floor_evidence q c i)"
  "fl_minimum_met (assessed q c i) = (floor_status (floor_evidence q c i) = RunComplete)"
  "fl_limitations (assessed q c i) = sorted_set (floor_limitations i (floor_evidence q c i))"
  "floor_status (assessed q c i) = floor_status (floor_evidence q c i)"
  "fl_static_scanners (assessed q c i) = fl_static_scanners (floor_evidence q c i)"
  "fl_downgrade (assessed q c i) = fl_downgrade (floor_evidence q c i)"
  "fl_required_roles (assessed q c i) = fl_required_roles (floor_evidence q c i)"
  "fl_completed_roles (assessed q c i) = fl_completed_roles (floor_evidence q c i)"
  "fl_metric_ids (assessed q c i) = fl_metric_ids (floor_evidence q c i)"
  "fl_failures (assessed q c i) = fl_failures (floor_evidence q c i)"
  "fl_compilations (assessed q c i) = fl_compilations (floor_evidence q c i)"
  "fl_qualifying_compilations (assessed q c i) = fl_qualifying_compilations (floor_evidence q c i)"
  "fl_compilation_satisfied (assessed q c i) = fl_compilation_satisfied (floor_evidence q c i)"
  "fl_solidity (assessed q c i) = fl_solidity (floor_evidence q c i)"
  "fl_source_files (assessed q c i) = fl_source_files (floor_evidence q c i)"
  "fl_source_succeeded (assessed q c i) = fl_source_succeeded (floor_evidence q c i)"
  "fl_static (assessed q c i) = fl_static (floor_evidence q c i)"
  "fl_static_satisfied (assessed q c i) = fl_static_satisfied (floor_evidence q c i)"
  "fl_model_required (assessed q c i) = fl_model_required (floor_evidence q c i)"
  "fl_model_satisfied (assessed q c i) = fl_model_satisfied (floor_evidence q c i)"
  "fl_scanner_only (assessed q c i) = fl_scanner_only (floor_evidence q c i)"
  by (simp_all add: assessed_def Let_def)

lemma limitations_status:
  "fl_limitations (assessed q c i) = [] \<longleftrightarrow> fl_run_status (assessed q c i) = RunComplete"
  by (simp add: limitations_Nil [OF evidence_metrics] status_complete)

lemma assessed_lengths:
  assumes "length (canonicalize_runtime_messages (fin_static_names i)) \<le> 100"
    and "length (canonicalize_runtime_messages (fin_required_roles i)) \<le> 1000"
    and "length (fl_completed_roles (floor_evidence q c i)) \<le> 1000"
    and "length (fin_coverage i) \<le> 1000"
    and "length (canonicalize_runtime_messages (fin_failures i)) \<le> 92"
    and "case fin_downgrade i of None \<Rightarrow> True | Some r \<Rightarrow> length (strip_spaces r) \<le> 2000"
  shows "lengths_ok (assessed q c i)"
proof -
  have "length (fl_static_scanners (floor_evidence q c i)) \<le> length (canonicalize_runtime_messages (fin_static_names i))"
    unfolding evidence_fields by (rule names_bound) auto
  then have "length (fl_static_scanners (floor_evidence q c i)) \<le> 100" using assms(1) by simp
  moreover have "length (fl_limitations (assessed q c i)) \<le> 100"
    using assms(5) limitations_length [of i "floor_evidence q c i"]
    by (auto intro: order.trans [OF sorted_set_facts(4)])
  ultimately show ?thesis
    using assms unfolding lengths_ok_def assessed_fields by (simp split: option.splits)
qed

lemma validate_floor_ok:
  assumes "lengths_ok f" and "case fl_downgrade f of None \<Rightarrow> True | Some r \<Rightarrow> printable_text r"
    and "\<And>x. canonical_list x (fl_static_scanners f) = Inr ()" "\<And>x. canonical_list x (fl_required_roles f) = Inr ()"
      "\<And>x. canonical_list x (fl_completed_roles f) = Inr ()" "\<And>x. canonical_list x (fl_metric_ids f) = Inr ()"
      "\<And>x. canonical_list x (fl_failures f) = Inr ()" "\<And>x. canonical_list x (fl_limitations f) = Inr ()"
    and "dict_keys (fl_compilations f) = filter (\<lambda>s. s \<in> set (dict_keys (fl_compilations f))) compilation_order"
      "list_all (\<lambda>n. 0 < n) (dict_values (fl_compilations f))"
      "fl_qualifying_compilations f \<le> dict_get_default (fl_compilations f) CompSuccess 0"
      "fl_compilation_satisfied f = (\<not> fl_solidity f \<or> (0 < sum_list (dict_values (fl_compilations f))
        \<and> fl_qualifying_compilations f = sum_list (dict_values (fl_compilations f))))"
      "fl_solidity f \<or> (fl_compilations f = [] \<and> fl_qualifying_compilations f = 0)"
    and "fl_source_succeeded f = (0 < fl_source_files f)"
      "fl_static_satisfied f = (\<not> fl_static f \<or> fl_static_scanners f \<noteq> [])"
      "fl_static f \<or> fl_static_scanners f = []" "\<not> (fl_scanner_only f \<and> fl_model_required f)"
      "fl_model_satisfied f = (\<not> fl_model_required f \<or> (fl_required_roles f \<noteq> []
        \<and> set (fl_required_roles f) \<subseteq> set (fl_completed_roles f)))"
    and "fl_run_status f = floor_status f" "fl_minimum_met f = (floor_status f = RunComplete)"
      "(floor_status f = RunComplete) = (fl_limitations f = [])"
  shows "validate_floor f = Inr f"
  unfolding validate_floor_def Let_def assms(3-8) rbind_Inr
  using assms(1,2,9-) by (simp only: require_True rbind_Inr simp_thms)

lemma assess_succeeds:
  assumes "lengths_ok (assessed q c i)" "list_all printable_text (fl_completed_roles (floor_evidence q c i))"
    and "distinct (dict_keys (fin_coverage i))" "list_all printable_text (dict_keys (fin_coverage i))"
    and "case fin_downgrade i of None \<Rightarrow> True | Some r \<Rightarrow> printable_text (strip_spaces r)"
  shows "assess_minimum_analysis_floor q c i = Inr (assessed q c i)"
proof -
  let ?f = "floor_evidence q c i" and ?g = "assessed q c i"
  let ?cs = "if fin_solidity i then fin_compilations i else []"
  have d: "case fl_downgrade ?f of None \<Rightarrow> True | Some r \<Rightarrow> printable_text r"
    using assms(5) by (simp split: option.splits)
  have s: "list_all printable_text (fl_static_scanners ?f)"
    using canonical_printable [of "fin_static_names i"] by (auto simp: list_all_iff)
  have r: "list_all printable_text (fl_required_roles ?f)" "list_all printable_text (fl_failures ?f)"
    by (simp_all add: canonical_printable)
  have m: "sorted (fl_metric_ids ?f)" "distinct (fl_metric_ids ?f)" "list_all printable_text (fl_metric_ids ?f)"
    using assms(3,4) by (simp_all add: list_all_iff)
  have l: "canonical_list x (fl_static_scanners ?g) = Inr ()" "canonical_list x (fl_required_roles ?g) = Inr ()"
    "canonical_list x (fl_completed_roles ?g) = Inr ()" "canonical_list x (fl_metric_ids ?g) = Inr ()"
    "canonical_list x (fl_failures ?g) = Inr ()" "canonical_list x (fl_limitations ?g) = Inr ()" for x
    using s r m assms(2) limitations_printable [OF r d, of i]
    by (auto intro!: canonical_list_ok simp: list_all_iff)
  have n: "fl_compilation_satisfied ?g = (\<not> fl_solidity ?g \<or> (0 < sum_list (dict_values (fl_compilations ?g))
      \<and> fl_qualifying_compilations ?g = sum_list (dict_values (fl_compilations ?g))))"
    unfolding assessed_fields evidence_fields counts_sum by (auto simp: all_qualified)
  have k: "fl_qualifying_compilations ?g \<le> dict_get_default (fl_compilations ?g) CompSuccess 0"
    unfolding assessed_fields evidence_fields by (rule qualified_success)
  have o: "dict_keys (fl_compilations ?g) = filter (\<lambda>s. s \<in> set (dict_keys (fl_compilations ?g))) compilation_order"
    "list_all (\<lambda>n. 0 < n) (dict_values (fl_compilations ?g))"
    unfolding assessed_fields evidence_fields by (rule counts_ordered counts_positive)+
  have e: "fl_source_succeeded ?g = (0 < fl_source_files ?g)"
    "fl_solidity ?g \<or> (fl_compilations ?g = [] \<and> fl_qualifying_compilations ?g = 0)"
    "fl_static_satisfied ?g = (\<not> fl_static ?g \<or> fl_static_scanners ?g \<noteq> [])"
    "fl_static ?g \<or> fl_static_scanners ?g = []" "\<not> (fl_scanner_only ?g \<and> fl_model_required ?g)"
    "fl_model_satisfied ?g = (\<not> fl_model_required ?g \<or> (fl_required_roles ?g \<noteq> []
       \<and> set (fl_required_roles ?g) \<subseteq> set (fl_completed_roles ?g)))"
    by (auto simp: list_ex_iff filter_empty_conv)
  have z: "case fl_downgrade ?g of None \<Rightarrow> True | Some r \<Rightarrow> printable_text r"
    "fl_run_status ?g = floor_status ?g" "fl_minimum_met ?g = (floor_status ?g = RunComplete)"
    "(floor_status ?g = RunComplete) = (fl_limitations ?g = [])"
    using d limitations_status [of q c i] unfolding assessed_fields by blast+
  have "validate_floor ?g = Inr ?g"
    by (rule validate_floor_ok [OF assms(1) z(1) l o k n e(2,1,3-6) z(2-4)])
  then show ?thesis by (simp add: assess_minimum_analysis_floor_def assessed_def Let_def)
qed

lemma assess_validates: "assess_minimum_analysis_floor q c i = Inr f \<Longrightarrow> validate_floor f = Inr f"
  using validate_Inr by (auto simp: assess_minimum_analysis_floor_def Let_def)

definition floor_evidence_present :: "('r \<Rightarrow> bool) \<Rightarrow> ('u \<Rightarrow> bool) \<Rightarrow> ('r, 'u) floor_inputs \<Rightarrow> bool" where
  "floor_evidence_present q c i \<longleftrightarrow>
     (\<exists>file\<in>set (fin_files i). is_applicable_source_file (fin_solidity i) file)
     \<and> (fin_solidity i \<longrightarrow> fin_compilations i \<noteq> [] \<and> (\<forall>k\<in>set (fin_compilations i). qualifies k))
     \<and> (fin_static i \<longrightarrow> (\<exists>(s, r)\<in>set (fin_scanner_runs i).
          s \<in> set (canonicalize_runtime_messages (fin_static_names i)) \<and> q r))
     \<and> (fin_model_review i \<longrightarrow> canonicalize_runtime_messages (fin_required_roles i) \<noteq> []
          \<and> (\<forall>role\<in>set (canonicalize_runtime_messages (fin_required_roles i)).
               \<exists>u. (role, u) \<in> set (fin_usage i) \<and> c u))
     \<and> (fin_static i \<or> (\<exists>(role, u)\<in>set (fin_usage i). c u))
     \<and> coverage_valid (fin_coverage i) \<and> fin_surface_feasible i
     \<and> canonicalize_runtime_messages (fin_failures i) = [] \<and> \<not> fin_scanner_only i \<and> fin_downgrade i = None"

lemma completed_iff: "role \<in> set (fl_completed_roles (floor_evidence q c i)) \<longleftrightarrow> (\<exists>u. (role, u) \<in> set (fin_usage i) \<and> c u)"
  by (auto simp: image_iff)

lemma scanners_iff: "fl_static_scanners (floor_evidence q c i) \<noteq> [] \<longleftrightarrow>
    fin_static i \<and> (\<exists>(s, r)\<in>set (fin_scanner_runs i). s \<in> set (canonicalize_runtime_messages (fin_static_names i)) \<and> q r)"
  by (auto simp: filter_empty_conv)

lemma completed_Nil: "fl_completed_roles (floor_evidence q c i) \<noteq> [] \<longleftrightarrow> (\<exists>(role, u)\<in>set (fin_usage i). c u)"
  by (auto simp: filter_empty_conv)

lemma complete_evidence: "complete_floor (floor_evidence q c i) \<longleftrightarrow> floor_evidence_present q c i"
proof -
  have m: "fl_model_satisfied (floor_evidence q c i) \<longleftrightarrow> \<not> (fin_model_review i \<and> \<not> fin_scanner_only i)
      \<or> (canonicalize_runtime_messages (fin_required_roles i) \<noteq> []
        \<and> (\<forall>role\<in>set (canonicalize_runtime_messages (fin_required_roles i)). \<exists>u. (role, u) \<in> set (fin_usage i) \<and> c u))"
    unfolding evidence_fields(15) subset_iff completed_iff evidence_fields(13) by blast
  show ?thesis
    unfolding complete_floor_def real_analysis_def floor_evidence_present_def m
      evidence_fields(2,6,9,11,12,17-19) scanners_iff completed_Nil list_ex_iff option.map_disc_iff
    using evidence_metrics [of q c i] by auto
qed

end
