(* ===== verification/Run_Theorems.thy ===== *)
theory Run_Theorems
  imports Run_Facts
begin

text \<open>
  What the terminal status of an audit promises: the assessment returns for every bounded evidence,
  a run is complete exactly when every part of the minimum floor has qualifying evidence, and its
  messages are canonical.
\<close>

section \<open>Concrete runs\<close>

definition demo_floor_inputs :: "(bool, bool) floor_inputs" where
  "demo_floor_inputs =
     \<lparr>fin_files = [(''src/Vault.sol'', ''Solidity'')],
      fin_compilations = [\<lparr>ce_comp_status = CompSuccess, ce_ast_available = True, ce_contracts_compiled = [''Vault'']\<rparr>],
      fin_scanner_runs = [(''slither'', True)], fin_usage = [(''source_audit'', True)],
      fin_required_roles = [''source_audit''],
      fin_coverage = [(''files'', \<lparr>cm_denominator = 1, cm_not_applicable_evidence = [], cm_failures = []\<rparr>)],
      fin_solidity = True, fin_static = True, fin_static_names = [''codeql'', ''semgrep'', ''slither''],
      fin_model_review = True, fin_scanner_only = False, fin_downgrade = None,
      fin_surface_feasible = True, fin_surface_reasons = [], fin_failures = []\<rparr>"

lemma demo_floor_messages:
  "canonicalize_runtime_messages [] = []"
  "canonicalize_runtime_messages [''source_audit''] = [''source_audit'']"
  "canonicalize_runtime_messages [''codeql'', ''semgrep'', ''slither''] = [''codeql'', ''semgrep'', ''slither'']"
  by code_simp+

lemma demo_floor_bounds:
  "printable_text ''source_audit''" "printable_text ''files''"
  by code_simp+

definition failure_name :: "nat \<Rightarrow> string" where
  "failure_name n = replicate (Suc n) (CHR ''x'')"

lemma failure_names:
  "length (canonicalize_runtime_messages (map failure_name [0..<101])) = 101"
proof -
  have "bounded_message (failure_name n) = failure_name n" if "n < 101" for n
  proof (rule bounded_tidy)
    have x: "\<not> is_space (CHR ''x'')" "\<not> is_unprintable (CHR ''x'')"
      by (simp_all add: is_space_def is_unprintable_def code_def)
    have "single_spaced b (replicate k (CHR ''x''))" for b k
      using x by (induction k arbitrary: b) simp_all
    then show "tidy (failure_name n)" unfolding tidy_def failure_name_def using x by (simp del: replicate_Suc)
    show "length (failure_name n) \<le> 2000" using that by (simp add: failure_name_def)
  qed
  then have "set (canonicalize_runtime_messages (map failure_name [0..<101])) = failure_name ` {0..<101}"
    unfolding canonical_set set_map set_upt image_image by (auto simp: failure_name_def)
  moreover have "inj_on failure_name {0..<101}"
    by (rule inj_onI) (metis failure_name_def length_replicate nat.inject)
  ultimately show ?thesis
    by (metis canonical_sorted(2) card_atLeastLessThan card_image diff_zero distinct_card)
qed

section \<open>Properties\<close>

text \<open>
  C25: The assessment returns. When the names of coverage metrics are distinct printable texts, the
  roles of the creditable usage records are printable, an explicit downgrade reason is printable, and
  the lists are within the limits of the schema (at most 92 orchestration failures, so that with the
  other eight limitations there are at most 100), \<open>assess_minimum_analysis_floor\<close> returns evidence,
  and the evidence it returns passes the validator of \<open>MinimumAnalysisFloor\<close> again when it is read back.
\<close>

theorem assessment_returns:
  assumes "length (canonicalize_runtime_messages (fin_static_names i)) \<le> 100"
    and "length (canonicalize_runtime_messages (fin_required_roles i)) \<le> 1000"
    and "length (fin_usage i) \<le> 1000" "list_all (\<lambda>(role, u). creditable u \<longrightarrow> printable_text role) (fin_usage i)"
    and "length (fin_coverage i) \<le> 1000" "distinct (dict_keys (fin_coverage i))"
    and "list_all printable_text (dict_keys (fin_coverage i))"
    and "length (canonicalize_runtime_messages (fin_failures i)) \<le> 92"
    and "case fin_downgrade i of None \<Rightarrow> True
      | Some r \<Rightarrow> printable_text (strip_spaces r) \<and> length (strip_spaces r) \<le> 2000"
  shows "\<exists>f. assess_minimum_analysis_floor qualifying creditable i = Inr f \<and> validate_floor f = Inr f"
proof -
  let ?f = "floor_evidence qualifying creditable i"
  have "length (fl_completed_roles ?f) \<le> 1000"
    using assms(3) by (auto intro!: order.trans [OF sorted_set_facts(4)] order.trans [OF length_filter_le])
  moreover have "case fin_downgrade i of None \<Rightarrow> True | Some r \<Rightarrow> length (strip_spaces r) \<le> 2000"
    "case fin_downgrade i of None \<Rightarrow> True | Some r \<Rightarrow> printable_text (strip_spaces r)"
    using assms(9) by (auto split: option.splits)
  moreover have "list_all printable_text (fl_completed_roles ?f)"
    using assms(4) by (auto simp: list_all_iff)
  ultimately have "assess_minimum_analysis_floor qualifying creditable i = Inr (assessed qualifying creditable i)"
    using assms by (intro assess_succeeds assessed_lengths)
  then show ?thesis using assess_validates by blast
qed

theorem assessment_returns_witness:
  "\<exists>f. assess_minimum_analysis_floor id id demo_floor_inputs = Inr f \<and> validate_floor f = Inr f"
  by (rule assessment_returns) (simp_all add: demo_floor_inputs_def demo_floor_messages demo_floor_bounds)

text \<open>
  C24: A run is complete only on evidence. When the assessment returns, the status is
  \<open>COMPLETE\<close> exactly when an applicable source file was read, every compilation succeeded with an AST
  and contracts (and there is one, when Solidity applies), a qualifying run of an applicable scanner
  exists (when static analysis applies), every required role has a creditable usage record and there
  is a required role (when models review), some real analysis happened at all, the coverage
  denominators are valid, the surface is feasible, nothing failed, and nothing was downgraded. This is
  also exactly when there are no limitations, when the quality gate passes, and when the legacy quality
  status is \<open>COMPLETED\<close>.
\<close>

theorem complete_iff_evidence:
  assumes "assess_minimum_analysis_floor qualifying creditable i = Inr f"
  shows "(fl_run_status f = RunComplete \<longleftrightarrow> floor_evidence_present qualifying creditable i)
    \<and> (fl_run_status f = RunComplete \<longleftrightarrow> fl_limitations f = [])
    \<and> (fl_run_status f = RunComplete \<longleftrightarrow> qg_passed (minimum_analysis_floor_quality_gate f))
    \<and> (fl_run_status f = RunComplete \<longleftrightarrow> quality_status_for_run_status (fl_run_status f) = QualityCompleted)"
proof (intro conjI)
  note f = assess_Inr [OF assms]
  show "fl_run_status f = RunComplete \<longleftrightarrow> floor_evidence_present qualifying creditable i"
    unfolding f assessed_fields status_complete complete_evidence ..
  show "fl_run_status f = RunComplete \<longleftrightarrow> fl_limitations f = []" unfolding f limitations_status ..
  show "fl_run_status f = RunComplete \<longleftrightarrow> qg_passed (minimum_analysis_floor_quality_gate f)"
    by (simp add: minimum_analysis_floor_quality_gate_def)
  show "fl_run_status f = RunComplete \<longleftrightarrow> quality_status_for_run_status (fl_run_status f) = QualityCompleted"
    by (cases "fl_run_status f") simp_all
qed

theorem complete_iff_evidence_witness:
  "fl_run_status (assessed id id demo_floor_inputs) = RunComplete
   \<and> fl_limitations (assessed id id demo_floor_inputs) = []"
proof -
  have a: "assess_minimum_analysis_floor id id demo_floor_inputs = Inr (assessed id id demo_floor_inputs)"
    by (rule assess_succeeds [OF assessed_lengths])
      (simp_all add: demo_floor_inputs_def demo_floor_messages demo_floor_bounds sorted_set_def)
  have "floor_evidence_present id id demo_floor_inputs"
    unfolding floor_evidence_present_def demo_floor_inputs_def floor_inputs.select_convs demo_floor_messages
    by code_simp
  then show ?thesis using complete_iff_evidence [OF a] by blast
qed

text \<open>
  C26: Runtime messages are canonical. Whatever the messages, \<open>canonicalize_runtime_messages\<close> returns
  distinct messages in order, each of them non-empty single-line printable text of at most 2000
  characters without surrounding spaces; canonicalizing again changes nothing, and neither the order
  nor the repetition of the messages matters.
\<close>

theorem runtime_messages_canonical:
  "list_all (\<lambda>m. printable_text m \<and> length m \<le> 2000) (canonicalize_runtime_messages vs)
   \<and> sorted (canonicalize_runtime_messages vs) \<and> distinct (canonicalize_runtime_messages vs)
   \<and> canonicalize_runtime_messages (canonicalize_runtime_messages vs) = canonicalize_runtime_messages vs
   \<and> canonicalize_runtime_messages (sorted_set vs) = canonicalize_runtime_messages vs"
proof -
  have "canonicalize_runtime_messages (sorted_set vs) = canonicalize_runtime_messages vs"
    by (rule sorted_distinct_set_unique) (simp_all add: canonical_set)
  moreover have "list_all (\<lambda>m. printable_text m \<and> length m \<le> 2000) (canonicalize_runtime_messages vs)"
    using canonical_printable [of vs] by (auto simp: list_all_iff canonical_set tidy_bounded)
  ultimately show ?thesis by (simp add: canonical_idem)
qed

text \<open>
  Too many failures are an error, not a status. When more than 100 distinct orchestration failures
  are recorded, the assessment raises instead of returning a \<open>FAILED\<close> or \<open>INCOMPLETE\<close> status: the
  schema allows 100 failures and the assessment does not cut the list.
\<close>

theorem many_failures_raise:
  assumes "100 < length (canonicalize_runtime_messages (fin_failures i))"
  shows "\<exists>e. assess_minimum_analysis_floor qualifying creditable i = Inl e"
proof (cases "assess_minimum_analysis_floor qualifying creditable i")
  case (Inr f)
  then have "lengths_ok f" using assess_validates [OF Inr] by (auto simp: validate_floor_def result_simps Let_def)
  with assms assess_Inr [OF Inr] show ?thesis by (simp add: lengths_ok_def)
qed simp

theorem many_failures_raise_witness:
  "\<exists>e. assess_minimum_analysis_floor id id (demo_floor_inputs\<lparr>fin_failures := map failure_name [0..<101]\<rparr>) = Inl e"
  by (rule many_failures_raise) (simp add: failure_names del: upt_Suc)

end
