(* ===== verification/Py_Regex.thy ===== *)
theory Py_Regex
  imports Source_Text
begin

text \<open>
  The part of Python's \<open>re\<close> module that the secret patterns use: ordered choice, greedy and lazy
  repetition of a character class, word boundaries and one captured group. \<open>matches\<close> lists the ways
  a pattern matches at a position in the order the backtracking search tries them, each as the number
  of characters it consumes with the captured text; \<open>finditer\<close> takes the first way at the leftmost
  position and goes on behind it.
\<close>

datatype regex =
    Eps
  | Bnd
  | Lits "string list"
  | LitsI "string list"
  | Cls "char \<Rightarrow> bool"
  | Times nat "char \<Rightarrow> bool"
  | Rep nat "char \<Rightarrow> bool"
  | Lazy "char \<Rightarrow> bool"
  | Cap regex
  | Alt regex regex
  | Seq regex regex

definition word_at :: "char option \<Rightarrow> bool" where
  "word_at c \<longleftrightarrow> (case c of None \<Rightarrow> False | Some d \<Rightarrow> is_word_char d)"

definition first_char :: "string \<Rightarrow> char option" where
  "first_char s = (case s of [] \<Rightarrow> None | c # cs \<Rightarrow> Some c)"

definition prev_char :: "char option \<Rightarrow> string \<Rightarrow> nat \<Rightarrow> char option" where
  "prev_char p s n = (if n = 0 then p else Some (s ! (n - 1)))"

definition run_length :: "(char \<Rightarrow> bool) \<Rightarrow> string \<Rightarrow> nat" where
  "run_length P s = length (takeWhile P s)"

definition or_capture :: "string option \<Rightarrow> string option \<Rightarrow> string option" where
  "or_capture a b = (case b of None \<Rightarrow> a | Some v \<Rightarrow> Some v)"

fun matches :: "regex \<Rightarrow> char option \<Rightarrow> string \<Rightarrow> (nat \<times> string option) list" where
  "matches Eps p s = [(0, None)]"
| "matches Bnd p s = (if word_at p \<noteq> word_at (first_char s) then [(0, None)] else [])"
| "matches (Lits ws) p s = map (\<lambda>w. (length w, None)) (filter (\<lambda>w. starts_with w s) ws)"
| "matches (LitsI ws) p s = map (\<lambda>w. (length w, None)) (filter (\<lambda>w. starts_with w (map lower_char s)) ws)"
| "matches (Cls P) p s = (case s of [] \<Rightarrow> [] | c # cs \<Rightarrow> if P c then [(1, None)] else [])"
| "matches (Times n P) p s = (if n \<le> run_length P s then [(n, None)] else [])"
| "matches (Rep n P) p s = map (\<lambda>k. (k, None)) (rev [n..<Suc (run_length P s)])"
| "matches (Lazy P) p s = map (\<lambda>k. (k, None)) [0..<Suc (run_length P s)]"
| "matches (Cap r) p s = map (\<lambda>(n, v). (n, Some (take n s))) (matches r p s)"
| "matches (Alt a b) p s = matches a p s @ matches b p s"
| "matches (Seq a b) p s =
     concat (map (\<lambda>(n, v). map (\<lambda>(k, w). (n + k, or_capture v w)) (matches b (prev_char p s n) (drop n s)))
       (matches a p s))"

text \<open>
  \<open>finditer r p i k s\<close>: \<open>s\<close> is the text from position \<open>i\<close>, \<open>p\<close> the character before it, and the next \<open>k\<close>
  characters belong to the last match. The patterns of the program match no empty text.
\<close>

fun finditer :: "regex \<Rightarrow> char option \<Rightarrow> nat \<Rightarrow> nat \<Rightarrow> string \<Rightarrow> (nat \<times> nat \<times> string option) list" where
  "finditer r p i k [] = []"
| "finditer r p i (Suc k) (c # cs) = finditer r (Some c) (Suc i) k cs"
| "finditer r p i 0 (c # cs) =
     (case matches r p (c # cs) of
        [] \<Rightarrow> finditer r (Some c) (Suc i) 0 cs
      | (n, v) # _ \<Rightarrow> (i, i + n, v) # finditer r (Some c) (Suc i) (n - 1) cs)"

section \<open>The edges of a match\<close>

fun zero_width :: "regex \<Rightarrow> bool" where
  "zero_width Eps = True"
| "zero_width Bnd = True"
| "zero_width (Seq a b) = (zero_width a \<and> zero_width b)"
| "zero_width _ = False"

text \<open>Every match is nonempty and its first (last) character is outside \<open>B\<close>.\<close>

fun starts_outside :: "char set \<Rightarrow> regex \<Rightarrow> bool" where
  "starts_outside B (Lits ws) = (\<forall>w\<in>set ws. w \<noteq> [] \<and> hd w \<notin> B)"
| "starts_outside B (LitsI ws) = (\<forall>w\<in>set ws. w \<noteq> [] \<and> hd w \<notin> lower_char ` B)"
| "starts_outside B (Cls P) = (\<forall>c\<in>B. \<not> P c)"
| "starts_outside B (Times n P) = (0 < n \<and> (\<forall>c\<in>B. \<not> P c))"
| "starts_outside B (Rep n P) = (0 < n \<and> (\<forall>c\<in>B. \<not> P c))"
| "starts_outside B (Cap r) = starts_outside B r"
| "starts_outside B (Alt a b) = (starts_outside B a \<and> starts_outside B b)"
| "starts_outside B (Seq a b) = (if zero_width a then starts_outside B b else starts_outside B a)"
| "starts_outside B _ = False"

fun ends_outside :: "char set \<Rightarrow> regex \<Rightarrow> bool" where
  "ends_outside B (Lits ws) = (\<forall>w\<in>set ws. w \<noteq> [] \<and> last w \<notin> B)"
| "ends_outside B (LitsI ws) = (\<forall>w\<in>set ws. w \<noteq> [] \<and> last w \<notin> lower_char ` B)"
| "ends_outside B (Cls P) = (\<forall>c\<in>B. \<not> P c)"
| "ends_outside B (Times n P) = (0 < n \<and> (\<forall>c\<in>B. \<not> P c))"
| "ends_outside B (Rep n P) = (0 < n \<and> (\<forall>c\<in>B. \<not> P c))"
| "ends_outside B (Cap r) = ends_outside B r"
| "ends_outside B (Alt a b) = (ends_outside B a \<and> ends_outside B b)"
| "ends_outside B (Seq a b) = (if zero_width b then ends_outside B a else ends_outside B b)"
| "ends_outside B _ = False"

lemma starts_with_nth:
  assumes "starts_with w s" "i < length w"
  shows "i < length s" "s ! i = w ! i"
  using assms by (auto simp: starts_with_def) (metis nth_take order.strict_trans2 length_take min.cobounded1)+

lemma run_length_nth: "i < run_length P s \<Longrightarrow> i < length s \<and> P (s ! i)"
  unfolding run_length_def
  by (metis length_takeWhile_le nth_mem order.strict_trans2 set_takeWhileD takeWhile_nth)

lemma run_length_le: "run_length P s \<le> length s"
  unfolding run_length_def by (rule length_takeWhile_le)

lemma starts_with_length: "starts_with w s \<Longrightarrow> length w \<le> length s"
  unfolding starts_with_def by (metis length_take min.cobounded1)

lemma zero_width_match: "zero_width r \<Longrightarrow> (n, v) \<in> set (matches r p s) \<Longrightarrow> n = 0"
  by (induction r p s arbitrary: n v rule: matches.induct) (fastforce split: if_splits)+

lemma matches_SeqE:
  assumes "(n, v) \<in> set (matches (Seq a b) p s)"
  obtains i x k w where "(i, x) \<in> set (matches a p s)" "(k, w) \<in> set (matches b (prev_char p s i) (drop i s))" "n = i + k"
  using assms by auto

lemma match_length: "(n, v) \<in> set (matches r p s) \<Longrightarrow> n \<le> length s"
proof (induction r p s arbitrary: n v rule: matches.induct)
  case (11 a b p s)
  from 11(3) obtain i x k w where m: "(i, x) \<in> set (matches a p s)"
    "(k, w) \<in> set (matches b (prev_char p s i) (drop i s))" "n = i + k" by (rule matches_SeqE)
  then have "k \<le> length s - i" using 11(2) [OF m(1) refl, of k w] by simp
  then show ?case using 11(1) [OF m(1)] m(3) by simp
qed (auto intro: order.trans [OF _ run_length_le] order.trans [OF less_imp_le run_length_le] dest!: starts_with_length split: if_splits list.splits)

lemma class_match:
  assumes "(n, v) \<in> set (matches (Times m P) p s) \<union> set (matches (Rep m P) p s)"
  shows "m \<le> n" "i < n \<Longrightarrow> P (s ! i)"
proof -
  have "m \<le> n \<and> n \<le> run_length P s" using assms by (auto split: if_splits)
  then show "m \<le> n" "i < n \<Longrightarrow> P (s ! i)" using run_length_nth [of i P s] by auto
qed

lemma text_match:
  assumes "(n, v) \<in> set (matches (Lits ws) p s)"
  obtains w where "w \<in> set ws" "n = length w" "\<And>i. i < n \<Longrightarrow> s ! i = w ! i"
  using assms starts_with_nth(2) by fastforce

lemma text_match_lower:
  assumes "(n, v) \<in> set (matches (LitsI ws) p s)"
  obtains w where "w \<in> set ws" "n = length w" "\<And>i. i < n \<Longrightarrow> lower_char (s ! i) = w ! i"
proof -
  from assms obtain w where w: "w \<in> set ws" "n = length w" "starts_with w (map lower_char s)" by auto
  have "lower_char (s ! i) = w ! i" if "i < n" for i
    using starts_with_nth [OF w(3), of i] that w(2) by simp
  with w(1,2) show thesis by (rule that)
qed

lemma match_starts:
  "starts_outside B r \<Longrightarrow> (n, v) \<in> set (matches r p s) \<Longrightarrow> 0 < n \<and> s ! 0 \<notin> B"
proof (induction r p s arbitrary: n v rule: matches.induct)
  case (3 ws p s)
  from 3(2) obtain w where "w \<in> set ws" "n = length w" "\<And>i. i < n \<Longrightarrow> s ! i = w ! i" by (rule text_match) blast
  then show ?case using 3(1) by (fastforce simp: hd_conv_nth)
next
  case (4 ws p s)
  from 4(2) obtain w where w: "w \<in> set ws" "n = length w" "\<And>i. i < n \<Longrightarrow> lower_char (s ! i) = w ! i"
    by (rule text_match_lower) blast
  have e: "w \<noteq> []" "hd w \<notin> lower_char ` B" using 4(1) w(1) by simp_all
  then have "lower_char (s ! (0)) \<notin> lower_char ` B" using w(2) w(3) [of "0"] by (simp add: hd_conv_nth)
  then show ?case using e(1) w(2) by blast
next
  case (6 m P p s)
  then show ?case using class_match(1) [of n v m P p s] class_match(2) [of n v m P p s 0] by fastforce
next
  case (7 m P p s)
  then show ?case using class_match(1) [of n v m P p s] class_match(2) [of n v m P p s 0] by fastforce
next
  case (11 a b p s)
  from 11(4) obtain i x k w where m: "(i, x) \<in> set (matches a p s)"
    "(k, w) \<in> set (matches b (prev_char p s i) (drop i s))" "n = i + k" by (rule matches_SeqE)
  show ?case
  proof (cases "zero_width a")
    case True
    then have "i = 0" using m(1) zero_width_match by blast
    then show ?thesis using 11(2) [OF m(1) refl _ m(2)] 11(3) True m(3) by simp
  next
    case False
    then show ?thesis using 11(1) [OF _ m(1)] 11(3) m(3) by simp
  qed
qed (auto split: if_splits list.splits)

lemma match_ends:
  "ends_outside B r \<Longrightarrow> (n, v) \<in> set (matches r p s) \<Longrightarrow> 0 < n \<and> s ! (n - 1) \<notin> B"
proof (induction r p s arbitrary: n v rule: matches.induct)
  case (3 ws p s)
  from 3(2) obtain w where "w \<in> set ws" "n = length w" "\<And>i. i < n \<Longrightarrow> s ! i = w ! i" by (rule text_match) blast
  then show ?case using 3(1) by (fastforce simp: last_conv_nth)
next
  case (4 ws p s)
  from 4(2) obtain w where w: "w \<in> set ws" "n = length w" "\<And>i. i < n \<Longrightarrow> lower_char (s ! i) = w ! i"
    by (rule text_match_lower) blast
  have e: "w \<noteq> []" "last w \<notin> lower_char ` B" using 4(1) w(1) by simp_all
  then have "lower_char (s ! (n - 1)) \<notin> lower_char ` B" using w(2) w(3) [of "n - 1"] by (simp add: last_conv_nth)
  then show ?case using e(1) w(2) by blast
next
  case (6 m P p s)
  then show ?case using class_match(1) [of n v m P p s] class_match(2) [of n v m P p s "n - 1"] by fastforce
next
  case (7 m P p s)
  then show ?case using class_match(1) [of n v m P p s] class_match(2) [of n v m P p s "n - 1"] by fastforce
next
  case (11 a b p s)
  from 11(4) obtain i x k w where m: "(i, x) \<in> set (matches a p s)"
    "(k, w) \<in> set (matches b (prev_char p s i) (drop i s))" "n = i + k" by (rule matches_SeqE)
  show ?case
  proof (cases "zero_width b")
    case True
    then have "k = 0" using m(2) zero_width_match by blast
    then show ?thesis using 11(1) [OF _ m(1)] 11(3) True m(3) by simp
  next
    case False
    then have "0 < k" "drop i s ! (k - 1) \<notin> B" using 11(2) [OF m(1) refl _ m(2)] 11(3) by simp_all
    moreover have "i \<le> length s" using m(1) match_length by blast
    ultimately show ?thesis using m(3) by simp
  qed
qed (auto split: if_splits list.splits)

section \<open>The matches found\<close>

lemma finditer_bounds:
  assumes "\<And>p s n v. (n, v) \<in> set (matches r p s) \<Longrightarrow> 0 < n"
  shows "(a, b, v) \<in> set (finditer r p i k s) \<Longrightarrow> i + k \<le> a \<and> a < b \<and> b \<le> i + length s"
  using assms
proof (induction r p i k s arbitrary: a b v rule: finditer.induct)
  case (2 r p i k c cs)
  then show ?case by fastforce
next
  case (3 r p i c cs)
  show ?case
  proof (cases "matches r p (c # cs)")
    case Nil
    then show ?thesis using 3 by fastforce
  next
    case (Cons m ms)
    obtain n x where "m = (n, x)" by (cases m)
    with Cons have "0 < n" "n \<le> length (c # cs)" "matches r p (c # cs) = (n, x) # ms"
      using 3(4) [of n x p "c # cs"] match_length [of n x r p "c # cs"] by simp_all
    then show ?thesis using 3 Cons by fastforce
  qed
qed simp

lemma finditer_edges:
  assumes "starts_outside B r" "ends_outside B r"
  shows "(a, b, v) \<in> set (finditer r p i k s) \<Longrightarrow> s ! (a - i) \<notin> B \<and> s ! (b - Suc i) \<notin> B"
  using assms
proof (induction r p i k s arbitrary: a b v rule: finditer.induct)
  case (2 r p i k c cs)
  have "Suc i + k \<le> a \<and> a < b" using finditer_bounds [of r a b v "Some c" "Suc i" k cs] 2 match_starts by fastforce
  then have "a - i = Suc (a - Suc i)" "b - Suc i = Suc (b - Suc (Suc i))" by arith+
  then show ?case using 2(1) [of a b v] 2(2-4) by simp
next
  case (3 r p i c cs)
  have later: "(c # cs) ! (a - i) \<notin> B \<and> (c # cs) ! (b - Suc i) \<notin> B"
    if "(a, b, v) \<in> set (finditer r (Some c) (Suc i) k cs)" "cs ! (a - Suc i) \<notin> B \<and> cs ! (b - Suc (Suc i)) \<notin> B" for k
  proof -
    have "Suc i + k \<le> a \<and> a < b" using finditer_bounds [of r a b v "Some c" "Suc i" k cs] that(1) 3(4) match_starts by fastforce
    then have "a - i = Suc (a - Suc i)" "b - Suc i = Suc (b - Suc (Suc i))" by arith+
    then show ?thesis using that(2) by simp
  qed
  show ?case
  proof (cases "matches r p (c # cs)")
    case Nil
    then show ?thesis using 3(1) [OF Nil, of a b v] 3(3-5) later by simp
  next
    case (Cons m ms)
    obtain n x where m: "m = (n, x)" by (cases m)
    then have h: "(n, x) \<in> set (matches r p (c # cs))" using Cons by simp
    show ?thesis
    proof (cases "(a, b, v) = (i, i + n, x)")
      case True
      then show ?thesis using match_starts [OF 3(4) h] match_ends [OF 3(5) h] by simp
    next
      case False
      then show ?thesis using 3(2) [OF Cons m [symmetric], of a b v] 3(3-5) Cons m later by auto
    qed
  qed
qed simp

end
