(* ===== verification/Redaction.thy ===== *)
theory Redaction
  imports Py_Regex Py_Float Py_Json
begin

text \<open>
  \<open>repository/redaction.py\<close>: the secret patterns, their detection, and the replacement of what they
  match before source text leaves the machine. SHA-256 and \<open>math.log2\<close> are arguments.
\<close>

section \<open>Patterns\<close>

datatype confidence = HighConfidence | LowConfidence

record secret_match =
  sm_kind :: string
  sm_start :: nat
  sm_end :: nat
  sm_confidence :: confidence
  sm_fingerprint :: string

definition seqs :: "regex list \<Rightarrow> regex" where
  "seqs rs = foldr Seq rs Eps"

definition token_char :: "string \<Rightarrow> char \<Rightarrow> bool" where
  "token_char extra c \<longleftrightarrow> is_digit c \<or> is_upper c \<or> is_lower c \<or> c \<in> set extra"

definition upper_token_char :: "char \<Rightarrow> bool" where
  "upper_token_char c \<longleftrightarrow> is_digit c \<or> is_upper c"

definition key_labels :: "string list" where
  "key_labels = [''RSA '', ''EC '', ''OPENSSH '', ''DSA '', []]"

definition credential_names :: "string list" where
  "credential_names = [''api_key'', ''api-key'', ''apikey'', ''access_token'', ''access-token'', ''accesstoken'',
     ''secret'', ''password'', ''passwd'']"

definition assigned :: "regex \<Rightarrow> regex" where
  "assigned value = seqs [Bnd, LitsI credential_names, Bnd, Rep 0 is_space, Cls (\<lambda>c. c \<in> set '':=''), Rep 0 is_space, value]"

definition quoted_by :: "char \<Rightarrow> regex" where
  "quoted_by q = seqs [Lits [[q]], Cap (Rep 16 (\<lambda>c. c \<notin> {CHR 0x22, CHR 0x27, CR, LF})), Lits [[q]]]"

definition jwt_pattern :: regex where
  "jwt_pattern = seqs [Bnd, Lits [''eyJ''], Rep 10 (token_char ''_-''), Lits [''.''], Rep 10 (token_char ''_-''), Lits [''.''],
     Rep 8 (token_char ''_-''), Bnd]"

definition quoted_assignment :: regex where
  "quoted_assignment = assigned (Alt (quoted_by (CHR 0x22)) (quoted_by (CHR 0x27)))"

definition unquoted_assignment :: regex where
  "unquoted_assignment = assigned (Cap (Rep 20 (token_char ''_./+=-'')))"

text \<open>The patterns with their kinds, in order; the flag marks a conditional confidence.\<close>

definition patterns :: "(string \<times> regex \<times> bool) list" where
  "patterns =
    [(''private_key'', seqs [Lits [''-----BEGIN ''], Lits key_labels, Lits [''PRIVATE KEY-----''], Lazy (\<lambda>c. True),
        Lits [''-----END ''], Lits key_labels, Lits [''PRIVATE KEY-----'']], False),
     (''openrouter_key'', seqs [Bnd, Lits [''sk-or-v1-''], Rep 20 (token_char ''_-''), Bnd], False),
     (''github_token'', seqs [Bnd, Lits [''gh''], Lits [''p'', ''o'', ''u'', ''s'', ''r''], Lits [''_''], Rep 30 (token_char []), Bnd], False),
     (''gitlab_token'', seqs [Bnd, Lits [''glpat-''], Rep 20 (token_char ''_-''), Bnd], False),
     (''slack_token'', seqs [Bnd, Lits [''xox''], Lits [''b'', ''p'', ''a'', ''r'', ''s''], Lits [''-''], Rep 20 (token_char ''-''), Bnd], False),
     (''google_api_key'', seqs [Bnd, Lits [''AIza''], Rep 30 (token_char ''_-''), Bnd], False),
     (''stripe_live_key'', seqs [Bnd, Lits [''sk_live_''], Rep 20 (token_char []), Bnd], False),
     (''aws_access_key'', seqs [Bnd, Lits [''AKIA'', ''ASIA''], Times 16 upper_token_char, Bnd], False),
     (''jwt'', jwt_pattern, False),
     (''credential_assignment'', quoted_assignment, True),
     (''credential_assignment_unquoted'', unquoted_assignment, True),
     (''credentialed_service_url'', seqs [Bnd,
        LitsI [''postgresql'', ''postgres'', ''mysql'', ''mongodb+srv'', ''mongodb'', ''redis''], Lits [''://''],
        Rep 1 (\<lambda>c. \<not> is_space c \<and> c \<notin> set '':/@''), Lits ['':''], Rep 1 (\<lambda>c. \<not> is_space c \<and> c \<notin> set ''@/''), Lits [''@''],
        Rep 1 (\<lambda>c. \<not> is_space c)], False)]"

section \<open>Detection\<close>

text \<open>
  The built-in \<open>sum\<close> of floats is compensated: \<open>hi\<close> is the running sum and \<open>lo\<close> the lost low-order part.
\<close>

fun float_sum :: "pyfloat \<Rightarrow> pyfloat \<Rightarrow> pyfloat list \<Rightarrow> pyfloat" where
  "float_sum hi lo [] = (if lo = 0 then hi else fadd hi lo)"
| "float_sum hi lo (x # xs) =
     (let t = fadd hi x
      in float_sum t (fadd lo (if \<bar>x\<bar> \<le> \<bar>hi\<bar> then fadd (fsub hi t) x else fadd (fsub x t) hi)) xs)"

definition entropy :: "(pyfloat \<Rightarrow> pyfloat) \<Rightarrow> string \<Rightarrow> pyfloat" where
  "entropy log2 value =
     (if value = [] then 0
      else - float_sum 0 0 (map (\<lambda>c. let share = fdiv (of_nat (count_list value c)) (of_nat (length value))
                                   in fmul share (log2 share)) (rev (remdups (rev value)))))"

definition placeholder_prefixes :: "string list" where
  "placeholder_prefixes = [''example'', ''placeholder'', ''not-a-'', ''test-only'']"

definition match_confidence :: "(pyfloat \<Rightarrow> pyfloat) \<Rightarrow> bool \<Rightarrow> string option \<Rightarrow> confidence" where
  "match_confidence log2 conditional value =
     (if \<not> conditional then HighConfidence
      else let v = (case value of None \<Rightarrow> [] | Some w \<Rightarrow> w)
           in if entropy log2 v < 7 / 2 \<or> list_ex (\<lambda>w. starts_with w (map lower_char v)) placeholder_prefixes
              then LowConfidence else HighConfidence)"

definition overlaps :: "nat \<Rightarrow> nat \<Rightarrow> secret_match \<Rightarrow> bool" where
  "overlaps start stop m \<longleftrightarrow> start < sm_end m \<and> sm_start m < stop"

definition add_found ::
    "(string \<Rightarrow> string) \<Rightarrow> (pyfloat \<Rightarrow> pyfloat) \<Rightarrow> string \<Rightarrow> string \<times> regex \<times> bool \<Rightarrow> nat \<times> nat \<times> string option
     \<Rightarrow> secret_match list \<Rightarrow> secret_match list" where
  "add_found sha256 log2 src pat found ms =
     (case (pat, found) of ((kind, r, conditional), (start, stop, value)) \<Rightarrow>
        if list_ex (overlaps start stop) ms then ms
        else ms @ [\<lparr>sm_kind = kind, sm_start = start, sm_end = stop,
               sm_confidence = match_confidence log2 conditional value,
               sm_fingerprint = take 12 (sha256 (take (stop - start) (drop start src)))\<rparr>])"

definition collect_secrets :: "(string \<Rightarrow> string) \<Rightarrow> (pyfloat \<Rightarrow> pyfloat) \<Rightarrow> string \<Rightarrow> secret_match list" where
  "collect_secrets sha256 log2 src =
     fold (\<lambda>pat ms. fold (add_found sha256 log2 src pat) (finditer (fst (snd pat)) None 0 0 src) ms) patterns []"

definition detect_secrets :: "(string \<Rightarrow> string) \<Rightarrow> (pyfloat \<Rightarrow> pyfloat) \<Rightarrow> string \<Rightarrow> secret_match list" where
  "detect_secrets sha256 log2 src = sort_key sm_start (collect_secrets sha256 log2 src)"

section \<open>Redaction\<close>

text \<open>\<open>re.findall\<close> of CRLF, CR or LF.\<close>

fun line_endings :: "string \<Rightarrow> string list" where
  "line_endings (c # d # cs) =
     (if c = CR \<and> d = LF then [CR, LF] # line_endings cs
      else if c = CR \<or> c = LF then [c] # line_endings (d # cs) else line_endings (d # cs))"
| "line_endings [c] = (if c = CR \<or> c = LF then [[c]] else [])"
| "line_endings [] = []"

definition replacement :: "string \<Rightarrow> secret_match \<Rightarrow> string" where
  "replacement secret m =
     ''[REDACTED:'' @ sm_kind m @ '']'' @ concat (map (\<lambda>e. e @ ''[REDACTED:continuation]'') (line_endings secret))"

fun redact_pieces :: "string \<Rightarrow> nat \<Rightarrow> secret_match list \<Rightarrow> string list" where
  "redact_pieces src cursor [] = [drop cursor src]"
| "redact_pieces src cursor (m # ms) =
     take (sm_start m - cursor) (drop cursor src)
     # replacement (take (sm_end m - sm_start m) (drop (sm_start m) src)) m
     # redact_pieces src (sm_end m) ms"

definition redact_text ::
    "(string \<Rightarrow> string) \<Rightarrow> (pyfloat \<Rightarrow> pyfloat) \<Rightarrow> string \<Rightarrow> bool \<Rightarrow> bool \<Rightarrow> (string, string \<times> secret_match list) result" where
  "redact_text sha256 log2 src fail_on_detected_secret redact =
     (let ms = detect_secrets sha256 log2 src;
          high = filter (\<lambda>m. sm_confidence m = HighConfidence) ms
      in if high \<noteq> [] \<and> fail_on_detected_secret
         then Inl (''high-confidence secret detected ('' @ join '', '' (sort (remdups (map sm_kind high)))
                @ ''); model egress blocked'')
         else if \<not> redact \<or> ms = [] then Inr (src, ms)
         else Inr (concat (redact_pieces src 0 ms), ms))"

end
