(* ===== verification/Redaction_Facts.thy ===== *)
theory Redaction_Facts
  imports Redaction
begin

text \<open>
  Lemmas on redaction: what every pattern matches begins and ends inside a line, the matches that are
  kept lie apart and in order and cover everything that was found, and the text between them and its
  line endings are unchanged.
\<close>

section \<open>What the patterns match\<close>

abbreviation line_end :: "char set" where
  "line_end \<equiv> {CR, LF}"

lemma line_end_chars:
  "\<not> token_char extra CR \<longleftrightarrow> CR \<notin> set extra" "\<not> token_char extra LF \<longleftrightarrow> LF \<notin> set extra"
  "\<not> upper_token_char CR" "\<not> upper_token_char LF" "is_space CR" "is_space LF"
  "lower_char CR = CR" "lower_char LF = LF"
  by (simp_all add: token_char_def upper_token_char_def is_digit_def is_upper_def is_lower_def is_space_def
      lower_char_def code_def CR_def LF_def)

lemmas pattern_defs = seqs_def jwt_pattern_def quoted_assignment_def unquoted_assignment_def assigned_def quoted_by_def
  key_labels_def credential_names_def

lemma all_patterns_edges:
  "list_all (\<lambda>pat. starts_outside line_end (fst (snd pat)) \<and> ends_outside line_end (fst (snd pat))) patterns"
  by (simp add: patterns_def pattern_defs line_end_chars) (simp add: CR_def LF_def)

lemma patterns_edges:
  "pat \<in> set patterns \<Longrightarrow> starts_outside line_end (fst (snd pat)) \<and> ends_outside line_end (fst (snd pat))"
  using all_patterns_edges by (auto simp: list_all_iff)

section \<open>The matches that are kept\<close>

definition secret_of :: "string \<Rightarrow> secret_match \<Rightarrow> string" where
  "secret_of src m = take (sm_end m - sm_start m) (drop (sm_start m) src)"

definition span_ok :: "string \<Rightarrow> secret_match \<Rightarrow> bool" where
  "span_ok src m \<longleftrightarrow> sm_kind m \<in> fst ` set patterns \<and> sm_start m < sm_end m \<and> sm_end m \<le> length src
     \<and> src ! sm_start m \<notin> line_end \<and> src ! (sm_end m - 1) \<notin> line_end"

definition apart :: "secret_match \<Rightarrow> secret_match \<Rightarrow> bool" where
  "apart a b \<longleftrightarrow> sm_end a \<le> sm_start b \<or> sm_end b \<le> sm_start a"

definition kept_ok :: "string \<Rightarrow> secret_match list \<Rightarrow> bool" where
  "kept_ok src ms \<longleftrightarrow> list_all (span_ok src) ms \<and> sorted_wrt apart ms"

definition found_in :: "string \<Rightarrow> string \<times> regex \<times> bool \<Rightarrow> (nat \<times> nat \<times> string option) list" where
  "found_in src pat = finditer (fst (snd pat)) None 0 0 src"

lemma found_span:
  assumes "pat \<in> set patterns" "(a, b, v) \<in> set (found_in src pat)"
  shows "a < b" "b \<le> length src" "src ! a \<notin> line_end" "src ! (b - 1) \<notin> line_end"
proof -
  note e = patterns_edges [OF assms(1)]
  have f: "(a, b, v) \<in> set (finditer (fst (snd pat)) None 0 0 src)" using assms(2) by (simp add: found_in_def)
  show "a < b" "b \<le> length src" using finditer_bounds [OF _ f] match_starts e by fastforce+
  show "src ! a \<notin> line_end" "src ! (b - 1) \<notin> line_end" using finditer_edges [OF _ _ f] e by fastforce+
qed

lemma add_found_cases:
  "add_found sha log2 src (kind, r, c) (a, b, v) ms =
     (if list_ex (overlaps a b) ms then ms
      else ms @ [\<lparr>sm_kind = kind, sm_start = a, sm_end = b, sm_confidence = match_confidence log2 c v,
             sm_fingerprint = take 12 (sha (take (b - a) (drop a src)))\<rparr>])"
  by (simp add: add_found_def)

lemma add_found_ok:
  assumes "pat \<in> set patterns" "f \<in> set (found_in src pat)" "kept_ok src ms"
  shows "kept_ok src (add_found sha log2 src pat f ms)"
proof -
  obtain kind r c a b v where x: "pat = (kind, r, c)" "f = (a, b, v)" by (cases pat, cases f)
  note s = found_span [OF assms(1) assms(2) [unfolded x(2)]]
  have "kind \<in> fst ` set patterns" using assms(1) x(1) by force
  then show ?thesis
    using assms(3) s unfolding x add_found_cases
    by (auto simp: kept_ok_def span_ok_def sorted_wrt_append apart_def overlaps_def list_ex_iff not_less)
qed

lemma add_found_covers:
  "f = (a, b, v) \<Longrightarrow> a < b \<Longrightarrow> \<exists>m\<in>set (add_found sha log2 src pat f ms). overlaps a b m"
  by (cases pat) (auto simp: add_found_cases list_ex_iff overlaps_def)

lemma add_found_mono: "set ms \<subseteq> set (add_found sha log2 src pat f ms)"
  by (cases pat, cases f) (auto simp: add_found_cases)

lemma fold_found_mono: "set ms \<subseteq> set (fold (add_found sha log2 src pat) fs ms)"
proof (induction fs arbitrary: ms)
  case (Cons f fs)
  then show ?case using add_found_mono [of ms sha log2 src pat f] by fastforce
qed simp

lemma fold_found_ok:
  "pat \<in> set patterns \<Longrightarrow> set fs \<subseteq> set (found_in src pat) \<Longrightarrow> kept_ok src ms
   \<Longrightarrow> kept_ok src (fold (add_found sha log2 src pat) fs ms)"
  by (induction fs arbitrary: ms) (simp_all add: add_found_ok)

lemma fold_found_covers:
  "(a, b, v) \<in> set fs \<Longrightarrow> a < b \<Longrightarrow> \<exists>m\<in>set (fold (add_found sha log2 src pat) fs ms). overlaps a b m"
proof (induction fs arbitrary: ms)
  case (Cons f fs)
  show ?case
  proof (cases "f = (a, b, v)")
    case True
    then show ?thesis
      using add_found_covers [OF True Cons.prems(2), of sha log2 src pat ms]
        fold_found_mono [of "add_found sha log2 src pat f ms" sha log2 src pat fs] by auto
  next
    case False
    then show ?thesis using Cons by auto
  qed
qed simp

abbreviation search :: "(string \<Rightarrow> string) \<Rightarrow> (pyfloat \<Rightarrow> pyfloat) \<Rightarrow> string \<Rightarrow> (string \<times> regex \<times> bool) list \<Rightarrow> secret_match list \<Rightarrow> secret_match list" where
  "search sha log2 src pats ms \<equiv> fold (\<lambda>pat ms. fold (add_found sha log2 src pat) (found_in src pat) ms) pats ms"

lemma search_mono: "set ms \<subseteq> set (search sha log2 src pats ms)"
proof (induction pats arbitrary: ms)
  case (Cons pat pats)
  then show ?case using fold_found_mono [of ms sha log2 src pat "found_in src pat"] by fastforce
qed simp

lemma search_ok: "set pats \<subseteq> set patterns \<Longrightarrow> kept_ok src ms \<Longrightarrow> kept_ok src (search sha log2 src pats ms)"
  by (induction pats arbitrary: ms) (simp_all add: fold_found_ok)

lemma search_covers:
  "set pats \<subseteq> set patterns \<Longrightarrow> pat \<in> set pats \<Longrightarrow> (a, b, v) \<in> set (found_in src pat)
   \<Longrightarrow> \<exists>m\<in>set (search sha log2 src pats ms). overlaps a b m"
proof (induction pats arbitrary: ms)
  case (Cons p pats)
  show ?case
  proof (cases "p = pat")
    case True
    have "a < b" using found_span(1) Cons.prems by blast
    then show ?thesis
      using fold_found_covers [OF Cons.prems(3), of sha log2 src pat ms] True
        search_mono [of "fold (add_found sha log2 src pat) (found_in src pat) ms" sha log2 src pats] by auto
  next
    case False
    then show ?thesis using Cons by simp
  qed
qed simp

lemma collect_search: "collect_secrets sha log2 src = search sha log2 src patterns []"
  by (simp add: collect_secrets_def found_in_def)

lemma detect_set: "set (detect_secrets sha log2 src) = set (search sha log2 src patterns [])"
  by (simp add: detect_secrets_def collect_search)

lemma detect_covers:
  "pat \<in> set patterns \<Longrightarrow> (a, b, v) \<in> set (found_in src pat) \<Longrightarrow> \<exists>m\<in>set (detect_secrets sha log2 src). overlaps a b m"
  using search_covers [of patterns pat a b v src] by (simp add: detect_set)

lemma detect_spans: "list_all (span_ok src) (detect_secrets sha log2 src)"
  using search_ok [of patterns src "[]" sha log2] by (simp add: kept_ok_def list_all_iff detect_set)

lemma sorted_wrt_apart_distinct:
  "sorted_wrt apart ms \<Longrightarrow> list_all (span_ok src) ms \<Longrightarrow> distinct ms \<and> (\<forall>a\<in>set ms. \<forall>b\<in>set ms. a \<noteq> b \<longrightarrow> apart a b)"
  by (induction ms) (auto simp: apart_def span_ok_def)

lemma detect_ordered: "sorted_wrt (\<lambda>a b. sm_end a \<le> sm_start b) (detect_secrets sha log2 src)"
proof -
  let ?ds = "detect_secrets sha log2 src" and ?cs = "collect_secrets sha log2 src"
  have "kept_ok src ?cs" using search_ok [of patterns src "[]" sha log2] by (simp add: kept_ok_def collect_search)
  then have "distinct ?cs" and a: "\<forall>a\<in>set ?cs. \<forall>b\<in>set ?cs. a \<noteq> b \<longrightarrow> apart a b"
    using sorted_wrt_apart_distinct [of ?cs src] by (simp_all add: kept_ok_def)
  then have d: "distinct ?ds" "set ?ds = set ?cs" by (simp_all add: detect_secrets_def)
  have "sorted (map sm_start ?ds)" by (simp add: detect_secrets_def)
  then have "sorted_wrt (\<lambda>a b. sm_start a \<le> sm_start b \<and> a \<noteq> b) ?ds"
    using d(1) by (simp add: sorted_wrt_iff_nth_less sorted_iff_nth_mono_less nth_eq_iff_index_eq)
  then show ?thesis
  proof (rule sorted_wrt_mono_rel [rotated])
    fix x y assume "x \<in> set ?ds" "y \<in> set ?ds" "sm_start x \<le> sm_start y \<and> x \<noteq> y"
    then show "sm_end x \<le> sm_start y"
      using a d(2) detect_spans [of src sha log2] by (fastforce simp: apart_def span_ok_def list_all_iff)
  qed
qed

section \<open>What redaction keeps\<close>

fun weave :: "string list \<Rightarrow> string list \<Rightarrow> string" where
  "weave (g # gs) (f # fs) = g @ f @ weave gs fs"
| "weave gs [] = concat gs"
| "weave [] fs = []"

fun gaps :: "string \<Rightarrow> nat \<Rightarrow> secret_match list \<Rightarrow> string list" where
  "gaps src cursor [] = [drop cursor src]"
| "gaps src cursor (m # ms) = take (sm_start m - cursor) (drop cursor src) # gaps src (sm_end m) ms"

lemma gaps_length [simp]: "length (gaps src i ms) = Suc (length ms)"
  by (induction ms arbitrary: i) simp_all

lemma redact_weave:
  "concat (redact_pieces src i ms) = weave (gaps src i ms) (map (\<lambda>m. replacement (secret_of src m) m) ms)"
  by (induction ms arbitrary: i) (simp_all add: secret_of_def)

lemma text_weave:
  assumes "list_all (span_ok src) ms" "sorted_wrt (\<lambda>a b. sm_end a \<le> sm_start b) ms" "\<forall>m\<in>set ms. i \<le> sm_start m"
  shows "drop i src = weave (gaps src i ms) (map (secret_of src) ms)"
  using assms
proof (induction ms arbitrary: i)
  case (Cons m ms)
  have m: "i \<le> sm_start m" "sm_start m < sm_end m" using Cons.prems by (simp_all add: span_ok_def)
  have r: "drop (sm_end m) src = weave (gaps src (sm_end m) ms) (map (secret_of src) ms)"
    using Cons by simp
  have "drop i src = take (sm_start m - i) (drop i src) @ drop (sm_start m) src"
    using m(1) by (metis add_diff_cancel_left' append_take_drop_id drop_drop le_iff_add add.commute)
  also have "drop (sm_start m) src = secret_of src m @ drop (sm_end m) src"
    using m(2) unfolding secret_of_def
    by (metis append_take_drop_id drop_drop le_add_diff_inverse2 less_imp_le)
  finally show ?case using r by simp
qed simp

section \<open>Line endings\<close>

lemma line_endings_append:
  "\<not> (a \<noteq> [] \<and> last a = CR \<and> b \<noteq> [] \<and> hd b = LF) \<Longrightarrow> line_endings (a @ b) = line_endings a @ line_endings b"
proof (induction a rule: line_endings.induct)
  case (1 c d cs)
  then show ?case by (cases "cs = []") (auto simp: CR_def LF_def)
next
  case (2 c)
  then show ?case by (cases b) (auto simp: CR_def LF_def)
qed simp

definition clear_edges :: "string \<Rightarrow> bool" where
  "clear_edges f \<longleftrightarrow> f \<noteq> [] \<and> hd f \<notin> line_end \<and> last f \<notin> line_end"

lemma line_endings_filler:
  assumes "clear_edges f"
  shows "line_endings (g @ f @ rest) = line_endings g @ line_endings f @ line_endings rest"
  using assms line_endings_append [of g "f @ rest"] line_endings_append [of f rest]
  by (auto simp: clear_edges_def)

lemma line_endings_none: "set s \<inter> line_end = {} \<Longrightarrow> line_endings s = []"
  by (induction s rule: line_endings.induct) auto

lemma weave_endings:
  assumes "list_all2 (\<lambda>f h. clear_edges f \<and> clear_edges h \<and> line_endings f = line_endings h) fs hs"
    and "length gs = Suc (length fs)"
  shows "line_endings (weave gs fs) = line_endings (weave gs hs)"
  using assms
proof (induction fs hs arbitrary: gs rule: list_all2_induct)
  case Nil
  then show ?case by simp
next
  case (Cons f fs h hs)
  then obtain g gs' where g: "gs = g # gs'" "length gs' = Suc (length fs)" by (cases gs) auto
  then show ?case using Cons by (simp add: line_endings_filler)
qed

lemma secret_edges:
  assumes "span_ok src m"
  shows "clear_edges (secret_of src m)"
proof -
  have b: "sm_start m < sm_end m" "sm_end m \<le> length src" using assms by (simp_all add: span_ok_def)
  then have "length (secret_of src m) = sm_end m - sm_start m" by (simp add: secret_of_def)
  moreover have "secret_of src m ! i = src ! (sm_start m + i)" if "i < sm_end m - sm_start m" for i
    using that b by (simp add: secret_of_def)
  ultimately have "secret_of src m \<noteq> []" "secret_of src m ! 0 = src ! sm_start m"
    "secret_of src m ! (length (secret_of src m) - 1) = src ! (sm_end m - 1)"
    using b by auto
  then have "secret_of src m \<noteq> []" "hd (secret_of src m) = src ! sm_start m"
    "last (secret_of src m) = src ! (sm_end m - 1)"
    by (simp_all add: hd_conv_nth last_conv_nth)
  then show ?thesis using assms by (simp add: clear_edges_def span_ok_def)
qed

definition break_free :: "string \<Rightarrow> bool" where
  "break_free s \<longleftrightarrow> (\<forall>c\<in>set s. \<not> is_line_break c)"

lemma breaks: "is_line_break CR" "is_line_break LF"
  by (simp_all add: is_line_break_def CR_def LF_def code_def)

lemma break_free_line_end: "break_free s \<Longrightarrow> set s \<inter> line_end = {}"
  using breaks by (auto simp: break_free_def)

lemma kinds_break_free: "k \<in> fst ` set patterns \<Longrightarrow> break_free k"
  by (auto simp: patterns_def break_free_def is_line_break_def code_def)

lemma marker_break_free: "break_free ''[REDACTED:continuation]''" "break_free ''[REDACTED:''" "break_free '']''"
  by (simp_all add: break_free_def is_line_break_def code_def)

lemma line_end_splits: "e \<in> set (line_endings s) \<Longrightarrow> e \<in> {[CR, LF], [CR], [LF]}"
  by (induction s rule: line_endings.induct) (auto split: if_splits)

lemma endings_continuations:
  "set es \<subseteq> {[CR, LF], [CR], [LF]}
   \<Longrightarrow> line_endings (concat (map (\<lambda>e. e @ ''[REDACTED:continuation]'') es)) = es"
proof (induction es)
  case (Cons e es)
  let ?c = "''[REDACTED:continuation]''"
  have c: "clear_edges ?c" "line_endings ?c = []"
    using line_endings_none [OF break_free_line_end [OF marker_break_free(1)]] by (simp_all add: clear_edges_def CR_def LF_def)
  have "line_endings e = [e]" using Cons.prems by (auto simp: CR_def LF_def)
  then show ?case
    using Cons line_endings_filler [OF c(1), of e "concat (map (\<lambda>e. e @ ?c) es)"] c(2) by simp
qed simp

lemma replacement_endings:
  assumes "break_free (sm_kind m)"
  shows "clear_edges (replacement s m)" "line_endings (replacement s m) = line_endings s"
proof -
  let ?c = "concat (map (\<lambda>e. e @ ''[REDACTED:continuation]'') (line_endings s))"
  let ?h = "''[REDACTED:'' @ sm_kind m @ '']''"
  have l: "last ?c = CHR '']''" if "?c \<noteq> []"
    using that by (cases "line_endings s" rule: rev_cases) simp_all
  show e: "clear_edges (replacement s m)"
    using l by (cases "?c = []") (simp_all add: clear_edges_def replacement_def CR_def LF_def)
  have "break_free ?h" using assms marker_break_free(2,3) by (simp add: break_free_def)
  then have "set ?h \<inter> line_end = {}" by (rule break_free_line_end)
  then have h: "line_endings ?h = []" by (rule line_endings_none)
  have "clear_edges ?h" by (simp add: clear_edges_def CR_def LF_def)
  moreover have "set (line_endings s) \<subseteq> {[CR, LF], [CR], [LF]}" using line_end_splits by blast
  ultimately have "line_endings (?h @ ?c) = line_endings s"
    using line_endings_filler [of ?h "[]" ?c] h endings_continuations by simp
  then show "line_endings (replacement s m) = line_endings s" by (simp add: replacement_def)
qed

section \<open>Lines\<close>

definition only_line_ends :: "string \<Rightarrow> bool" where
  "only_line_ends s \<longleftrightarrow> list_all (\<lambda>c. is_line_break c \<longrightarrow> c \<in> line_end) s"

lemma line_endings_Cons:
  "line_endings (c # cs) =
     (if c = CR \<and> cs \<noteq> [] \<and> hd cs = LF then [CR, LF] # line_endings (tl cs)
      else if c \<in> line_end then [c] # line_endings cs else line_endings cs)"
  by (cases cs) auto

lemma split_keep_count:
  "only_line_ends s \<Longrightarrow> length (split_keep cur s) = length (line_endings s)
     + (if s = [] then of_bool (cur \<noteq> []) else of_bool (last s \<notin> line_end))"
proof (induction cur s rule: split_keep.induct)
  case (2 cur c cs)
  have o: "only_line_ends cs" "is_line_break c \<longrightarrow> c \<in> line_end" using 2(4) by (simp_all add: only_line_ends_def)
  show ?case
  proof (cases "c = CR \<and> cs \<noteq> [] \<and> hd cs = LF")
    case True
    then have "only_line_ends (tl cs)" "cs = LF # tl cs" using o(1) by (cases cs; simp add: only_line_ends_def)+
    then show ?thesis using 2(1) [OF True] True last_tl [of cs]
      by (cases "tl cs = []") (simp_all add: line_endings_Cons)
  next
    case False
    then show ?thesis
    proof (cases "is_line_break c")
      case True
      then show ?thesis using 2(2) [OF False True] o False by (auto simp: line_endings_Cons)
    next
      case noBreak: False
      then have "c \<notin> line_end" using breaks by auto
      then show ?thesis using 2(3) [OF False noBreak] o False noBreak by (auto simp: line_endings_Cons)
    qed
  qed
qed simp

lemma splitlines_count:
  "only_line_ends s \<Longrightarrow> length (splitlines s) = length (line_endings s) + of_bool (s \<noteq> [] \<and> last s \<notin> line_end)"
  by (simp add: splitlines_def split_keep_count)

section \<open>A redacted text\<close>

lemma weave_last:
  assumes "list_all2 (\<lambda>f h. clear_edges f \<and> clear_edges h) fs hs" "length gs = Suc (length fs)"
  shows "(weave gs fs = [] \<longleftrightarrow> weave gs hs = []) \<and> (last (weave gs fs) \<in> line_end \<longleftrightarrow> last (weave gs hs) \<in> line_end)"
  using assms
proof (induction fs hs arbitrary: gs rule: list_all2_induct)
  case (Cons f fs h hs)
  then obtain g gs' where g: "gs = g # gs'" "length gs' = Suc (length fs)" by (cases gs) auto
  with Cons have IH: "weave gs' fs = [] \<longleftrightarrow> weave gs' hs = []"
    "last (weave gs' fs) \<in> line_end \<longleftrightarrow> last (weave gs' hs) \<in> line_end" by blast+
  show ?case using Cons.hyps g(1) IH by (cases "weave gs' fs = []") (auto simp: clear_edges_def)
qed simp

lemma weave_only_line_ends:
  assumes "list_all2 (\<lambda>f h. only_line_ends h) fs hs" "only_line_ends (weave gs fs)" "length gs = Suc (length fs)"
  shows "only_line_ends (weave gs hs)"
  using assms
proof (induction fs hs arbitrary: gs rule: list_all2_induct)
  case (Cons f fs h hs)
  then show ?case by (cases gs) (auto simp: only_line_ends_def)
qed simp

lemma replacement_line_ends: "break_free (sm_kind m) \<Longrightarrow> only_line_ends (replacement s m)"
  using line_end_splits [of _ s] marker_break_free
  by (fastforce simp: replacement_def only_line_ends_def list_all_iff break_free_def)

lemma detect_fillers:
  fixes sha log2 src
  defines "ms \<equiv> detect_secrets sha log2 src"
  defines "fs \<equiv> map (secret_of src) ms" and "hs \<equiv> map (\<lambda>m. replacement (secret_of src m) m) ms"
  shows "list_all2 (\<lambda>f h. clear_edges f \<and> clear_edges h \<and> line_endings f = line_endings h) fs hs"
    and "list_all2 (\<lambda>f h. clear_edges f \<and> clear_edges h) fs hs" "list_all2 (\<lambda>f h. only_line_ends h) fs hs"
proof -
  have "clear_edges (secret_of src m) \<and> clear_edges (replacement (secret_of src m) m)
      \<and> line_endings (secret_of src m) = line_endings (replacement (secret_of src m) m)
      \<and> only_line_ends (replacement (secret_of src m) m)" if "m \<in> set ms" for m
  proof -
    have s: "span_ok src m" using that detect_spans [of src sha log2] by (simp add: ms_def list_all_iff)
    then have "break_free (sm_kind m)" using kinds_break_free by (simp add: span_ok_def)
    then show ?thesis using secret_edges [OF s] replacement_endings replacement_line_ends by simp
  qed
  then show "list_all2 (\<lambda>f h. clear_edges f \<and> clear_edges h \<and> line_endings f = line_endings h) fs hs"
    "list_all2 (\<lambda>f h. clear_edges f \<and> clear_edges h) fs hs" "list_all2 (\<lambda>f h. only_line_ends h) fs hs"
    by (simp_all add: fs_def hs_def list_all2_map1 list_all2_map2 list_all2_same)
qed

lemma redacted_parts:
  fixes sha log2 src
  defines "ms \<equiv> detect_secrets sha log2 src"
  shows "src = weave (gaps src 0 ms) (map (secret_of src) ms)"
    and "redact_text sha log2 src fail True = Inr (out, ms') \<Longrightarrow>
      ms' = ms \<and> out = weave (gaps src 0 ms) (map (\<lambda>m. replacement (secret_of src m) m) ms)"
proof -
  have "drop 0 src = weave (gaps src 0 ms) (map (secret_of src) ms)"
    unfolding ms_def by (rule text_weave [OF detect_spans detect_ordered]) simp
  then show "src = weave (gaps src 0 ms) (map (secret_of src) ms)" by simp
  show "ms' = ms \<and> out = weave (gaps src 0 ms) (map (\<lambda>m. replacement (secret_of src m) m) ms)"
    if "redact_text sha log2 src fail True = Inr (out, ms')"
  proof (cases "ms = []")
    case True
    then show ?thesis using that by (simp add: redact_text_def Let_def ms_def split: if_splits)
  next
    case False
    then have "ms' = ms" "out = concat (redact_pieces src 0 ms)"
      using that unfolding redact_text_def Let_def ms_def by (auto split: if_splits)
    then show ?thesis by (simp add: redact_weave)
  qed
qed

section \<open>Blocking\<close>

lemma add_found_high:
  "\<not> snd (snd pat) \<Longrightarrow> \<forall>m\<in>set ms. sm_confidence m = HighConfidence
   \<Longrightarrow> \<forall>m\<in>set (add_found sha log2 src pat f ms). sm_confidence m = HighConfidence"
  by (cases pat, cases f) (auto simp: add_found_cases match_confidence_def)

lemma fold_found_high:
  "\<not> snd (snd pat) \<Longrightarrow> \<forall>m\<in>set ms. sm_confidence m = HighConfidence
   \<Longrightarrow> \<forall>m\<in>set (fold (add_found sha log2 src pat) fs ms). sm_confidence m = HighConfidence"
proof (induction fs arbitrary: ms)
  case (Cons f fs)
  then show ?case using add_found_high [OF Cons.prems, of sha log2 src f] by simp
qed simp

lemma search_high:
  "\<forall>pat\<in>set pats. \<not> snd (snd pat) \<Longrightarrow> \<forall>m\<in>set ms. sm_confidence m = HighConfidence
   \<Longrightarrow> \<forall>m\<in>set (search sha log2 src pats ms). sm_confidence m = HighConfidence"
proof (induction pats arbitrary: ms)
  case (Cons pat pats)
  then show ?case using fold_found_high [of pat ms sha log2 src "found_in src pat"] by simp
qed simp

lemma token_found_high:
  assumes "pat \<in> set (take 9 patterns)" "found_in src pat \<noteq> []"
  shows "\<exists>m\<in>set (detect_secrets sha log2 src). sm_confidence m = HighConfidence"
proof -
  have u: "\<forall>p\<in>set (take 9 patterns). \<not> snd (snd p)" by (simp add: patterns_def)
  obtain a b v where f: "(a, b, v) \<in> set (found_in src pat)" using assms(2) by (metis list.set_intros(1) neq_Nil_conv prod_cases3)
  let ?ms = "search sha log2 src (take 9 patterns) []"
  obtain m where m: "m \<in> set ?ms"
    using search_covers [OF set_take_subset assms(1) f, of sha log2 "[]"] by blast
  have "set ?ms \<subseteq> set (search sha log2 src (drop 9 patterns) ?ms)" by (rule search_mono)
  also have "search sha log2 src (drop 9 patterns) ?ms = search sha log2 src (take 9 patterns @ drop 9 patterns) []"
    by (simp only: fold_append comp_apply)
  also have "\<dots> = search sha log2 src patterns []" by (simp only: append_take_drop_id)
  finally have "m \<in> set (detect_secrets sha log2 src)" using m by (auto simp: detect_set)
  moreover have "sm_confidence m = HighConfidence" using m search_high [OF u, of "[]" sha log2 src] by simp
  ultimately show ?thesis by blast
qed

section \<open>Patterns that cannot match\<close>

fun impossible :: "char set \<Rightarrow> regex \<Rightarrow> bool" where
  "impossible S (Lits ws) = (\<forall>w\<in>set ws. \<not> set w \<subseteq> S)"
| "impossible S (LitsI ws) = (\<forall>w\<in>set ws. \<not> set w \<subseteq> lower_char ` S)"
| "impossible S (Cap r) = impossible S r"
| "impossible S (Alt a b) = (impossible S a \<and> impossible S b)"
| "impossible S (Seq a b) = (impossible S a \<or> impossible S b)"
| "impossible S _ = False"

lemma starts_with_subset: "starts_with w s \<Longrightarrow> set w \<subseteq> set s"
  unfolding starts_with_def by (metis set_take_subset)

lemma impossible_matches: "impossible S r \<Longrightarrow> set s \<subseteq> S \<Longrightarrow> matches r p s = []"
proof (induction r p s rule: matches.induct)
  case (3 ws p s)
  then show ?case using starts_with_subset [of _ s] by (auto simp: filter_empty_conv)
next
  case (4 ws p s)
  then show ?case using starts_with_subset [of _ "map lower_char s"] by (fastforce simp: filter_empty_conv)
next
  case (11 a b p s)
  show ?case
  proof (cases "impossible S a")
    case True
    then show ?thesis using 11 by simp
  next
    case False
    then have "matches b (prev_char p s n) (drop n s) = []" if "(n, v) \<in> set (matches a p s)" for n v
      using 11(2) [OF that refl] 11(3,4) set_drop_subset [of n s] by auto
    then show ?thesis by auto
  qed
qed simp_all

lemma impossible_finditer: "impossible (set s) r \<Longrightarrow> finditer r p i k s = []"
proof -
  have "impossible S r \<Longrightarrow> set s \<subseteq> S \<Longrightarrow> finditer r p i k s = []" for S
    by (induction r p i k s rule: finditer.induct) (simp_all add: impossible_matches)
  then show "impossible (set s) r \<Longrightarrow> finditer r p i k s = []" by blast
qed

definition candidates :: "string \<Rightarrow> (string \<times> regex \<times> bool) list" where
  "candidates src = filter (\<lambda>p. \<not> impossible (set src) (fst (snd p))) patterns"

lemma search_candidates: "collect_secrets sha log2 src = search sha log2 src (candidates src) []"
proof -
  have "search sha log2 src pats ms = search sha log2 src (filter (\<lambda>p. \<not> impossible (set src) (fst (snd p))) pats) ms" for pats ms
    by (induction pats arbitrary: ms) (simp_all add: found_in_def impossible_finditer)
  then show ?thesis by (simp add: collect_search candidates_def)
qed

end
