(* ===== verification/Redaction_Theorems.thy ===== *)
theory Redaction_Theorems
  imports Redaction_Facts
begin

text \<open>
  The properties of secret redaction, evaluated on a short text with a token, and two texts on which the
  code does less than it means to.
\<close>

section \<open>Concrete texts\<close>

definition zero_digits :: "nat \<Rightarrow> string" where
  "zero_digits n = replicate n (CHR ''0'')"

definition jwt_text :: string where
  "jwt_text = ''eyJ'' @ zero_digits 10 @ ''.'' @ zero_digits 10 @ ''.'' @ zero_digits 8"

lemma jwt_chars: "set jwt_text = set ''eyJ0.''"
  by (auto simp: jwt_text_def zero_digits_def)

definition token_text :: string where
  "token_text = jwt_text @ [LF] @ ''0''"

definition token_match :: secret_match where
  "token_match = \<lparr>sm_kind = ''jwt'', sm_start = 0, sm_end = 33, sm_confidence = HighConfidence, sm_fingerprint = ''eyJ000000000''\<rparr>"

definition redacted_token :: string where
  "redacted_token = ''[REDACTED:jwt]'' @ [LF] @ ''0''"

lemma token_found: "finditer jwt_pattern None 0 0 token_text = [(0, 33, None)]"
  by code_simp

lemma token_possible:
  "map (\<lambda>p. impossible (set token_text) (fst (snd p))) patterns
     = [True, True, True, True, True, True, True, True, False, True, True, True]"
  by code_simp

lemma token_candidates: "candidates token_text = [(''jwt'', jwt_pattern, False)]"
  using token_possible unfolding candidates_def patterns_def
  by (simp only: list.map filter.simps list.inject fst_conv snd_conv simp_thms if_True if_False)

lemma token_detected: "detect_secrets id (\<lambda>x. 0) token_text = [token_match]"
proof -
  have "take 12 (take 33 token_text) = ''eyJ000000000''" by code_simp
  then have "collect_secrets id (\<lambda>x. 0) token_text = [token_match]"
    unfolding search_candidates token_candidates found_in_def
    by (simp add: token_found add_found_cases token_match_def match_confidence_def)
  then show ?thesis by (simp add: detect_secrets_def)
qed

lemma token_redacted: "redact_text id (\<lambda>x. 0) token_text False True = Inr (redacted_token, [token_match])"
proof -
  have "concat (redact_pieces token_text 0 [token_match]) = redacted_token" by code_simp
  then show ?thesis by (simp add: redact_text_def token_detected)
qed

section \<open>Properties\<close>

text \<open>
  C27: Redaction replaces every detected secret and nothing else. When \<open>redact_text\<close> returns with
  redaction on, the source and the redacted text have the same parts between the matches, in the same
  order; each matched part of the source is replaced by its marker; and everything any of the patterns
  finds in the source overlaps a part that was replaced.
\<close>

theorem redaction_replaces_secrets:
  assumes "redact_text sha log2 src fail True = Inr (out, ms)"
  shows "(\<exists>gs. length gs = Suc (length ms) \<and> src = weave gs (map (secret_of src) ms)
      \<and> out = weave gs (map (\<lambda>m. replacement (secret_of src m) m) ms))
    \<and> (\<forall>pat\<in>set patterns. \<forall>(a, b, v)\<in>set (finditer (fst (snd pat)) None 0 0 src). \<exists>m\<in>set ms. overlaps a b m)"
proof -
  note p = redacted_parts(2) [OF assms]
  have "\<exists>m\<in>set ms. overlaps a b m"
    if "pat \<in> set patterns" "(a, b, v) \<in> set (finditer (fst (snd pat)) None 0 0 src)" for pat a b v
    using detect_covers [OF that(1), of a b v src sha log2] that(2) p by (simp add: found_in_def)
  then show ?thesis using p redacted_parts(1) [of src sha log2] by (auto intro!: exI [of _ "gaps src 0 ms"])
qed

theorem redaction_replaces_secrets_witness:
  "\<exists>gs. token_text = weave gs [secret_of token_text token_match]
     \<and> redacted_token = weave gs [replacement (secret_of token_text token_match) token_match]"
  using redaction_replaces_secrets [OF token_redacted] by auto

text \<open>
  Redaction keeps line numbers. The redacted text has exactly the line endings of the source, in
  the same order; when CR and LF are the only line boundaries of the source, both have the same number
  of lines, so that a line number in the redacted text names the same line of the file.
\<close>

theorem redaction_keeps_lines:
  assumes "redact_text sha log2 src fail True = Inr (out, ms)"
  shows "line_endings out = line_endings src
    \<and> (only_line_ends src \<longrightarrow> length (splitlines out) = length (splitlines src))"
proof -
  let ?gs = "gaps src 0 ms" and ?fs = "map (secret_of src) ms" and ?hs = "map (\<lambda>m. replacement (secret_of src m) m) ms"
  have ms: "ms = detect_secrets sha log2 src" and out: "out = weave ?gs ?hs"
    using redacted_parts(2) [OF assms] by simp_all
  have src: "src = weave ?gs ?fs" using redacted_parts(1) [of src sha log2] ms by simp
  note f = detect_fillers [where sha = sha and ?log2.0 = log2 and src = src, folded ms]
  have e: "line_endings src = line_endings out"
    using weave_endings [OF f(1), of ?gs] src out by simp
  moreover have "length (splitlines out) = length (splitlines src)" if o: "only_line_ends src"
  proof -
    have "only_line_ends out" using weave_only_line_ends [OF f(3), of ?gs] o src out by simp
    then show ?thesis
      using o e weave_last [OF f(2), of ?gs] src out by (simp add: splitlines_count)
  qed
  ultimately show ?thesis by simp
qed

theorem redaction_keeps_lines_witness:
  "line_endings redacted_token = line_endings token_text \<and> length (splitlines redacted_token) = length (splitlines token_text)"
proof -
  have "only_line_ends token_text" by code_simp
  then show ?thesis using redaction_keeps_lines [OF token_redacted] by blast
qed

text \<open>
  C28: A token blocks egress. When \<open>fail_on_detected_secret\<close> is set and the text contains a private key, one
  of the provider tokens or a JSON web token (the first nine patterns), \<open>redact_text\<close> raises, whatever
  else the text contains.
\<close>

theorem token_blocks_egress:
  assumes "pat \<in> set (take 9 patterns)" "finditer (fst (snd pat)) None 0 0 src \<noteq> []"
  shows "\<exists>e. redact_text sha log2 src True redact = Inl e"
proof -
  have "filter (\<lambda>m. sm_confidence m = HighConfidence) (detect_secrets sha log2 src) \<noteq> []"
    using token_found_high [OF assms(1), of src sha log2] assms(2) by (simp add: found_in_def filter_empty_conv)
  then show ?thesis by (simp add: redact_text_def Let_def)
qed

theorem token_blocks_egress_witness: "\<exists>e. redact_text id (\<lambda>x. 0) token_text True True = Inl e"
proof (rule token_blocks_egress)
  show "(''jwt'', jwt_pattern, False) \<in> set (take 9 patterns)" unfolding patterns_def by (simp only: take_Cons_numeral) simp
  show "finditer (fst (snd (''jwt'', jwt_pattern, False))) None 0 0 token_text \<noteq> []" by (simp add: token_found)
qed

section \<open>Where the code does less\<close>

text \<open>
  A match that overlaps an earlier one is dropped, also when it reaches further: of a quoted password
  that begins with an access key only the key is replaced, and the rest of the password leaves the
  machine.
\<close>

definition password_text :: string where
  "password_text = ''passwd='' @ [CHR 0x27] @ jwt_text @ ''!x'' @ [CHR 0x27]"

lemma password_found:
  "finditer jwt_pattern None 0 0 password_text = [(8, 41, None)]"
  "map (\<lambda>(a, b, v). (a, b)) (finditer quoted_assignment None 0 0 password_text) = [(0, 44)]"
  "finditer unquoted_assignment None 0 0 password_text = []"
  by code_simp+

lemma password_possible:
  "map (\<lambda>p. impossible (set password_text) (fst (snd p))) patterns
     = [True, True, True, True, True, True, True, True, False, False, False, True]"
  by code_simp

lemma password_candidates:
  "candidates password_text = [(''jwt'', jwt_pattern, False), (''credential_assignment'', quoted_assignment, True),
     (''credential_assignment_unquoted'', unquoted_assignment, True)]"
  using password_possible unfolding candidates_def patterns_def
  by (simp only: list.map filter.simps list.inject fst_conv snd_conv simp_thms if_True if_False)

definition password_match :: "(string \<Rightarrow> string) \<Rightarrow> secret_match" where
  "password_match sha = \<lparr>sm_kind = ''jwt'', sm_start = 8, sm_end = 41, sm_confidence = HighConfidence,
     sm_fingerprint = take 12 (sha (take 33 (drop 8 password_text)))\<rparr>"

lemma password_detected: "detect_secrets sha log2 password_text = [password_match sha]"
proof -
  obtain v where q: "finditer quoted_assignment None 0 0 password_text = [(0, 44, v)]"
    using password_found(2) by (auto simp: map_eq_Cons_conv)
  have "collect_secrets sha log2 password_text = [password_match sha]"
    unfolding search_candidates password_candidates found_in_def
    by (simp add: password_found(1,3) q add_found_cases match_confidence_def password_match_def overlaps_def)
  then show ?thesis by (simp add: detect_secrets_def)
qed

theorem overlapping_secret_leaks:
  "(\<exists>v. finditer quoted_assignment None 0 0 password_text = [(0, 44, v)])
   \<and> redact_text sha log2 password_text False True
       = Inr (''passwd='' @ [CHR 0x27] @ ''[REDACTED:jwt]!x'' @ [CHR 0x27], [password_match sha])"
proof -
  have "take 8 password_text = ''passwd='' @ [CHR 0x27]" "drop 41 password_text = ''!x'' @ [CHR 0x27]"
    "line_endings (take 33 (drop 8 password_text)) = []" by code_simp+
  then have "concat (redact_pieces password_text 0 [password_match sha])
      = ''passwd='' @ [CHR 0x27] @ ''[REDACTED:jwt]!x'' @ [CHR 0x27]"
    by (simp add: password_match_def replacement_def)
  then have "redact_text sha log2 password_text False True
       = Inr (''passwd='' @ [CHR 0x27] @ ''[REDACTED:jwt]!x'' @ [CHR 0x27], [password_match sha])"
    by (simp add: redact_text_def password_detected)
  then show ?thesis using password_found(2) by (auto simp: map_eq_Cons_conv)
qed

text \<open>
  Python splits lines at more characters than CR and LF. A form feed inside a credential assignment is
  replaced with the rest, so that every later line gets another number than in the file.
\<close>

definition form_feed_text :: string where
  "form_feed_text = ''passwd'' @ [CHR 0x0C] @ ''='' @ [CHR 0x27] @ zero_digits 16 @ [CHR 0x27]"

lemma form_feed_found:
  "finditer quoted_assignment None 0 0 form_feed_text = [(0, 26, Some (zero_digits 16))]"
  "finditer unquoted_assignment None 0 0 form_feed_text = []"
  by code_simp+

lemma form_feed_possible:
  "map (\<lambda>p. impossible (set form_feed_text) (fst (snd p))) patterns
     = [True, True, True, True, True, True, True, True, True, False, False, True]"
  by code_simp

lemma form_feed_candidates:
  "candidates form_feed_text = [(''credential_assignment'', quoted_assignment, True),
     (''credential_assignment_unquoted'', unquoted_assignment, True)]"
  using form_feed_possible unfolding candidates_def patterns_def
  by (simp only: list.map filter.simps list.inject fst_conv snd_conv simp_thms if_True if_False)

theorem form_feed_shifts_lines:
  "length (splitlines form_feed_text) = 2
   \<and> (\<exists>m. redact_text sha log2 form_feed_text False True = Inr (''[REDACTED:credential_assignment]'', [m]))
   \<and> length (splitlines ''[REDACTED:credential_assignment]'') = 1"
proof -
  obtain m where m: "collect_secrets sha log2 form_feed_text = [m]" "sm_kind m = ''credential_assignment''"
    "sm_start m = 0" "sm_end m = 26"
    unfolding search_candidates form_feed_candidates found_in_def
    by (simp add: form_feed_found add_found_cases)
  have "take 26 form_feed_text = form_feed_text" "drop 26 form_feed_text = []" "line_endings form_feed_text = []"
    by code_simp+
  then have "redact_text sha log2 form_feed_text False True = Inr (''[REDACTED:credential_assignment]'', [m])"
    using m by (simp add: redact_text_def detect_secrets_def replacement_def)
  moreover have "length (splitlines form_feed_text) = 2" "length (splitlines ''[REDACTED:credential_assignment]'') = 1"
    by code_simp+
  ultimately show ?thesis by blast
qed

end
