(* ===== verification/Candidate_Evidence.thy ===== *)
theory Candidate_Evidence
  imports Finding_Schema
begin

text \<open>
  Two pure steps between the tools and consensus: \<open>orchestration/candidate_enrichment.py\<close> attaches formal
  counterexamples to the candidates they overlap, and \<open>orchestration/reproduction_resolution.py\<close> decides
  for each high or critical candidate whether it was reproduced. SHA-256 is an argument.
\<close>

section \<open>Formal counterexamples\<close>

datatype formal_result_kind = FormalProof | FormalCounterexample | FormalUnknown | FormalNone

record formal_result =
  fe_tool :: string
  fe_property_id :: string
  fe_property_description :: string
  fe_result_kind :: formal_result_kind
  fe_counterexample :: json
  fe_locations :: "location list"

definition evidence_key :: "evidence_item \<Rightarrow> evidence_type \<times> string \<times> string option \<times> string option" where
  "evidence_key e = (ev_type e, ev_source e, ev_rule_id e, ev_fingerprint e)"

definition deduplicate_evidence :: "evidence_item list \<Rightarrow> evidence_item list" where
  "deduplicate_evidence evidence = dict_values (fold (\<lambda>e. AList.update (evidence_key e) e) evidence [])"

definition lines_overlap :: "location \<Rightarrow> location \<Rightarrow> bool" where
  "lines_overlap a b \<longleftrightarrow> lo_path a = lo_path b \<and> lo_start_line a \<le> lo_end_line b \<and> lo_start_line b \<le> lo_end_line a"

definition attachable :: "candidate_finding \<Rightarrow> formal_result \<Rightarrow> bool" where
  "attachable c f \<longleftrightarrow> \<not> (fe_result_kind f \<noteq> FormalCounterexample \<or> fe_locations f = []
     \<or> \<not> list_ex (\<lambda>l. list_ex (lines_overlap l) (fe_locations f)) (cf_locations c))"

definition formal_item :: "(string \<Rightarrow> string) \<Rightarrow> formal_result \<Rightarrow> evidence_item" where
  "formal_item sha256 f =
     \<lparr>ev_type = EvFormal, ev_source = fe_tool f,
      ev_description = ''Source-overlapping formal counterexample for '' @ fe_property_id f @ '': ''
        @ fe_property_description f,
      ev_rule_id = Some ''counterexample'',
      ev_fingerprint = Some (sha256 (dumps (JObj [(''tool'', JStr (fe_tool f)), (''property'', JStr (fe_property_id f)),
        (''counterexample'', fe_counterexample f)])))\<rparr>"

definition formal_items :: "(string \<Rightarrow> string) \<Rightarrow> formal_result list list \<Rightarrow> candidate_finding \<Rightarrow> evidence_item list" where
  "formal_items sha256 runs c = map (formal_item sha256) (filter (attachable c) (concat runs))"

definition attach_formal_counterexamples ::
    "(string \<Rightarrow> string) \<Rightarrow> candidate_finding list \<Rightarrow> formal_result list list \<Rightarrow> candidate_finding list" where
  "attach_formal_counterexamples sha256 candidates runs =
     map (\<lambda>c. c\<lparr>cf_evidence := deduplicate_evidence (cf_evidence c @ formal_items sha256 runs c)\<rparr>) candidates"

section \<open>Reproduction\<close>

datatype integrity_status = IntegrityVerified | IntegrityRejected | IntegrityInconclusive

record reproduction_result =
  rr_candidate_id :: string
  rr_state :: reproduction_state
  rr_attempts :: int
  rr_successful_attempts :: int
  rr_integrity :: "(integrity_status \<times> string) option"

datatype resolution_kind = ResolvedReproduced | ResolvedInconclusive

record candidate_resolution =
  re_candidate_id :: string
  re_kind :: resolution_kind
  re_evidence_refs :: "string list"
  re_detail :: string

definition control_free :: "string \<Rightarrow> bool" where
  "control_free s \<longleftrightarrow> \<not> list_ex (\<lambda>c. code c < 32 \<or> code c = 127) s"

definition validate_resolution :: "candidate_resolution \<Rightarrow> candidate_resolution checked" where
  "validate_resolution r =
     rbind (require (re_candidate_id r \<noteq> [] \<and> length (re_candidate_id r) \<le> 160 \<and> length (re_evidence_refs r) \<le> 100
         \<and> re_detail r \<noteq> [] \<and> length (re_detail r) \<le> 2000) ''resolution field is invalid'') (\<lambda>_.
     rbind (require (re_evidence_refs r = sorted_set (re_evidence_refs r))
         ''candidate resolution evidence references must be unique and sorted'') (\<lambda>_.
     rbind (require (list_all (\<lambda>ref. ref \<noteq> [] \<and> length ref \<le> 500 \<and> control_free ref) (re_evidence_refs r))
         ''candidate resolution evidence references must be bounded text'') (\<lambda>_.
     rbind (require (re_kind r = ResolvedInconclusive \<or> re_evidence_refs r \<noteq> [])
         ''a qualifying candidate resolution requires evidence references'') (\<lambda>_. Inr r))))"

text \<open>The hash of a result that counts as a reproduction.\<close>

definition reproduced_hash :: "reproduction_result \<Rightarrow> string option" where
  "reproduced_hash r =
     (if rr_state r \<in> {REPRODUCED, REPRODUCED_AND_MINIMIZED} \<and> 0 < rr_attempts r
         \<and> rr_successful_attempts r = rr_attempts r
      then (case rr_integrity r of None \<Rightarrow> None
            | Some (status, h) \<Rightarrow> if status = IntegrityVerified then Some h else None)
      else None)"

definition resolve_candidate :: "reproduction_result list \<Rightarrow> string \<Rightarrow> candidate_resolution checked" where
  "resolve_candidate results cid =
     (let mine = filter (\<lambda>r. rr_candidate_id r = cid) results;
          refs = sorted_set (map (\<lambda>h. ''reproduction:'' @ h) (List.map_filter reproduced_hash mine));
          states = sorted_set (map (\<lambda>r. reproduction_value (rr_state r)) (filter (\<lambda>r. 0 < rr_attempts r) mine))
      in if refs \<noteq> []
         then validate_resolution \<lparr>re_candidate_id = cid, re_kind = ResolvedReproduced, re_evidence_refs = refs,
                re_detail = ''verified deterministic reproduction resolved candidate''\<rparr>
         else validate_resolution \<lparr>re_candidate_id = cid, re_kind = ResolvedInconclusive, re_evidence_refs = [],
                re_detail = (if states \<noteq> []
                  then ''attempted reproduction did not produce a qualifying terminal outcome: '' @ join '', '' states
                  else ''no qualifying integrity-bound deterministic reproduction evidence'')\<rparr>)"

definition obligated :: "string list \<Rightarrow> candidate_finding \<Rightarrow> bool" where
  "obligated forced c \<longleftrightarrow> cf_severity c \<in> {SevHigh, SevCritical} \<or> cf_candidate_id c \<in> set forced"

definition build_candidate_reproduction_resolutions ::
    "candidate_finding list \<Rightarrow> reproduction_result list \<Rightarrow> string list \<Rightarrow> candidate_resolution list checked" where
  "build_candidate_reproduction_resolutions candidates results forced =
     traverse (\<lambda>c. resolve_candidate results (cf_candidate_id c))
       (filter (obligated forced) (sort_key cf_candidate_id candidates))"

end
