(* ===== verification/Evidence_Theorems.thy ===== *)
theory Evidence_Theorems
  imports Candidate_Evidence Consensus_Demo
begin

text \<open>
  The properties of candidate enrichment and of reproduction resolutions, with the lemmas on dictionaries
  that are built by key.
\<close>

section \<open>Enrichment\<close>

abbreviation put_evidence :: "evidence_item list \<Rightarrow> (evidence_type \<times> string \<times> string option \<times> string option, evidence_item) dict
    \<Rightarrow> (evidence_type \<times> string \<times> string option \<times> string option, evidence_item) dict" where
  "put_evidence es d \<equiv> fold (\<lambda>e. AList.update (evidence_key e) e) es d"

lemma update_new: "\<not> dict_has d k \<Longrightarrow> AList.update k v d = d @ [(k, v)]"
  by (induction d) auto

lemma distinct_fold_keys:
  "distinct (dict_keys d) \<Longrightarrow> distinct (dict_keys (fold (\<lambda>x. AList.update (key x) x) xs d))"
  by (induction xs arbitrary: d) simp_all

lemma rebuild_keyed: "keyed key d \<Longrightarrow> fold (\<lambda>x. AList.update (key x) x) (dict_values d) [] = d"
proof (induction d rule: rev_induct)
  case (snoc p d)
  have k: "keyed key d" "\<not> dict_has d (fst p)" "fst p = key (snd p)"
    using snoc.prems by (auto simp: keyed_def split: prod.splits)
  have "AList.update (fst p) (snd p) d = d @ [p]" using update_new [OF k(2), of "snd p"] by simp
  then show ?case using snoc.IH [OF k(1)] k(3) by simp
qed simp

lemma fold_put_get:
  "dict_get (fold (\<lambda>x. AList.update (key x) x) xs d) = dict_get d ++ map_of (rev (map (\<lambda>x. (key x, x)) xs))"
  by (induction xs arbitrary: d) (simp_all add: update_conv map_add_def fun_eq_iff split: option.split)

lemma keys_update_old: "dict_has d k \<Longrightarrow> dict_keys (AList.update k v d) = dict_keys d"
  by (induction d) auto

lemma keys_fold_old: "key ` set xs \<subseteq> set (dict_keys d) \<Longrightarrow> dict_keys (fold (\<lambda>x. AList.update (key x) x) xs d) = dict_keys d"
  by (induction xs arbitrary: d) (simp_all add: keys_update_old del: set_map)

lemma dict_eqI:
  assumes "dict_keys d = dict_keys e" "distinct (dict_keys d)" "dict_get d = dict_get e"
  shows "d = e"
  using assms
proof (induction d arbitrary: e)
  case (Cons p d)
  then obtain q e' where e: "e = q # e'" "fst q = fst p" "dict_keys d = dict_keys e'" by (cases e) auto
  have v: "snd p = snd q" using fun_cong [OF Cons.prems(3), of "fst p"] e by (cases p, cases q) simp
  have "dict_get d k = dict_get e' k" for k
  proof (cases "k = fst p")
    case True
    then show ?thesis using Cons.prems(2) e(3) dict_get_None_iff [of d k] dict_get_None_iff [of e' k] by (metis distinct.simps(2) list.map(2))
  next
    case False
    then show ?thesis using fun_cong [OF Cons.prems(3), of k] e by (cases p, cases q) simp
  qed
  then have "d = e'" using Cons.prems(2) e(3) by (intro Cons.IH ext) simp_all
  then show ?case using e v by (cases p, cases q) simp
qed simp

lemma fold_update_idem:
  assumes "distinct (dict_keys d)"
  shows "fold (\<lambda>x. AList.update (key x) x) xs (fold (\<lambda>x. AList.update (key x) x) xs d) = fold (\<lambda>x. AList.update (key x) x) xs d"
    (is "?f (?f d) = ?f d")
proof (rule dict_eqI)
  have "key ` set xs \<subseteq> set (dict_keys (?f d))" by (simp only: keys_fold_keyed) blast
  then show "dict_keys (?f (?f d)) = dict_keys (?f d)" by (rule keys_fold_old)
  show "distinct (dict_keys (?f (?f d)))" using assms by (intro distinct_fold_keys)
  show "dict_get (?f (?f d)) = dict_get (?f d)" 
    unfolding fold_put_get by (rule ext) (simp add: map_add_def split: option.split)
qed

lemma dedup_keyed: "keyed evidence_key (put_evidence es [])"
  by (rule fold_keyed) (simp add: keyed_def)

lemma dedup_facts:
  "set (deduplicate_evidence es) \<subseteq> set es"
  "evidence_key ` set (deduplicate_evidence es) = evidence_key ` set es"
  "distinct (map evidence_key (deduplicate_evidence es))"
proof -
  show "set (deduplicate_evidence es) \<subseteq> set es"
    using values_fold_subset [of evidence_key es "[]"] by (simp add: deduplicate_evidence_def del: set_map)
  show "evidence_key ` set (deduplicate_evidence es) = evidence_key ` set es"
    unfolding deduplicate_evidence_def keyed_keys [OF dedup_keyed] keys_fold_keyed by simp
  have "map evidence_key (dict_values (put_evidence es [])) = dict_keys (put_evidence es [])"
    using dedup_keyed [of es] by (auto simp: keyed_def)
  then show "distinct (map evidence_key (deduplicate_evidence es))"
    unfolding deduplicate_evidence_def using dedup_keyed [of es] unfolding keyed_def by metis
qed

lemma dedup_again: "deduplicate_evidence (deduplicate_evidence (es @ fs) @ fs) = deduplicate_evidence (es @ fs)"
proof -
  have "put_evidence (deduplicate_evidence (es @ fs)) [] = put_evidence (es @ fs) []"
    unfolding deduplicate_evidence_def by (rule rebuild_keyed [OF dedup_keyed])
  moreover have "put_evidence fs (put_evidence fs (put_evidence es [])) = put_evidence fs (put_evidence es [])"
    using dedup_keyed [of es] by (intro fold_update_idem) (simp add: keyed_def)
  ultimately show ?thesis unfolding deduplicate_evidence_def fold_append comp_apply by simp
qed

lemma formal_items_update: "formal_items sha256 runs (c\<lparr>cf_evidence := es\<rparr>) = formal_items sha256 runs c"
proof -
  have "attachable (c\<lparr>cf_evidence := es\<rparr>) = attachable c" by (rule ext) (simp add: attachable_def)
  then show ?thesis by (simp add: formal_items_def)
qed

text \<open>
  Enrichment adds exactly the overlapping counterexamples. Every candidate keeps all its fields but
  the evidence; the new evidence consists of items of the candidate and of items made from formal
  counterexamples whose lines overlap the candidate, every such item is present up to its key (type,
  source, rule and fingerprint), no key occurs twice, and enriching again changes nothing.
\<close>

theorem enrichment_exact:
  "(\<exists>E. attach_formal_counterexamples sha256 candidates runs = map (\<lambda>c. c\<lparr>cf_evidence := E c\<rparr>) candidates
      \<and> (\<forall>c. set (E c) \<subseteq> set (cf_evidence c) \<union> formal_item sha256 ` {f \<in> set (concat runs). attachable c f}
          \<and> evidence_key ` set (E c)
              = evidence_key ` (set (cf_evidence c) \<union> formal_item sha256 ` {f \<in> set (concat runs). attachable c f})
          \<and> distinct (map evidence_key (E c))))
   \<and> attach_formal_counterexamples sha256 (attach_formal_counterexamples sha256 candidates runs) runs
       = attach_formal_counterexamples sha256 candidates runs"
proof
  have s: "set (cf_evidence c @ formal_items sha256 runs c)
      = set (cf_evidence c) \<union> formal_item sha256 ` {f \<in> set (concat runs). attachable c f}" for c
    by (auto simp: formal_items_def)
  show "\<exists>E. attach_formal_counterexamples sha256 candidates runs = map (\<lambda>c. c\<lparr>cf_evidence := E c\<rparr>) candidates
      \<and> (\<forall>c. set (E c) \<subseteq> set (cf_evidence c) \<union> formal_item sha256 ` {f \<in> set (concat runs). attachable c f}
          \<and> evidence_key ` set (E c)
              = evidence_key ` (set (cf_evidence c) \<union> formal_item sha256 ` {f \<in> set (concat runs). attachable c f})
          \<and> distinct (map evidence_key (E c)))"
    unfolding attach_formal_counterexamples_def s [symmetric]
    by (rule exI [of _ "\<lambda>c. deduplicate_evidence (cf_evidence c @ formal_items sha256 runs c)"])
      (auto simp del: set_append intro: dedup_facts(1) [THEN subsetD] simp: dedup_facts(2,3))
  show "attach_formal_counterexamples sha256 (attach_formal_counterexamples sha256 candidates runs) runs
       = attach_formal_counterexamples sha256 candidates runs"
    by (simp add: attach_formal_counterexamples_def formal_items_update dedup_again)
qed

text \<open>
  The key leaves out the description, unlike the deduplication of consensus. The evidence of a model
  review is stamped with its role, without a rule or fingerprint (\<open>agents/base.py\<close>), so that only its last
  item survives the enrichment, even without a formal run.
\<close>

theorem model_evidence_collapses:
  assumes "cf_evidence c \<noteq> []"
    and "list_all (\<lambda>e. ev_type e = EvModel \<and> ev_source e = role \<and> ev_rule_id e = None \<and> ev_fingerprint e = None) (cf_evidence c)"
  shows "attach_formal_counterexamples sha256 [c] [] = [c\<lparr>cf_evidence := [last (cf_evidence c)]\<rparr>]"
proof -
  have "put_evidence es [((EvModel, role, None, None), x)] = [((EvModel, role, None, None), last (x # es))]"
    if "list_all (\<lambda>e. evidence_key e = (EvModel, role, None, None)) es" for es x
    using that by (induction es arbitrary: x) simp_all
  then show ?thesis
    using assms by (cases "cf_evidence c")
      (simp_all add: attach_formal_counterexamples_def formal_items_def deduplicate_evidence_def evidence_key_def)
qed

section \<open>Reproduction\<close>

definition ready_result :: "reproduction_result \<Rightarrow> bool" where
  "ready_result r \<longleftrightarrow> (case rr_integrity r of None \<Rightarrow> True | Some (s, h) \<Rightarrow> length h \<le> 64 \<and> control_free h)"

text \<open>
  What a resolution has to say, from the results alone: the hashes of the runs of the candidate that were
  reproduced in every attempt and whose integrity was verified.
\<close>

definition counts_as_reproduced :: "reproduction_result \<Rightarrow> string \<Rightarrow> string \<Rightarrow> bool" where
  "counts_as_reproduced r cid h \<longleftrightarrow> rr_candidate_id r = cid
     \<and> (rr_state r = REPRODUCED \<or> rr_state r = REPRODUCED_AND_MINIMIZED)
     \<and> 0 < rr_attempts r \<and> rr_successful_attempts r = rr_attempts r
     \<and> rr_integrity r = Some (IntegrityVerified, h)"

definition resolution_refs :: "reproduction_result list \<Rightarrow> string \<Rightarrow> string set" where
  "resolution_refs results cid = {''reproduction:'' @ h |h. \<exists>r\<in>set results. counts_as_reproduced r cid h}"

lemma reproduced_hash_iff: "rr_candidate_id r = cid \<and> reproduced_hash r = Some h \<longleftrightarrow> counts_as_reproduced r cid h"
  by (auto simp: reproduced_hash_def counts_as_reproduced_def split: option.splits)

definition resolution_ok :: "reproduction_result list \<Rightarrow> candidate_resolution \<Rightarrow> bool" where
  "resolution_ok results e \<longleftrightarrow> set (re_evidence_refs e) = resolution_refs results (re_candidate_id e)
     \<and> sorted (re_evidence_refs e) \<and> distinct (re_evidence_refs e)
     \<and> (re_kind e = ResolvedReproduced \<longleftrightarrow> resolution_refs results (re_candidate_id e) \<noteq> {})"

lemma state_values: "reproduction_value s \<in> set [''not_attempted'', ''generation_failed'', ''compile_failed'',
    ''environment_blocked'', ''not_reproduced'', ''partially_reproduced'', ''reproduced'', ''reproduced_and_minimized'',
    ''formally_proven'', ''disproven'']" (is "_ \<in> set ?vs")
  by (cases s) simp_all

lemma joined_length: "length (join sep xs) \<le> sum_list (map length xs) + length xs * length sep"
  by (induction sep xs rule: join.induct) simp_all

lemma states_length: "length (join '', '' (sorted_set (map (\<lambda>r. reproduction_value (rr_state r)) rs))) \<le> 260"
proof -
  let ?xs = "sorted_set (map (\<lambda>r. reproduction_value (rr_state r)) rs)"
  let ?vs = "[''not_attempted'', ''generation_failed'', ''compile_failed'',
    ''environment_blocked'', ''not_reproduced'', ''partially_reproduced'', ''reproduced'', ''reproduced_and_minimized'',
    ''formally_proven'', ''disproven'']"
  have s: "set ?xs \<subseteq> set ?vs" using state_values by auto
  have "card (set ?xs) \<le> card (set ?vs)" by (rule card_mono [OF finite_set s])
  also have "\<dots> \<le> 10" by (rule order.trans [OF card_length]) simp
  finally have n: "length ?xs \<le> 10" by (simp add: distinct_card [symmetric])
  have "\<forall>x\<in>set ?xs. length x \<le> 24" using s by auto
  then have "sum_list (map length ?xs) \<le> sum_list (map (\<lambda>x. 24) ?xs)" by (intro sum_list_mono) blast
  then have "sum_list (map length ?xs) \<le> 24 * length ?xs" by (simp add: sum_list_triv)
  then show ?thesis using joined_length [of "'', ''" ?xs] n by simp
qed

lemma mem_map_filter: "y \<in> set (List.map_filter f xs) \<longleftrightarrow> (\<exists>x\<in>set xs. f x = Some y)"
  by (induction xs) (auto simp: List.map_filter_simps split: option.splits)

definition refs_of :: "reproduction_result list \<Rightarrow> string \<Rightarrow> string list" where
  "refs_of results cid = sorted_set (map (\<lambda>h. ''reproduction:'' @ h)
     (List.map_filter reproduced_hash (filter (\<lambda>r. rr_candidate_id r = cid) results)))"

lemma refs_set: "set (refs_of results cid) = resolution_refs results cid"
proof -
  have "set (List.map_filter reproduced_hash (filter (\<lambda>r. rr_candidate_id r = cid) results))
      = {h. \<exists>r\<in>set results. counts_as_reproduced r cid h}"
    by (auto simp: mem_map_filter reproduced_hash_iff [symmetric])
  then show ?thesis
    unfolding refs_of_def resolution_refs_def sorted_set_facts(1) set_map by (simp only: setcompr_eq_image)
qed

lemma refs_Nil: "refs_of results cid = [] \<longleftrightarrow> resolution_refs results cid = {}"
  using refs_set [of results cid] by auto

lemma refs_length:
  assumes "length results \<le> 100"
  shows "length (refs_of results cid) \<le> 100"
proof -
  have "length (List.map_filter reproduced_hash (filter (\<lambda>r. rr_candidate_id r = cid) results))
      \<le> length (filter (\<lambda>r. rr_candidate_id r = cid) results)"
    unfolding List.map_filter_def length_map by (rule length_filter_le)
  also have "\<dots> \<le> 100" using assms by (rule order.trans [OF length_filter_le])
  finally show ?thesis unfolding refs_of_def by (intro order.trans [OF sorted_set_facts(4)]) simp
qed

lemma refs_text:
  assumes "list_all ready_result results"
  shows "list_all (\<lambda>ref. ref \<noteq> [] \<and> length ref \<le> 500 \<and> control_free ref) (refs_of results cid)"
proof -
  have "length h \<le> 64 \<and> control_free h" if "r \<in> set results" "counts_as_reproduced r cid h" for r h
    using assms that by (force simp: list_all_iff ready_result_def counts_as_reproduced_def)
  then show ?thesis
    by (fastforce simp: list_all_iff refs_set resolution_refs_def control_free_def code_def)
qed

lemma resolve_returns:
  assumes "cid \<noteq> []" "length cid \<le> 160" "list_all ready_result results" "length results \<le> 100"
  shows "\<exists>e. resolve_candidate results cid = Inr e \<and> re_candidate_id e = cid \<and> resolution_ok results e"
proof -
  let ?refs = "refs_of results cid"
  let ?states = "sorted_set (map (\<lambda>r. reproduction_value (rr_state r))
    (filter (\<lambda>r. 0 < rr_attempts r) (filter (\<lambda>r. rr_candidate_id r = cid) results)))"
  have s: "sorted ?refs" "distinct ?refs" by (simp_all add: refs_of_def)
  show ?thesis
  proof (cases "?refs = []")
    case True
    let ?d = "if ?states \<noteq> [] then ''attempted reproduction did not produce a qualifying terminal outcome: '' @ join '', '' ?states
        else ''no qualifying integrity-bound deterministic reproduction evidence''"
    have "?d \<noteq> []" "length ?d \<le> 2000"
      using states_length [of "filter (\<lambda>r. 0 < rr_attempts r) (filter (\<lambda>r. rr_candidate_id r = cid) results)"] by auto
    then have "validate_resolution \<lparr>re_candidate_id = cid, re_kind = ResolvedInconclusive, re_evidence_refs = [], re_detail = ?d\<rparr>
        = Inr \<lparr>re_candidate_id = cid, re_kind = ResolvedInconclusive, re_evidence_refs = [], re_detail = ?d\<rparr>"
      using assms(1,2) unfolding validate_resolution_def by (simp add: sorted_set_def)
    then show ?thesis
      using True refs_Nil [of results cid] unfolding resolve_candidate_def Let_def refs_of_def [symmetric]
      by (simp add: resolution_ok_def)
  next
    case False
    have "validate_resolution \<lparr>re_candidate_id = cid, re_kind = ResolvedReproduced, re_evidence_refs = ?refs,
          re_detail = ''verified deterministic reproduction resolved candidate''\<rparr>
        = Inr \<lparr>re_candidate_id = cid, re_kind = ResolvedReproduced, re_evidence_refs = ?refs,
          re_detail = ''verified deterministic reproduction resolved candidate''\<rparr>"
      using assms(1,2) False refs_length [OF assms(4), of cid] refs_text [OF assms(3), of cid] sorted_set_id [OF s]
      unfolding validate_resolution_def by simp
    then show ?thesis
      using False s refs_Nil [of results cid] refs_set [of results cid]
      unfolding resolve_candidate_def Let_def refs_of_def [symmetric] by (simp add: resolution_ok_def)
  qed
qed

lemma traverse_returns:
  "\<forall>x\<in>set xs. \<exists>y. f x = Inr y \<and> P x y \<Longrightarrow> \<exists>ys. traverse f xs = Inr ys \<and> list_all2 P xs ys"
  by (induction xs) auto

text \<open>
  C29: Every high or critical candidate gets exactly one resolution, and the right one. For candidates
  with identifiers of 1 to 160 characters and at most 100 results with hashes of at most 64 characters
  without control characters: the resolutions are built, one for each candidate that is high, critical
  or forced, in the order of the identifiers. A resolution is \<open>reproduced\<close> exactly when some result of
  that candidate was reproduced (or reproduced and minimized) after at least one attempt, in every
  attempt, with verified integrity, and its references are exactly the hashes of those results, sorted.
\<close>

theorem resolutions_exact:
  assumes "list_all (\<lambda>c. cf_candidate_id c \<noteq> [] \<and> length (cf_candidate_id c) \<le> 160) candidates"
    and "list_all ready_result results" "length results \<le> 100"
  shows "\<exists>rs. build_candidate_reproduction_resolutions candidates results forced = Inr rs
    \<and> map re_candidate_id rs = map cf_candidate_id
        (filter (\<lambda>c. cf_severity c = SevHigh \<or> cf_severity c = SevCritical \<or> cf_candidate_id c \<in> set forced)
          (sort_key cf_candidate_id candidates))
    \<and> (\<forall>e \<in> set rs.
        set (re_evidence_refs e) = {''reproduction:'' @ h |h. \<exists>r \<in> set results. rr_candidate_id r = re_candidate_id e
            \<and> (rr_state r = REPRODUCED \<or> rr_state r = REPRODUCED_AND_MINIMIZED)
            \<and> 0 < rr_attempts r \<and> rr_successful_attempts r = rr_attempts r
            \<and> rr_integrity r = Some (IntegrityVerified, h)}
        \<and> sorted (re_evidence_refs e) \<and> distinct (re_evidence_refs e)
        \<and> (re_kind e = ResolvedReproduced \<longleftrightarrow> re_evidence_refs e \<noteq> []))"
proof -
  let ?due = "\<lambda>c. cf_severity c = SevHigh \<or> cf_severity c = SevCritical \<or> cf_candidate_id c \<in> set forced"
  let ?cs = "filter ?due (sort_key cf_candidate_id candidates)"
  have due: "obligated forced = ?due" by (auto simp: fun_eq_iff obligated_def)
  have "\<forall>c\<in>set ?cs. \<exists>e. resolve_candidate results (cf_candidate_id c) = Inr e
      \<and> (re_candidate_id e = cf_candidate_id c \<and> resolution_ok results e)"
    using assms(1) resolve_returns [OF _ _ assms(2,3)] by (simp add: list_all_iff)
  from traverse_returns [OF this] obtain rs where rs: "build_candidate_reproduction_resolutions candidates results forced = Inr rs"
    "list_all2 (\<lambda>c e. re_candidate_id e = cf_candidate_id c \<and> resolution_ok results e) ?cs rs"
    by (auto simp: build_candidate_reproduction_resolutions_def due)
  from rs(2) have "map re_candidate_id rs = map cf_candidate_id ?cs \<and> (\<forall>e \<in> set rs. resolution_ok results e)"
    by (induction rule: list_all2_induct) simp_all
  moreover have "(re_evidence_refs e \<noteq> []) = (resolution_refs results (re_candidate_id e) \<noteq> {})" if "resolution_ok results e" for e
    using that by (metis resolution_ok_def set_empty)
  ultimately show ?thesis
    using rs(1) by (fastforce simp: resolution_ok_def resolution_refs_def counts_as_reproduced_def)
qed

definition reproduced_run :: reproduction_result where
  "reproduced_run = \<lparr>rr_candidate_id = ''c1'', rr_state = REPRODUCED, rr_attempts = 2, rr_successful_attempts = 2,
     rr_integrity = Some (IntegrityVerified, ''ab'')\<rparr>"

definition flaky_run :: reproduction_result where
  "flaky_run = \<lparr>rr_candidate_id = ''c1'', rr_state = REPRODUCED, rr_attempts = 2, rr_successful_attempts = 1,
     rr_integrity = Some (IntegrityVerified, ''cd'')\<rparr>"

theorem resolutions_exact_witness:
  "\<exists>e. build_candidate_reproduction_resolutions [wide\<lparr>cf_candidate_id := ''c1'', cf_severity := SevHigh\<rparr>]
       [reproduced_run, flaky_run] [] = Inr [e]
    \<and> re_candidate_id e = ''c1'' \<and> set (re_evidence_refs e) = {''reproduction:ab''} \<and> re_kind e = ResolvedReproduced"
proof -
  have "list_all ready_result [reproduced_run, flaky_run]"
    by (simp add: ready_result_def reproduced_run_def flaky_run_def control_free_def code_def)
  from resolutions_exact [OF _ this, where candidates = "[wide\<lparr>cf_candidate_id := ''c1'', cf_severity := SevHigh\<rparr>]" and forced = "[]"]
  obtain rs where rs: "build_candidate_reproduction_resolutions [wide\<lparr>cf_candidate_id := ''c1'', cf_severity := SevHigh\<rparr>]
       [reproduced_run, flaky_run] [] = Inr rs" "map re_candidate_id rs = [''c1'']"
    and each: "\<And>e. e \<in> set rs \<Longrightarrow> re_candidate_id e = ''c1'' \<Longrightarrow>
      set (re_evidence_refs e) = {''reproduction:ab''} \<and> (re_kind e = ResolvedReproduced \<longleftrightarrow> re_evidence_refs e \<noteq> [])"
    by (auto simp: reproduced_run_def flaky_run_def)
  from rs(2) obtain e where e: "rs = [e]" "re_candidate_id e = ''c1''" by auto
  with each [of e] have "set (re_evidence_refs e) = {''reproduction:ab''} \<and> re_kind e = ResolvedReproduced" by force
  with rs(1) e show ?thesis by blast
qed

definition model_item :: "string \<Rightarrow> evidence_item" where
  "model_item d = \<lparr>ev_type = EvModel, ev_source = ''source_audit'', ev_description = d, ev_rule_id = None, ev_fingerprint = None\<rparr>"

theorem model_evidence_collapses_witness:
  "attach_formal_counterexamples sha0 [wide\<lparr>cf_evidence := [model_item ''first'', model_item ''second'']\<rparr>] []
     = [wide\<lparr>cf_evidence := [model_item ''second'']\<rparr>]"
  using model_evidence_collapses [where c = "wide\<lparr>cf_evidence := [model_item ''first'', model_item ''second'']\<rparr>"
      and role = "''source_audit''" and ?sha256.0 = sha0]
  by (simp add: model_item_def)

end
