(* ===== verification/Py_Glob.thy ===== *)
theory Py_Glob
  imports Source_Text
begin

text \<open>
  Python's shell patterns: \<open>fnmatch.fnmatch\<close> on a case-sensitive system, and
  \<open>PurePosixPath.match\<close>, which compares the last components of a path with the components of a
  relative pattern.
\<close>

section \<open>Patterns\<close>

datatype glob_item = ClassChar char | ClassRange char char

datatype glob = AnyRun | AnyOne | OneOf bool "glob_item list" | Literal char

text \<open>
  The text between \<open>[\<close> and its closing bracket, with what follows it: a \<open>!\<close> and then a bracket
  directly after the opening one belong to the text. \<open>None\<close> when the class is not closed.
\<close>

definition split_class :: "string \<Rightarrow> (string \<times> string) option" where
  "split_class cs =
     (let bang = (if starts_with ''!'' cs then ''!'' else []); r = drop (length bang) cs;
          bracket = (if starts_with '']'' r then '']'' else []); s = drop (length bracket) r;
          rest = dropWhile (\<lambda>c. c \<noteq> CHR '']'') s
      in if rest = [] then None else Some (bang @ bracket @ takeWhile (\<lambda>c. c \<noteq> CHR '']'') s, tl rest))"

text \<open>The characters and ranges of a class; a range whose ends are in the wrong order is dropped.\<close>

fun range_items :: "string \<Rightarrow> glob_item list" where
  "range_items (x # d # y # r) =
     (if d = CHR ''-'' then (if x \<le> y then [ClassRange x y] else []) @ range_items r
      else ClassChar x # range_items (d # y # r))"
| "range_items (x # r) = ClassChar x # range_items r"
| "range_items [] = []"

definition stuff_items :: "string \<Rightarrow> glob_item list" where
  "stuff_items s = (if starts_with ''!'' s then ClassChar (CHR ''!'') # range_items (tl s) else range_items s)"

text \<open>A class is negated when a \<open>!\<close> is its first character once empty ranges are gone.\<close>

definition glob_class :: "glob_item list \<Rightarrow> glob" where
  "glob_class items =
     (case items of
        ClassChar c # r \<Rightarrow> if c = CHR ''!'' then OneOf True r else OneOf False items
      | ClassRange lo hi # r \<Rightarrow>
          if lo = CHR ''!'' then OneOf True (ClassChar (CHR ''-'') # ClassChar hi # r) else OneOf False items
      | [] \<Rightarrow> OneOf False [])"

lemma split_class_shorter: "split_class cs = Some (stuff, rest) \<Longrightarrow> length rest < length cs"
proof -
  have shorter: "length (tl (dropWhile P (drop n cs))) < length cs" if "dropWhile P (drop n cs) \<noteq> []" for P n
    using that length_dropWhile_le [of P "drop n cs"] by (cases "dropWhile P (drop n cs)") auto
  assume "split_class cs = Some (stuff, rest)"
  then show ?thesis
    using shorter [where n = 0]
    by (auto simp: split_class_def Let_def simp del: length_tl dropWhile_eq_Nil_conv intro: shorter split: if_splits)
qed

function translate :: "string \<Rightarrow> glob list" where
  "translate [] = []"
| "translate (c # cs) =
     (if c = CHR ''*'' then AnyRun # translate cs
      else if c = CHR ''?'' then AnyOne # translate cs
      else if c = CHR ''['' then
        (case split_class cs of
           None \<Rightarrow> Literal c # translate cs
         | Some (stuff, rest) \<Rightarrow> glob_class (stuff_items stuff) # translate rest)
      else Literal c # translate cs)"
  by pat_completeness auto
termination
  by (relation "measure length") (auto dest: split_class_shorter)

section \<open>Matching\<close>

fun in_item :: "char \<Rightarrow> glob_item \<Rightarrow> bool" where
  "in_item c (ClassChar d) = (c = d)"
| "in_item c (ClassRange lo hi) = (lo \<le> c \<and> c \<le> hi)"

fun glob_match :: "glob list \<Rightarrow> string \<Rightarrow> bool" where
  "glob_match [] s = (s = [])"
| "glob_match (AnyRun # g) [] = glob_match g []"
| "glob_match (AnyRun # g) (c # cs) = (glob_match g (c # cs) \<or> glob_match (AnyRun # g) cs)"
| "glob_match (AnyOne # g) s = (s \<noteq> [] \<and> glob_match g (tl s))"
| "glob_match (OneOf negated items # g) s =
     (s \<noteq> [] \<and> list_ex (in_item (hd s)) items = (\<not> negated) \<and> glob_match g (tl s))"
| "glob_match (Literal d # g) s = (s \<noteq> [] \<and> hd s = d \<and> glob_match g (tl s))"

definition fnmatch :: "string \<Rightarrow> string \<Rightarrow> bool" where
  "fnmatch name pat = glob_match (translate pat) name"

definition path_match :: "string \<Rightarrow> string \<Rightarrow> (string, bool) result" where
  "path_match path pattern =
     (let parts = posix_parts path; wanted = posix_parts pattern
      in if wanted = [] then Inl ''empty pattern''
         else Inr (length wanted \<le> length parts
                   \<and> list_all2 fnmatch (drop (length parts - length wanted) parts) wanted))"

section \<open>What matching means\<close>

text \<open>The language of a pattern, as a reference for the matcher.\<close>

fun glob_word :: "glob \<Rightarrow> string set" where
  "glob_word AnyRun = UNIV"
| "glob_word AnyOne = {[c] | c. True}"
| "glob_word (OneOf negated items) = {[c] | c. list_ex (in_item c) items = (\<not> negated)}"
| "glob_word (Literal d) = {[d]}"

fun glob_words :: "glob list \<Rightarrow> string set" where
  "glob_words [] = {[]}"
| "glob_words (t # g) = {u @ v | u v. u \<in> glob_word t \<and> v \<in> glob_words g}"

lemma any_run_words: "w \<in> glob_words (AnyRun # g) \<longleftrightarrow> (\<exists>n. drop n w \<in> glob_words g)"
proof
  assume "w \<in> glob_words (AnyRun # g)"
  then obtain u v where "w = u @ v" "v \<in> glob_words g" by auto
  then show "\<exists>n. drop n w \<in> glob_words g" by (intro exI [of _ "length u"]) simp
next
  assume "\<exists>n. drop n w \<in> glob_words g"
  then obtain n where "drop n w \<in> glob_words g" ..
  then have "w = take n w @ drop n w \<and> take n w \<in> glob_word AnyRun \<and> drop n w \<in> glob_words g" by simp
  then show "w \<in> glob_words (AnyRun # g)" unfolding glob_words.simps by blast
qed

lemma char_words: "glob_word t = {[c] | c. P c} \<Longrightarrow>
    w \<in> glob_words (t # g) \<longleftrightarrow> w \<noteq> [] \<and> P (hd w) \<and> tl w \<in> glob_words g"
  by (cases w) (auto intro: exI [of _ "[hd w]"])

lemma glob_match_words: "glob_match g w \<longleftrightarrow> w \<in> glob_words g"
proof (induction g w rule: glob_match.induct)
  case (3 g c cs)
  have "c # cs \<in> glob_words (AnyRun # g) \<longleftrightarrow> c # cs \<in> glob_words g \<or> cs \<in> glob_words (AnyRun # g)"
    unfolding any_run_words by (metis drop0 drop_Suc_Cons not0_implies_Suc)
  then show ?case using 3 by simp
next
  case (4 g s)
  then show ?case using char_words [of AnyOne "\<lambda>_. True"] by auto
next
  case (5 negated items g s)
  then show ?case using char_words [of "OneOf negated items" "\<lambda>c. list_ex (in_item c) items = (\<not> negated)"] by auto
next
  case (6 d g s)
  then show ?case using char_words [of "Literal d" "\<lambda>c. c = d"] by auto
qed (simp_all add: any_run_words del: glob_words.simps(2))

text \<open>A pattern begins literally with its characters before the first special one.\<close>

definition special_chars :: "char list" where
  "special_chars = [CHR ''*'', CHR ''?'', CHR ''['']"

definition literal_prefix :: "string \<Rightarrow> string" where
  "literal_prefix rule = takeWhile (\<lambda>c. c \<notin> set special_chars) rule"

lemma translate_literal: "translate (literal_prefix p @ r) = map Literal (literal_prefix p) @ translate r"
  by (induction p) (auto simp: literal_prefix_def special_chars_def)

lemma literal_words: "w \<in> glob_words (map Literal l @ g) \<longleftrightarrow> (\<exists>v. w = l @ v \<and> v \<in> glob_words g)"
  by (induction l arbitrary: w) auto

lemma fnmatch_prefix: "fnmatch s p \<Longrightarrow> \<exists>v. s = literal_prefix p @ v \<and> v \<in> glob_words (translate (drop (length (literal_prefix p)) p))"
  using translate_literal [of p "drop (length (literal_prefix p)) p"]
  by (simp add: fnmatch_def glob_match_words literal_prefix_def literal_words flip: dropWhile_eq_drop)

lemma fnmatch_literal: "literal_prefix p = p \<Longrightarrow> fnmatch s p \<longleftrightarrow> s = p"
  using translate_literal [of p "[]"] literal_words [of s p "[]"] by (simp add: fnmatch_def glob_match_words)

end
