(* ===== verification/Ignore_Rules.thy ===== *)
theory Ignore_Rules
  imports Location_Check Py_Glob
begin

text \<open>
  The ignore rules of \<open>repository/ignore.py\<close>: patterns in the style of \<open>.gitignore\<close>, the matcher
  with its default and permanent exclusions, and the path of the ignore file.
\<close>

section \<open>Patterns\<close>

definition lstrip_slashes :: "string \<Rightarrow> string" where
  "lstrip_slashes s = dropWhile (\<lambda>c. c = CHR ''/'') s"

definition rstrip_slashes :: "string \<Rightarrow> string" where
  "rstrip_slashes s = rev (dropWhile (\<lambda>c. c = CHR ''/'') (rev s))"

definition path_matches :: "string \<Rightarrow> string \<Rightarrow> bool \<Rightarrow> bool checked" where
  "path_matches path raw is_dir =
     (let rooted = starts_with ''/'' raw; unrooted = lstrip_slashes raw;
          directory_pattern = ends_with ''/'' unrooted; pattern = rstrip_slashes unrooted;
          path_parts = posix_parts path
      in if pattern = [] then Inr False
         else if directory_pattern then
           Inr (if CHR ''/'' \<in> set pattern \<or> rooted then path = pattern \<or> starts_with (pattern @ ''/'') path
                else pattern \<in> set (butlast path_parts) \<or> (is_dir \<and> pattern \<in> set path_parts))
         else if CHR ''/'' \<notin> set pattern then
           Inr (fnmatch (posix_name path) pattern \<or> list_ex (\<lambda>part. fnmatch part pattern) path_parts)
         else if fnmatch path pattern then Inr True
         else path_match path pattern)"

definition permanent_exclusions :: "string list" where
  "permanent_exclusions = [''.git'', ''.git/**'', ''.env'', ''.env.*'', ''**/.env'', ''**/.env.*'',
     ''operator-secrets.example'', ''**/operator-secrets.example'', ''*.keystore'', ''**/*.keystore'', ''*.pem'', ''*.key'',
     ''**/*.pem'', ''**/*.key'', ''.ssh'', ''.ssh/**'', ''**/.ssh'', ''**/.ssh/**'', ''.aws'', ''.aws/**'', ''**/.aws'',
     ''**/.aws/**'', ''.azure'', ''.azure/**'', ''**/.azure'', ''**/.azure/**'', ''.config/gcloud'', ''.config/gcloud/**'',
     ''**/.config/gcloud'', ''**/.config/gcloud/**'', ''.kube/config'', ''**/.kube/config'', ''.docker/config.json'',
     ''**/.docker/config.json'', ''.netrc'', ''**/.netrc'', ''.npmrc'', ''**/.npmrc'', ''.pypirc'', ''**/.pypirc'', ''id_rsa'',
     ''**/id_rsa'', ''id_ed25519'', ''**/id_ed25519'']"

definition default_exclusions :: "string list" where
  "default_exclusions = [''.git/'', ''node_modules/'', ''vendor/'', ''dist/'', ''build/'', ''coverage/'', ''.next/'', ''target/'',
     ''out/'', ''artifacts/'', ''cache/'', ''broadcast/'', ''.venv/'', ''venv/'', ''__pycache__/'', ''*.min.js'', ''*.map'',
     ''*.lock'', ''*.png'', ''*.jpg'', ''*.jpeg'', ''*.gif'', ''*.pdf'', ''*.zip'', ''*.tar'', ''*.gz'', ''*.pem'', ''*.key'', ''.env'',
     ''.env.*'', ''.mmaudit/'', ''.mmaudit/runs/'', ''.mmaudit/latest/'']"

section \<open>The matcher\<close>

record ignore_matcher =
  im_rules :: "string list"

definition new_matcher :: "string list \<Rightarrow> ignore_matcher" where
  "new_matcher rules = \<lparr>im_rules = default_exclusions @ rules\<rparr>"

text \<open>The decoded text of the ignore file, if the path names a file.\<close>

definition matcher_from_file :: "string option \<Rightarrow> ignore_matcher" where
  "matcher_from_file content =
     (case content of
        None \<Rightarrow> new_matcher []
      | Some t \<Rightarrow> new_matcher (filter (\<lambda>line. line \<noteq> [] \<and> \<not> starts_with ''#'' line)
                    (map strip_spaces (splitlines (universal_newlines t)))))"

definition from_effective_rules :: "string list \<Rightarrow> ignore_matcher" where
  "from_effective_rules rules = (new_matcher [])\<lparr>im_rules := rules\<rparr>"

definition negated_rule :: "string \<Rightarrow> bool" where
  "negated_rule raw = starts_with ''!'' raw"

definition rule_pattern :: "string \<Rightarrow> string" where
  "rule_pattern raw = (if negated_rule raw then drop 1 raw else raw)"

fun apply_rules :: "string \<Rightarrow> bool \<Rightarrow> bool \<Rightarrow> string list \<Rightarrow> bool checked" where
  "apply_rules path is_dir ign [] = Inr ign"
| "apply_rules path is_dir ign (raw # rules) =
     rbind (path_matches path (rule_pattern raw) is_dir) (\<lambda>hit.
     apply_rules path is_dir (if hit then \<not> negated_rule raw else ign) rules)"

fun any_match :: "string \<Rightarrow> bool \<Rightarrow> string list \<Rightarrow> bool checked" where
  "any_match path is_dir [] = Inr False"
| "any_match path is_dir (pattern # rest) =
     rbind (path_matches path pattern is_dir) (\<lambda>hit. if hit then Inr True else any_match path is_dir rest)"

definition ignored :: "ignore_matcher \<Rightarrow> string \<Rightarrow> bool \<Rightarrow> bool checked" where
  "ignored m path is_dir =
     rbind (normalize_relative_path path) (\<lambda>normalized.
     if is_sensitive_workspace_path normalized is_dir then Inr True
     else rbind (apply_rules normalized is_dir False (im_rules m)) (\<lambda>ign.
          rbind (any_match normalized is_dir permanent_exclusions) (\<lambda>hit.
          Inr (if hit then True else ign))))"

definition may_reach :: "string \<Rightarrow> string \<Rightarrow> bool" where
  "may_reach normalized raw =
     (let rule = rstrip_slashes (lstrip_slashes (drop 1 raw));
          metacharacters = list_ex (\<lambda>c. c \<in> set special_chars) rule;
          prefix = literal_prefix rule;
          wildcard_may_reach = (metacharacters \<and> (prefix = [] \<or> starts_with prefix normalized))
      in starts_with normalized rule \<or> starts_with normalized prefix \<or> wildcard_may_reach)"

definition may_include_descendant :: "ignore_matcher \<Rightarrow> string \<Rightarrow> bool checked" where
  "may_include_descendant m path =
     rbind (normalize_relative_path path) (\<lambda>n.
     let directory = rstrip_slashes n
     in if is_sensitive_workspace_path directory True then Inr False
        else rbind (any_match directory True permanent_exclusions) (\<lambda>hit.
             Inr (if hit then False
                  else list_ex (\<lambda>raw. negated_rule raw \<and> may_reach (directory @ ''/'') raw) (im_rules m))))"

section \<open>The ignore file\<close>

text \<open>
  The components below the resolved root of the file to read. Where no component is a link and none
  is \<open>..\<close>, resolving the path again stays at it.
\<close>

definition safe_ignore_file :: "repo_tree \<Rightarrow> string \<Rightarrow> string list checked" where
  "safe_ignore_file tree configured_path =
     rbind (normalize_relative_path configured_path) (\<lambda>relative.
     let parts = posix_parts relative
     in if is_sensitive_workspace_path relative False then Inl ''ignore file may not use a sensitive path''
        else if list_ex (\<lambda>n. tree (take n parts) = Some LinkNode) [1..<Suc (length parts)]
        then Inl ''ignore file may not traverse a link''
        else Inr parts)"

end
