(* ===== verification/Ignore_Facts.thy ===== *)
theory Ignore_Facts
  imports Ignore_Rules Location_Facts
begin

text \<open>
  Normalized paths, and how the rules of a matcher decide: normalizing twice, the last rule that
  matches, and the reach of a negated rule.
\<close>

section \<open>Normalized paths\<close>

lemma utf8_length_append [simp]: "utf8_length (a @ b) = utf8_length a + utf8_length b"
  by (simp add: utf8_length_def)

lemma utf8_length_Nil [simp]: "utf8_length [] = 0"
  by (simp add: utf8_length_def)

lemma utf8_length_slash [simp]: "utf8_length (CHR ''/'' # s) = Suc (utf8_length s)" "utf8_length ''.'' = 1"
  by (simp_all add: utf8_length_def code_def)

lemma split_on_not_Nil [simp]: "split_on sep cur s \<noteq> []"
  by (induction sep cur s rule: split_on.induct) auto

lemma join_split_on: "join [sep] (split_on sep cur s) = rev cur @ s"
proof (induction sep cur s rule: split_on.induct)
  case (2 sep cur c cs)
  obtain y ys where "split_on sep [] cs = y # ys" by (cases "split_on sep [] cs") auto
  then show ?case using 2 by simp
qed simp

lemma utf8_join: "xs \<noteq> [] \<Longrightarrow> Suc (utf8_length (join ''/'' xs)) = (\<Sum>x\<leftarrow>xs. utf8_length x) + length xs"
  by (induction "''/''" xs rule: join.induct) auto

lemma utf8_join_filter: "utf8_length (join ''/'' (filter P xs)) \<le> utf8_length (join ''/'' xs)"
proof (cases "filter P xs = []")
  case False
  then have "xs \<noteq> []" by auto
  have "(\<Sum>x\<leftarrow>filter P xs. utf8_length x) \<le> (\<Sum>x\<leftarrow>xs. utf8_length x)" by (induction xs) auto
  then show ?thesis using utf8_join [OF False] utf8_join [OF \<open>xs \<noteq> []\<close>] length_filter_le [of P xs] by linarith
qed simp

lemma utf8_as_posix: "utf8_length (as_posix (posix_parts v)) \<le> max 1 (utf8_length v)"
  using utf8_join_filter [of "\<lambda>p. p \<noteq> [] \<and> p \<noteq> ''.''" "split_on (CHR ''/'') [] v"] join_split_on [of "CHR ''/''" "[]" v]
  by (auto simp: as_posix_def posix_parts_def)

lemma set_split_on: "c \<in> set p \<Longrightarrow> p \<in> set (split_on sep cur s) \<Longrightarrow> c \<in> set cur \<or> c \<in> set s"
  by (induction sep cur s rule: split_on.induct) (auto split: if_splits)

lemma set_join: "c \<in> set (join sep xs) \<Longrightarrow> c \<in> set sep \<or> (\<exists>x \<in> set xs. c \<in> set x)"
  by (induction sep xs rule: join.induct) auto

lemma set_as_posix: "c \<in> set (as_posix (posix_parts v)) \<Longrightarrow> c = CHR ''.'' \<or> c = CHR ''/'' \<or> c \<in> set v"
  using set_join [of c "''/''" "posix_parts v"] set_split_on [of c _ "CHR ''/''" "[]" v]
  by (auto simp: as_posix_def posix_parts_def split: if_splits)

lemma as_posix_relative: "plain_parts parts \<Longrightarrow> \<not> starts_with ''/'' (as_posix parts)"
proof (cases parts)
  case (Cons p ps)
  assume "plain_parts parts"
  then obtain c cs where "p = c # cs" "c \<noteq> CHR ''/''" using Cons by (cases p) (auto simp: plain_parts_def)
  then show ?thesis using Cons by (cases ps) (simp_all add: as_posix_def starts_with_def)
qed (simp add: as_posix_def starts_with_def)

lemma no_backslash: "CHR 0x5C \<notin> set (backslashes_to_slashes s)"
  by (auto simp: backslashes_to_slashes_def)

lemma backslashes_id: "CHR 0x5C \<notin> set s \<Longrightarrow> backslashes_to_slashes s = s"
  by (auto simp: backslashes_to_slashes_def intro!: map_idI)

text \<open>A normalized path is normalized again to itself, unless it now looks like a path of a drive.\<close>

lemma normalize_again:
  assumes "normalize_relative_path path = Inr normalized"
  shows "normalize_relative_path normalized =
    (if has_drive normalized then Inl (''absolute drive path rejected: '' @ normalized) else Inr normalized)"
proof -
  let ?v = "backslashes_to_slashes path"
  note N = normalize_Inr [OF assms]
  have v: "utf8_length ?v \<le> 4096" "\<not> list_ex is_control_category ?v"
    "\<not> list_ex (\<lambda>p. 255 < utf8_length p) (posix_parts ?v)"
    using assms by (auto simp: normalize_relative_path_def Let_def split: if_splits)
  have chars: "c = CHR ''.'' \<or> c = CHR ''/'' \<or> c \<in> set ?v" if "c \<in> set normalized" for c
    using that set_as_posix [of c ?v] N(1) by simp
  then have b: "backslashes_to_slashes normalized = normalized"
    using no_backslash [of path] by (intro backslashes_id) auto
  have "utf8_length normalized \<le> 4096" using utf8_as_posix [of ?v] v(1) N(1) by simp
  moreover have "\<not> list_ex is_control_category normalized"
    using v(2) chars by (fastforce simp: list_ex_iff is_control_category_def code_def)
  moreover have "\<not> starts_with ''/'' normalized"
    unfolding N(1) by (rule as_posix_relative [OF plain_posix_parts])
  moreover have "strip_dot_slash (as_posix (posix_parts normalized)) = normalized"
    unfolding N(2) by (subst strip_dot_as_posix [OF plain_posix_parts]) (simp add: N(1))
  ultimately show ?thesis
    using v(3) N(3) by (simp add: normalize_relative_path_def Let_def b N(2))
qed

lemma plain_join_ends: "plain_parts xs \<Longrightarrow> xs \<noteq> [] \<Longrightarrow> join ''/'' xs \<noteq> [] \<and> last (join ''/'' xs) \<noteq> CHR ''/''"
proof (induction "''/''" xs rule: join.induct)
  case (2 x)
  then show ?case by (auto simp: plain_parts_def dest: last_in_set)
next
  case (3 x y ys)
  then show ?case by (simp add: plain_parts_def)
qed simp

lemma rstrip_normalized:
  assumes "normalize_relative_path path = Inr normalized"
  shows "rstrip_slashes normalized = normalized"
proof -
  have "normalized \<noteq> [] \<and> last normalized \<noteq> CHR ''/''"
    unfolding normalize_Inr(1) [OF assms]
    using plain_join_ends [OF plain_posix_parts] by (simp add: as_posix_def)
  then obtain xs x where "normalized = xs @ [x]" "x \<noteq> CHR ''/''" by (metis append_butlast_last_id)
  then show ?thesis by (simp add: rstrip_slashes_def)
qed

section \<open>Rules\<close>

definition hits :: "string \<Rightarrow> bool \<Rightarrow> string \<Rightarrow> bool" where
  "hits path is_dir pattern \<longleftrightarrow> path_matches path pattern is_dir = Inr True"

definition deciding_rule :: "string \<Rightarrow> bool \<Rightarrow> string list \<Rightarrow> string option" where
  "deciding_rule path is_dir rules = find (\<lambda>raw. hits path is_dir (rule_pattern raw)) (rev rules)"

lemma apply_rules_snoc: "apply_rules path is_dir ign (rs @ [r]) =
   rbind (apply_rules path is_dir ign rs) (\<lambda>b. rbind (path_matches path (rule_pattern r) is_dir) (\<lambda>hit. Inr (if hit then \<not> negated_rule r else b)))"
  by (induction rs arbitrary: ign) (auto simp: rbind_def split: sum.splits)

lemma apply_rules_decides:
  "(\<And>r e. r \<in> set rules \<Longrightarrow> path_matches path (rule_pattern r) is_dir \<noteq> Inl e) \<Longrightarrow>
   apply_rules path is_dir ign rules =
     Inr (case deciding_rule path is_dir rules of None \<Rightarrow> ign | Some r \<Rightarrow> \<not> negated_rule r)"
proof (induction rules rule: rev_induct)
  case (snoc r rules)
  obtain hit where hit: "path_matches path (rule_pattern r) is_dir = Inr hit"
    using snoc.prems [of r] by (cases "path_matches path (rule_pattern r) is_dir") auto
  then show ?case using snoc by (simp add: apply_rules_snoc deciding_rule_def hits_def)
qed (simp add: deciding_rule_def)

lemma any_match_iff:
  "(\<And>p e. p \<in> set patterns \<Longrightarrow> path_matches path p is_dir \<noteq> Inl e) \<Longrightarrow>
   any_match path is_dir patterns = Inr (\<exists>p \<in> set patterns. hits path is_dir p)"
proof (induction patterns)
  case (Cons p patterns)
  obtain hit where hit: "path_matches path p is_dir = Inr hit"
    using Cons.prems [of p] by (cases "path_matches path p is_dir") auto
  then show ?case using Cons by (auto simp: hits_def)
qed simp

text \<open>A pattern with a proper component never raises; the permanent exclusions are of this kind.\<close>

lemma path_matches_total:
  "posix_parts (rstrip_slashes (lstrip_slashes p)) \<noteq> [] \<Longrightarrow> path_matches path p is_dir \<noteq> Inl e"
  by (auto simp: path_matches_def path_match_def Let_def)

lemma permanent_patterns: "list_all (\<lambda>p. posix_parts (rstrip_slashes (lstrip_slashes p)) \<noteq> []) permanent_exclusions"
  by code_simp

definition permanently_excluded :: "string \<Rightarrow> bool \<Rightarrow> bool" where
  "permanently_excluded path is_dir \<longleftrightarrow> (\<exists>p \<in> set permanent_exclusions. hits path is_dir p)"

lemma any_match_permanent: "any_match path is_dir permanent_exclusions = Inr (permanently_excluded path is_dir)"
  unfolding permanently_excluded_def
  by (rule any_match_iff) (use permanent_patterns path_matches_total in \<open>auto simp: list_all_iff\<close>)

lemma ignored_eq:
  assumes "normalize_relative_path path = Inr n"
    and "\<And>r e. r \<in> set (im_rules m) \<Longrightarrow> path_matches n (rule_pattern r) is_dir \<noteq> Inl e"
  shows "ignored m path is_dir =
    Inr (is_sensitive_workspace_path n is_dir \<or> permanently_excluded n is_dir
         \<or> (case deciding_rule n is_dir (im_rules m) of None \<Rightarrow> False | Some r \<Rightarrow> \<not> negated_rule r))"
  using assms by (simp add: ignored_def any_match_permanent apply_rules_decides)

lemma not_ignored:
  assumes "ignored m path is_dir = Inr False"
  obtains n where "normalize_relative_path path = Inr n" "\<not> is_sensitive_workspace_path n is_dir" "\<not> permanently_excluded n is_dir"
  using assms by (auto simp: ignored_def any_match_permanent result_simps split: if_splits)

section \<open>Negated rules below a directory\<close>

lemma starts_with_iff: "starts_with p s \<longleftrightarrow> (\<exists>r. s = p @ r)"
  by (metis append_eq_conv_conj append_take_drop_id starts_with_def)

lemma starts_with_comparable: "starts_with a s \<Longrightarrow> starts_with b s \<Longrightarrow> starts_with a b \<or> starts_with b a"
  unfolding starts_with_iff by (metis append_eq_append_conv2)

text \<open>A negated rule that matches the whole text of a path keeps its directories open.\<close>

lemma may_reach_whole_path:
  assumes "fnmatch path (rstrip_slashes (lstrip_slashes (drop 1 raw)))" and "starts_with directory path"
  shows "may_reach directory raw"
proof -
  let ?rule = "rstrip_slashes (lstrip_slashes (drop 1 raw))"
  have p: "starts_with (literal_prefix ?rule) path" using fnmatch_prefix [OF assms(1)] by (auto simp: starts_with_iff)
  show ?thesis
  proof (cases "list_ex (\<lambda>c. c \<in> set special_chars) ?rule")
    case True
    then show ?thesis using starts_with_comparable [OF p assms(2)] by (auto simp: may_reach_def Let_def)
  next
    case False
    then have "literal_prefix ?rule = ?rule" by (auto simp: literal_prefix_def list_ex_iff takeWhile_eq_all_conv)
    then have "path = ?rule" using assms(1) fnmatch_literal by blast
    then show ?thesis using assms(2) by (simp add: may_reach_def Let_def)
  qed
qed

end
