(* ===== verification/Ignore_Theorems.thy ===== *)
theory Ignore_Theorems
  imports Ignore_Facts
begin

text \<open>The safety exclusions are final, the last matching rule decides, and where a negation reaches.\<close>

text \<open>
  C35: No rule of an ignore file re-includes a sensitive or permanently excluded path, and no negation
  opens such a directory.
\<close>

theorem exclusions_are_final:
  assumes "normalize_relative_path path = Inr n"
    and "is_sensitive_workspace_path n is_dir \<or> permanently_excluded n is_dir"
  shows "ignored m path is_dir \<noteq> Inr False \<and> (is_dir \<longrightarrow> may_include_descendant m path = Inr False)"
  using assms
  by (auto simp: may_include_descendant_def rstrip_normalized [OF assms(1)] any_match_permanent Let_def elim: not_ignored)

lemma ssh_directory: "normalize_relative_path ''.ssh'' = Inr ''.ssh''" "is_sensitive_workspace_path ''.ssh'' True"
  by code_simp+

theorem exclusions_are_final_witness:
  "ignored (new_matcher [''!.ssh'', ''!.ssh/**'']) ''.ssh'' True \<noteq> Inr False
   \<and> may_include_descendant (new_matcher [''!.ssh'', ''!.ssh/**'']) ''.ssh'' = Inr False"
  using exclusions_are_final [OF ssh_directory(1) disjI1 [OF ssh_directory(2)]] by simp

lemma last_found: "P r \<Longrightarrow> \<forall>r' \<in> set vs. \<not> P r' \<Longrightarrow> find P (rev (us @ r # vs)) = Some r"
proof -
  have "find P (ws @ r # xs) = Some r" if "P r" "\<forall>r' \<in> set ws. \<not> P r'" for ws xs
    using that by (induction ws) auto
  then show "P r \<Longrightarrow> \<forall>r' \<in> set vs. \<not> P r' \<Longrightarrow> find P (rev (us @ r # vs)) = Some r" by simp
qed

lemma last_found_iff: "find P (rev rs) = Some r \<longleftrightarrow> (\<exists>us vs. rs = us @ r # vs \<and> P r \<and> (\<forall>r' \<in> set vs. \<not> P r'))"
proof
  assume f: "find P (rev rs) = Some r"
  then have "\<exists>x \<in> set rs. P x" by (metis find_Some_iff nth_mem set_rev)
  then obtain us x vs where "rs = us @ x # vs" "P x" "\<forall>z \<in> set vs. \<not> P z" by (rule split_list_last_propE)
  moreover from this have "x = r" using last_found [of P x vs us] f by simp
  ultimately show "\<exists>us vs. rs = us @ r # vs \<and> P r \<and> (\<forall>r' \<in> set vs. \<not> P r')" by blast
next
  assume "\<exists>us vs. rs = us @ r # vs \<and> P r \<and> (\<forall>r' \<in> set vs. \<not> P r')"
  then obtain us vs where "rs = us @ r # vs" "P r" "\<forall>r' \<in> set vs. \<not> P r'" by blast
  then show "find P (rev rs) = Some r" using last_found [of P r vs us] by simp
qed

text \<open>
  C36: When no pattern raises, a path is ignored exactly when it is sensitive, permanently excluded, or
  the last rule that matches it is not negated; without a matching rule it is kept.
\<close>

theorem last_rule_decides:
  assumes "normalize_relative_path path = Inr n"
    and "\<forall>r \<in> set (im_rules m). \<forall>e. path_matches n (rule_pattern r) is_dir \<noteq> Inl e"
  shows "ignored m path is_dir =
    Inr (is_sensitive_workspace_path n is_dir \<or> permanently_excluded n is_dir
         \<or> (\<exists>before r after. im_rules m = before @ r # after \<and> hits n is_dir (rule_pattern r) \<and> \<not> negated_rule r
              \<and> (\<forall>r' \<in> set after. \<not> hits n is_dir (rule_pattern r'))))"
proof -
  have "(case deciding_rule n is_dir (im_rules m) of None \<Rightarrow> False | Some r \<Rightarrow> \<not> negated_rule r) \<longleftrightarrow>
    (\<exists>r. deciding_rule n is_dir (im_rules m) = Some r \<and> \<not> negated_rule r)"
    by (simp split: option.split)
  also have "\<dots> \<longleftrightarrow> (\<exists>before r after. im_rules m = before @ r # after \<and> hits n is_dir (rule_pattern r) \<and> \<not> negated_rule r
      \<and> (\<forall>r' \<in> set after. \<not> hits n is_dir (rule_pattern r')))"
    unfolding deciding_rule_def last_found_iff by blast
  finally show ?thesis
    using ignored_eq [OF assms(1), where m = m and is_dir = is_dir] assms(2) by simp
qed

definition sol_rules :: ignore_matcher where
  "sol_rules = from_effective_rules [''*.sol'', ''!A.sol'']"

lemma sol_example:
  "normalize_relative_path ''x/A.sol'' = Inr ''x/A.sol''"
  "\<forall>r \<in> set (im_rules sol_rules). path_matches ''x/A.sol'' (rule_pattern r) False = Inr True"
  by code_simp+

theorem last_rule_decides_witness:
  "ignored sol_rules ''x/A.sol'' False =
    Inr (is_sensitive_workspace_path ''x/A.sol'' False \<or> permanently_excluded ''x/A.sol'' False
         \<or> (\<exists>before r after. im_rules sol_rules = before @ r # after \<and> hits ''x/A.sol'' False (rule_pattern r)
              \<and> \<not> negated_rule r \<and> (\<forall>r' \<in> set after. \<not> hits ''x/A.sol'' False (rule_pattern r'))))"
  by (rule last_rule_decides [OF sol_example(1)]) (use sol_example(2) in auto)

text \<open>
  A negated rule that matches the whole path of a file keeps the directories above it open: they are
  walked even when they are ignored themselves.
\<close>

theorem whole_path_negation_reaches:
  assumes "raw \<in> set (im_rules m)" "negated_rule raw" "fnmatch path (rstrip_slashes (lstrip_slashes (drop 1 raw)))"
    and "normalize_relative_path directory = Inr directory" "starts_with (directory @ ''/'') path"
    and "\<not> is_sensitive_workspace_path directory True" "\<not> permanently_excluded directory True"
  shows "may_include_descendant m directory = Inr True"
  using assms may_reach_whole_path [OF assms(3,5)]
  by (auto simp: may_include_descendant_def rstrip_normalized [OF assms(4)] any_match_permanent Let_def list_ex_iff)

text \<open>
  A negated rule without a slash re-includes a file in any directory, but no ignored directory is
  opened for it: the file is never reached.
\<close>

theorem name_negation_is_not_reached:
  "ignored (new_matcher [''!A.sol'']) ''vendor/A.sol'' False = Inr False
   \<and> ignored (new_matcher [''!A.sol'']) ''vendor'' True = Inr True
   \<and> may_include_descendant (new_matcher [''!A.sol'']) ''vendor'' = Inr False"
  by code_simp

text \<open>
  A rule that consists of dots and slashes raises: \<open>PurePosixPath.match\<close> refuses an empty pattern.
\<close>

theorem dot_rule_raises: "ignored (new_matcher [''././.'']) ''A.sol'' False = Inl ''empty pattern''"
  by code_simp

end
