(* ===== verification/Discovery.thy ===== *)
theory Discovery
  imports Ignore_Rules Py_Float
begin

text \<open>
  \<open>repository/discovery.py\<close>: the bounded walk over the repository that decides which files an audit
  sees. The operating system, git, SHA-256 and the decoding of bytes are arguments; the order of the
  walk, its pruning and every reason for leaving a file out are the program's.
\<close>

section \<open>What the operating system answers\<close>

text \<open>
  A path is the list of its components below the resolved repository root. Resolving a path ends
  inside the repository or elsewhere. The text of a file is its bytes, one character each.
\<close>

datatype resolved = Within "string list" | Elsewhere

record os_view =
  os_scan :: "string list \<Rightarrow> (string list \<times> string list) option"
  os_link :: "string list \<Rightarrow> bool"
  os_strict :: "string list \<Rightarrow> resolved option"
  os_resolved :: "string list \<Rightarrow> resolved"
  os_stat :: "string list \<Rightarrow> (int \<times> int) option"
  os_bytes :: "string list \<Rightarrow> string option"

datatype discovery_error = RepositorySafetyError string | PathValueError string

type_synonym 'a discovered = "(discovery_error, 'a) result"

definition path_error :: "'a checked \<Rightarrow> 'a discovered" where
  "path_error = catch_as PathValueError"

record repository_config =
  rc_include_tests :: bool
  rc_include_docs :: bool
  rc_max_files :: int
  rc_max_walk_entries :: int
  rc_max_file_bytes :: int
  rc_max_discovery_bytes :: int
  rc_follow_symlinks :: bool

record discovered_file =
  df_absolute_path :: "string list"
  df_relative_path :: string
  df_content :: string
  df_size :: nat
  df_lines :: nat
  df_sha256 :: string
  df_language :: string
  df_categories :: "string list"

record discovery_result =
  dr_root :: "string list"
  dr_files :: "discovered_file list"
  dr_omitted :: "string list"
  dr_changed_paths :: "string list"
  dr_git_commit :: "string option"

section \<open>Languages, binary data and categories\<close>

definition languages :: "(string, string) dict" where
  "languages = [(''.py'', ''Python''), (''.js'', ''JavaScript''), (''.jsx'', ''JavaScript''), (''.mjs'', ''JavaScript''),
     (''.cjs'', ''JavaScript''), (''.ts'', ''TypeScript''), (''.tsx'', ''TypeScript''), (''.go'', ''Go''), (''.rs'', ''Rust''),
     (''.java'', ''Java''), (''.kt'', ''Kotlin''), (''.kts'', ''Kotlin''), (''.rb'', ''Ruby''), (''.php'', ''PHP''), (''.cs'', ''C#''),
     (''.c'', ''C''), (''.cc'', ''C++''), (''.cpp'', ''C++''), (''.h'', ''C/C++ Header''), (''.hpp'', ''C++ Header''),
     (''.sol'', ''Solidity''), (''.sh'', ''Shell''), (''.yml'', ''YAML''), (''.yaml'', ''YAML''), (''.json'', ''JSON''),
     (''.toml'', ''TOML''), (''.xml'', ''XML''), (''.tf'', ''Terraform''), (''.sql'', ''SQL''), (''.html'', ''HTML''),
     (''.jinja'', ''Template''), (''.j2'', ''Template''), (''.md'', ''Markdown'')]"

definition manifests :: "string list" where
  "manifests = [''pyproject.toml'', ''requirements.txt'', ''package.json'', ''foundry.toml'', ''remappings.txt'',
     ''hardhat.config.js'', ''hardhat.config.cjs'', ''hardhat.config.mjs'', ''hardhat.config.ts'', ''brownie-config.yaml'',
     ''go.mod'', ''cargo.toml'', ''gemfile'', ''pom.xml'', ''build.gradle'', ''composer.json'']"

definition source_language_for_path :: "string \<Rightarrow> string" where
  "source_language_for_path path = dict_get_default languages (map lower_char (name_suffix (posix_name path))) ''Text''"

definition control_bytes :: "string \<Rightarrow> nat" where
  "control_bytes sample = length (filter (\<lambda>b. code b < 9 \<or> (13 < code b \<and> code b < 32)) sample)"

definition is_binary :: "string \<Rightarrow> bool" where
  "is_binary data =
     (if CHR 0x00 \<in> set data then True
      else let sample = take 8192 data
           in if sample = [] then False
              else fl (15 / 100) < fdiv (of_nat (control_bytes sample)) (of_nat (length sample)))"

definition contains_any :: "string \<Rightarrow> string list \<Rightarrow> bool" where
  "contains_any s keywords = list_ex (\<lambda>keyword. occurs_in keyword s) keywords"

definition path_tokens :: "(string, string list) dict" where
  "path_tokens = [(''configuration'', [''config'', ''.github/'', ''docker'', ''deploy'', ''terraform'']),
     (''api'', [''route'', ''controller'', ''handler'', ''api/'', ''views'']),
     (''auth'', [''auth'', ''permission'', ''policy'', ''middleware'']),
     (''data'', [''model'', ''repository'', ''database'', ''db/'', ''query'']),
     (''file'', [''upload'', ''file'', ''storage'']), (''test'', [''test'', ''spec''])]"

definition evm_keyword_groups :: "(string, string list) dict" where
  "evm_keyword_groups =
    [(''evm_auth'', [''onlyowner'', ''accesscontrol'', ''hasrole'', ''msg.sender'', ''owner()'', ''initializer'']),
     (''evm_external_call'', [''.call{'', ''.call('', ''.delegatecall'', ''.staticcall'', ''.send('', ''.transfer('']),
     (''evm_upgrade'', [''uups'', ''upgradeable'', ''upgradeto'', ''proxy'', ''delegatecall'', ''initializer'', ''reinitializer'']),
     (''evm_value'', [''payable'', ''msg.value'', ''.balance'', ''withdraw'', ''deposit'']),
     (''evm_signature'', [''ecrecover'', ''eip712'', ''permit('', ''nonces'', ''signature'']),
     (''evm_oracle'', [''oracle'', ''chainlink'', ''latestrounddata'', ''pricefeed'']),
     (''evm_token'', [''erc20'', ''erc721'', ''erc1155'', ''transferfrom'', ''allowance'', ''mint'', ''burn'']),
     (''evm_storage'', [''mapping('', ''mapping ('', ''struct '', ''storage '']),
     (''business_logic'', [''claim'', ''redeem'', ''stake'', ''unstake'', ''reward'', ''auction'', ''refund'', ''vote'', ''governance'',
        ''borrow'', ''repay'', ''liquidat''])]"

definition keyword_groups :: "(string, string list) dict" where
  "keyword_groups =
    [(''network'', [''httpx'', ''requests.'', ''fetch('', ''axios'', ''urlopen'', ''net/http'']),
     (''sensitive'', [''password'', ''token'', ''secret'', ''credit_card'', ''ssn'', ''personal'']),
     (''serialization'', [''pickle'', ''yaml.load'', ''deserialize'', ''marshal'', ''json.loads'']),
     (''command'', [''subprocess'', ''os.system'', ''exec('', ''child_process'']),
     (''business_logic'', [''payment'', ''refund'', ''invite'', ''approve'', ''quota'', ''idempot''])]"

definition found_groups :: "(string, string list) dict \<Rightarrow> string \<Rightarrow> string list" where
  "found_groups groups s = map fst (filter (\<lambda>(category, keywords). contains_any s keywords) groups)"

definition pure_name :: "string \<Rightarrow> string" where
  "pure_name path = map lower_char (last (split_on (CHR ''/'') [] path))"

definition categories_of :: "string \<Rightarrow> string \<Rightarrow> bool \<Rightarrow> string list" where
  "categories_of path content changed =
     (let lower_path = map lower_char path; lower = map lower_char (take 100000 content);
          found =
            (if pure_name path \<in> set manifests \<or> ends_with ''.lock'' lower_path \<or> ends_with ''dockerfile'' lower_path
             then [''dependency''] else [])
            @ found_groups path_tokens lower_path
            @ (if ends_with ''.sol'' lower_path
               then [''smart_contract'']
                 @ (if ends_with ''.t.sol'' lower_path \<or> occurs_in ''/test/'' lower_path \<or> starts_with ''test/'' lower_path
                    then [''test'', ''evm_test''] else [])
                 @ found_groups evm_keyword_groups lower
               else [])
            @ found_groups keyword_groups lower
            @ (if changed then [''changed''] else [])
      in sorted_set (if found = [] then [''source''] else found))"

section \<open>The repository root and git\<close>

text \<open>
  What the host says about the argument: the components of its resolved path, whether that is a
  directory, and the resolved home directory.
\<close>

record host_view =
  hv_resolve :: "string \<Rightarrow> string list option"
  hv_is_dir :: "string list \<Rightarrow> bool"
  hv_home :: "string list option"

definition safe_repository_root :: "host_view \<Rightarrow> string \<Rightarrow> string list discovered" where
  "safe_repository_root host path =
     (case hv_resolve host path of
        None \<Rightarrow> Inl (RepositorySafetyError (''repository is inaccessible: '' @ path))
      | Some base \<Rightarrow>
          if \<not> hv_is_dir host base
          then Inl (RepositorySafetyError (''repository path is not a directory: '' @ path))
          else if base = [] then Inl (RepositorySafetyError ''filesystem root cannot be audited as a repository'')
          else case hv_home host of
                 None \<Rightarrow> Inr base
               | Some home \<Rightarrow>
                   if base = home \<or> list_ex (\<lambda>n. base = take n home) [0..<length home]
                   then Inl (RepositorySafetyError
                     ''home directory or an ancestor of it cannot be audited as a repository'')
                   else Inr base)"

text \<open>
  Where the git executable was found, if it was (and resolved, if it could be), and the exit code
  and decoded output of its two commands, if they ran.
\<close>

record git_view =
  gv_which :: "resolved option option"
  gv_diff :: "string \<Rightarrow> (int \<times> string) option"
  gv_head :: "(int \<times> string) option"

definition git_executable :: "git_view \<Rightarrow> bool" where
  "git_executable git = (gv_which git = Some (Some Elsewhere))"

definition safe_git_ref :: "string \<Rightarrow> bool" where
  "safe_git_ref r \<longleftrightarrow> length r \<le> 256 \<and> \<not> starts_with ''-'' r \<and> r \<noteq> []
     \<and> list_all (\<lambda>c. is_alnum c \<or> c \<in> set ''_./~^{}-'') r"

definition changed_paths_since :: "git_view \<Rightarrow> string option \<Rightarrow> string list discovered" where
  "changed_paths_since git git_ref =
     (case git_ref of
        None \<Rightarrow> Inr []
      | Some r \<Rightarrow>
          if \<not> safe_git_ref r then Inl (RepositorySafetyError ''changed-since is not a safe git ref'')
          else if \<not> git_executable git
          then Inl (RepositorySafetyError ''git is unavailable or resolved from inside the repository'')
          else case gv_diff git r of
                 None \<Rightarrow> Inl (RepositorySafetyError ''unable to calculate changed files'')
               | Some (returncode, out) \<Rightarrow>
                   if returncode \<noteq> 0
                   then Inl (RepositorySafetyError ''git rejected the changed-since reference'')
                   else path_error (traverse normalize_relative_path
                          (filter (\<lambda>value. value \<noteq> []) (split_on (CHR 0x00) [] out))))"

definition git_commit_of :: "git_view \<Rightarrow> string option" where
  "git_commit_of git =
     (if \<not> git_executable git then None
      else case gv_head git of
             None \<Rightarrow> None
           | Some (returncode, out) \<Rightarrow>
               let value = strip_spaces out
               in if returncode = 0 \<and> list_all is_hex value \<and> 40 \<le> length value \<and> length value \<le> 64
                  then Some value else None)"

section \<open>The walk\<close>

text \<open>What does not change during the walk, and what does.\<close>

record walk_env =
  we_os :: os_view
  we_config :: repository_config
  we_matcher :: ignore_matcher
  we_changed :: "string list"
  we_sha256 :: "string \<Rightarrow> string"
  we_decode :: "string \<Rightarrow> string"

record walk_state =
  ws_files :: "discovered_file list"
  ws_omitted :: "string list"
  ws_bytes :: int
  ws_walked :: int
  ws_visited :: "string list list"

definition omit :: "string \<Rightarrow> walk_state \<Rightarrow> walk_state" where
  "omit why st = st\<lparr>ws_omitted := ws_omitted st @ [why]\<rparr>"

definition relative_text :: "string list \<Rightarrow> string checked" where
  "relative_text candidate = normalize_relative_path (join ''/'' candidate)"

subsection \<open>Directories\<close>

definition pruned :: "ignore_matcher \<Rightarrow> string \<Rightarrow> bool checked" where
  "pruned m relative =
     rbind (ignored m relative True) (\<lambda>ign.
     if ign then rbind (may_include_descendant m relative) (\<lambda>may. Inr (\<not> may)) else Inr False)"

definition enter_link :: "walk_env \<Rightarrow> string list \<Rightarrow> string \<Rightarrow> walk_state \<Rightarrow> (bool \<times> walk_state) discovered" where
  "enter_link env candidate relative st =
     (case os_strict (we_os env) candidate of
        None \<Rightarrow> Inr (False, omit (relative @ '': broken symlink'') st)
      | Some Elsewhere \<Rightarrow> Inr (False, omit (relative @ '': symlink excluded'') st)
      | Some (Within target) \<Rightarrow>
          if \<not> rc_follow_symlinks (we_config env)
          then Inr (False, omit (relative @ '': symlink excluded'') st)
          else rbind (path_error (normalize_relative_path (as_posix target))) (\<lambda>resolved_relative.
               rbind (path_error (ignored (we_matcher env) resolved_relative True)) (\<lambda>ign.
               Inr (if ign then (False, omit (relative @ '': sensitive symlink target excluded'') st)
                    else if target \<in> set (ws_visited st)
                    then (False, omit (relative @ '': symlink cycle or duplicate directory excluded'') st)
                    else (True, st\<lparr>ws_visited := target # ws_visited st\<rparr>)))))"

definition examine_directory :: "walk_env \<Rightarrow> string list \<Rightarrow> string \<Rightarrow> walk_state \<Rightarrow> (bool \<times> walk_state) discovered" where
  "examine_directory env dir name st =
     (let candidate = dir @ [name]
      in case relative_text candidate of
           Inl e \<Rightarrow> Inr (False, omit ''repository directory omitted: unsupported path'' st)
         | Inr relative \<Rightarrow>
             rbind (path_error (pruned (we_matcher env) relative)) (\<lambda>prune.
             if prune then Inr (False, st)
             else if os_link (we_os env) candidate then enter_link env candidate relative st
             else Inr (True, st)))"

fun retain_dirs :: "walk_env \<Rightarrow> string list \<Rightarrow> string list \<Rightarrow> walk_state \<Rightarrow> (string list \<times> walk_state) discovered" where
  "retain_dirs env dir [] st = Inr ([], st)"
| "retain_dirs env dir (name # names) st =
     rbind (examine_directory env dir name st) (\<lambda>(keep, st).
     rbind (retain_dirs env dir names st) (\<lambda>(kept, st).
     Inr (if keep then name # kept else kept, st)))"

subsection \<open>Files\<close>

text \<open>Where a file resolves to inside the repository, or why it is left out.\<close>

definition file_target :: "walk_env \<Rightarrow> string list \<Rightarrow> (string, string list) result discovered" where
  "file_target env candidate =
     (if os_link (we_os env) candidate
      then case os_strict (we_os env) candidate of
             None \<Rightarrow> Inr (Inl '': broken symlink'')
           | Some Elsewhere \<Rightarrow> Inr (Inl '': symlink excluded'')
           | Some (Within target) \<Rightarrow>
               if \<not> rc_follow_symlinks (we_config env) then Inr (Inl '': symlink excluded'')
               else rbind (path_error (normalize_relative_path (as_posix target))) (\<lambda>resolved_relative.
                    rbind (path_error (ignored (we_matcher env) resolved_relative False)) (\<lambda>ign.
                    Inr (if ign then Inl '': sensitive symlink target excluded'' else Inr target)))
      else Inr (case os_resolved (we_os env) candidate of
                  Within target \<Rightarrow> Inr target
                | Elsewhere \<Rightarrow> Inl '': escaped repository''))"

definition read_file :: "walk_env \<Rightarrow> string list \<Rightarrow> (string, string) result" where
  "read_file env candidate =
     (case os_stat (we_os env) candidate of
        None \<Rightarrow> Inl '': unreadable''
      | Some (st_nlink, st_size) \<Rightarrow>
          if 1 < st_nlink then Inl '': hardlink excluded''
          else if rc_max_file_bytes (we_config env) < st_size then Inl '': exceeds max_file_bytes''
          else case os_bytes (we_os env) candidate of
                 None \<Rightarrow> Inl '': unreadable''
               | Some data \<Rightarrow> if is_binary data then Inl '': binary'' else Inr data)"

definition excluded_by_config :: "repository_config \<Rightarrow> string \<Rightarrow> bool" where
  "excluded_by_config cfg relative =
     (let lower_relative = map lower_char relative
      in (\<not> rc_include_tests cfg
          \<and> list_ex (\<lambda>part. part \<in> set [''test'', ''tests'', ''spec'', ''specs'']) (split_on (CHR ''/'') [] lower_relative))
       \<or> (\<not> rc_include_docs cfg
          \<and> list_ex (\<lambda>suffix. ends_with suffix lower_relative) [''.md'', ''.rst'', ''.adoc'', ''.txt'']))"

definition exceeds_budget :: "walk_env \<Rightarrow> string \<Rightarrow> walk_state \<Rightarrow> bool" where
  "exceeds_budget env data st \<longleftrightarrow> rc_max_discovery_bytes (we_config env) < ws_bytes st + int (length data)"

definition file_record :: "walk_env \<Rightarrow> string \<Rightarrow> string \<Rightarrow> string list \<Rightarrow> string \<Rightarrow> string \<Rightarrow> discovered_file" where
  "file_record env filename relative target data retained =
     \<lparr>df_absolute_path = target, df_relative_path = relative, df_content = retained, df_size = length data,
      df_lines = length (splitlines (we_decode env data)), df_sha256 = we_sha256 env data,
      df_language = source_language_for_path filename,
      df_categories = categories_of relative (we_decode env data) (relative \<in> set (we_changed env))\<rparr>"

definition keep_file :: "walk_env \<Rightarrow> string \<Rightarrow> string \<Rightarrow> string list \<Rightarrow> string \<Rightarrow> walk_state \<Rightarrow> bool \<times> walk_state" where
  "keep_file env filename relative target data st =
     (let over = exceeds_budget env data st;
          st = (if over then omit (relative @ '': mapped without content after max_discovery_bytes'') st
                else st\<lparr>ws_bytes := ws_bytes st + int (length data)\<rparr>);
          f = file_record env filename relative target data (if over then [] else we_decode env data);
          st = st\<lparr>ws_files := ws_files st @ [f]\<rparr>
      in if rc_max_files (we_config env) \<le> int (length (ws_files st))
         then (True, omit ''repository: max_files reached'' st) else (False, st))"

definition examine_file :: "walk_env \<Rightarrow> string list \<Rightarrow> string \<Rightarrow> walk_state \<Rightarrow> (bool \<times> walk_state) discovered" where
  "examine_file env dir filename st =
     (let candidate = dir @ [filename]
      in case relative_text candidate of
           Inl e \<Rightarrow> Inr (False, omit ''repository file omitted: unsupported path'' st)
         | Inr relative \<Rightarrow>
             rbind (path_error (ignored (we_matcher env) relative False)) (\<lambda>ign.
             if ign then Inr (False, st)
             else rbind (file_target env candidate) (\<lambda>found.
                  case found of
                    Inl why \<Rightarrow> Inr (False, omit (relative @ why) st)
                  | Inr target \<Rightarrow>
                      (case read_file env candidate of
                         Inl why \<Rightarrow> Inr (False, omit (relative @ why) st)
                       | Inr data \<Rightarrow>
                           Inr (if excluded_by_config (we_config env) relative then (False, st)
                                else keep_file env filename relative target data st)))))"

fun examine_files :: "walk_env \<Rightarrow> string list \<Rightarrow> string list \<Rightarrow> walk_state \<Rightarrow> (bool \<times> walk_state) discovered" where
  "examine_files env dir [] st = Inr (False, st)"
| "examine_files env dir (name # names) st =
     rbind (examine_file env dir name st) (\<lambda>(stop, st).
     if stop then Inr (True, st) else examine_files env dir names st)"

subsection \<open>The loop\<close>

text \<open>
  One directory of \<open>os.walk\<close>: whether the walk ends here, the directories to enter below it, and the
  state. The walk goes through the pending directories depth first; one that cannot be listed is
  passed over.
\<close>

definition walk_directory ::
    "walk_env \<Rightarrow> string list \<Rightarrow> string list \<times> string list \<Rightarrow> walk_state \<Rightarrow> (bool \<times> string list list \<times> walk_state) discovered" where
  "walk_directory env dir listing st =
     (let (directory_names, filenames) = listing;
          st = st\<lparr>ws_walked := ws_walked st + int (length directory_names + length filenames)\<rparr>
      in if rc_max_walk_entries (we_config env) < ws_walked st
         then Inr (True, [], omit ''repository: max_walk_entries reached'' st)
         else rbind (retain_dirs env dir (sort directory_names) st) (\<lambda>(kept, st).
              rbind (examine_files env dir (sort filenames) st) (\<lambda>(stop, st).
              Inr (stop, map (\<lambda>name. dir @ [name]) kept, st))))"

partial_function (option) walk_loop ::
    "walk_env \<Rightarrow> string list list \<Rightarrow> walk_state \<Rightarrow> walk_state discovered option" where
  "walk_loop env pending st =
     (case pending of
        [] \<Rightarrow> Some (Inr st)
      | dir # rest \<Rightarrow>
          (case os_scan (we_os env) dir of
             None \<Rightarrow> walk_loop env rest st
           | Some listing \<Rightarrow>
               (case walk_directory env dir listing st of
                  Inl e \<Rightarrow> Some (Inl e)
                | Inr (stop, below, st') \<Rightarrow>
                    if stop then Some (Inr st') else walk_loop env (below @ rest) st')))"

declare walk_loop.simps [code]

definition initial_walk :: walk_state where
  "initial_walk = \<lparr>ws_files = [], ws_omitted = [], ws_bytes = 0, ws_walked = 0, ws_visited = [[]]\<rparr>"

text \<open>\<open>None\<close> would be a walk that never ends.\<close>

definition discover_repository ::
    "host_view \<Rightarrow> git_view \<Rightarrow> walk_env \<Rightarrow> string \<Rightarrow> string option \<Rightarrow> discovery_result discovered option" where
  "discover_repository host git env root_path changed_since =
     (case rbind (safe_repository_root host root_path) (\<lambda>base.
           rbind (changed_paths_since git changed_since) (\<lambda>changed. Inr (base, changed))) of
        Inl e \<Rightarrow> Some (Inl e)
      | Inr (base, changed) \<Rightarrow>
          map_option (\<lambda>outcome. rbind outcome (\<lambda>st.
              Inr \<lparr>dr_root = base, dr_files = ws_files st, dr_omitted = ws_omitted st,
                   dr_changed_paths = changed, dr_git_commit = git_commit_of git\<rparr>))
            (walk_loop (env\<lparr>we_changed := changed\<rparr>) [[]] initial_walk))"

end
