(* ===== verification/Audit_Scope.thy ===== *)
theory Audit_Scope
  imports Discovery Run_Status
begin

text \<open>
  Requested and achieved audit scope: \<open>orchestration/scope.py\<close>, the models \<open>ScopeComponentEvidence\<close>
  and \<open>AuditScopeAssessment\<close> of \<open>models/schemas.py\<close> with their validators, and the preflight of the
  pipeline that stops an audit whose scope is incomplete.
\<close>

section \<open>Scopes and components\<close>

datatype audit_scope = ContractsOnly | ContractsAndDeployment | FullProtocol

datatype scope_component = Contracts | Deployment | Documentation | Offchain | Tests

datatype scope_evidence_status = Analyzed | Missing | Omitted

fun scope_value :: "audit_scope \<Rightarrow> string" where
  "scope_value ContractsOnly = ''contracts-only''"
| "scope_value ContractsAndDeployment = ''contracts-and-deployment''"
| "scope_value FullProtocol = ''full-protocol''"

fun component_value :: "scope_component \<Rightarrow> string" where
  "component_value Contracts = ''contracts''"
| "component_value Deployment = ''deployment''"
| "component_value Documentation = ''documentation''"
| "component_value Offchain = ''offchain''"
| "component_value Tests = ''tests''"

definition scope_component_list :: "scope_component list" where
  "scope_component_list = [Contracts, Deployment, Documentation, Offchain, Tests]"

fun scope_components_for :: "audit_scope \<Rightarrow> scope_component list" where
  "scope_components_for ContractsOnly = [Contracts]"
| "scope_components_for ContractsAndDeployment = [Contracts, Deployment]"
| "scope_components_for FullProtocol = scope_component_list"

record scope_evidence =
  se_component :: scope_component
  se_required :: bool
  se_status :: scope_evidence_status
  se_analyzed_paths :: "string list"
  se_omissions :: "string list"
  se_detail :: string

definition expected_status :: "string list \<Rightarrow> string list \<Rightarrow> scope_evidence_status" where
  "expected_status paths omissions =
     (if omissions \<noteq> [] then Omitted else if paths \<noteq> [] then Analyzed else Missing)"

definition validate_scope_evidence :: "scope_evidence \<Rightarrow> scope_evidence checked" where
  "validate_scope_evidence e =
     rbind (require (length (se_analyzed_paths e) \<le> 2000 \<and> length (se_omissions e) \<le> 2000)
       ''List should have at most 2000 items after validation'') (\<lambda>_.
     rbind (require (1 \<le> length (se_detail e) \<and> length (se_detail e) \<le> 1000)
       ''String should have between 1 and 1000 characters'') (\<lambda>_.
     rbind (require (se_analyzed_paths e = sorted_set (se_analyzed_paths e))
       ''scope analyzed paths must be unique and sorted'') (\<lambda>_.
     rbind (require (se_omissions e = sorted_set (se_omissions e)) ''scope omissions must be unique and sorted'') (\<lambda>_.
     rbind (require (se_status e = expected_status (se_analyzed_paths e) (se_omissions e))
       ''scope evidence status does not match paths and omissions'') (\<lambda>_.
     Inr e)))))"

record scope_assessment =
  sa_requested :: audit_scope
  sa_achieved :: "audit_scope option"
  sa_gate_required :: bool
  sa_complete :: bool
  sa_components :: "scope_evidence list"
  sa_missing :: "scope_component list"
  sa_limitations :: "string list"

definition complete_components :: "scope_evidence list \<Rightarrow> scope_component list" where
  "complete_components evidence = map se_component (filter (\<lambda>e. se_status e = Analyzed) evidence)"

definition achieved_scope :: "scope_component list \<Rightarrow> audit_scope option" where
  "achieved_scope finished =
     find (\<lambda>scope. set (scope_components_for scope) \<subseteq> set finished) [FullProtocol, ContractsAndDeployment, ContractsOnly]"

definition missing_components :: "audit_scope \<Rightarrow> scope_component list \<Rightarrow> scope_component list" where
  "missing_components scope finished =
     sort_key component_value (filter (\<lambda>c. c \<notin> set finished) (scope_components_for scope))"

definition validate_assessment :: "scope_assessment \<Rightarrow> scope_assessment checked" where
  "validate_assessment a =
     (let names = map se_component (sa_components a); requested_components = scope_components_for (sa_requested a);
          finished = complete_components (sa_components a); missing = missing_components (sa_requested a) finished
      in rbind (require (length (sa_limitations a) \<le> 100) ''List should have at most 100 items after validation'') (\<lambda>_.
         rbind (require (sa_components a = sort_key (\<lambda>e. component_value (se_component e)) (sa_components a))
           ''scope component evidence must be sorted'') (\<lambda>_.
         rbind (require (distinct names) ''scope component evidence must be unique'') (\<lambda>_.
         rbind (require (set names = set scope_component_list) ''scope assessment must include every component class'') (\<lambda>_.
         rbind (require (list_all (\<lambda>e. se_required e = (se_component e \<in> set requested_components)) (sa_components a))
           ''scope required flags do not match the requested mode'') (\<lambda>_.
         rbind (require (sa_achieved a = achieved_scope finished) ''achieved scope does not match component evidence'') (\<lambda>_.
         rbind (require (sa_missing a = missing) ''missing scope components do not match component evidence'') (\<lambda>_.
         rbind (require (sa_complete a = (missing = [])) ''scope completeness does not match required components'') (\<lambda>_.
         rbind (require (sa_limitations a = sorted_set (sa_limitations a)) ''scope limitations must be unique and sorted'') (\<lambda>_.
         Inr a))))))))))"

section \<open>Classification of paths\<close>

definition document_extensions :: "string list" where
  "document_extensions = [''.md'', ''.rst'', ''.adoc'', ''.txt'']"

definition offchain_languages :: "string list" where
  "offchain_languages = [''C'', ''C#'', ''C++'', ''C/C++ Header'', ''Go'', ''HTML'', ''Java'', ''JavaScript'', ''Kotlin'', ''PHP'', ''Python'',
     ''Ruby'', ''Rust'', ''Shell'', ''SQL'', ''Template'', ''Terraform'', ''TypeScript'', ''XML'', ''YAML'']"

definition deployment_segments :: "string list" where
  "deployment_segments = [''broadcast'', ''deploy'', ''deployments'', ''migration'', ''migrations'', ''script'', ''scripts'']"

definition test_segments :: "string list" where
  "test_segments = [''test'', ''tests'', ''spec'', ''specs'']"

definition global_omission_prefixes :: "string list" where
  "global_omission_prefixes = [''repository: max_files reached'', ''repository: max_walk_entries reached'']"

definition offchain_extensions :: "string list" where
  "offchain_extensions = [''.c'', ''.cc'', ''.cpp'', ''.cs'', ''.go'', ''.h'', ''.hpp'', ''.html'', ''.java'', ''.js'', ''.jsx'', ''.kt'', ''.kts'',
     ''.mjs'', ''.php'', ''.py'', ''.rb'', ''.rs'', ''.sh'', ''.sql'', ''.tf'', ''.ts'', ''.tsx'', ''.xml'', ''.yaml'', ''.yml'']"

text \<open>\<open>"".join(path.suffixes)\<close> for the last component of a path.\<close>

definition joined_suffixes :: "string \<Rightarrow> string" where
  "joined_suffixes name =
     (if ends_with ''.'' name then []
      else concat (map (\<lambda>s. CHR ''.'' # s) (tl (split_on (CHR ''.'') [] (dropWhile (\<lambda>c. c = CHR ''.'') name)))))"

definition classify_path :: "string \<Rightarrow> string list \<Rightarrow> scope_component option" where
  "classify_path path deployment_roots =
     (let normalized = rstrip_slashes (lstrip_slashes (backslashes_to_slashes path))
      in if normalized = [] \<or> normalized = ''repository'' then None
         else let lower_parts = map (map lower_char) (posix_parts normalized);
                  name = posix_name normalized; lower_name = map lower_char name;
                  suffix = map lower_char (name_suffix name); suffixes = map lower_char (joined_suffixes name)
              in if list_ex (\<lambda>p. p \<in> set test_segments) lower_parts
                    \<or> ends_with ''.t.sol'' lower_name \<or> ends_with ''.spec.sol'' lower_name then Some Tests
                 else if list_ex (\<lambda>p. p \<in> set deployment_segments) lower_parts
                    \<or> list_ex (\<lambda>r. normalized = r \<or> starts_with (r @ ''/'') normalized) deployment_roots
                    \<or> starts_with ''deploy'' lower_name \<or> starts_with ''migrate'' lower_name
                    \<or> ends_with ''.s.sol'' lower_name then Some Deployment
                 else if suffix \<in> set document_extensions then Some Documentation
                 else if suffix = ''.sol'' \<or> ends_with ''.sol'' suffixes then Some Contracts
                 else if suffix \<in> set offchain_extensions then Some Offchain
                 else None)"

definition classify_file :: "discovered_file \<Rightarrow> string list \<Rightarrow> scope_component option" where
  "classify_file item deployment_roots =
     (case classify_path (df_relative_path item) deployment_roots of
        Some c \<Rightarrow> Some c
      | None \<Rightarrow> if df_language item = ''Solidity'' then Some Contracts
                else if df_language item \<in> set offchain_languages then Some Offchain else None)"

section \<open>Assessment\<close>

record solidity_project =
  sp_script_directories :: "string list"
  sp_deployment_directories :: "string list"
  sp_dependency_files :: "string list"
  sp_framework_config_files :: "string list"

record scope_config =
  sc_mode :: audit_scope
  sc_require_complete :: bool

definition project_roots :: "solidity_project list \<Rightarrow> string list" where
  "project_roots projects =
     map rstrip_slashes (concat (map (\<lambda>p. sp_script_directories p @ sp_deployment_directories p) projects))"

definition content_omitted :: "discovered_file \<Rightarrow> bool" where
  "content_omitted item \<longleftrightarrow> 0 < df_size item \<and> df_content item = []"

text \<open>The paths and omissions of one component; \<open>path.split(": ", 1)[0]\<close> is the text before the first colon and blank.\<close>

fun before_colon :: "string \<Rightarrow> string" where
  "before_colon [] = []"
| "before_colon (c # cs) = (if starts_with '': '' (c # cs) then [] else c # before_colon cs)"

definition analyzed_in :: "discovery_result \<Rightarrow> string list \<Rightarrow> scope_component \<Rightarrow> string list" where
  "analyzed_in discovery deployment_roots c =
     map df_relative_path (filter (\<lambda>item. classify_file item deployment_roots = Some c \<and> \<not> content_omitted item)
       (dr_files discovery))"

definition is_global_omission :: "string \<Rightarrow> bool" where
  "is_global_omission omission \<longleftrightarrow> list_ex (\<lambda>p. starts_with p omission) global_omission_prefixes"

definition omissions_in ::
    "discovery_result \<Rightarrow> string list \<Rightarrow> audit_scope \<Rightarrow> bool \<Rightarrow> bool \<Rightarrow> scope_component \<Rightarrow> string list" where
  "omissions_in discovery deployment_roots mode include_docs include_tests c =
     (let required = c \<in> set (scope_components_for mode)
      in map (\<lambda>item. df_relative_path item @ '': content omitted by bounded discovery'')
           (filter (\<lambda>item. classify_file item deployment_roots = Some c \<and> content_omitted item) (dr_files discovery))
         @ filter (\<lambda>omission. if is_global_omission omission then required
             else classify_path (before_colon omission) deployment_roots = Some c) (dr_omitted discovery)
         @ (if c = Documentation \<and> required \<and> \<not> include_docs
            then [''repository.include_docs=false excluded documentation evidence''] else [])
         @ (if c = Tests \<and> required \<and> \<not> include_tests
            then [''repository.include_tests=false excluded test evidence''] else []))"

definition component_evidence :: "scope_component \<Rightarrow> bool \<Rightarrow> string list \<Rightarrow> string list \<Rightarrow> scope_evidence checked" where
  "component_evidence c required analyzed_paths omissions =
     (let paths = sorted_set analyzed_paths; normalized_omissions = sorted_set omissions
      in validate_scope_evidence
           \<lparr>se_component = c, se_required = required,
            se_status = (if normalized_omissions \<noteq> [] then Omitted else if paths \<noteq> [] then Analyzed else Missing),
            se_analyzed_paths = paths, se_omissions = normalized_omissions,
            se_detail = int_string (int (length paths)) @ '' analyzed path(s); ''
              @ int_string (int (length normalized_omissions)) @ '' known omission(s)''\<rparr>)"

definition assess_audit_scope ::
    "discovery_result \<Rightarrow> solidity_project list \<Rightarrow> scope_config \<Rightarrow> bool \<Rightarrow> bool \<Rightarrow> scope_assessment checked" where
  "assess_audit_scope discovery projects config include_docs include_tests =
     (let mode = sc_mode config; required = scope_components_for mode; deployment_roots = project_roots projects
      in rbind (traverse (\<lambda>c. component_evidence c (c \<in> set required) (analyzed_in discovery deployment_roots c)
                 (omissions_in discovery deployment_roots mode include_docs include_tests c)) scope_component_list) (\<lambda>evidence.
         let finished = complete_components evidence; missing = missing_components mode finished
         in validate_assessment
              \<lparr>sa_requested = mode, sa_achieved = achieved_scope finished, sa_gate_required = sc_require_complete config,
               sa_complete = (missing = []),
               sa_components = sort_key (\<lambda>e. component_value (se_component e)) evidence, sa_missing = missing,
               sa_limitations = [''ignore rules may intentionally exclude paths that bounded discovery does not enumerate'']\<rparr>))"

section \<open>Filtering and the gate\<close>

fun allowed_components :: "audit_scope \<Rightarrow> scope_component list" where
  "allowed_components ContractsOnly = [Contracts, Tests]"
| "allowed_components ContractsAndDeployment = [Contracts, Deployment, Tests]"
| "allowed_components FullProtocol = scope_component_list"

definition in_scope :: "solidity_project list \<Rightarrow> audit_scope \<Rightarrow> discovered_file \<Rightarrow> bool" where
  "in_scope projects scope item \<longleftrightarrow>
     df_relative_path item \<in> set (concat (map (\<lambda>p. sp_dependency_files p @ sp_framework_config_files p) projects))
     \<or> (case classify_file item (project_roots projects) of
          None \<Rightarrow> False
        | Some c \<Rightarrow> c \<in> set (allowed_components scope) \<and> (c \<noteq> Tests \<or> df_language item = ''Solidity''))"

definition filter_discovery_for_scope :: "discovery_result \<Rightarrow> solidity_project list \<Rightarrow> audit_scope \<Rightarrow> discovery_result" where
  "filter_discovery_for_scope discovery projects scope =
     (if scope = FullProtocol then discovery
      else let files = filter (in_scope projects scope) (dr_files discovery)
           in discovery\<lparr>dr_files := files,
                dr_changed_paths := filter (\<lambda>p. p \<in> set (map df_relative_path files)) (dr_changed_paths discovery)\<rparr>)"

definition scope_quality_gate :: "scope_assessment option \<Rightarrow> quality_gate" where
  "scope_quality_gate assessment =
     (case assessment of
        None \<Rightarrow> \<lparr>qg_gate = ''requested_audit_scope'', qg_required = False, qg_passed = False,
                 qg_detail = ''audit-scope assessment was not produced'', qg_state = NotAnalyzed, qg_artifacts = []\<rparr>
      | Some a \<Rightarrow>
          let achieved = (case sa_achieved a of None \<Rightarrow> ''none'' | Some s \<Rightarrow> scope_value s);
              missing = join '', '' (map component_value (sa_missing a));
              required_omission = list_ex (\<lambda>e. se_required e \<and> se_status e = Omitted) (sa_components a)
          in \<lparr>qg_gate = ''requested_audit_scope'', qg_required = sa_gate_required a, qg_passed = sa_complete a,
              qg_detail = ''requested='' @ scope_value (sa_requested a) @ ''; achieved='' @ achieved
                @ (if missing \<noteq> [] then ''; missing or omitted='' @ missing else []),
              qg_state = (if sa_complete a then Deterministic
                else if required_omission then AttemptedFailed else NotAnalyzed),
              qg_artifacts = [''scope-assessment.json'']\<rparr>)"

datatype exit_code = ExitSuccess | ExitFindings | ExitConfiguration | ExitScannerFailure | ExitModelFailure
  | ExitPrivacyRefusal | ExitIncomplete

text \<open>The step of the pipeline after the assessment: its messages and its exit code.\<close>

definition scope_preflight :: "quality_gate \<Rightarrow> bool \<Rightarrow> bool \<Rightarrow> string list \<times> exit_code \<Rightarrow> string list \<times> exit_code" where
  "scope_preflight gate maximum_assurance allow_downgrade run =
     (let (incomplete, terminal_code) = run
      in if qg_required gate \<and> \<not> qg_passed gate \<and> terminal_code = ExitSuccess
         then if maximum_assurance \<and> allow_downgrade
              then (incomplete @ [''maximum-assurance preflight downgrade: '' @ qg_gate gate @ '': '' @ qg_detail gate], terminal_code)
              else (incomplete @ [''quality gate failed before provider spend: '' @ qg_gate gate @ '': '' @ qg_detail gate],
                    ExitIncomplete)
         else run)"

end
