(* ===== verification/Discovery_Facts.thy ===== *)
theory Discovery_Facts
  imports Discovery Ignore_Facts
begin

text \<open>
  What one step of the walk does, the contract that carries an invariant through the whole walk, and
  its instances.
\<close>

section \<open>Errors and single steps\<close>

lemma path_error_Inr [simp]: "path_error x = Inr a \<longleftrightarrow> x = Inr a"
  by (simp add: path_error_def)

lemma path_error_value [simp]: "path_error (Inr a) = Inr a"
  by simp

lemma omit_fields [simp]:
  "ws_files (omit why st) = ws_files st" "ws_bytes (omit why st) = ws_bytes st" "ws_walked (omit why st) = ws_walked st"
  "ws_visited (omit why st) = ws_visited st" "ws_omitted (omit why st) = ws_omitted st @ [why]"
  by (simp_all add: omit_def)

lemma enter_link_cases:
  "enter_link env candidate relative st = Inr (keep, st') \<Longrightarrow>
     (\<not> keep \<and> (\<exists>why. st' = omit (relative @ '': '' @ why) st))
     \<or> (keep \<and> rc_follow_symlinks (we_config env) \<and> (\<exists>target. st' = st\<lparr>ws_visited := target # ws_visited st\<rparr>))"
  by (auto simp: enter_link_def result_simps split: option.splits resolved.splits if_splits)

lemma examine_directory_cases:
  assumes "examine_directory env dir name st = Inr (keep, st')"
  obtains (silent) "\<not> keep" "st' = st"
    | (omitted) why where "\<not> keep" "st' = omit why st"
    | (entered) "keep" "st' = st" "\<not> os_link (we_os env) (dir @ [name])"
    | (linked) target where "keep" "rc_follow_symlinks (we_config env)" "st' = st\<lparr>ws_visited := target # ws_visited st\<rparr>"
  using assms
  by (auto simp: examine_directory_def Let_def result_simps split: sum.splits if_splits dest!: enter_link_cases)

text \<open>What a kept file has passed.\<close>

definition admitted :: "walk_env \<Rightarrow> string list \<Rightarrow> string \<Rightarrow> string list \<Rightarrow> string \<Rightarrow> bool" where
  "admitted env candidate relative target data \<longleftrightarrow>
     relative_text candidate = Inr relative \<and> ignored (we_matcher env) relative False = Inr False
     \<and> file_target env candidate = Inr (Inr target) \<and> read_file env candidate = Inr data
     \<and> \<not> excluded_by_config (we_config env) relative"

definition names_path :: "string \<Rightarrow> string \<Rightarrow> bool" where
  "names_path relative why \<longleftrightarrow> starts_with (relative @ '': '') why"

lemma file_target_reason: "file_target env candidate = Inr (Inl why) \<Longrightarrow> names_path relative (relative @ why)"
  by (auto simp: file_target_def result_simps names_path_def starts_with_def
      split: if_splits option.splits resolved.splits)

lemma read_file_reason: "read_file env candidate = Inl why \<Longrightarrow> names_path relative (relative @ why)"
  by (auto simp: read_file_def names_path_def starts_with_def split: if_splits option.splits)

lemma examine_file_cases:
  assumes "examine_file env dir name st = Inr (stop, st')"
  obtains (unsupported) e where "relative_text (dir @ [name]) = Inl e" "\<not> stop"
        "st' = omit ''repository file omitted: unsupported path'' st"
    | (silent) relative where "relative_text (dir @ [name]) = Inr relative" "\<not> stop" "st' = st"
        "ignored (we_matcher env) relative False = Inr True \<or> excluded_by_config (we_config env) relative"
    | (omitted) relative why where "relative_text (dir @ [name]) = Inr relative" "\<not> stop" "st' = omit why st" "names_path relative why"
    | (kept) relative target data where "admitted env (dir @ [name]) relative target data"
        "keep_file env name relative target data st = (stop, st')"
proof (cases "relative_text (dir @ [name])")
  case (Inl e)
  then show ?thesis using assms unsupported by (simp add: examine_file_def Let_def)
next
  case rel: (Inr relative)
  then obtain ign where ign: "ignored (we_matcher env) relative False = Inr ign"
    using assms by (auto simp: examine_file_def Let_def result_simps)
  show ?thesis
  proof (cases ign)
    case True
    then show ?thesis using assms rel ign silent by (simp add: examine_file_def Let_def)
  next
    case False
    then obtain found where found: "file_target env (dir @ [name]) = Inr found"
      using assms rel ign by (auto simp: examine_file_def Let_def result_simps)
    show ?thesis
    proof (cases found)
      case (Inl why)
      then show ?thesis
        using assms rel ign False found omitted file_target_reason [of env "dir @ [name]" why relative]
        by (auto simp: examine_file_def Let_def)
    next
      case (Inr target)
      then show ?thesis
        using assms rel ign False found omitted silent kept read_file_reason [of env "dir @ [name]" _ relative]
        by (cases "read_file env (dir @ [name])") (auto simp: examine_file_def Let_def admitted_def split: if_splits)
    qed
  qed
qed

text \<open>The state after a file is kept.\<close>

definition added_file :: "walk_env \<Rightarrow> string \<Rightarrow> string \<Rightarrow> string list \<Rightarrow> string \<Rightarrow> walk_state \<Rightarrow> discovered_file" where
  "added_file env name relative target data st =
     file_record env name relative target data (if exceeds_budget env data st then [] else we_decode env data)"

lemma keep_file_facts:
  assumes "keep_file env name relative target data st = (stop, st')"
  shows "ws_files st' = ws_files st @ [added_file env name relative target data st]"
    and "ws_bytes st' = (if exceeds_budget env data st then ws_bytes st else ws_bytes st + int (length data))"
    and "ws_walked st' = ws_walked st" "ws_visited st' = ws_visited st"
    and "set (ws_omitted st') = set (ws_omitted st)
      \<union> (if exceeds_budget env data st then {relative @ '': mapped without content after max_discovery_bytes''} else {})
      \<union> (if stop then {''repository: max_files reached''} else {})"
    and "stop \<longleftrightarrow> rc_max_files (we_config env) \<le> int (Suc (length (ws_files st)))"
proof -
  let ?over = "exceeds_budget env data st" and ?full = "rc_max_files (we_config env) \<le> int (Suc (length (ws_files st)))"
  let ?st = "(if ?over then omit (relative @ '': mapped without content after max_discovery_bytes'') st
      else st\<lparr>ws_bytes := ws_bytes st + int (length data)\<rparr>)\<lparr>ws_files := ws_files st @ [added_file env name relative target data st]\<rparr>"
  have k: "stop = ?full \<and> st' = (if ?full then omit ''repository: max_files reached'' ?st else ?st)"
    using assms by (cases ?over; cases ?full) (simp_all add: keep_file_def added_file_def Let_def)
  then show "stop \<longleftrightarrow> ?full" by simp
  show "ws_files st' = ws_files st @ [added_file env name relative target data st]"
    "ws_bytes st' = (if ?over then ws_bytes st else ws_bytes st + int (length data))"
    "ws_walked st' = ws_walked st" "ws_visited st' = ws_visited st"
    using k by simp_all
  show "set (ws_omitted st') = set (ws_omitted st)
      \<union> (if ?over then {relative @ '': mapped without content after max_discovery_bytes''} else {})
      \<union> (if stop then {''repository: max_files reached''} else {})"
    using k by auto
qed

lemma retain_dirs_Cons:
  assumes "retain_dirs env dir (name # names) st = Inr (kept, st')"
  obtains keep mid rest where "examine_directory env dir name st = Inr (keep, mid)"
    "retain_dirs env dir names mid = Inr (rest, st')" "kept = (if keep then name # rest else rest)"
  using assms by (auto simp: result_simps)

lemma examine_files_Cons:
  assumes "examine_files env dir (name # names) st = Inr (stop, st')"
  obtains halt mid where "examine_file env dir name st = Inr (halt, mid)"
    "(if halt then Inr (True, mid) else examine_files env dir names mid) = Inr (stop, st')"
  using assms by (auto simp: result_simps)

definition counted_entries :: "string list \<times> string list \<Rightarrow> walk_state \<Rightarrow> walk_state" where
  "counted_entries listing st = st\<lparr>ws_walked := ws_walked st + int (length (fst listing) + length (snd listing))\<rparr>"

lemma walk_directory_cases:
  assumes "walk_directory env dir listing st = Inr (stop, below, st')"
  obtains (cut) "stop" "st' = omit ''repository: max_walk_entries reached'' (counted_entries listing st)"
    | (through) kept mid where "ws_walked (counted_entries listing st) \<le> rc_max_walk_entries (we_config env)"
        "retain_dirs env dir (sort (fst listing)) (counted_entries listing st) = Inr (kept, mid)"
        "examine_files env dir (sort (snd listing)) mid = Inr (stop, st')" "below = map (\<lambda>name. dir @ [name]) kept"
  using assms
  by (cases listing) (auto simp: walk_directory_def counted_entries_def Let_def result_simps not_less split: if_splits)

section \<open>The walk always ends\<close>

lemma examine_directory_walked: "examine_directory env dir name st = Inr (keep, st') \<Longrightarrow> ws_walked st' = ws_walked st"
  by (erule examine_directory_cases) auto

lemma examine_file_walked: "examine_file env dir name st = Inr (stop, st') \<Longrightarrow> ws_walked st' = ws_walked st"
  by (erule examine_file_cases) (auto dest: keep_file_facts(3))

lemma retain_dirs_walked:
  "retain_dirs env dir names st = Inr (kept, st') \<Longrightarrow> ws_walked st' = ws_walked st \<and> length kept \<le> length names"
proof (induction names arbitrary: st kept)
  case (Cons name names)
  from Cons.prems obtain keep mid rest where "examine_directory env dir name st = Inr (keep, mid)"
    "retain_dirs env dir names mid = Inr (rest, st')" "kept = (if keep then name # rest else rest)"
    by (rule retain_dirs_Cons)
  then show ?case using Cons.IH [of mid rest] examine_directory_walked by (auto simp: le_SucI)
qed simp

lemma examine_files_walked: "examine_files env dir names st = Inr (stop, st') \<Longrightarrow> ws_walked st' = ws_walked st"
proof (induction names arbitrary: st)
  case (Cons name names)
  from Cons.prems obtain halt mid where "examine_file env dir name st = Inr (halt, mid)"
    "(if halt then Inr (True, mid) else examine_files env dir names mid) = Inr (stop, st')"
    by (rule examine_files_Cons)
  then show ?case using Cons.IH [of mid] examine_file_walked by (auto split: if_splits)
qed simp

text \<open>
  The entries that may still be counted and the directories that are pending: a directory enters the
  pending ones only after it was counted as an entry.
\<close>

definition walk_left :: "walk_env \<Rightarrow> string list list \<Rightarrow> walk_state \<Rightarrow> nat" where
  "walk_left env pending st = nat (rc_max_walk_entries (we_config env) - ws_walked st) + length pending"

lemma walk_directory_progress:
  assumes "walk_directory env dir listing st = Inr (False, below, st')"
  shows "walk_left env (below @ rest) st' < walk_left env (dir # rest) st"
proof -
  from assms obtain kept mid where b: "ws_walked (counted_entries listing st) \<le> rc_max_walk_entries (we_config env)"
    and r: "retain_dirs env dir (sort (fst listing)) (counted_entries listing st) = Inr (kept, mid)"
    and f: "examine_files env dir (sort (snd listing)) mid = Inr (False, st')" and k: "below = map (\<lambda>name. dir @ [name]) kept"
    by (cases rule: walk_directory_cases) auto
  show ?thesis
    using b k retain_dirs_walked [OF r] examine_files_walked [OF f]
    by (auto simp: walk_left_def counted_entries_def nat_diff_distrib' zless_nat_eq_int_zless nat_less_iff intro: less_le_trans)
qed

lemma walk_induct [case_names ended unlisted listed]:
  assumes "\<And>st. P [] st"
    and "\<And>dir rest st. os_scan (we_os env) dir = None \<Longrightarrow> P rest st \<Longrightarrow> P (dir # rest) st"
    and "\<And>dir rest st listing. os_scan (we_os env) dir = Some listing \<Longrightarrow>
          (\<And>below st'. walk_directory env dir listing st = Inr (False, below, st') \<Longrightarrow> P (below @ rest) st') \<Longrightarrow> P (dir # rest) st"
  shows "P pending st"
proof (induction "walk_left env pending st" arbitrary: pending st rule: less_induct)
  case less
  show ?case
  proof (cases pending)
    case (Cons dir rest)
    show ?thesis
    proof (cases "os_scan (we_os env) dir")
      case None
      then show ?thesis using less [of rest st] Cons assms(2) by (simp add: walk_left_def)
    next
      case (Some listing)
      then show ?thesis unfolding Cons using less walk_directory_progress Cons by (intro assms(3)) blast+
    qed
  qed (simp add: assms(1))
qed

lemma walk_loop_returns: "\<exists>outcome. walk_loop env pending st = Some outcome"
proof (induction pending st rule: walk_induct [of _ env])
  case (listed dir rest st listing)
  then show ?case
    by (cases "walk_directory env dir listing st") (auto simp: walk_loop.simps [of env "dir # rest"])
qed (simp_all add: walk_loop.simps [of env "_ # _"] walk_loop.simps [of env "[]"])

section \<open>The invariant contract\<close>

text \<open>
  An invariant of the walk: it holds of the state while the walk goes on and of the places that are
  entered, and gives what holds of the final state. Every step of the program keeps it.
\<close>

locale walk_invariant =
  fixes env :: walk_env and going :: "walk_state \<Rightarrow> bool" and final :: "walk_state \<Rightarrow> bool"
    and place :: "string list \<Rightarrow> bool"
  assumes start: "place []"
    and finished: "going st \<Longrightarrow> final st"
    and counted: "going st \<Longrightarrow> going (st\<lparr>ws_walked := n\<rparr>)"
    and cut_off: "going st \<Longrightarrow> final (omit ''repository: max_walk_entries reached'' st)"
    and dir_step: "place dir \<Longrightarrow> os_scan (we_os env) dir = Some listing \<Longrightarrow> name \<in> set (fst listing) \<Longrightarrow> going st \<Longrightarrow>
          examine_directory env dir name st = Inr (keep, st') \<Longrightarrow>
          going st' \<and> (keep \<longrightarrow> place (dir @ [name]))"
    and file_step: "place dir \<Longrightarrow> os_scan (we_os env) dir = Some listing \<Longrightarrow> name \<in> set (snd listing) \<Longrightarrow> going st \<Longrightarrow>
          examine_file env dir name st = Inr (stop, st') \<Longrightarrow>
          (if stop then final st' else going st')"
begin

lemma retain_dirs_keeps:
  assumes "place dir" "os_scan (we_os env) dir = Some listing"
  shows "set names \<subseteq> set (fst listing) \<Longrightarrow> going st \<Longrightarrow> retain_dirs env dir names st = Inr (kept, st') \<Longrightarrow>
    going st' \<and> (\<forall>name \<in> set kept. place (dir @ [name]))"
proof (induction names arbitrary: st kept)
  case (Cons name names)
  from Cons.prems(3) obtain keep mid rest where d: "examine_directory env dir name st = Inr (keep, mid)"
    and r: "retain_dirs env dir names mid = Inr (rest, st')" "kept = (if keep then name # rest else rest)"
    by (rule retain_dirs_Cons)
  then show ?case using Cons.IH [OF _ _ r(1)] dir_step [OF assms _ Cons.prems(2) d] Cons.prems(1) by auto
qed simp

lemma examine_files_keeps:
  assumes "place dir" "os_scan (we_os env) dir = Some listing"
  shows "set names \<subseteq> set (snd listing) \<Longrightarrow> going st \<Longrightarrow> examine_files env dir names st = Inr (stop, st') \<Longrightarrow>
    (if stop then final st' else going st')"
proof (induction names arbitrary: st)
  case (Cons name names)
  from Cons.prems(3) obtain halt mid where f: "examine_file env dir name st = Inr (halt, mid)"
    and "(if halt then Inr (True, mid) else examine_files env dir names mid) = Inr (stop, st')"
    by (rule examine_files_Cons)
  then show ?case using Cons.IH [of mid] file_step [OF assms _ Cons.prems(2) f] Cons.prems(1) by (auto split: if_splits)
qed simp

lemma walk_directory_keeps:
  assumes "place dir" "os_scan (we_os env) dir = Some listing" "going st"
    and "walk_directory env dir listing st = Inr (stop, below, st')"
  shows "if stop then final st' else going st' \<and> (\<forall>d \<in> set below. place d)"
  using assms(4)
proof (cases rule: walk_directory_cases)
  case cut
  then show ?thesis using cut_off counted [OF assms(3)] by (simp add: counted_entries_def)
next
  case (through kept mid)
  have "going (counted_entries listing st)" using counted [OF assms(3)] by (simp add: counted_entries_def)
  with retain_dirs_keeps [OF assms(1,2) _ _ through(2)] have "going mid \<and> (\<forall>name \<in> set kept. place (dir @ [name]))"
    by simp
  then show ?thesis using examine_files_keeps [OF assms(1,2) _ _ through(3)] through(4) by (auto split: if_splits)
qed

lemma walk_loop_keeps:
  "walk_loop env pending st = Some (Inr st') \<Longrightarrow> going st \<Longrightarrow> (\<forall>d \<in> set pending. place d) \<Longrightarrow> final st'"
proof (induction pending st rule: walk_induct [of _ env])
  case (ended st)
  then show ?case by (simp add: walk_loop.simps finished)
next
  case (unlisted dir rest st)
  then show ?case by (simp add: walk_loop.simps [of env "dir # rest"])
next
  case (listed dir rest st listing)
  from listed.prems(1) listed.hyps obtain stop below mid where w: "walk_directory env dir listing st = Inr (stop, below, mid)"
    and l: "(if stop then Some (Inr mid) else walk_loop env (below @ rest) mid) = Some (Inr st')"
    by (auto simp: walk_loop.simps [of env "dir # rest"] split: sum.splits)
  show ?case
    using walk_directory_keeps [OF _ listed.hyps listed.prems(2) w] listed.prems(3) listed.IH [of below mid] l w
    by (cases stop) auto
qed

lemma discovery_keeps:
  assumes "going initial_walk" "walk_loop env [[]] initial_walk = Some (Inr st)"
  shows "final st"
  using walk_loop_keeps [OF assms(2,1)] start by simp

end

section \<open>Limits\<close>

definition content_bytes :: "discovered_file list \<Rightarrow> nat" where
  "content_bytes files = (\<Sum>f\<leftarrow>files. if df_content f = [] then 0 else df_size f)"

definition bytes_bounded :: "walk_env \<Rightarrow> walk_state \<Rightarrow> bool" where
  "bytes_bounded env st \<longleftrightarrow> (0 \<le> rc_max_discovery_bytes (we_config env) \<longrightarrow>
     int (content_bytes (ws_files st)) \<le> ws_bytes st \<and> ws_bytes st \<le> rc_max_discovery_bytes (we_config env))"

definition below_limits :: "walk_env \<Rightarrow> walk_state \<Rightarrow> bool" where
  "below_limits env st \<longleftrightarrow> bytes_bounded env st
     \<and> (1 \<le> rc_max_files (we_config env) \<longrightarrow> int (length (ws_files st)) < rc_max_files (we_config env))"

definition within_limits :: "walk_env \<Rightarrow> walk_state \<Rightarrow> bool" where
  "within_limits env st \<longleftrightarrow> bytes_bounded env st
     \<and> (1 \<le> rc_max_files (we_config env) \<longrightarrow> int (length (ws_files st)) \<le> rc_max_files (we_config env))"

lemma keep_file_bytes:
  "keep_file env name relative target data st = (stop, st') \<Longrightarrow> bytes_bounded env st \<Longrightarrow> bytes_bounded env st'"
  by (auto simp: bytes_bounded_def content_bytes_def keep_file_facts(1,2) added_file_def file_record_def exceeds_budget_def)

interpretation bounded: walk_invariant env "below_limits env" "within_limits env" "\<lambda>_. True" for env
proof
  fix dir name st st' keep
  assume "below_limits env st" "examine_directory env dir name st = Inr (keep, st')"
  from this(2,1) show "below_limits env st' \<and> (keep \<longrightarrow> True)"
    by (cases rule: examine_directory_cases) (auto simp: below_limits_def bytes_bounded_def)
next
  fix dir name st st' stop
  assume b: "below_limits env st" and e: "examine_file env dir name st = Inr (stop, st')"
  from e show "if stop then within_limits env st' else below_limits env st'"
  proof (cases rule: examine_file_cases)
    case (kept relative target data)
    have "bytes_bounded env st'" using keep_file_bytes [OF kept(2)] b by (simp add: below_limits_def)
    then show ?thesis
      using keep_file_facts(1,6) [OF kept(2)] b by (auto simp: below_limits_def within_limits_def)
  qed (use b in \<open>auto simp: below_limits_def bytes_bounded_def\<close>)
qed (auto simp: below_limits_def within_limits_def bytes_bounded_def)

section \<open>Trusted records\<close>

text \<open>When links are not followed no link lies on the way to a directory that is entered.\<close>

definition no_link_above :: "walk_env \<Rightarrow> string list \<Rightarrow> bool" where
  "no_link_above env dir \<longleftrightarrow> rc_follow_symlinks (we_config env)
     \<or> (\<forall>n. 0 < n \<longrightarrow> n \<le> length dir \<longrightarrow> \<not> os_link (we_os env) (take n dir))"

text \<open>File systems whose names have no separator in them, and the places that are reached.\<close>

definition plain_names :: "string list \<Rightarrow> bool" where
  "plain_names names \<longleftrightarrow> plain_parts names \<and> (\<forall>n \<in> set names. CHR 0x5C \<notin> set n)"

definition plain_listings :: "os_view \<Rightarrow> bool" where
  "plain_listings os \<longleftrightarrow> (\<forall>dir listing. os_scan os dir = Some listing \<longrightarrow> plain_names (fst listing @ snd listing))"

definition reached :: "walk_env \<Rightarrow> string list \<Rightarrow> bool" where
  "reached env dir \<longleftrightarrow> no_link_above env dir \<and> (plain_listings (we_os env) \<longrightarrow> plain_names dir)"

lemma plain_names_append [simp]: "plain_names (a @ b) \<longleftrightarrow> plain_names a \<and> plain_names b"
  by (auto simp: plain_names_def plain_parts_def)

lemma plain_listings_names:
  "plain_listings os \<Longrightarrow> os_scan os dir = Some listing \<Longrightarrow> name \<in> set (fst listing) \<union> set (snd listing) \<Longrightarrow> plain_names [name]"
proof -
  assume "plain_listings os" "os_scan os dir = Some listing" and n: "name \<in> set (fst listing) \<union> set (snd listing)"
  then have "plain_names (fst listing @ snd listing)" unfolding plain_listings_def by blast
  then show ?thesis using n by (auto simp: plain_names_def plain_parts_def)
qed

definition without_content :: "string \<Rightarrow> string" where
  "without_content relative = relative @ '': mapped without content after max_discovery_bytes''"

text \<open>A record was made from a file that passed every test, and a content that is missing is reported.\<close>

definition trusted_record :: "walk_env \<Rightarrow> string set \<Rightarrow> discovered_file \<Rightarrow> bool" where
  "trusted_record env reported f \<longleftrightarrow>
     (\<exists>dir name data. admitted env (dir @ [name]) (df_relative_path f) (df_absolute_path f) data \<and> no_link_above env dir
       \<and> (plain_listings (we_os env) \<longrightarrow> plain_names (dir @ [name])) \<and> df_size f = length data \<and> df_sha256 f = we_sha256 env data
       \<and> df_lines f = length (splitlines (we_decode env data))
       \<and> (df_content f = we_decode env data \<or> df_content f = [] \<and> without_content (df_relative_path f) \<in> reported))"

definition all_trusted :: "walk_env \<Rightarrow> walk_state \<Rightarrow> bool" where
  "all_trusted env st \<longleftrightarrow> (\<forall>f \<in> set (ws_files st). trusted_record env (set (ws_omitted st)) f)"

lemma trusted_record_mono: "trusted_record env A f \<Longrightarrow> A \<subseteq> B \<Longrightarrow> trusted_record env B f"
  unfolding trusted_record_def by blast

lemma all_trusted_mono:
  "all_trusted env st \<Longrightarrow> ws_files st' = ws_files st \<Longrightarrow> set (ws_omitted st) \<subseteq> set (ws_omitted st') \<Longrightarrow> all_trusted env st'"
  by (auto simp: all_trusted_def intro: trusted_record_mono)

lemma no_link_above_snoc:
  "no_link_above env dir \<Longrightarrow> rc_follow_symlinks (we_config env) \<or> \<not> os_link (we_os env) (dir @ [name]) \<Longrightarrow>
   no_link_above env (dir @ [name])"
  by (auto simp: no_link_above_def le_Suc_eq)

lemma reached_snoc:
  assumes "reached env dir" "os_scan (we_os env) dir = Some listing" "name \<in> set (fst listing)"
    and "examine_directory env dir name st = Inr (True, st')"
  shows "reached env (dir @ [name])"
  using assms(4)
  by (cases rule: examine_directory_cases)
    (use assms in \<open>auto simp: reached_def intro!: no_link_above_snoc dest: plain_listings_names\<close>)

interpretation trusted: walk_invariant env "all_trusted env" "all_trusted env" "reached env" for env
proof
  fix dir name st st' keep listing
  assume p: "reached env dir" "os_scan (we_os env) dir = Some listing" "name \<in> set (fst listing)"
    and t: "all_trusted env st" and e: "examine_directory env dir name st = Inr (keep, st')"
  have "all_trusted env st'" using e by (cases rule: examine_directory_cases) (use t in \<open>auto intro: all_trusted_mono\<close>)
  then show "all_trusted env st' \<and> (keep \<longrightarrow> reached env (dir @ [name]))" using reached_snoc [OF p] e by auto
next
  fix dir name st st' stop listing
  assume p: "reached env dir" "os_scan (we_os env) dir = Some listing" "name \<in> set (snd listing)"
    and t: "all_trusted env st" and e: "examine_file env dir name st = Inr (stop, st')"
  have names: "plain_listings (we_os env) \<longrightarrow> plain_names (dir @ [name])" "no_link_above env dir"
    using p plain_listings_names [OF _ p(2), of name] by (auto simp: reached_def)
  from e have "all_trusted env st'"
  proof (cases rule: examine_file_cases)
    case (kept relative target data)
    note k = keep_file_facts [OF kept(2)]
    have "trusted_record env (set (ws_omitted st')) (added_file env name relative target data st)"
      unfolding trusted_record_def
      by (intro exI [of _ dir] exI [of _ name] exI [of _ data])
        (use kept(1) names k(5) in \<open>auto simp: added_file_def file_record_def without_content_def\<close>)
    moreover have "trusted_record env (set (ws_omitted st')) f" if "f \<in> set (ws_files st)" for f
      using t that k(5) by (auto simp: all_trusted_def intro: trusted_record_mono)
    ultimately show ?thesis by (simp add: all_trusted_def k(1))
  qed (use t in \<open>auto intro: all_trusted_mono\<close>)
  then show "if stop then all_trusted env st' else all_trusted env st'" by simp
qed (auto intro: all_trusted_mono simp: reached_def no_link_above_def plain_names_def plain_parts_def)

text \<open>
  Where a kept file lies, by the answers of the operating system alone: a path that is no link resolves
  inside the repository; a link is followed by configuration, its target is inside the repository, and
  the rules do not ignore the target either.
\<close>

definition target_inside :: "walk_env \<Rightarrow> string list \<Rightarrow> string list \<Rightarrow> bool" where
  "target_inside env candidate target \<longleftrightarrow>
     (if os_link (we_os env) candidate
      then rc_follow_symlinks (we_config env) \<and> os_strict (we_os env) candidate = Some (Within target)
        \<and> (\<exists>relative. normalize_relative_path (as_posix target) = Inr relative
             \<and> ignored (we_matcher env) relative False = Inr False)
      else os_resolved (we_os env) candidate = Within target)"

lemma file_target_inside: "file_target env candidate = Inr (Inr target) \<Longrightarrow> target_inside env candidate target"
  by (auto simp: file_target_def target_inside_def result_simps path_error_def catch_as_def
      split: if_splits option.splits resolved.splits sum.splits)

text \<open>What a trusted record says of the file behind it.\<close>

lemma trusted_record_facts:
  assumes "trusted_record env reported f"
  obtains dir name data nlink size where "relative_text (dir @ [name]) = Inr (df_relative_path f)"
    and "normalize_relative_path (df_relative_path f) = Inr (df_relative_path f)"
    and "ignored (we_matcher env) (df_relative_path f) False = Inr False"
    and "\<not> is_sensitive_workspace_path (df_relative_path f) False" "\<not> permanently_excluded (df_relative_path f) False"
    and "\<not> excluded_by_config (we_config env) (df_relative_path f)"
    and "os_stat (we_os env) (dir @ [name]) = Some (nlink, size)" "nlink \<le> 1" "size \<le> rc_max_file_bytes (we_config env)"
    and "os_bytes (we_os env) (dir @ [name]) = Some data" "\<not> is_binary data"
    and "target_inside env (dir @ [name]) (df_absolute_path f)"
    and "df_size f = length data" "df_sha256 f = we_sha256 env data"
    and "df_content f = we_decode env data \<or> df_content f = [] \<and> without_content (df_relative_path f) \<in> reported"
    and "no_link_above env (dir @ [name])" "plain_listings (we_os env) \<Longrightarrow> plain_names (dir @ [name])"
proof -
  from assms obtain dir name data where t: "admitted env (dir @ [name]) (df_relative_path f) (df_absolute_path f) data"
      "no_link_above env dir" "plain_listings (we_os env) \<Longrightarrow> plain_names (dir @ [name])"
      "df_size f = length data" "df_sha256 f = we_sha256 env data"
      "df_content f = we_decode env data \<or> df_content f = [] \<and> without_content (df_relative_path f) \<in> reported"
    unfolding trusted_record_def by blast
  from t(1) have a: "relative_text (dir @ [name]) = Inr (df_relative_path f)"
    "ignored (we_matcher env) (df_relative_path f) False = Inr False"
    "file_target env (dir @ [name]) = Inr (Inr (df_absolute_path f))" "read_file env (dir @ [name]) = Inr data"
    "\<not> excluded_by_config (we_config env) (df_relative_path f)"
    by (simp_all add: admitted_def)
  from a(2) obtain n where n: "normalize_relative_path (df_relative_path f) = Inr n"
    "\<not> is_sensitive_workspace_path n False" "\<not> permanently_excluded n False" by (rule not_ignored)
  have same: "n = df_relative_path f"
    using normalize_again [of _ "df_relative_path f"] a(1) n(1) by (auto simp: relative_text_def split: if_splits)
  obtain nlink size where s: "os_stat (we_os env) (dir @ [name]) = Some (nlink, size)" "nlink \<le> 1"
    "size \<le> rc_max_file_bytes (we_config env)" "os_bytes (we_os env) (dir @ [name]) = Some data" "\<not> is_binary data"
    using a(4) by (auto simp: read_file_def split: option.splits if_splits)
  have "rc_follow_symlinks (we_config env) \<or> \<not> os_link (we_os env) (dir @ [name])"
    using a(3) by (auto simp: file_target_def split: option.splits resolved.splits)
  then have "no_link_above env (dir @ [name])" using no_link_above_snoc t(2) by blast
  then show thesis using that [OF a(1) _ a(2) _ _ a(5) s(1-5) file_target_inside [OF a(3)] t(4-6)] n t(3) same by simp
qed

section \<open>Accounting\<close>

text \<open>
  The directories the walk enters without following a link, and what accounts for a file: a record,
  an omission that names it, or the configuration.
\<close>

inductive enters :: "walk_env \<Rightarrow> string list \<Rightarrow> string list \<Rightarrow> bool" for env where
  "os_scan (we_os env) dir = Some (dirs, files) \<Longrightarrow> name \<in> set dirs \<Longrightarrow> relative_text (dir @ [name]) = Inr relative \<Longrightarrow>
   pruned (we_matcher env) relative = Inr False \<Longrightarrow> \<not> os_link (we_os env) (dir @ [name]) \<Longrightarrow> enters env dir (dir @ [name])"

definition accounted :: "walk_env \<Rightarrow> walk_state \<Rightarrow> string list \<Rightarrow> bool" where
  "accounted env st candidate \<longleftrightarrow>
     (case relative_text candidate of
        Inl e \<Rightarrow> ''repository file omitted: unsupported path'' \<in> set (ws_omitted st)
      | Inr relative \<Rightarrow>
          ignored (we_matcher env) relative False = Inr True \<or> excluded_by_config (we_config env) relative
          \<or> (\<exists>f \<in> set (ws_files st). df_relative_path f = relative)
          \<or> (\<exists>why \<in> set (ws_omitted st). names_path relative why))"

definition grows :: "walk_state \<Rightarrow> walk_state \<Rightarrow> bool" where
  "grows st st' \<longleftrightarrow> set (ws_files st) \<subseteq> set (ws_files st') \<and> set (ws_omitted st) \<subseteq> set (ws_omitted st')"

definition complete_walk :: "walk_state \<Rightarrow> bool" where
  "complete_walk st \<longleftrightarrow> ''repository: max_files reached'' \<notin> set (ws_omitted st)
     \<and> ''repository: max_walk_entries reached'' \<notin> set (ws_omitted st)"

lemma grows_refl [simp]: "grows st st" and grows_trans: "grows a b \<Longrightarrow> grows b c \<Longrightarrow> grows a c"
  and grows_omit [simp]: "grows st (omit why st)" and grows_counted [simp]: "grows st (counted_entries listing st)"
  by (auto simp: grows_def counted_entries_def)

lemma accounted_grows: "accounted env st c \<Longrightarrow> grows st st' \<Longrightarrow> accounted env st' c"
  by (auto simp: accounted_def grows_def split: sum.splits)

lemma examine_directory_grows: "examine_directory env dir name st = Inr (keep, st') \<Longrightarrow> grows st st'"
  by (erule examine_directory_cases) (auto simp: grows_def)

lemma examine_file_accounts:
  assumes "examine_file env dir name st = Inr (stop, st')"
  shows "grows st st'" "accounted env st' (dir @ [name])" "stop \<Longrightarrow> \<not> complete_walk st'"
  using assms
  by (cases rule: examine_file_cases;
      auto simp: grows_def accounted_def admitted_def complete_walk_def keep_file_facts(1,5) added_file_def file_record_def)+

lemma retain_dirs_grows: "retain_dirs env dir names st = Inr (kept, st') \<Longrightarrow> grows st st'"
proof (induction names arbitrary: st kept)
  case (Cons name names)
  from Cons.prems show ?case by (rule retain_dirs_Cons) (use Cons.IH examine_directory_grows grows_trans in blast)
qed simp

lemma retain_dirs_enters:
  assumes "retain_dirs env dir names st = Inr (kept, st')" "name \<in> set names" "enters env dir (dir @ [name])"
  shows "name \<in> set kept"
  using assms(1,2)
proof (induction names arbitrary: st kept)
  case (Cons n names)
  from Cons.prems(1) obtain keep mid rest where d: "examine_directory env dir n st = Inr (keep, mid)"
    and r: "retain_dirs env dir names mid = Inr (rest, st')" "kept = (if keep then n # rest else rest)"
    by (rule retain_dirs_Cons)
  have "keep" if "n = name"
    using assms(3) d that by (auto elim!: enters.cases simp: examine_directory_def)
  then show ?case using Cons.IH [OF r(1)] r(2) Cons.prems(2) by auto
qed simp

lemma examine_files_accounts:
  "examine_files env dir names st = Inr (stop, st') \<Longrightarrow>
   grows st st' \<and> (if stop then \<not> complete_walk st' else \<forall>name \<in> set names. accounted env st' (dir @ [name]))"
proof (induction names arbitrary: st)
  case (Cons name names)
  from Cons.prems obtain halt mid where f: "examine_file env dir name st = Inr (halt, mid)"
    and r: "(if halt then Inr (True, mid) else examine_files env dir names mid) = Inr (stop, st')"
    by (rule examine_files_Cons)
  note e = examine_file_accounts [OF f]
  show ?case
  proof (cases halt)
    case True
    then show ?thesis using e r by auto
  next
    case False
    then have "examine_files env dir names mid = Inr (stop, st')" using r by simp
    from Cons.IH [OF this] show ?thesis using e accounted_grows [OF e(2)] by (auto intro: grows_trans)
  qed
qed simp

lemma walk_directory_accounts:
  assumes "walk_directory env dir listing st = Inr (stop, below, st')"
  shows "grows st st'" "stop \<Longrightarrow> \<not> complete_walk st'"
    and "\<not> stop \<Longrightarrow> name \<in> set (snd listing) \<Longrightarrow> accounted env st' (dir @ [name])"
    and "\<not> stop \<Longrightarrow> os_scan (we_os env) dir = Some listing \<Longrightarrow> enters env dir d \<Longrightarrow> d \<in> set below"
proof -
  have "grows st st' \<and> (stop \<longrightarrow> \<not> complete_walk st') \<and> (\<not> stop \<longrightarrow> name \<in> set (snd listing) \<longrightarrow> accounted env st' (dir @ [name]))
    \<and> (\<not> stop \<longrightarrow> os_scan (we_os env) dir = Some listing \<longrightarrow> enters env dir d \<longrightarrow> d \<in> set below)"
    using assms
  proof (cases rule: walk_directory_cases)
    case cut
    then show ?thesis using grows_trans [OF grows_counted grows_omit] by (simp add: complete_walk_def)
  next
    case (through kept mid)
    have "grows st st'"
      using grows_trans [OF grows_counted] retain_dirs_grows [OF through(2)] examine_files_accounts [OF through(3)] grows_trans by blast
    moreover have "d \<in> set below" if "os_scan (we_os env) dir = Some listing" "enters env dir d"
    proof -
      from that obtain name where "d = dir @ [name]" "name \<in> set (fst listing)" by (auto elim!: enters.cases)
      then show ?thesis using retain_dirs_enters [OF through(2), of name] that(2) through(4) by auto
    qed
    ultimately show ?thesis using examine_files_accounts [OF through(3)] by (auto split: if_splits)
  qed
  then show "grows st st'" "stop \<Longrightarrow> \<not> complete_walk st'"
    "\<not> stop \<Longrightarrow> name \<in> set (snd listing) \<Longrightarrow> accounted env st' (dir @ [name])"
    "\<not> stop \<Longrightarrow> os_scan (we_os env) dir = Some listing \<Longrightarrow> enters env dir d \<Longrightarrow> d \<in> set below"
    by blast+
qed

lemma walk_loop_accounts:
  "walk_loop env pending st = Some (Inr st') \<Longrightarrow> complete_walk st' \<Longrightarrow>
   grows st st' \<and> (\<forall>start \<in> set pending. \<forall>dir dirs files name. (enters env)\<^sup>*\<^sup>* start dir \<longrightarrow>
     os_scan (we_os env) dir = Some (dirs, files) \<longrightarrow> name \<in> set files \<longrightarrow> accounted env st' (dir @ [name]))"
proof (induction pending st rule: walk_induct [of _ env])
  case (ended st)
  then show ?case by (simp add: walk_loop.simps)
next
  case (unlisted dir rest st)
  have none: "d = dir" if "(enters env)\<^sup>*\<^sup>* dir d" for d
    using that unlisted.hyps by (cases rule: converse_rtranclpE) (auto elim: enters.cases)
  have "walk_loop env rest st = Some (Inr st')" using unlisted by (simp add: walk_loop.simps [of env "dir # rest"])
  from unlisted.IH [OF this unlisted.prems(2)] show ?case using none unlisted.hyps by (simp, metis option.distinct(1))
next
  case (listed dir rest st listing)
  from listed.prems(1) listed.hyps obtain stop below mid where w: "walk_directory env dir listing st = Inr (stop, below, mid)"
    and l: "(if stop then Some (Inr mid) else walk_loop env (below @ rest) mid) = Some (Inr st')"
    by (auto simp: walk_loop.simps [of env "dir # rest"] split: sum.splits)
  note a = walk_directory_accounts [OF w]
  have ns: "\<not> stop" using a(2) l listed.prems(2) by auto
  then have w': "walk_directory env dir listing st = Inr (False, below, mid)" and l': "walk_loop env (below @ rest) mid = Some (Inr st')"
    using w l by simp_all
  note IH = listed.IH [OF w' l' listed.prems(2), THEN conjunct1] listed.IH [OF w' l' listed.prems(2), THEN conjunct2]
  have "accounted env st' (d @ [name])"
    if r: "(enters env)\<^sup>*\<^sup>* dir d" and s: "os_scan (we_os env) d = Some (ds, fs)" "name \<in> set fs" for d ds fs name
    using r
  proof (cases rule: converse_rtranclpE)
    case base
    then show ?thesis using a(3) [OF ns, of name] s listed.hyps accounted_grows IH(1) by auto
  next
    case (step below_dir)
    then have "below_dir \<in> set below" using a(4) [OF ns listed.hyps] by blast
    then show ?thesis using IH(2) step(2) s by (simp add: ball_Un)
  qed
  then show ?case using grows_trans [OF a(1) IH(1)] IH(2) by (simp add: ball_Un)
qed

section \<open>Binary data\<close>

text \<open>
  The share of control bytes is compared in floating point; on samples of at most 8192 bytes the
  outcome is that of the exact fractions.
\<close>

lemma small_exponent:
  assumes "0 < x" "x \<le> 1" "1 / x \<le> 8192"
  shows "floor_log2 x \<le> 0" "-1022 \<le> floor_log2 x"
proof -
  show "floor_log2 x \<le> 0"
    using assms(2) by (auto simp: floor_log2_def nbits.simps)
  define k where "k = nat (\<lceil>1 / x\<rceil> - 1)"
  have "\<lceil>1 / x\<rceil> \<le> 8192" using assms(3) by (simp add: ceiling_le_iff)
  then have "k \<le> 8191" unfolding k_def by linarith
  then have "nbits k \<le> 14"
  proof (cases "k = 0")
    case False
    then have "2 ^ (nbits k - 1) \<le> k" using nbits_bounds by simp
    also have "k < 2 ^ 13" using \<open>k \<le> 8191\<close> by simp
    finally have "nbits k - 1 < 13" by (simp only: power_strict_increasing_iff one_less_numeral_iff semiring_norm)
    then show ?thesis by simp
  qed (simp add: nbits.simps)
  then show "-1022 \<le> floor_log2 x" using assms(2) by (simp add: floor_log2_def k_def nbits.simps)
qed

lemma fl_small:
  assumes "0 < x" "x \<le> 1" "1 / x \<le> 8192"
  shows "\<bar>fl x - x\<bar> \<le> 1 / 1000000"
proof -
  note e = small_exponent [OF assms]
  have "\<bar>fl x - x\<bar> \<le> 2 powi (floor_log2 x - 53)" using fl_error [of x] assms(1) e by simp
  also have "\<dots> \<le> 2 powi (- int 20)" using e(1) by (intro power_int_increasing) auto
  also have "(2::rat) powi (- int 20) = 1 / 2 ^ 20" by (simp only: power_int_minus power_int_of_nat inverse_eq_divide)
  also have "1 / 2 ^ 20 \<le> (1::rat) / 1000000" by simp
  finally show ?thesis .
qed

lemma share_threshold:
  assumes "c \<le> n" "0 < n" "n \<le> 8192"
  shows "fl (15 / 100) < fdiv (of_nat c) (of_nat n) \<longleftrightarrow> 3 * n < 20 * c"
proof (cases "c = 0")
  case True
  have "\<bar>fl (15 / 100) - 15 / 100\<bar> \<le> 1 / 1000000" by (rule fl_small) simp_all
  then have "0 < fl (15 / 100)" by linarith
  then show ?thesis using True by (simp add: fdiv_def fl_def [of 0])
next
  case False
  let ?x = "of_nat c / of_nat n :: rat"
  have t: "\<bar>fl (15 / 100) - 15 / 100\<bar> \<le> 1 / 1000000" by (rule fl_small) simp_all
  have n: "(0::rat) < of_nat n" "of_nat n \<le> (8192::rat)" using assms by simp_all
  have "(1::rat) \<le> of_nat c" using False by simp
  then have x: "\<bar>fl ?x - ?x\<bar> \<le> 1 / 1000000"
    using n assms by (intro fl_small) (simp_all add: divide_le_eq)
  consider (more) "3 * n + 1 \<le> 20 * c" | (less) "20 * c + 1 \<le> 3 * n" | (same) "20 * c = 3 * n" by linarith
  then show ?thesis
  proof cases
    case more
    then have "of_nat (3 * n + 1) \<le> (of_nat (20 * c) :: rat)" by (simp only: of_nat_le_iff)
    then have "(15 / 100 + 1 / 163840) * of_nat n \<le> (of_nat c :: rat)" using n by (simp add: field_simps)
    then have "15 / 100 + 1 / 163840 \<le> ?x" using n by (simp only: pos_le_divide_eq)
    then have "fl (15 / 100) < fl ?x" using t x by linarith
    then show ?thesis using more by (simp add: fdiv_def)
  next
    case less
    then have "of_nat (20 * c + 1) \<le> (of_nat (3 * n) :: rat)" by (simp only: of_nat_le_iff)
    then have "(of_nat c :: rat) \<le> (15 / 100 - 1 / 163840) * of_nat n" using n by (simp add: field_simps)
    then have "?x \<le> 15 / 100 - 1 / 163840" using n by (simp only: pos_divide_le_eq)
    then have "fl ?x < fl (15 / 100)" using t x by linarith
    then show ?thesis using less by (simp add: fdiv_def)
  next
    case same
    then have "of_nat (20 * c) = (of_nat (3 * n) :: rat)" by simp
    then have "?x = 15 / 100" using n by (simp add: field_simps)
    then have "fdiv (of_nat c) (of_nat n) = fl (15 / 100)" by (simp only: fdiv_def)
    then show ?thesis using same by (simp only:) simp
  qed
qed

lemma is_binary_exact [code]:
  "is_binary data \<longleftrightarrow> CHR 0x00 \<in> set data \<or> 3 * length (take 8192 data) < 20 * control_bytes (take 8192 data)"
proof (cases "take 8192 data = []")
  case False
  let ?s = "take 8192 data"
  have "control_bytes ?s \<le> length ?s" unfolding control_bytes_def by (rule length_filter_le)
  then have "fl (15 / 100) < fdiv (of_nat (control_bytes ?s)) (of_nat (length ?s)) \<longleftrightarrow> 3 * length ?s < 20 * control_bytes ?s"
    using False by (intro share_threshold) simp_all
  then show ?thesis using False unfolding is_binary_def Let_def by (simp only: if_False) auto
qed (simp add: is_binary_def control_bytes_def)

end
