(* ===== verification/Discovery_Demo.thy ===== *)
theory Discovery_Demo
  imports Discovery_Facts
begin

text \<open>Small file systems on which the walk is evaluated.\<close>

text \<open>A file system given by its listings, its files, its links and the paths that lie behind a link.\<close>

definition listed_os ::
    "(string list \<times> string list \<times> string list) list \<Rightarrow> (string list \<times> string) list \<Rightarrow> (string list \<times> string list) list
     \<Rightarrow> (string list \<times> string list) list \<Rightarrow> os_view" where
  "listed_os dirs files links aliases =
     \<lparr>os_scan = map_of dirs, os_link = (\<lambda>p. map_of links p \<noteq> None), os_strict = (\<lambda>p. map_option Within (map_of links p)),
      os_resolved = (\<lambda>p. Within (case map_of aliases p of None \<Rightarrow> p | Some q \<Rightarrow> q)),
      os_stat = (\<lambda>p. map_option (\<lambda>data. (1, int (length data))) (map_of files p)), os_bytes = map_of files\<rparr>"

definition demo_config :: repository_config where
  "demo_config = \<lparr>rc_include_tests = True, rc_include_docs = False, rc_max_files = 10, rc_max_walk_entries = 20,
     rc_max_file_bytes = 100, rc_max_discovery_bytes = 1000, rc_follow_symlinks = False\<rparr>"

definition demo_walk :: "os_view \<Rightarrow> walk_env" where
  "demo_walk os = \<lparr>we_os = os, we_config = demo_config, we_matcher = from_effective_rules [], we_changed = [],
     we_sha256 = id, we_decode = id\<rparr>"

definition demo_host :: host_view where
  "demo_host = \<lparr>hv_resolve = (\<lambda>_. Some [''r'']), hv_is_dir = (\<lambda>_. True), hv_home = None\<rparr>"

definition demo_git :: git_view where
  "demo_git = \<lparr>gv_which = None, gv_diff = (\<lambda>_. None), gv_head = None\<rparr>"

definition demo_os :: os_view where
  "demo_os = listed_os [([], [''c''], []), ([''c''], [], [''a.sol''])] [([''c'', ''a.sol''], ''x'')] [] []"

lemma demo_fields [simp]:
  "we_os (demo_walk os) = os" "we_config (demo_walk os) = demo_config" "we_matcher (demo_walk os) = from_effective_rules []"
  "we_changed (demo_walk os) = []" "we_sha256 (demo_walk os) = id" "we_decode (demo_walk os) = id"
  "(demo_walk os)\<lparr>we_changed := []\<rparr> = demo_walk os"
  by (simp_all add: demo_walk_def)

lemma demo_limits [simp]: "rc_max_files demo_config = 10" "rc_max_walk_entries demo_config = 20" "rc_max_file_bytes demo_config = 100"
  "rc_max_discovery_bytes demo_config = 1000" "\<not> rc_follow_symlinks demo_config"
  by (simp_all add: demo_config_def)

lemma demo_view [simp]:
  "os_scan demo_os [] = Some ([''c''], [])" "os_scan demo_os [''c''] = Some ([], [''a.sol''])" "\<not> os_link demo_os p"
  "os_resolved demo_os p = Within p" "os_stat demo_os [''c'', ''a.sol''] = Some (1, 1)" "os_bytes demo_os [''c'', ''a.sol''] = Some ''x''"
  by (simp_all add: demo_os_def listed_os_def)

text \<open>Evaluation of the path predicates by rewriting; the patterns are evaluated with their code equations.\<close>

lemmas path_eval = relative_text_def normalize_relative_path_def Let_def backslashes_to_slashes_def utf8_length_def
  is_control_category_def code_def has_drive_def posix_parts_def starts_with_def as_posix_def is_sensitive_workspace_path_def
  lower_char_def is_upper_def control_plane_directory_names_def control_plane_file_names_def env_name_def
  is_sensitive_workspace_name_def name_suffix_def posix_name_def auditable_source_suffixes_def sensitive_prefixes_def
  sensitive_suffixes_def sensitive_file_names_def ends_with_def

lemmas rule_eval = rstrip_slashes_def from_effective_rules_def new_matcher_def pruned_def ignored_def may_include_descendant_def

lemma demo_patterns: "any_match ''c'' True permanent_exclusions = Inr False"
  "any_match ''c/a.sol'' False permanent_exclusions = Inr False"
  by code_simp+

lemma demo_values [simp]:
  "relative_text [''c''] = Inr ''c''" "relative_text [''c'', ''a.sol''] = Inr ''c/a.sol''"
  "pruned (from_effective_rules []) ''c'' = Inr False" "ignored (from_effective_rules []) ''c/a.sol'' False = Inr False"
  by (simp_all add: path_eval rule_eval demo_patterns)

lemma demo_content [simp]: "\<not> excluded_by_config demo_config ''c/a.sol''" "\<not> is_binary ''x''"
  by (simp_all add: excluded_by_config_def demo_config_def is_binary_exact control_bytes_def path_eval)

definition demo_file :: discovered_file where
  "demo_file = file_record (demo_walk demo_os) ''a.sol'' ''c/a.sol'' [''c'', ''a.sol''] ''x'' ''x''"

definition demo_result :: discovery_result where
  "demo_result = \<lparr>dr_root = [''r''], dr_files = [demo_file], dr_omitted = [], dr_changed_paths = [], dr_git_commit = None\<rparr>"

lemmas walk_steps = walk_loop.simps walk_directory_def examine_directory_def examine_file_def file_target_def read_file_def
  keep_file_def exceeds_budget_def initial_walk_def omit_def

lemma demo_discovery: "discover_repository demo_host demo_git (demo_walk demo_os) ''r'' None = Some (Inr demo_result)"
  by (simp add: discover_repository_def safe_repository_root_def changed_paths_since_def git_commit_of_def git_executable_def
      demo_host_def demo_git_def demo_result_def demo_file_def walk_steps)

section \<open>Further file systems\<close>

text \<open>A file whose name begins with a dot, a backslash and a drive.\<close>

definition drive_name :: string where
  "drive_name = [CHR ''.'', CHR 0x5C, CHR ''C'', CHR '':'', CHR 0x5C, CHR ''x'']"

definition drive_os :: os_view where
  "drive_os = listed_os [([], [], [drive_name])] [([drive_name], ''x'')] [] []"

text \<open>A directory that cannot be listed.\<close>

definition closed_os :: os_view where
  "closed_os = listed_os [([], [''c''], [])] [] [] []"

text \<open>A link to the directory that holds an excluded one.\<close>

definition alias_os :: os_view where
  "alias_os = listed_os
     [([], [''.config'', ''x''], []), ([''.config''], [''gcloud''], []), ([''x''], [''gcloud''], []), ([''x'', ''gcloud''], [], [''a.json''])]
     [([''x'', ''gcloud'', ''a.json''], ''x'')] [([''x''], [''.config''])]
     [([''x'', ''gcloud'', ''a.json''], [''.config'', ''gcloud'', ''a.json''])]"

definition alias_walk :: walk_env where
  "alias_walk = (demo_walk alias_os)\<lparr>we_config := demo_config\<lparr>rc_follow_symlinks := True\<rparr>\<rparr>"

definition alias_file :: discovered_file where
  "alias_file = file_record alias_walk ''a.json'' ''x/gcloud/a.json'' [''.config'', ''gcloud'', ''a.json''] ''x'' ''x''"

lemma drive_values:
  "relative_text [drive_name] = Inr ''C:/x''"
  "ignored m ''C:/x'' False = Inl ''absolute drive path rejected: C:/x''"
  by (simp_all add: path_eval ignored_def drive_name_def is_lower_def)

lemma drive_walk: "walk_loop (demo_walk drive_os) [[]] initial_walk =
    Some (Inl (PathValueError ''absolute drive path rejected: C:/x''))"
  by (simp add: walk_steps drive_os_def listed_os_def drive_values path_error_def catch_as_def)

lemma closed_walk: "walk_loop (demo_walk closed_os) [[]] initial_walk =
    Some (Inr (initial_walk\<lparr>ws_walked := 1\<rparr>))"
  by (simp add: walk_steps closed_os_def listed_os_def)

lemma alias_fields [simp]:
  "we_os alias_walk = alias_os" "we_config alias_walk = demo_config\<lparr>rc_follow_symlinks := True\<rparr>"
  "we_matcher alias_walk = from_effective_rules []" "we_sha256 alias_walk = id" "we_decode alias_walk = id"
  "alias_walk\<lparr>we_changed := []\<rparr> = alias_walk"
  by (simp_all add: alias_walk_def demo_walk_def)

lemma alias_view [simp]:
  "os_scan alias_os [] = Some ([''.config'', ''x''], [])" "os_scan alias_os [''.config''] = Some ([''gcloud''], [])"
  "os_scan alias_os [''x''] = Some ([''gcloud''], [])" "os_scan alias_os [''x'', ''gcloud''] = Some ([], [''a.json''])"
  "os_link alias_os p \<longleftrightarrow> p = [''x'']" "os_strict alias_os [''x''] = Some (Within [''.config''])"
  "os_resolved alias_os [''x'', ''gcloud'', ''a.json''] = Within [''.config'', ''gcloud'', ''a.json'']"
  "os_stat alias_os [''x'', ''gcloud'', ''a.json''] = Some (1, 1)" "os_bytes alias_os [''x'', ''gcloud'', ''a.json''] = Some ''x''"
  by (simp_all add: alias_os_def listed_os_def)

lemma alias_patterns: "any_match ''x'' True permanent_exclusions = Inr False"
  "any_match ''.config'' True permanent_exclusions = Inr False" "any_match ''x/gcloud'' True permanent_exclusions = Inr False"
  "any_match ''x/gcloud/a.json'' False permanent_exclusions = Inr False"
  by code_simp+

lemma alias_values [simp]:
  "relative_text [''.config''] = Inr ''.config''" "relative_text [''x''] = Inr ''x''"
  "relative_text [''.config'', ''gcloud''] = Inr ''.config/gcloud''" "relative_text [''x'', ''gcloud''] = Inr ''x/gcloud''"
  "relative_text [''x'', ''gcloud'', ''a.json''] = Inr ''x/gcloud/a.json''"
  "normalize_relative_path (as_posix [''.config'']) = Inr ''.config''"
  by (simp_all add: path_eval)

lemma alias_rules [simp]:
  "pruned (from_effective_rules []) ''.config'' = Inr False" "pruned (from_effective_rules []) ''x'' = Inr False"
  "pruned (from_effective_rules []) ''.config/gcloud'' = Inr True" "pruned (from_effective_rules []) ''x/gcloud'' = Inr False"
  "ignored (from_effective_rules []) ''.config'' True = Inr False"
  "ignored (from_effective_rules []) ''x/gcloud/a.json'' False = Inr False"
  by (simp_all add: path_eval rule_eval alias_patterns)

lemma alias_order [simp]: "\<not> excluded_by_config (demo_config\<lparr>rc_follow_symlinks := True\<rparr>) ''x/gcloud/a.json''"
  "sort [''.config'', ''x''] = [''.config'', ''x'']"
  by (simp_all add: excluded_by_config_def demo_config_def path_eval less_eq_char_def)

lemma alias_discovery: "walk_loop alias_walk [[]] initial_walk =
    Some (Inr \<lparr>ws_files = [alias_file], ws_omitted = [], ws_bytes = 1, ws_walked = 5, ws_visited = [[''.config''], []]\<rparr>)"
  by (simp add: walk_steps enter_link_def alias_file_def)

end
