(* ===== verification/Discovery_Theorems.thy ===== *)
theory Discovery_Theorems
  imports Discovery_Demo
begin

text \<open>
  Discovery always ends, stays within its limits, keeps only files that passed every test, and
  accounts for every file it meets; what it keeps can be quoted. Examples show where it does not do
  what it means to.
\<close>

section \<open>From the walk to the result\<close>

lemma changed_irrelevant [simp]:
  "file_target (env\<lparr>we_changed := c\<rparr>) = file_target env" "read_file (env\<lparr>we_changed := c\<rparr>) = read_file env"
  "no_link_above (env\<lparr>we_changed := c\<rparr>) = no_link_above env"
  by (auto simp: fun_eq_iff file_target_def read_file_def no_link_above_def split: option.split resolved.split)

lemma trusted_record_changed [simp]: "trusted_record (env\<lparr>we_changed := c\<rparr>) = trusted_record env"
  by (simp add: fun_eq_iff trusted_record_def admitted_def)

lemma enters_changed [simp]: "enters (env\<lparr>we_changed := c\<rparr>) = enters env"
  by (intro ext) (auto simp: enters.simps)

lemma discovery_walk:
  assumes "discover_repository host git env base since = Some (Inr r)"
  obtains changed st where "walk_loop (env\<lparr>we_changed := changed\<rparr>) [[]] initial_walk = Some (Inr st)"
    "dr_files r = ws_files st" "dr_omitted r = ws_omitted st"
  using assms by (auto simp: discover_repository_def result_simps split: sum.splits)

text \<open>The tree that validation reads is the one that discovery walked.\<close>

definition same_tree :: "walk_env \<Rightarrow> repo_tree \<Rightarrow> bool" where
  "same_tree env tree \<longleftrightarrow> (\<forall>c. tree c = Some LinkNode \<longrightarrow> os_link (we_os env) c)
     \<and> (\<forall>c nlink size data. os_stat (we_os env) c = Some (nlink, size) \<longrightarrow> os_bytes (we_os env) c = Some data \<longrightarrow>
          \<not> os_link (we_os env) c \<longrightarrow> tree c = Some (FileNode (Some (nat nlink)) (Some (we_decode env data))))"

lemma relative_text_plain:
  assumes "relative_text c = Inr relative" "plain_names c" "c \<noteq> []"
  shows "posix_parts relative = c" "as_posix c = relative"
proof -
  have "CHR 0x5C \<notin> set (join ''/'' c)"
    using set_join [of "CHR 0x5C" "''/''" c] assms(2) by (auto simp: plain_names_def)
  then have b: "backslashes_to_slashes (join ''/'' c) = as_posix c"
    using assms(3) by (simp add: backslashes_id as_posix_def)
  have p: "posix_parts (as_posix c) = c" using assms(2) by (intro posix_parts_as_posix) (simp add: plain_names_def)
  have "normalize_relative_path (join ''/'' c) = Inr relative" using assms(1) by (simp add: relative_text_def)
  from normalize_Inr(1,2) [OF this] show "posix_parts relative = c" "as_posix c = relative" by (simp_all add: b p)
qed

lemma discovered_record:
  assumes "discover_repository host git env base since = Some (Inr r)" and "f \<in> set (dr_files r)"
  shows "trusted_record env (set (dr_omitted r)) f"
proof -
  obtain c st where w: "walk_loop (env\<lparr>we_changed := c\<rparr>) [[]] initial_walk = Some (Inr st)" "dr_files r = ws_files st"
    "dr_omitted r = ws_omitted st"
    using discovery_walk [OF assms(1)] by metis
  have "all_trusted (env\<lparr>we_changed := c\<rparr>) initial_walk" by (simp add: all_trusted_def initial_walk_def)
  from trusted.discovery_keeps [OF this w(1)] show ?thesis
    using assms(2) w(2,3) by (simp add: all_trusted_def)
qed

text \<open>
  C31: Discovery returns or raises on every file system, also when links form cycles or directories
  are entered again: the walk ends after at most \<open>max_walk_entries\<close> counted entries.
\<close>

theorem discovery_returns: "\<exists>outcome. discover_repository host git env base since = Some outcome"
proof -
  have "walk_loop e p st \<noteq> None" for e p st using walk_loop_returns by (metis option.distinct(1))
  then have "discover_repository host git env base since \<noteq> None"
    by (simp add: discover_repository_def split: sum.split prod.split)
  then show ?thesis by simp
qed

text \<open>
  C32: The files that discovery keeps are at most \<open>max_files\<close>, and the bytes whose text it keeps are at
  most \<open>max_discovery_bytes\<close>.
\<close>

theorem discovery_within_limits:
  assumes "discover_repository host git env base since = Some (Inr r)"
    and "1 \<le> rc_max_files (we_config env)" "0 \<le> rc_max_discovery_bytes (we_config env)"
  shows "int (length (dr_files r)) \<le> rc_max_files (we_config env)
    \<and> int (content_bytes (dr_files r)) \<le> rc_max_discovery_bytes (we_config env)"
proof -
  obtain c st where w: "walk_loop (env\<lparr>we_changed := c\<rparr>) [[]] initial_walk = Some (Inr st)" "dr_files r = ws_files st"
    using discovery_walk [OF assms(1)] by metis
  have "below_limits (env\<lparr>we_changed := c\<rparr>) initial_walk"
    by (simp add: below_limits_def bytes_bounded_def initial_walk_def content_bytes_def)
  from bounded.discovery_keeps [OF this w(1)] show ?thesis
    using assms(2,3) w(2) by (auto simp: within_limits_def bytes_bounded_def)
qed

theorem discovery_within_limits_witness:
  "int (length (dr_files demo_result)) \<le> 10 \<and> int (content_bytes (dr_files demo_result)) \<le> 1000"
  using discovery_within_limits [OF demo_discovery] by simp

text \<open>
  C30: Every file of the result has a normalized path that the rules do not ignore and that is neither
  sensitive nor permanently excluded nor left out by the configuration. The operating system resolves
  its path inside the repository; if it is a link, links are followed, its target is inside the
  repository and the rules do not ignore the target. It is a single link to at most \<open>max_file_bytes\<close>
  bytes that are not binary, its size, hash and text are those of the bytes read, and a text that is
  missing is reported. When links are not followed, none lies on its path.
\<close>

theorem discovered_files_are_trusted:
  assumes "discover_repository host git env base since = Some (Inr r)" and "f \<in> set (dr_files r)"
  shows "\<exists>dir name data nlink size.
    relative_text (dir @ [name]) = Inr (df_relative_path f)
    \<and> ignored (we_matcher env) (df_relative_path f) False = Inr False
    \<and> \<not> is_sensitive_workspace_path (df_relative_path f) False \<and> \<not> permanently_excluded (df_relative_path f) False
    \<and> \<not> excluded_by_config (we_config env) (df_relative_path f)
    \<and> (if os_link (we_os env) (dir @ [name])
       then rc_follow_symlinks (we_config env)
         \<and> os_strict (we_os env) (dir @ [name]) = Some (Within (df_absolute_path f))
         \<and> (\<exists>relative. normalize_relative_path (as_posix (df_absolute_path f)) = Inr relative
              \<and> ignored (we_matcher env) relative False = Inr False)
       else os_resolved (we_os env) (dir @ [name]) = Within (df_absolute_path f))
    \<and> os_stat (we_os env) (dir @ [name]) = Some (nlink, size) \<and> nlink \<le> 1 \<and> size \<le> rc_max_file_bytes (we_config env)
    \<and> os_bytes (we_os env) (dir @ [name]) = Some data \<and> \<not> is_binary data
    \<and> df_size f = length data \<and> df_sha256 f = we_sha256 env data
    \<and> (df_content f = we_decode env data \<or> df_content f = [] \<and> without_content (df_relative_path f) \<in> set (dr_omitted r))
    \<and> (\<not> rc_follow_symlinks (we_config env) \<longrightarrow>
        (\<forall>n. 0 < n \<longrightarrow> n \<le> length (dir @ [name]) \<longrightarrow> \<not> os_link (we_os env) (take n (dir @ [name]))))"
  using discovered_record [OF assms]
proof (rule trusted_record_facts, goal_cases)
  case (1 dir name data nlink size)
  then show ?case
    unfolding target_inside_def no_link_above_def
    by (intro exI [of _ dir] exI [of _ name] exI [of _ data] exI [of _ nlink] exI [of _ size] conjI) (assumption | blast)+
qed

theorem discovered_files_are_trusted_witness:
  "\<exists>dir name data. relative_text (dir @ [name]) = Inr (df_relative_path demo_file)
     \<and> ignored (from_effective_rules []) (df_relative_path demo_file) False = Inr False
     \<and> os_resolved demo_os (dir @ [name]) = Within (df_absolute_path demo_file)
     \<and> os_bytes demo_os (dir @ [name]) = Some data \<and> df_sha256 demo_file = data"
proof -
  have "\<not> os_link demo_os c" for c by (simp add: demo_os_def listed_os_def)
  then show ?thesis
    using discovered_files_are_trusted [OF demo_discovery, of demo_file] by (auto simp: demo_result_def)
qed

text \<open>
  C34: Suppose links are not followed, the names the operating system lists are plain (not empty, not a
  dot, without slash or backslash), and location validation sees the tree that was walked. Then every
  file that discovery keeps can be quoted: validation resolves its path to the text that was read.
  (With followed links this fails: validation refuses every path through a link.)
\<close>

theorem discovered_file_can_be_quoted:
  assumes "discover_repository host git env base since = Some (Inr r)" and "f \<in> set (dr_files r)"
    and "\<not> rc_follow_symlinks (we_config env)" "plain_listings (we_os env)" "same_tree env tree"
  shows "\<exists>text. resolve_location tree (df_relative_path f) = Inr (Some text) \<and> (df_content f = text \<or> df_content f = [])"
  using discovered_record [OF assms(1,2)]
proof (rule trusted_record_facts)
  fix dir :: "string list" and name data :: string and nlink size :: int
  let ?c = "dir @ [name]"
  assume rel: "relative_text ?c = Inr (df_relative_path f)" and norm: "normalize_relative_path (df_relative_path f) = Inr (df_relative_path f)"
    and secret: "\<not> is_sensitive_workspace_path (df_relative_path f) False"
    and disk: "os_stat (we_os env) ?c = Some (nlink, size)" "nlink \<le> 1" "os_bytes (we_os env) ?c = Some data"
    and content: "df_content f = we_decode env data \<or> df_content f = [] \<and> without_content (df_relative_path f) \<in> set (dr_omitted r)"
    and links: "no_link_above env ?c" and plain: "plain_listings (we_os env) \<Longrightarrow> plain_names ?c"
  have p: "plain_names ?c" by (rule plain [OF assms(4)])
  have parts: "posix_parts (df_relative_path f) = ?c" "as_posix ?c = df_relative_path f"
    using relative_text_plain [OF rel p] by blast+
  have l: "\<not> os_link (we_os env) (take n ?c)" if "0 < n" "n \<le> length ?c" for n
    using links assms(3) that by (simp add: no_link_above_def)
  then have "tree ?c = Some (FileNode (Some (nat nlink)) (Some (we_decode env data)))"
    using assms(5) disk(1,3) l [of "length ?c"] by (simp add: same_tree_def)
  moreover have "\<not> list_ex (\<lambda>n. tree (take n ?c) = Some LinkNode) [1..<Suc (length ?c)]"
    using assms(5) l by (auto simp: list_ex_iff same_tree_def simp del: upt_Suc)
  ultimately have "resolve_location tree (df_relative_path f) = Inr (Some (we_decode env data))"
    using norm secret disk(2) by (simp add: resolve_location_def parts Let_def del: upt_Suc take_append)
  then show ?thesis using content by auto
qed

lemma demo_tree:
  "plain_listings demo_os"
  "same_tree (demo_walk demo_os) (\<lambda>c. map_option (\<lambda>data. FileNode (Some 1) (Some data)) (os_bytes demo_os c))"
  by (auto simp: plain_listings_def same_tree_def demo_os_def listed_os_def plain_names_def plain_parts_def split: if_splits)

theorem discovered_file_can_be_quoted_witness:
  "\<exists>text. resolve_location (\<lambda>c. map_option (\<lambda>data. FileNode (Some 1) (Some data)) (os_bytes demo_os c)) (df_relative_path demo_file)
     = Inr (Some text) \<and> (df_content demo_file = text \<or> df_content demo_file = [])"
  by (rule discovered_file_can_be_quoted [OF demo_discovery]) (simp_all add: demo_result_def demo_tree(1) demo_tree(2) [simplified])

lemma discovery_accounted:
  assumes "discover_repository host git env base since = Some (Inr r)"
    and "''repository: max_files reached'' \<notin> set (dr_omitted r)" "''repository: max_walk_entries reached'' \<notin> set (dr_omitted r)"
    and "(enters env)\<^sup>*\<^sup>* [] dir" "os_scan (we_os env) dir = Some (dirs, files)" "name \<in> set files"
    and "relative_text (dir @ [name]) = Inr relative"
  shows "ignored (we_matcher env) relative False = Inr True \<or> excluded_by_config (we_config env) relative
    \<or> (\<exists>f \<in> set (dr_files r). df_relative_path f = relative) \<or> (\<exists>why \<in> set (dr_omitted r). names_path relative why)"
proof -
  obtain c st where w: "walk_loop (env\<lparr>we_changed := c\<rparr>) [[]] initial_walk = Some (Inr st)" "dr_files r = ws_files st"
    "dr_omitted r = ws_omitted st"
    using discovery_walk [OF assms(1)] by metis
  have "complete_walk st" using assms(2,3) w(3) by (simp add: complete_walk_def)
  from walk_loop_accounts [OF w(1) this] have "accounted (env\<lparr>we_changed := c\<rparr>) st (dir @ [name])"
    using assms(4-6) by simp
  then show ?thesis using assms(7) w(2,3) by (simp add: accounted_def)
qed

text \<open>
  C33: When no limit ended the walk, every file below the directories that are entered without a link
  is accounted for: it is ignored, left out by the configuration, kept, or named by an omission.
\<close>

theorem discovery_accounts_for_files:
  assumes "discover_repository host git env base since = Some (Inr r)"
    and "''repository: max_files reached'' \<notin> set (dr_omitted r)" "''repository: max_walk_entries reached'' \<notin> set (dr_omitted r)"
    and "(enters env)\<^sup>*\<^sup>* [] dir" "os_scan (we_os env) dir = Some (dirs, files)" "name \<in> set files"
    and "relative_text (dir @ [name]) = Inr relative"
  shows "ignored (we_matcher env) relative False = Inr True \<or> excluded_by_config (we_config env) relative
    \<or> (\<exists>f \<in> set (dr_files r). df_relative_path f = relative) \<or> (\<exists>why \<in> set (dr_omitted r). names_path relative why)"
  using assms by (rule discovery_accounted)

theorem discovery_accounts_for_files_witness:
  "ignored (from_effective_rules []) ''c/a.sol'' False = Inr True \<or> excluded_by_config demo_config ''c/a.sol''
   \<or> (\<exists>f \<in> set (dr_files demo_result). df_relative_path f = ''c/a.sol'')
   \<or> (\<exists>why \<in> set (dr_omitted demo_result). names_path ''c/a.sol'' why)"
proof -
  have "enters (demo_walk demo_os) [] ([] @ [''c''])" by (rule enters.intros [where dirs = "[''c'']" and files = "[]" and relative = "''c''"]) simp_all
  then have "(enters (demo_walk demo_os))\<^sup>*\<^sup>* [] [''c'']" by simp
  from discovery_accounts_for_files [OF demo_discovery _ _ this, of "[]" "[''a.sol'']" "''a.sol''" "''c/a.sol''"]
  show ?thesis by (simp add: demo_result_def)
qed

section \<open>Where discovery falls short\<close>

text \<open>
  A single file with an unusual name ends discovery with an exception: the path is normalized inside
  a handler, but the matcher normalizes it once more outside of it.
\<close>

theorem drive_name_ends_discovery:
  "discover_repository demo_host demo_git (demo_walk drive_os) ''r'' None =
     Some (Inl (PathValueError ''absolute drive path rejected: C:/x''))"
  by (simp add: discover_repository_def safe_repository_root_def changed_paths_since_def demo_host_def drive_walk)

text \<open>A directory that cannot be listed leaves no trace in the result.\<close>

theorem unreadable_directory_is_silent:
  "discover_repository demo_host demo_git (demo_walk closed_os) ''r'' None =
     Some (Inr \<lparr>dr_root = [''r''], dr_files = [], dr_omitted = [], dr_changed_paths = [], dr_git_commit = None\<rparr>)"
  by (simp add: discover_repository_def safe_repository_root_def changed_paths_since_def git_commit_of_def git_executable_def
      demo_host_def demo_git_def closed_walk) (simp add: initial_walk_def)

text \<open>
  When links are followed, a permanently excluded file is kept: only the link itself is compared with
  the exclusions, not what lies behind it.
\<close>

theorem link_reveals_excluded_file:
  "discover_repository demo_host demo_git alias_walk ''r'' None =
     Some (Inr \<lparr>dr_root = [''r''], dr_files = [alias_file], dr_omitted = [], dr_changed_paths = [], dr_git_commit = None\<rparr>)"
  "is_sensitive_workspace_path (as_posix (df_absolute_path alias_file)) False"
proof -
  show "discover_repository demo_host demo_git alias_walk ''r'' None =
     Some (Inr \<lparr>dr_root = [''r''], dr_files = [alias_file], dr_omitted = [], dr_changed_paths = [], dr_git_commit = None\<rparr>)"
    by (simp add: discover_repository_def safe_repository_root_def changed_paths_since_def git_commit_of_def git_executable_def
        demo_host_def demo_git_def alias_discovery)
  have "is_sensitive_workspace_path (as_posix [''.config'', ''gcloud'', ''a.json'']) False" by code_simp
  then show "is_sensitive_workspace_path (as_posix (df_absolute_path alias_file)) False"
    by (simp add: alias_file_def file_record_def)
qed

end
