(* ===== verification/Scope_Facts.thy ===== *)
theory Scope_Facts
  imports Audit_Scope Discovery_Theorems
begin

text \<open>The assessment computed in closed form, and what the gate reads from it.\<close>

section \<open>Evidence of one component\<close>

definition evidence_of :: "scope_component \<Rightarrow> bool \<Rightarrow> string list \<Rightarrow> string list \<Rightarrow> scope_evidence" where
  "evidence_of c required ps os =
     \<lparr>se_component = c, se_required = required, se_status = expected_status (sorted_set ps) (sorted_set os),
      se_analyzed_paths = sorted_set ps, se_omissions = sorted_set os,
      se_detail = int_string (int (length (sorted_set ps))) @ '' analyzed path(s); ''
        @ int_string (int (length (sorted_set os))) @ '' known omission(s)''\<rparr>"

definition fits_evidence :: "string list \<Rightarrow> string list \<Rightarrow> bool" where
  "fits_evidence ps os \<longleftrightarrow> length (sorted_set ps) \<le> 2000 \<and> length (sorted_set os) \<le> 2000"

lemma digit_string_length: "n < 10 ^ k \<Longrightarrow> 0 < k \<Longrightarrow> length (digit_string n) \<le> k"
proof (induction n arbitrary: k rule: digit_string.induct)
  case (1 n)
  show ?case
  proof (cases "n < 10")
    case False
    then obtain j where j: "k = Suc j" "0 < j" using 1(2,3) by (cases k; cases "k - 1") auto
    then have "n div 10 < 10 ^ j" using 1(2) by (simp add: div_less_iff_less_mult mult.commute)
    then show ?thesis using 1(1) [OF False] j False by (subst digit_string.simps) fastforce
  qed (use 1 in \<open>subst digit_string.simps, simp\<close>)
qed

lemma count_length: "n \<le> 2000 \<Longrightarrow> length (int_string (int n)) \<le> 4"
  using digit_string_length [of n 4] by (simp add: int_string_def)

lemma component_evidence_eq:
  "component_evidence c required ps os =
     (if fits_evidence ps os then Inr (evidence_of c required ps os)
      else Inl ''List should have at most 2000 items after validation'')"
proof (cases "fits_evidence ps os")
  case True
  then have "length (int_string (int (length (sorted_set ps)))) \<le> 4" "length (int_string (int (length (sorted_set os)))) \<le> 4"
    by (simp_all add: fits_evidence_def count_length)
  then show ?thesis
    using True
    by (simp add: component_evidence_def validate_scope_evidence_def evidence_of_def expected_status_def fits_evidence_def
        Let_def sorted_set_id [of "sorted_set _"])
next
  case False
  then have "\<not> (length (sorted_set ps) \<le> 2000 \<and> length (sorted_set os) \<le> 2000)" by (simp add: fits_evidence_def)
  then have "require (length (sorted_set ps) \<le> 2000 \<and> length (sorted_set os) \<le> 2000) e = Inl e" for e :: string
    by (simp only: require_False)
  then show ?thesis using False by (simp add: component_evidence_def validate_scope_evidence_def Let_def)
qed

section \<open>The assessment\<close>

text \<open>A component is evidenced by a path that was analyzed, when nothing of it is known to be left out.\<close>

definition evidenced ::
    "discovery_result \<Rightarrow> solidity_project list \<Rightarrow> audit_scope \<Rightarrow> bool \<Rightarrow> bool \<Rightarrow> scope_component \<Rightarrow> bool" where
  "evidenced d projects mode docs tests c \<longleftrightarrow>
     analyzed_in d (project_roots projects) c \<noteq> [] \<and> omissions_in d (project_roots projects) mode docs tests c = []"

definition scope_fits ::
    "discovery_result \<Rightarrow> solidity_project list \<Rightarrow> audit_scope \<Rightarrow> bool \<Rightarrow> bool \<Rightarrow> bool" where
  "scope_fits d projects mode docs tests \<longleftrightarrow>
     (\<forall>c. fits_evidence (analyzed_in d (project_roots projects) c) (omissions_in d (project_roots projects) mode docs tests c))"

definition scope_evidence_list ::
    "discovery_result \<Rightarrow> solidity_project list \<Rightarrow> audit_scope \<Rightarrow> bool \<Rightarrow> bool \<Rightarrow> scope_evidence list" where
  "scope_evidence_list d projects mode docs tests =
     map (\<lambda>c. evidence_of c (c \<in> set (scope_components_for mode)) (analyzed_in d (project_roots projects) c)
       (omissions_in d (project_roots projects) mode docs tests c)) scope_component_list"

lemma scope_component_all [simp]: "c \<in> set scope_component_list"
  by (cases c) (simp_all add: scope_component_list_def)

lemma scope_evidence_fields [simp]: "se_component (evidence_of c required ps os) = c" "se_required (evidence_of c required ps os) = required"
  "se_status (evidence_of c required ps os) = Analyzed \<longleftrightarrow> ps \<noteq> [] \<and> os = []"
  "se_status (evidence_of c required ps os) = Omitted \<longleftrightarrow> os \<noteq> []"
  by (simp_all add: evidence_of_def expected_status_def)

lemma complete_components_iff:
  "c \<in> set (complete_components (scope_evidence_list d projects mode docs tests)) \<longleftrightarrow> evidenced d projects mode docs tests c"
proof -
  have "set (complete_components (scope_evidence_list d projects mode docs tests)) =
      {c. evidenced d projects mode docs tests c}"
    by (auto simp: complete_components_def scope_evidence_list_def evidenced_def filter_map comp_def image_iff)
  then show ?thesis by simp
qed

lemma evidence_sorted:
  "sort_key (\<lambda>e. component_value (se_component e)) (scope_evidence_list d projects mode docs tests) = scope_evidence_list d projects mode docs tests"
  by (simp add: scope_evidence_list_def scope_component_list_def less_eq_char_def)

definition assessment_of ::
    "discovery_result \<Rightarrow> solidity_project list \<Rightarrow> scope_config \<Rightarrow> bool \<Rightarrow> bool \<Rightarrow> scope_assessment" where
  "assessment_of d projects config docs tests =
     (let evidence = scope_evidence_list d projects (sc_mode config) docs tests; finished = complete_components evidence;
          missing = missing_components (sc_mode config) finished
      in \<lparr>sa_requested = sc_mode config, sa_achieved = achieved_scope finished, sa_gate_required = sc_require_complete config,
          sa_complete = (missing = []), sa_components = evidence, sa_missing = missing,
          sa_limitations = [''ignore rules may intentionally exclude paths that bounded discovery does not enumerate'']\<rparr>)"

lemma assessment_valid: "validate_assessment (assessment_of d projects config docs tests) = Inr (assessment_of d projects config docs tests)"
proof -
  have names: "map se_component (scope_evidence_list d projects mode docs tests) = scope_component_list" for mode
    by (simp add: scope_evidence_list_def comp_def)
  have flags: "list_all (\<lambda>e. se_required e = (se_component e \<in> set (scope_components_for mode))) (scope_evidence_list d projects mode docs tests)" for mode
    by (simp add: scope_evidence_list_def list_all_iff)
  show ?thesis
    by (simp add: validate_assessment_def assessment_of_def Let_def names flags evidence_sorted sorted_set_def)
      (simp add: scope_component_list_def)
qed

lemma assess_eq:
  "assess_audit_scope d projects config docs tests =
     (if scope_fits d projects (sc_mode config) docs tests then Inr (assessment_of d projects config docs tests)
      else Inl ''List should have at most 2000 items after validation'')"
proof (cases "scope_fits d projects (sc_mode config) docs tests")
  case True
  then have "traverse (\<lambda>c. component_evidence c (c \<in> set (scope_components_for (sc_mode config))) (analyzed_in d (project_roots projects) c)
      (omissions_in d (project_roots projects) (sc_mode config) docs tests c)) scope_component_list
    = Inr (scope_evidence_list d projects (sc_mode config) docs tests)"
    unfolding scope_evidence_list_def by (intro traverse_all_Inr) (simp add: component_evidence_eq scope_fits_def)
  then show ?thesis
    using True assessment_valid [of d projects config docs tests]
    by (simp add: assess_audit_scope_def Let_def evidence_sorted assessment_of_def)
next
  case False
  have raises: "traverse f xs = Inl e" if "\<forall>x \<in> set xs. f x = Inl e \<or> (\<exists>y. f x = Inr y)" "\<exists>x \<in> set xs. f x = Inl e"
    for f :: "scope_component \<Rightarrow> scope_evidence checked" and xs e
    using that
  proof (induction xs)
    case (Cons x xs)
    then show ?case by (cases "f x = Inl e") auto
  qed simp
  have "traverse (\<lambda>c. component_evidence c (c \<in> set (scope_components_for (sc_mode config))) (analyzed_in d (project_roots projects) c)
      (omissions_in d (project_roots projects) (sc_mode config) docs tests c)) scope_component_list
    = Inl ''List should have at most 2000 items after validation''"
    by (rule raises) (use False in \<open>auto simp: component_evidence_eq scope_fits_def\<close>)
  then show ?thesis using False by (simp add: assess_audit_scope_def Let_def)
qed

lemma missing_Nil: "missing_components mode finished = [] \<longleftrightarrow> set (scope_components_for mode) \<subseteq> set finished"
proof -
  have "missing_components mode finished = [] \<longleftrightarrow> filter (\<lambda>c. c \<notin> set finished) (scope_components_for mode) = []"
    unfolding missing_components_def by (metis length_0_conv length_sort)
  then show ?thesis by (auto simp: filter_empty_conv)
qed

end
