(* ===== verification/Scope_Theorems.thy ===== *)
theory Scope_Theorems
  imports Scope_Facts
begin

text \<open>
  The scope gate passes exactly on complete evidence, filtering does not change it, and a walk that
  was cut off never passes. Examples show where the assessment falls short.
\<close>

section \<open>Achieved scope\<close>

lemma achieved_scope_sound:
  "achieved_scope finished = Some s \<Longrightarrow> set (scope_components_for s) \<subseteq> set finished"
  by (auto simp: achieved_scope_def find_Some_iff split: if_splits)

lemma components_mono: "set (scope_components_for ContractsOnly) \<subseteq> set (scope_components_for ContractsAndDeployment)"
  "set (scope_components_for s) \<subseteq> set (scope_components_for FullProtocol)"
  by auto

lemma achieved_scope_greatest:
  "set (scope_components_for s) \<subseteq> set finished \<Longrightarrow>
   \<exists>s'. achieved_scope finished = Some s' \<and> set (scope_components_for s) \<subseteq> set (scope_components_for s')"
  by (cases s) (auto simp: achieved_scope_def)

text \<open>
  C37: The gate passes exactly when every component of the requested scope has an analyzed path and no
  known omission; the missing components are the others, and the achieved scope is the greatest one
  whose components all have such evidence.
\<close>

theorem scope_gate_exact:
  assumes "assess_audit_scope d projects config docs tests = Inr a"
  shows "(qg_passed (scope_quality_gate (Some a)) \<longleftrightarrow>
      (\<forall>c \<in> set (scope_components_for (sc_mode config)). evidenced d projects (sc_mode config) docs tests c))
    \<and> set (sa_missing a) = {c \<in> set (scope_components_for (sc_mode config)). \<not> evidenced d projects (sc_mode config) docs tests c}
    \<and> (\<forall>s. sa_achieved a = Some s \<longrightarrow> (\<forall>c \<in> set (scope_components_for s). evidenced d projects (sc_mode config) docs tests c))
    \<and> (\<forall>s. (\<forall>c \<in> set (scope_components_for s). evidenced d projects (sc_mode config) docs tests c) \<longrightarrow>
         (\<exists>s'. sa_achieved a = Some s' \<and> set (scope_components_for s) \<subseteq> set (scope_components_for s')))"
proof -
  let ?done = "complete_components (scope_evidence_list d projects (sc_mode config) docs tests)"
  have a: "a = assessment_of d projects config docs tests" using assms by (auto simp: assess_eq split: if_splits)
  have subset: "set cs \<subseteq> set ?done \<longleftrightarrow> (\<forall>c \<in> set cs. evidenced d projects (sc_mode config) docs tests c)" for cs
    by (auto simp: complete_components_iff)
  have "qg_passed (scope_quality_gate (Some a)) \<longleftrightarrow> set (scope_components_for (sc_mode config)) \<subseteq> set ?done"
    by (simp add: scope_quality_gate_def a assessment_of_def Let_def missing_Nil)
  moreover have "set (sa_missing a) = {c \<in> set (scope_components_for (sc_mode config)). c \<notin> set ?done}"
    by (simp add: a assessment_of_def Let_def missing_components_def)
  moreover have "sa_achieved a = achieved_scope ?done" by (simp add: a assessment_of_def Let_def)
  ultimately show ?thesis
    using achieved_scope_sound [of ?done] achieved_scope_greatest [of _ ?done]
    by (simp add: subset complete_components_iff)
qed

text \<open>
  C40: The assessment returns exactly when no component has more than 2000 distinct analyzed paths or
  more than 2000 distinct omissions; otherwise its model refuses the lists and it raises.
\<close>

theorem assessment_returns_iff:
  "(\<exists>a. assess_audit_scope d projects config docs tests = Inr a) \<longleftrightarrow>
     (\<forall>c. card (set (analyzed_in d (project_roots projects) c)) \<le> 2000
        \<and> card (set (omissions_in d (project_roots projects) (sc_mode config) docs tests c)) \<le> 2000)"
proof -
  have "length (sorted_set xs) = card (set xs)" for xs
    by (metis distinct_card sorted_set_facts(1,3))
  then show ?thesis by (simp add: assess_eq scope_fits_def fits_evidence_def)
qed

section \<open>Filtering\<close>

lemma filter_files: "dr_files (filter_discovery_for_scope d projects scope) =
    (if scope = FullProtocol then dr_files d else filter (in_scope projects scope) (dr_files d))"
  "dr_omitted (filter_discovery_for_scope d projects scope) = dr_omitted d"
  by (simp_all add: filter_discovery_for_scope_def Let_def)

lemma required_in_scope:
  "c \<in> set (scope_components_for scope) \<Longrightarrow> scope \<noteq> FullProtocol \<Longrightarrow>
   classify_file item (project_roots projects) = Some c \<Longrightarrow> in_scope projects scope item"
  by (cases scope) (auto simp: in_scope_def)

lemma filter_keeps_lists:
  assumes "c \<in> set (scope_components_for scope)"
  shows "analyzed_in (filter_discovery_for_scope d projects scope) (project_roots projects) c = analyzed_in d (project_roots projects) c"
    and "omissions_in (filter_discovery_for_scope d projects scope) (project_roots projects) scope docs tests c
      = omissions_in d (project_roots projects) scope docs tests c"
proof -
  have f: "filter (\<lambda>item. classify_file item (project_roots projects) = Some c \<and> P item) (dr_files (filter_discovery_for_scope d projects scope))
      = filter (\<lambda>item. classify_file item (project_roots projects) = Some c \<and> P item) (dr_files d)" for P
    by (auto simp: filter_files intro!: filter_cong required_in_scope [OF assms])
  show "analyzed_in (filter_discovery_for_scope d projects scope) (project_roots projects) c = analyzed_in d (project_roots projects) c"
    unfolding analyzed_in_def by (simp only: f)
  show "omissions_in (filter_discovery_for_scope d projects scope) (project_roots projects) scope docs tests c
      = omissions_in d (project_roots projects) scope docs tests c"
    unfolding omissions_in_def by (simp only: f filter_files(2))
qed

text \<open>
  C39: Filtering for the requested scope is idempotent, a wider scope keeps at least as many files, and
  the evidence of the required components is the same before and after.
\<close>

theorem scope_filter_exact:
  "filter_discovery_for_scope (filter_discovery_for_scope d projects scope) projects scope = filter_discovery_for_scope d projects scope
   \<and> set (dr_files (filter_discovery_for_scope d projects ContractsOnly)) \<subseteq> set (dr_files (filter_discovery_for_scope d projects ContractsAndDeployment))
   \<and> set (dr_files (filter_discovery_for_scope d projects scope)) \<subseteq> set (dr_files (filter_discovery_for_scope d projects FullProtocol))
   \<and> list_all (\<lambda>c. evidenced (filter_discovery_for_scope d projects scope) projects scope docs tests c = evidenced d projects scope docs tests c)
       (scope_components_for scope)"
proof (intro conjI)
  show "filter_discovery_for_scope (filter_discovery_for_scope d projects scope) projects scope = filter_discovery_for_scope d projects scope"
    by (simp add: filter_discovery_for_scope_def Let_def)
  show "set (dr_files (filter_discovery_for_scope d projects ContractsOnly)) \<subseteq> set (dr_files (filter_discovery_for_scope d projects ContractsAndDeployment))"
    by (auto simp: filter_files in_scope_def split: option.splits)
  show "set (dr_files (filter_discovery_for_scope d projects scope)) \<subseteq> set (dr_files (filter_discovery_for_scope d projects FullProtocol))"
    by (auto simp: filter_files)
  show "list_all (\<lambda>c. evidenced (filter_discovery_for_scope d projects scope) projects scope docs tests c = evidenced d projects scope docs tests c)
      (scope_components_for scope)"
    by (simp add: list_all_iff evidenced_def filter_keeps_lists)
qed

section \<open>Scope and discovery\<close>

lemma cut_off_is_omitted:
  assumes "why \<in> set (dr_omitted d)" "is_global_omission why" "c \<in> set (scope_components_for mode)"
  shows "\<not> evidenced d projects mode docs tests c"
  using assms by (auto simp: evidenced_def omissions_in_def Let_def filter_empty_conv)

lemma required_exists: "\<exists>c. c \<in> set (scope_components_for mode)"
  by (cases mode) auto

lemma passed_means_complete:
  assumes "assess_audit_scope (filter_discovery_for_scope d projects (sc_mode config)) projects config docs tests = Inr a"
    and "qg_passed (scope_quality_gate (Some a))" "why \<in> set (dr_omitted d)"
  shows "\<not> is_global_omission why"
proof
  assume g: "is_global_omission why"
  obtain c where c: "c \<in> set (scope_components_for (sc_mode config))" using required_exists by blast
  have "a = assessment_of (filter_discovery_for_scope d projects (sc_mode config)) projects config docs tests"
    using assms(1) by (auto simp: assess_eq split: if_splits)
  then have "evidenced (filter_discovery_for_scope d projects (sc_mode config)) projects (sc_mode config) docs tests c"
    using assms(2) c by (auto simp: scope_quality_gate_def assessment_of_def Let_def missing_Nil complete_components_iff subset_iff)
  then show False using cut_off_is_omitted [OF _ g c] assms(3) by (simp add: filter_files)
qed

lemma global_omissions: "is_global_omission ''repository: max_files reached''" "is_global_omission ''repository: max_walk_entries reached''"
  by code_simp+

text \<open>
  C38: A discovery that a limit cut off never passes the scope gate, whatever the requested scope and
  configuration. When the configuration requires a complete scope, the preflight step of a run that
  has not failed so far records the failed gate: it sets the terminal code to incomplete, except for a
  maximum assurance run that may be downgraded, which goes on with a downgrade message. When a complete
  scope is not required, the step changes nothing.
\<close>

theorem cut_off_discovery_stops_the_run:
  assumes "discover_repository host git env base since = Some (Inr r)"
    and "''repository: max_files reached'' \<in> set (dr_omitted r) \<or> ''repository: max_walk_entries reached'' \<in> set (dr_omitted r)"
    and "assess_audit_scope (filter_discovery_for_scope r projects (sc_mode config)) projects config docs tests = Inr a"
  shows "\<not> qg_passed (scope_quality_gate (Some a))
    \<and> (\<exists>detail. scope_preflight (scope_quality_gate (Some a)) maximum_assurance allow_downgrade (messages, ExitSuccess) =
        (if \<not> sc_require_complete config then (messages, ExitSuccess)
         else if maximum_assurance \<and> allow_downgrade
         then (messages @ [''maximum-assurance preflight downgrade: requested_audit_scope: '' @ detail], ExitSuccess)
         else (messages @ [''quality gate failed before provider spend: requested_audit_scope: '' @ detail], ExitIncomplete)))"
proof -
  have failed: "\<not> qg_passed (scope_quality_gate (Some a))"
    using passed_means_complete [OF assms(3)] assms(2) global_omissions by blast
  moreover have "qg_required (scope_quality_gate (Some a)) \<longleftrightarrow> sc_require_complete config"
    using assms(3) by (auto simp: assess_eq scope_quality_gate_def assessment_of_def Let_def split: if_splits)
  moreover have "qg_gate (scope_quality_gate (Some a)) = ''requested_audit_scope''"
    by (simp add: scope_quality_gate_def Let_def)
  ultimately show ?thesis
    by (intro conjI exI [of _ "qg_detail (scope_quality_gate (Some a))"]) (simp_all add: scope_preflight_def)
qed

definition cut_walk :: walk_env where
  "cut_walk = (demo_walk demo_os)\<lparr>we_config := demo_config\<lparr>rc_max_walk_entries := 1\<rparr>\<rparr>"

definition cut_result :: discovery_result where
  "cut_result = \<lparr>dr_root = [''r''], dr_files = [], dr_omitted = [''repository: max_walk_entries reached''], dr_changed_paths = [],
     dr_git_commit = None\<rparr>"

definition contracts_config :: scope_config where
  "contracts_config = \<lparr>sc_mode = ContractsOnly, sc_require_complete = True\<rparr>"

lemma cut_discovery: "discover_repository demo_host demo_git cut_walk ''r'' None = Some (Inr cut_result)"
  by (simp add: discover_repository_def safe_repository_root_def changed_paths_since_def git_commit_of_def git_executable_def
      demo_host_def demo_git_def cut_walk_def cut_result_def demo_walk_def walk_steps)

lemma cut_assessment:
  "assess_audit_scope (filter_discovery_for_scope cut_result [] (sc_mode contracts_config)) [] contracts_config False True =
     Inr (assessment_of (filter_discovery_for_scope cut_result [] ContractsOnly) [] contracts_config False True)"
  by (simp add: assess_eq scope_fits_def fits_evidence_def contracts_config_def analyzed_in_def omissions_in_def filter_files
      cut_result_def sorted_set_def Let_def global_omissions del: before_colon.simps)

theorem cut_off_discovery_stops_the_run_witness:
  "snd (scope_preflight (scope_quality_gate (Some (assessment_of (filter_discovery_for_scope cut_result [] ContractsOnly) []
     contracts_config False True))) True False ([], ExitSuccess)) = ExitIncomplete"
  using cut_off_discovery_stops_the_run [OF cut_discovery _ cut_assessment, of True False "[]"]
  by (auto simp: cut_result_def contracts_config_def)

text \<open>
  When the scope gate passes, the walk behind it was complete: every file below the directories
  that are entered is ignored, left out by the configuration, kept, or named by an omission.
\<close>

theorem passed_scope_accounts_for_files:
  assumes "discover_repository host git env base since = Some (Inr r)"
    and "assess_audit_scope (filter_discovery_for_scope r projects (sc_mode config)) projects config docs tests = Inr a"
    and "qg_passed (scope_quality_gate (Some a))"
    and "(enters env)\<^sup>*\<^sup>* [] dir" "os_scan (we_os env) dir = Some (dirs, files)" "name \<in> set files"
    and "relative_text (dir @ [name]) = Inr relative"
  shows "ignored (we_matcher env) relative False = Inr True \<or> excluded_by_config (we_config env) relative
    \<or> (\<exists>f \<in> set (dr_files r). df_relative_path f = relative) \<or> (\<exists>why \<in> set (dr_omitted r). names_path relative why)"
  using discovery_accounted [OF assms(1) _ _ assms(4-7)] passed_means_complete [OF assms(2,3)] global_omissions by blast

lemma demo_scope:
  "classify_path ''c/a.sol'' [] = Some Contracts"
  by code_simp

lemma demo_lists:
  "analyzed_in (filter_discovery_for_scope demo_result [] ContractsOnly) (project_roots []) c = (if c = Contracts then [''c/a.sol''] else [])"
  "omissions_in (filter_discovery_for_scope demo_result [] ContractsOnly) (project_roots []) ContractsOnly False True c = []"
  by (auto simp: analyzed_in_def omissions_in_def filter_files in_scope_def demo_result_def project_roots_def classify_file_def
      demo_file_def file_record_def demo_scope content_omitted_def)

lemma demo_assessment:
  "assess_audit_scope (filter_discovery_for_scope demo_result [] (sc_mode contracts_config)) [] contracts_config False True =
     Inr (assessment_of (filter_discovery_for_scope demo_result [] ContractsOnly) [] contracts_config False True)"
  "qg_passed (scope_quality_gate (Some (assessment_of (filter_discovery_for_scope demo_result [] ContractsOnly) [] contracts_config False True)))"
  by (auto simp: assess_eq scope_fits_def fits_evidence_def contracts_config_def demo_lists sorted_set_def
      scope_quality_gate_def assessment_of_def Let_def missing_Nil complete_components_iff evidenced_def)

theorem passed_scope_accounts_for_files_witness:
  "ignored (from_effective_rules []) ''c/a.sol'' False = Inr True \<or> excluded_by_config demo_config ''c/a.sol''
   \<or> (\<exists>f \<in> set (dr_files demo_result). df_relative_path f = ''c/a.sol'')
   \<or> (\<exists>why \<in> set (dr_omitted demo_result). names_path ''c/a.sol'' why)"
proof -
  have "enters (demo_walk demo_os) [] ([] @ [''c''])"
    by (rule enters.intros [where dirs = "[''c'']" and files = "[]" and relative = "''c''"]) simp_all
  then have "(enters (demo_walk demo_os))\<^sup>*\<^sup>* [] [''c'']" by simp
  from passed_scope_accounts_for_files [OF demo_discovery demo_assessment this, of "[]" "[''a.sol'']" "''a.sol''" "''c/a.sol''"]
  show ?thesis by simp
qed

theorem scope_gate_exact_witness:
  "qg_passed (scope_quality_gate (Some (assessment_of (filter_discovery_for_scope demo_result [] ContractsOnly) [] contracts_config False True)))
   \<longleftrightarrow> (\<forall>c \<in> {Contracts}. evidenced (filter_discovery_for_scope demo_result [] ContractsOnly) [] ContractsOnly False True c)"
  using scope_gate_exact [OF demo_assessment(1)] by (simp add: contracts_config_def)

section \<open>Where the assessment falls short\<close>

text \<open>
  An omission counts for a component only when the text before its first colon ends like a file of
  it: a directory of contracts behind a link that is not followed leaves the contracts complete.
\<close>

definition linked_result :: discovery_result where
  "linked_result = demo_result\<lparr>dr_omitted := [''lib/core: symlink excluded'']\<rparr>"

theorem omitted_directory_passes:
  "qg_passed (scope_quality_gate (Some (assessment_of linked_result [] contracts_config False True)))"
  "assess_audit_scope linked_result [] contracts_config False True = Inr (assessment_of linked_result [] contracts_config False True)"
proof -
  have none: "classify_path (before_colon ''lib/core: symlink excluded'') [] = None" "\<not> is_global_omission ''lib/core: symlink excluded''"
    by code_simp+
  have "analyzed_in linked_result (project_roots []) c = (if c = Contracts then [''c/a.sol''] else [])"
    "omissions_in linked_result (project_roots []) ContractsOnly False True c = []" for c
    by (auto simp: analyzed_in_def omissions_in_def linked_result_def demo_result_def project_roots_def classify_file_def
        demo_file_def file_record_def demo_scope content_omitted_def none simp del: before_colon.simps)
  then show "qg_passed (scope_quality_gate (Some (assessment_of linked_result [] contracts_config False True)))"
    "assess_audit_scope linked_result [] contracts_config False True = Inr (assessment_of linked_result [] contracts_config False True)"
    by (auto simp: assess_eq scope_fits_def fits_evidence_def contracts_config_def sorted_set_def
        scope_quality_gate_def assessment_of_def Let_def missing_Nil complete_components_iff evidenced_def)
qed

end
