(* ===== verification/Repository_Map.thy ===== *)
theory Repository_Map
  imports Discovery
begin

text \<open>\<open>repository/mapping.py\<close>: the compact map of a repository that is made from its discovered files.\<close>

record repository_file =
  rf_path :: string
  rf_size :: nat
  rf_lines :: nat
  rf_sha256 :: string
  rf_language :: string
  rf_categories :: "string list"

record repository_map =
  rm_root_name :: string
  rm_git_commit :: "string option"
  rm_changed_since :: "string option"
  rm_languages :: "(string, nat) dict"
  rm_frameworks :: "string list"
  rm_manifests :: "string list"
  rm_entry_points :: "string list"
  rm_api_surfaces :: "string list"
  rm_auth_components :: "string list"
  rm_data_layers :: "string list"
  rm_network_clients :: "string list"
  rm_file_handlers :: "string list"
  rm_configuration_files :: "string list"
  rm_sensitive_processing :: "string list"
  rm_security_tests :: "string list"
  rm_files :: "repository_file list"
  rm_omitted_files :: "string list"

definition paths_with_category :: "discovery_result \<Rightarrow> string \<Rightarrow> string list" where
  "paths_with_category discovery category =
     take 100 (map df_relative_path (filter (\<lambda>item. category \<in> set (df_categories item)) (dr_files discovery)))"

section \<open>Frameworks\<close>

definition framework_manifests :: "string list" where
  "framework_manifests = [''pyproject.toml'', ''requirements.txt'', ''package.json'', ''go.mod'', ''cargo.toml'', ''foundry.toml'',
     ''remappings.txt'', ''hardhat.config.js'', ''hardhat.config.cjs'', ''hardhat.config.mjs'', ''hardhat.config.ts'']"

definition framework_signatures :: "(string, string \<times> string option) dict" where
  "framework_signatures = [(''Django'', ''django'', None), (''Flask'', ''flask'', None), (''FastAPI'', ''fastapi'', None),
     (''Express'', ''express'', None), (''Next.js'', ''next'', Some ''package.json''), (''React'', ''react'', None), (''Rails'', ''rails'', None),
     (''Spring'', ''spring-boot'', None), (''Gin'', ''github.com/gin-gonic/gin'', None), (''Actix'', ''actix-web'', None),
     (''Foundry'', ''foundry'', Some ''foundry.toml''), (''Hardhat'', ''hardhat'', Some ''package.json''),
     (''OpenZeppelin Contracts'', ''openzeppelin'', None), (''Chainlink'', ''chainlink'', None)]"

definition lower_name :: "discovered_file \<Rightarrow> string" where
  "lower_name item = map lower_char (posix_name (df_relative_path item))"

definition detect_frameworks :: "discovery_result \<Rightarrow> string list" where
  "detect_frameworks discovery =
     (let names = map lower_name (dr_files discovery);
          combined = map lower_char (join [LF] (map (\<lambda>item. take 50000 (df_content item))
            (filter (\<lambda>item. lower_name item \<in> set framework_manifests) (dr_files discovery))));
          found = map fst (filter (\<lambda>(framework, token, file). occurs_in token combined
            \<and> (case file of None \<Rightarrow> True | Some n \<Rightarrow> n \<in> set names)) framework_signatures);
          found = found @ (if ''foundry.toml'' \<in> set names \<and> ''Foundry'' \<notin> set found then [''Foundry''] else []);
          found = found @ (if list_ex (\<lambda>n. n \<in> set names)
            [''hardhat.config.cjs'', ''hardhat.config.js'', ''hardhat.config.mjs'', ''hardhat.config.ts''] \<and> ''Hardhat'' \<notin> set found
            then [''Hardhat''] else [])
      in sort found)"

section \<open>The map\<close>

definition language_counts :: "discovered_file list \<Rightarrow> (string, nat) dict" where
  "language_counts items =
     map (\<lambda>l. (l, length (filter (\<lambda>item. df_language item = l) items))) (sorted_set (map df_language items))"

definition entry_names :: "string list" where
  "entry_names = [''main.py'', ''app.py'', ''manage.py'', ''server.py'', ''index.js'', ''index.ts'', ''main.go'', ''main.rs'']"

definition repository_file_of :: "discovered_file \<Rightarrow> repository_file" where
  "repository_file_of item = \<lparr>rf_path = df_relative_path item, rf_size = df_size item, rf_lines = df_lines item,
     rf_sha256 = df_sha256 item, rf_language = df_language item, rf_categories = df_categories item\<rparr>"

definition build_repository_map :: "discovery_result \<Rightarrow> string option \<Rightarrow> repository_map" where
  "build_repository_map discovery changed_since =
     (let items = dr_files discovery; having = paths_with_category discovery
      in \<lparr>rm_root_name = (if dr_root discovery = [] then [] else last (dr_root discovery)),
          rm_git_commit = dr_git_commit discovery, rm_changed_since = changed_since,
          rm_languages = language_counts items, rm_frameworks = detect_frameworks discovery,
          rm_manifests = take 100 (map df_relative_path (filter (\<lambda>item. ''dependency'' \<in> set (df_categories item)) items)),
          rm_entry_points = take 100 (map df_relative_path (filter (\<lambda>item. lower_name item \<in> set entry_names
            \<or> starts_with ''cmd/'' (df_relative_path item) \<or> starts_with ''src/main'' (df_relative_path item)) items)),
          rm_api_surfaces = take 100 (having ''api'' @ having ''smart_contract''),
          rm_auth_components = take 100 (having ''auth'' @ having ''evm_auth''),
          rm_data_layers = take 100 (having ''data'' @ having ''evm_storage''),
          rm_network_clients = take 100 (having ''network'' @ having ''evm_external_call'' @ having ''evm_oracle''),
          rm_file_handlers = having ''file'', rm_configuration_files = having ''configuration'',
          rm_sensitive_processing = take 100 (having ''sensitive'' @ having ''evm_value'' @ having ''evm_signature''),
          rm_security_tests = filter (\<lambda>path. list_ex (\<lambda>token. occurs_in token (map lower_char path))
            [''security'', ''auth'', ''permission'', ''tenant'', ''audit'', ''.t.sol'']) (having ''test''),
          rm_files = map repository_file_of items, rm_omitted_files = dr_omitted discovery\<rparr>)"

section \<open>What the map says\<close>

text \<open>The counts of the languages add up to the files, and every list names discovered files.\<close>

lemma language_counts_total: "(\<Sum>(l, n)\<leftarrow>language_counts items. n) = length items"
proof -
  have "(\<Sum>(l, n)\<leftarrow>language_counts items. n)
      = (\<Sum>l \<in> set (map df_language items). length (filter (\<lambda>item. df_language item = l) items))"
    by (simp add: language_counts_def comp_def sum_list_distinct_conv_sum_set)
  also have "\<dots> = length items"
  proof (induction items)
    case (Cons x items)
    let ?n = "\<lambda>xs l. length (filter (\<lambda>item. df_language item = l) xs)"
    have "(\<Sum>l \<in> set (map df_language (x # items)). ?n (x # items) l)
        = (\<Sum>l \<in> insert (df_language x) (set (map df_language items)). ?n items l + (if df_language x = l then 1 else 0))"
      by (intro sum.cong) auto
    also have "\<dots> = (\<Sum>l \<in> insert (df_language x) (set (map df_language items)). ?n items l) + 1"
      by (simp add: sum.distrib)
    also have "(\<Sum>l \<in> insert (df_language x) (set (map df_language items)). ?n items l) = (\<Sum>l \<in> set (map df_language items). ?n items l)"
    proof (cases "df_language x \<in> set (map df_language items)")
      case False
      then have "?n items (df_language x) = 0" by (auto simp: filter_empty_conv) (metis imageI)
      then show ?thesis using False by simp
    qed (simp add: insert_absorb)
    finally show ?case using Cons by simp
  qed simp
  finally show ?thesis .
qed

theorem repository_map_exact:
  "map rf_path (rm_files (build_repository_map d since)) = map df_relative_path (dr_files d)
   \<and> map rf_sha256 (rm_files (build_repository_map d since)) = map df_sha256 (dr_files d)
   \<and> (\<Sum>(l, n)\<leftarrow>rm_languages (build_repository_map d since). n) = length (dr_files d)
   \<and> length (rm_api_surfaces (build_repository_map d since)) \<le> 100
   \<and> set (rm_api_surfaces (build_repository_map d since)) \<subseteq> df_relative_path ` set (dr_files d)"
proof (intro conjI)
  have paths: "set (paths_with_category d category) \<subseteq> df_relative_path ` set (dr_files d)" for category
    unfolding paths_with_category_def by (rule order.trans [OF set_take_subset]) auto
  have api: "rm_api_surfaces (build_repository_map d since) = take 100 (paths_with_category d ''api'' @ paths_with_category d ''smart_contract'')"
    and files: "rm_files (build_repository_map d since) = map repository_file_of (dr_files d)"
    and languages: "rm_languages (build_repository_map d since) = language_counts (dr_files d)"
    unfolding build_repository_map_def Let_def by (simp_all only: repository_map.simps)
  show "map rf_path (rm_files (build_repository_map d since)) = map df_relative_path (dr_files d)"
    "map rf_sha256 (rm_files (build_repository_map d since)) = map df_sha256 (dr_files d)"
    by (simp_all add: files repository_file_of_def)
  show "(\<Sum>(l, n)\<leftarrow>rm_languages (build_repository_map d since). n) = length (dr_files d)"
    by (simp only: languages language_counts_total)
  show "length (rm_api_surfaces (build_repository_map d since)) \<le> 100" by (simp add: api)
  show "set (rm_api_surfaces (build_repository_map d since)) \<subseteq> df_relative_path ` set (dr_files d)"
    unfolding api using order.trans [OF set_take_subset] paths by (metis Un_least set_append)
qed

end
