(* ===== verification/Spec2Isabelle.thy ===== *)
theory Spec2Isabelle
  imports Ledger_Theorems Budget_Restore Consensus_Theorems Location_Theorems Run_Theorems
    Redaction_Theorems Evidence_Theorems Ignore_Theorems Scope_Theorems Repository_Map
begin

text \<open>
  Verification of the core of \<open>mmaudit\<close>, a program that audits a repository with language models,
  scanners and formal tools (sources under \<open>src/src/mmaudit/\<close>).

  \<^bold>\<open>The program.\<close> An audit walks the repository under its ignore rules and limits
  (\<open>repository/discovery.py\<close>, \<open>repository/ignore.py\<close>), assesses whether what it found covers the requested
  scope (\<open>orchestration/scope.py\<close>), cuts the files into excerpts and shows them to models
  (\<open>repository/chunking.py\<close>). Every paid request is first reserved and later reconciled by the budget
  manager (\<open>orchestration/budgets.py\<close>), which keeps its amounts in memory and in a durable ledger file
  (\<open>orchestration/cost_ledger.py\<close>). The candidates that models and executions return quote lines of the
  repository; those quotations are checked against the files (\<open>repository/locations.py\<close>). Consensus
  (\<open>orchestration/consensus.py\<close>) groups similar candidates and merges each group, its decisions and its
  validations into one finding with a status. At the end the run itself gets a status from the
  evidence that was collected (\<open>orchestration/run_status.py\<close>).

  \<^bold>\<open>Python.\<close> \<open>Audit_Prelude\<close> has results of fallible code (\<open>Inl\<close> the raised error), dictionaries in
  insertion order and character classes; \<open>Py_Decimal\<close> the finite decimals with the rounding of a
  context; \<open>Py_Float\<close> binary64 with every operation rounded; \<open>Py_Json\<close> canonical JSON text and its
  parser; \<open>Source_Text\<close> slices, lines, newline translation, letter case and path components; \<open>Py_Glob\<close> the
  shell patterns of \<open>fnmatch\<close> and \<open>PurePosixPath.match\<close>, with the language of a pattern as reference.
  Characters are the code points below 256.

  \<^bold>\<open>Cost ledger.\<close> \<open>Cost_Ledger\<close> is the state and every operation of \<open>AtomicCostLedger\<close>: the file, its
  parser and serializer, the snapshot, reserve, reconcile and release. \<open>Ledger_Book\<close> states what a file
  stands for, a finite map from request identifiers to accounts; \<open>Ledger_Ops\<close> and \<open>Ledger_File\<close> prove the
  refinement and the round trip, \<open>Ledger_Guard\<close> that the ledger is a spending guard (the locale
  \<open>spend_guard\<close> of \<open>Ledger_Ops\<close>, which the manager meets too), and \<open>Ledger_Theorems\<close> the properties: it never overspends, each operation has exactly
  its effect on the book, final accounts never change, and an overrun blocks.

  \<^bold>\<open>Budgets.\<close> \<open>Budget_Evidence\<close>, \<open>Budget_Manager\<close> and \<open>Budget_Recovery\<close> are the evidence classes, the
  manager with its scoped caps and token budgets, and the recovery after a restart. \<open>Budget_Invariant\<close>,
  \<open>Budget_Reserve\<close>, \<open>Budget_Settle\<close> and \<open>Budget_Guard\<close> carry the invariant over every operation,
  \<open>Budget_Sync\<close> relates the manager to the file, \<open>Budget_Bounds\<close> holds the numeric facts, \<open>Budget_Demo\<close> a
  concrete manager, \<open>Budget_Theorems\<close> and \<open>Budget_Restore\<close> the properties. The property that spans the
  manager and the ledger is in this theory.

  \<^bold>\<open>Consensus.\<close> \<open>Finding_Schema\<close> has the candidates, evidence and findings of \<open>models/schemas.py\<close> with
  their validators; \<open>Consensus\<close> and \<open>Consensus_Merge\<close> every function of \<open>orchestration/consensus.py\<close>, with
  the mutable parent array of the union-find as a list. \<open>Guarded_Merging\<close> is the abstract specification of
  grouping (locales, instantiated in \<open>Consensus_Groups\<close>), \<open>Consensus_Findings\<close> the lemmas on merging,
  \<open>Consensus_Demo\<close> concrete candidates, \<open>Consensus_Theorems\<close> the properties: grouping terminates with a
  partition, executions stay apart from what they do not support, a judge never raises a status, and
  what a confirmed or critical finding must rest on.

  \<^bold>\<open>Discovery.\<close> \<open>Ignore_Rules\<close> is \<open>repository/ignore.py\<close> (its \<open>normalize_relative_path\<close> is in \<open>Location_Check\<close>);
  \<open>Ignore_Facts\<close> and \<open>Ignore_Theorems\<close> show that the safety exclusions are final and that the last matching
  rule decides. \<open>Discovery\<close> is \<open>repository/discovery.py\<close>: the state of the walk is a record, one definition per
  step, and the loop of \<open>os.walk\<close> a \<open>partial_function\<close> over the pending directories. \<open>Discovery_Facts\<close> proves that the
  walk ends, states what an invariant of the walk must keep (the locale \<open>walk_invariant\<close>) and instantiates it
  for the limits and for the files that are kept; \<open>Discovery_Demo\<close> has small file systems, and
  \<open>Discovery_Theorems\<close> the properties: it returns, stays within its limits, keeps only files that passed every
  test and can be quoted, and accounts for the others. \<open>Repository_Map\<close> is \<open>repository/mapping.py\<close>.

  \<^bold>\<open>Scope.\<close> \<open>Audit_Scope\<close> is \<open>orchestration/scope.py\<close> with the models it fills and the preflight of the pipeline;
  \<open>Scope_Facts\<close> computes the assessment in closed form, and \<open>Scope_Theorems\<close> shows what the gate means, when the
  assessment raises, that filtering does not change it, and that a walk that was cut off never passes the gate.

  \<^bold>\<open>Quotations.\<close> \<open>Chunking\<close> is \<open>repository/chunking.py\<close>; \<open>Location_Check\<close> is \<open>repository/locations.py\<close> with
  the path rules of \<open>repository/ignore.py\<close> and \<open>repository/secrets.py\<close>. \<open>Chunk_Ranges\<close> and \<open>Location_Facts\<close>
  hold the lemmas, \<open>Location_Theorems\<close> the properties: an excerpt proves exactly its own lines, what it
  proves is accepted, and every location of an active finding quotes the repository and what the model
  was shown.

  \<^bold>\<open>Secrets.\<close> \<open>Py_Regex\<close> is the part of Python's regular expressions the secret patterns use, as the ordered
  list of all ways to match; \<open>Redaction\<close> is \<open>repository/redaction.py\<close>, which removes secrets from what a model
  is shown. \<open>Redaction_Facts\<close> and \<open>Redaction_Theorems\<close> show that exactly the detected secrets are replaced, that
  line numbers survive and that a token blocks the request.

  \<^bold>\<open>Candidate evidence.\<close> \<open>Candidate_Evidence\<close> is \<open>orchestration/candidate_enrichment.py\<close> and
  \<open>orchestration/reproduction_resolution.py\<close>, the pure steps between the tools and consensus;
  \<open>Evidence_Theorems\<close> shows what they add and that every obligation is resolved once.

  \<^bold>\<open>Run status.\<close> \<open>Run_Status\<close> is \<open>orchestration/run_status.py\<close> with the validator of
  \<open>MinimumAnalysisFloor\<close>; \<open>Run_Facts\<close> and \<open>Run_Theorems\<close> show that the assessment returns and that a run is
  complete exactly on full evidence.

  \<^bold>\<open>Parameters.\<close> Code outside the sources enters as an argument: SHA-256, the wall clock, the JSON codec
  of the ledger file, \<open>ast.parse\<close>, \<open>math.log2\<close>, the file tree of the repository with what the operating system
  answers about it, the output of git, the decoding of bytes. Predicates of parts that are not
  modelled (whether a scanner run qualifies, whether a usage record is creditable) are arguments too.
  What a property needs of an argument is a hypothesis with a name, and its witness gives a concrete
  function.

  \<^bold>\<open>Totality.\<close> Every operation is a total function. Loops over lists are structural recursions; the
  two unbounded loops, the walk to a root of the union-find and the walk over the directories, are
  \<open>partial_function\<close>s into \<open>option\<close>, and grouping and discovery are proved to return. Decimal and float operations that would leave the finite numbers are
  outside the ranges the code accepts; the bounds are hypotheses of the properties about amounts.

  \<^bold>\<open>Not modelled.\<close> The lock file, file modes and fsync of the ledger; the network client, the processes
  and containers of scanners and formal tools, reports and the command line, which are input and output;
  the scheduler, the shard and token plans, the run manifest with its replay, the coverage engines,
  qualification and the benchmark tools, which the modelled parts only meet through their results.
  Concurrency inside the process is not modelled either: the manager and the ledger hold a lock during
  each operation, so that a run is a sequence of operations.
\<close>

section \<open>The manager over the ledger\<close>

text \<open>
  C7: The manager and the durable ledger agree. In any run of reservations, reconciliations and
  releases from a fresh manager over an empty ledger, as long as no settlement exceeded its
  reservation: the spending and the reserved amount the manager keeps in memory are exactly those
  the ledger file records, and every active reservation has its own reserved account in the file, with
  the same amount.
\<close>

theorem manager_matches_ledger:
  assumes "new_manager env budget max_tokens rate max_requests (Some led) True input output models roles = Inr m"
    and "load_entries (env_codec env) led = Inr []" "ledger_ready (env_codec env) led"
    and "on_grid 18 (float_decimal budget)" "0 \<le> val (float_decimal budget)" "val (float_decimal budget) < 10 ^ 10"
    and "(manager_step (durable_env (env_codec env)))\<^sup>*\<^sup>* m m'" "\<not> manager_overrun m'"
  shows "\<exists>led'. bm_ledger m' = Some led'
    \<and> val (bm_spent_exact m') = ledger_spent (env_codec env) led'
    \<and> held_total m' = ledger_held (env_codec env) led'
    \<and> (\<forall>i c. dict_get (bm_reserved m') i = Some c \<longrightarrow>
         ledger_book (env_codec env) led' i = Some (reserved_account (val c)))"
proof -
  note n = new_manager_Inr [OF assms(1,2)]
  have "total_exact m = float_decimal budget" using n(3) by (simp add: total_exact_def)
  then have ok: "manager_ok m" using fresh_ok(1) [OF n(1)] assms(4-6) by simp
  have "ledger_spent (env_codec env) led = 0" "ledger_held (env_codec env) led = 0"
    using load_ready(1) [OF assms(2)] by (simp_all add: ledger_spent_def ledger_held_def entries_spent_def entries_held_def)
  then have "ledger_synced (env_codec env) m" using fresh_synced [OF n(1,2) assms(3)] by simp
  from steps_synced [OF assms(7) ok this assms(8)] show ?thesis
    by (auto simp: ledger_synced_def backed_def split: option.splits)
qed

theorem manager_matches_ledger_witness:
  "\<exists>led'. bm_ledger demo_reserved = Some led' \<and> ledger_held digits_codec led' = 5 / 2
     \<and> ledger_book digits_codec led' ''r1'' = Some (reserved_account (val demo_cost_usd))"
proof -
  have l: "load_entries (env_codec demo_env) demo_fresh = Inr []" "ledger_ready (env_codec demo_env) demo_fresh"
    using demo_load(1) demo_fresh_ready(1) demo_codec by simp_all
  have r: "dict_get (bm_reserved demo_reserved) ''r1'' = Some demo_cost_usd" "held_total demo_reserved = 5 / 2"
    using demo_cost_ok(3) by (simp_all add: demo_reserved_def held_total_def)
  show ?thesis
    using manager_matches_ledger [OF demo_new l _ _ _ demo_steps(1) [folded demo_codec] demo_not_overrun(1)]
      demo_total r demo_codec by auto
qed

end
